(* ===== verification/F64.thy ===== *)
theory F64
  imports Complex_Main
begin

text \<open>
  The IEEE-754 binary64 numbers that Rust's \<open>f64\<close> is. A finite value is the rational it
  denotes; every arithmetic operation computes the exact rational result and rounds it to the
  nearest representable value, ties to even, with gradual underflow at \<open>2 ^ -1074\<close> and
  overflow to an infinity at \<open>2 ^ 1024\<close>. The comparisons are the IEEE ones: every
  comparison with a NaN is false. The sign of zero is not kept: the program never divides by a
  value that can be zero (\<open>get_percent_diff\<close> guards the division) and never inspects a
  sign bit, so both zeros behave alike. The lemmas show that rounding is monotone, idempotent
  and odd, that the operations stay inside the format, and the order laws that the fee
  computations rest on.
\<close>

section \<open>The format\<close>

text \<open>Floor of the binary logarithm of a positive integer.\<close>

function ilog2 :: "int \<Rightarrow> nat" where
  "ilog2 n = (if n < 2 then 0 else Suc (ilog2 (n div 2)))"
  by pat_completeness auto
termination
  by (relation "measure nat") auto

declare ilog2.simps [simp del]

definition pow2 :: "int \<Rightarrow> rat" where
  "pow2 k = (if 0 \<le> k then 2 ^ nat k else 1 / 2 ^ nat (- k))"

text \<open>The exponent \<open>e\<close> with \<open>2 ^ e \<le> x < 2 ^ (e + 1)\<close>, for positive \<open>x\<close>.\<close>

definition binade :: "rat \<Rightarrow> int" where
  "binade x =
     (if 1 \<le> x then int (ilog2 \<lfloor>x\<rfloor>)
      else let n = \<lceil>1 / x\<rceil> in if n \<le> 1 then 0 else - int (Suc (ilog2 (n - 1))))"

text \<open>The exponent of the unit in the last place: 52 fraction bits, subnormals below.\<close>

definition quantum :: "rat \<Rightarrow> int" where
  "quantum x = max (binade \<bar>x\<bar> - 52) (- 1074)"

definition round_half_even :: "rat \<Rightarrow> int" where
  "round_half_even x =
     (let n = \<lfloor>x\<rfloor>; d = x - of_int n
      in if d < 1 / 2 then n else if 1 / 2 < d then n + 1 else if even n then n else n + 1)"

definition nearest :: "rat \<Rightarrow> rat" where
  "nearest x =
     (if x = 0 then 0 else of_int (round_half_even (x / pow2 (quantum x))) * pow2 (quantum x))"

datatype f64 =
    F_nan
  | F_inf bool \<comment> \<open>\<open>True\<close> for the negative infinity\<close>
  | F_fin rat

definition rnd :: "rat \<Rightarrow> f64" where
  "rnd x = (let r = nearest x in if 2 ^ 1024 \<le> \<bar>r\<bar> then F_inf (r < 0) else F_fin r)"

text \<open>The values of the format.\<close>

definition f64_ok :: "f64 \<Rightarrow> bool" where
  "f64_ok v = (case v of F_fin x \<Rightarrow> rnd x = F_fin x | _ \<Rightarrow> True)"

section \<open>The operations of the standard library\<close>

fun f_neg :: "f64 \<Rightarrow> f64" where
  "f_neg F_nan = F_nan"
| "f_neg (F_inf s) = F_inf (\<not> s)"
| "f_neg (F_fin x) = F_fin (- x)"

fun f_add :: "f64 \<Rightarrow> f64 \<Rightarrow> f64" where
  "f_add F_nan b = F_nan"
| "f_add a F_nan = F_nan"
| "f_add (F_inf s) (F_inf t) = (if s = t then F_inf s else F_nan)"
| "f_add (F_inf s) (F_fin y) = F_inf s"
| "f_add (F_fin x) (F_inf t) = F_inf t"
| "f_add (F_fin x) (F_fin y) = rnd (x + y)"

fun f_mul :: "f64 \<Rightarrow> f64 \<Rightarrow> f64" where
  "f_mul F_nan b = F_nan"
| "f_mul a F_nan = F_nan"
| "f_mul (F_inf s) (F_inf t) = F_inf (s \<noteq> t)"
| "f_mul (F_inf s) (F_fin y) = (if y = 0 then F_nan else F_inf (s \<noteq> (y < 0)))"
| "f_mul (F_fin x) (F_inf t) = (if x = 0 then F_nan else F_inf (t \<noteq> (x < 0)))"
| "f_mul (F_fin x) (F_fin y) = rnd (x * y)"

fun f_div :: "f64 \<Rightarrow> f64 \<Rightarrow> f64" where
  "f_div F_nan b = F_nan"
| "f_div a F_nan = F_nan"
| "f_div (F_inf s) (F_inf t) = F_nan"
| "f_div (F_inf s) (F_fin y) = F_inf (s \<noteq> (y < 0))"
| "f_div (F_fin x) (F_inf t) = F_fin 0"
| "f_div (F_fin x) (F_fin y) =
     (if y = 0 then (if x = 0 then F_nan else F_inf (x < 0)) else rnd (x / y))"

fun f_abs :: "f64 \<Rightarrow> f64" where
  "f_abs F_nan = F_nan"
| "f_abs (F_inf s) = F_inf False"
| "f_abs (F_fin x) = F_fin \<bar>x\<bar>"

text \<open>\<open>f64::round\<close>: to the nearest integer, half-way cases away from zero.\<close>

definition round_half_away :: "rat \<Rightarrow> int" where
  "round_half_away x = (if 0 \<le> x then \<lfloor>x + 1 / 2\<rfloor> else - \<lfloor>1 / 2 - x\<rfloor>)"

fun f_round :: "f64 \<Rightarrow> f64" where
  "f_round F_nan = F_nan"
| "f_round (F_inf s) = F_inf s"
| "f_round (F_fin x) = rnd (of_int (round_half_away x))"

fun f_le :: "f64 \<Rightarrow> f64 \<Rightarrow> bool" where
  "f_le F_nan b = False"
| "f_le a F_nan = False"
| "f_le (F_inf s) (F_inf t) = (s \<or> \<not> t)"
| "f_le (F_inf s) (F_fin y) = s"
| "f_le (F_fin x) (F_inf t) = (\<not> t)"
| "f_le (F_fin x) (F_fin y) = (x \<le> y)"

text \<open>The \<open>==\<close> of the language: false on a NaN.\<close>

definition f_eq :: "f64 \<Rightarrow> f64 \<Rightarrow> bool" where
  "f_eq a b = (a \<noteq> F_nan \<and> a = b)"

text \<open>\<open>f64::max\<close>: a NaN argument is ignored.\<close>

definition f_max :: "f64 \<Rightarrow> f64 \<Rightarrow> f64" where
  "f_max a b = (if a = F_nan then b else if b = F_nan then a else if f_le a b then b else a)"

text \<open>The \<open>as f64\<close> cast of an integer.\<close>

definition f_of_int :: "int \<Rightarrow> f64" where
  "f_of_int n = rnd (of_int n)"

text \<open>The operators of the source read as operators of the model.\<close>

instantiation f64 :: "{zero, plus, minus, uminus, times, inverse, abs, ord}"
begin

definition zero_f64 :: f64 where
  "zero_f64 = F_fin 0"

definition plus_f64 :: "f64 \<Rightarrow> f64 \<Rightarrow> f64" where
  "plus_f64 = f_add"

definition uminus_f64 :: "f64 \<Rightarrow> f64" where
  "uminus_f64 = f_neg"

definition minus_f64 :: "f64 \<Rightarrow> f64 \<Rightarrow> f64" where
  "minus_f64 a b = f_add a (f_neg b)"

definition times_f64 :: "f64 \<Rightarrow> f64 \<Rightarrow> f64" where
  "times_f64 = f_mul"

definition divide_f64 :: "f64 \<Rightarrow> f64 \<Rightarrow> f64" where
  "divide_f64 = f_div"

definition inverse_f64 :: "f64 \<Rightarrow> f64" where
  "inverse_f64 a = f_div (rnd 1) a"

definition abs_f64 :: "f64 \<Rightarrow> f64" where
  "abs_f64 = f_abs"

definition less_eq_f64 :: "f64 \<Rightarrow> f64 \<Rightarrow> bool" where
  "less_eq_f64 = f_le"

definition less_f64 :: "f64 \<Rightarrow> f64 \<Rightarrow> bool" where
  "less_f64 a b = (f_le a b \<and> a \<noteq> b)"

instance ..

end

lemmas f64_ops_def = zero_f64_def plus_f64_def uminus_f64_def minus_f64_def times_f64_def
  divide_f64_def inverse_f64_def abs_f64_def less_eq_f64_def less_f64_def

section \<open>Rounding\<close>

lemma ilog2_bounds: "0 < n \<Longrightarrow> 2 ^ ilog2 n \<le> n \<and> n < 2 ^ Suc (ilog2 n)"
proof (induction n rule: ilog2.induct)
  case (1 n)
  show ?case
  proof (cases "n < 2")
    case True
    with "1.prems" show ?thesis by (simp add: ilog2.simps [of n])
  next
    case False
    with "1.IH" have "2 ^ ilog2 (n div 2) \<le> n div 2" "n div 2 < 2 ^ Suc (ilog2 (n div 2))"
      by auto
    then have "2 * 2 ^ ilog2 (n div 2) \<le> n" "n < 2 * 2 ^ Suc (ilog2 (n div 2))"
      by linarith+
    with False show ?thesis by (simp add: ilog2.simps [of n])
  qed
qed

lemma pow2_powi: "pow2 k = 2 powi k"
  by (simp add: pow2_def power_int_def field_simps)

lemma pow2_pos [simp]: "0 < pow2 k"
  by (simp add: pow2_def)

lemma pow2_nonzero [simp]: "pow2 k \<noteq> 0"
  using pow2_pos [of k] by linarith

lemma abs_pow2 [simp]: "\<bar>pow2 k\<bar> = pow2 k"
  by (simp add: less_imp_le)

lemma pow2_add: "pow2 (j + k) = pow2 j * pow2 k"
  by (simp add: pow2_powi power_int_add)

lemma pow2_diff: "pow2 (j - k) = pow2 j / pow2 k"
  by (simp add: pow2_powi power_int_diff)

lemma pow2_0 [simp]: "pow2 0 = 1"
  by (simp add: pow2_def)

lemma pow2_neg: "pow2 (- int k) = 1 / 2 ^ k"
  by (simp add: pow2_def)

lemma pow2_Suc: "pow2 (k + 1) = 2 * pow2 k"
  by (simp add: pow2_add) (simp add: pow2_def)

lemma pow2_mono: "j \<le> k \<Longrightarrow> pow2 j \<le> pow2 k"
  by (simp add: pow2_powi power_int_increasing)

lemma pow2_nonneg_int: "0 \<le> k \<Longrightarrow> pow2 k = of_int (2 ^ nat k)"
  by (simp add: pow2_def)


lemma binade_bounds_ge1:
  assumes "1 \<le> x"
  shows "pow2 (binade x) \<le> x \<and> x < pow2 (binade x + 1)"
proof -
  define n where "n = \<lfloor>x\<rfloor>"
  have "0 < n" using assms by (simp add: n_def)
  from ilog2_bounds [OF this] have "2 ^ ilog2 n \<le> n" "n + 1 \<le> 2 ^ Suc (ilog2 n)"
    by auto
  then have "(of_int (2 ^ ilog2 n) :: rat) \<le> of_int n" "(of_int (n + 1) :: rat) \<le> of_int (2 ^ Suc (ilog2 n))"
    by (simp_all only: of_int_le_iff)
  moreover have "of_int n \<le> x" "x < of_int n + 1"
    using floor_correct [of x] by (auto simp: n_def)
  ultimately have "(2::rat) ^ ilog2 n \<le> x" "x < 2 ^ Suc (ilog2 n)"
    by (simp_all only: of_int_add of_int_1 of_int_power of_int_numeral)
  with assms show ?thesis by (simp add: binade_def pow2_def n_def [symmetric] nat_add_distrib)
qed

lemma binade_bounds_lt1:
  assumes "0 < x" "x < 1"
  shows "pow2 (binade x) \<le> x \<and> x < pow2 (binade x + 1)"
proof -
  define n where "n = \<lceil>1 / x\<rceil>"
  define k where "k = ilog2 (n - 1)"
  have "1 < 1 / x" using assms by simp
  then have n: "1 < n" unfolding n_def by linarith
  then have "0 < n - 1" by simp
  from ilog2_bounds [OF this] have "2 ^ k + 1 \<le> n" "n \<le> 2 ^ Suc k"
    by (auto simp: k_def)
  then have "(of_int (2 ^ k + 1) :: rat) \<le> of_int n" "(of_int n :: rat) \<le> of_int (2 ^ Suc k)"
    by (simp_all only: of_int_le_iff)
  moreover have "1 / x \<le> of_int n" "of_int n < 1 / x + 1"
    using ceiling_correct [of "1 / x"] by (auto simp: n_def)
  ultimately have "(2::rat) ^ k < 1 / x" "1 / x \<le> 2 ^ Suc k"
    by (simp_all only: of_int_add of_int_1 of_int_power of_int_numeral)
  with assms have "1 / 2 ^ Suc k \<le> x" "x < 1 / 2 ^ k"
    by (auto simp: field_simps)
  moreover have "binade x = - int (Suc k)"
    using assms n by (simp add: binade_def n_def [symmetric] k_def Let_def)
  moreover have "- int (Suc k) + 1 = - int k" by simp
  ultimately show ?thesis by (simp only: pow2_neg)
qed

lemma binade_bounds: "0 < x \<Longrightarrow> pow2 (binade x) \<le> x \<and> x < pow2 (binade x + 1)"
  using binade_bounds_ge1 binade_bounds_lt1 by (cases "1 \<le> x") auto

lemma binade_unique:
  assumes "pow2 k \<le> x" "x < pow2 (k + 1)"
  shows "binade x = k"
proof -
  have x: "0 < x" using assms(1) pow2_pos [of k] by linarith
  from binade_bounds [OF x] have b: "pow2 (binade x) \<le> x" "x < pow2 (binade x + 1)" by auto
  have "\<not> binade x + 1 \<le> k" using pow2_mono [of "binade x + 1" k] assms b by linarith
  moreover have "\<not> k + 1 \<le> binade x" using pow2_mono [of "k + 1" "binade x"] assms b by linarith
  ultimately show ?thesis by linarith
qed

lemma binade_mono:
  assumes "0 < x" "x \<le> y"
  shows "binade x \<le> binade y"
proof (rule ccontr)
  assume "\<not> ?thesis"
  then have "pow2 (binade y + 1) \<le> pow2 (binade x)" by (intro pow2_mono) simp
  with binade_bounds [of x] binade_bounds [of y] assms show False by linarith
qed

lemma round_half_even_int [simp]: "round_half_even (of_int n) = n"
  by (simp add: round_half_even_def)

lemma round_half_even_cases:
  "round_half_even x = \<lfloor>x\<rfloor> \<or> round_half_even x = \<lfloor>x\<rfloor> + 1"
  by (auto simp: round_half_even_def Let_def)

lemma round_half_even_error: "\<bar>of_int (round_half_even x) - x\<bar> \<le> 1 / 2"
  using floor_correct [of x] by (auto simp: round_half_even_def Let_def)

lemma round_half_even_mono:
  assumes "x \<le> y"
  shows "round_half_even x \<le> round_half_even y"
proof (cases "\<lfloor>x\<rfloor> = \<lfloor>y\<rfloor>")
  case True
  with assms show ?thesis by (auto simp: round_half_even_def Let_def)
next
  case False
  with floor_mono [OF assms] have "\<lfloor>x\<rfloor> + 1 \<le> \<lfloor>y\<rfloor>" by linarith
  with round_half_even_cases [of x] round_half_even_cases [of y] show ?thesis by linarith
qed

lemma round_half_even_minus: "round_half_even (- x) = - round_half_even x"
proof (cases "x = of_int \<lfloor>x\<rfloor>")
  case True
  then have "round_half_even (- x) = round_half_even (of_int (- \<lfloor>x\<rfloor>))" by simp
  also have "\<dots> = - \<lfloor>x\<rfloor>" by (rule round_half_even_int)
  also have "\<dots> = - round_half_even x" using True round_half_even_int [of "\<lfloor>x\<rfloor>"] by simp
  finally show ?thesis .
next
  case False
  then have "\<lceil>x\<rceil> = \<lfloor>x\<rfloor> + 1" by (simp add: ceiling_altdef)
  then have "\<lfloor>- x\<rfloor> = - \<lfloor>x\<rfloor> - 1" by (simp add: ceiling_def)
  then show ?thesis by (auto simp: round_half_even_def Let_def)
qed

lemma quantum_minus [simp]: "quantum (- x) = quantum x"
  by (simp add: quantum_def)

lemma nearest_minus: "nearest (- x) = - nearest x"
  by (simp add: nearest_def round_half_even_minus)

lemma nearest_0 [simp]: "nearest 0 = 0"
  by (simp add: nearest_def)

lemma round_half_even_pow2: "0 \<le> k \<Longrightarrow> round_half_even (pow2 k) = 2 ^ nat k"
  by (simp only: pow2_nonneg_int round_half_even_int)

lemma nearest_le_pow2:
  assumes "0 < x" "x \<le> pow2 k" "quantum x \<le> k"
  shows "nearest x \<le> pow2 k"
proof -
  let ?q = "quantum x"
  have d: "0 \<le> k - ?q" using assms(3) by simp
  have "x / pow2 ?q \<le> pow2 (k - ?q)"
    using assms(2) by (simp add: pow2_diff divide_right_mono less_imp_le)
  then have "round_half_even (x / pow2 ?q) \<le> 2 ^ nat (k - ?q)"
    using round_half_even_mono round_half_even_pow2 [OF d] by metis
  then have "(of_int (round_half_even (x / pow2 ?q)) :: rat) \<le> of_int (2 ^ nat (k - ?q))"
    by (simp only: of_int_le_iff)
  then have "of_int (round_half_even (x / pow2 ?q)) \<le> pow2 (k - ?q)"
    by (simp only: pow2_nonneg_int [OF d])
  with assms(1) show ?thesis by (simp add: nearest_def pow2_diff pos_le_divide_eq)
qed

lemma nearest_ge_pow2:
  assumes "0 < x" "pow2 k \<le> x" "quantum x \<le> k"
  shows "pow2 k \<le> nearest x"
proof -
  let ?q = "quantum x"
  have d: "0 \<le> k - ?q" using assms(3) by simp
  have "pow2 (k - ?q) \<le> x / pow2 ?q"
    using assms(2) by (simp add: pow2_diff divide_right_mono less_imp_le)
  then have "2 ^ nat (k - ?q) \<le> round_half_even (x / pow2 ?q)"
    using round_half_even_mono round_half_even_pow2 [OF d] by metis
  then have "(of_int (2 ^ nat (k - ?q)) :: rat) \<le> of_int (round_half_even (x / pow2 ?q))"
    by (simp only: of_int_le_iff)
  then have "pow2 (k - ?q) \<le> of_int (round_half_even (x / pow2 ?q))"
    by (simp only: pow2_nonneg_int [OF d])
  with assms(1) show ?thesis by (simp add: nearest_def pow2_diff pos_divide_le_eq)
qed

lemma nearest_mono_pos:
  assumes "0 < x" "x \<le> y"
  shows "nearest x \<le> nearest y"
proof -
  have y: "0 < y" using assms by simp
  have bm: "binade x \<le> binade y" using binade_mono assms by blast
  have qm: "quantum x \<le> quantum y" using bm assms y by (simp add: quantum_def)
  show ?thesis
  proof (cases "quantum x = quantum y")
    case True
    have "x / pow2 (quantum y) \<le> y / pow2 (quantum y)"
      using assms(2) by (simp add: divide_right_mono less_imp_le)
    then have "round_half_even (x / pow2 (quantum x)) \<le> round_half_even (y / pow2 (quantum y))"
      by (simp add: True round_half_even_mono)
    then show ?thesis
      using assms y True by (simp add: nearest_def mult_right_mono less_imp_le)
  next
    case False
    with qm have qlt: "quantum x < quantum y" by simp
    then have qy: "quantum y = binade y - 52" and blt: "binade x + 1 \<le> binade y"
      using bm assms y by (auto simp: quantum_def split: if_splits)
    have "x \<le> pow2 (binade y)"
      using binade_bounds [OF assms(1)] pow2_mono [OF blt] by linarith
    then have "nearest x \<le> pow2 (binade y)"
      using qlt qy assms(1) by (intro nearest_le_pow2) auto
    also have "\<dots> \<le> nearest y"
      using qy y binade_bounds [OF y] by (intro nearest_ge_pow2) auto
    finally show ?thesis .
  qed
qed

lemma nearest_nonneg: "0 \<le> x \<Longrightarrow> 0 \<le> nearest x"
proof -
  assume x: "0 \<le> x"
  have "round_half_even (of_int 0) \<le> round_half_even (x / pow2 (quantum x))"
    using x by (intro round_half_even_mono) (simp add: less_imp_le)
  then have "0 \<le> round_half_even (x / pow2 (quantum x))"
    by (simp only: round_half_even_int)
  then show ?thesis by (simp add: nearest_def less_imp_le)
qed

lemma nearest_mono:
  assumes "x \<le> y"
  shows "nearest x \<le> nearest y"
proof -
  consider "0 < x" | "x \<le> 0" "0 \<le> y" | "y < 0" by linarith
  then show ?thesis
  proof cases
    case 1
    then show ?thesis using assms by (rule nearest_mono_pos)
  next
    case 2
    have "0 \<le> nearest (- x)" "0 \<le> nearest y" using 2 by (auto intro: nearest_nonneg)
    then show ?thesis by (simp add: nearest_minus)
  next
    case 3
    then have "nearest (- y) \<le> nearest (- x)" using assms by (intro nearest_mono_pos) auto
    then show ?thesis by (simp add: nearest_minus)
  qed
qed

lemma nearest_grid:
  assumes "x = of_int m * pow2 q" "x \<noteq> 0" "quantum x \<le> q"
  shows "nearest x = x"
proof -
  have d: "0 \<le> q - quantum x" using assms(3) by simp
  have "x / pow2 (quantum x) = of_int m * pow2 (q - quantum x)"
    by (simp add: assms(1) pow2_diff)
  also have "\<dots> = of_int (m * 2 ^ nat (q - quantum x))"
    by (simp add: pow2_nonneg_int [OF d])
  finally have e: "x / pow2 (quantum x) = of_int (m * 2 ^ nat (q - quantum x))" .
  have "nearest x = of_int (round_half_even (x / pow2 (quantum x))) * pow2 (quantum x)"
    using assms(2) by (simp add: nearest_def)
  also have "\<dots> = x / pow2 (quantum x) * pow2 (quantum x)"
    by (simp only: e round_half_even_int)
  finally show ?thesis by simp
qed

lemma nearest_idem_pos:
  assumes "0 < x"
  shows "nearest (nearest x) = nearest x"
proof (cases "nearest x = 0")
  case False
  let ?r = "nearest x" and ?k = "max (binade x + 1) (quantum x)"
  have r: "0 < ?r" using False nearest_nonneg [of x] assms by simp
  have "x \<le> pow2 ?k"
    using binade_bounds [OF assms] pow2_mono [of "binade x + 1" ?k] by linarith
  then have ub: "?r \<le> pow2 ?k" by (intro nearest_le_pow2 assms) auto
  show ?thesis
  proof (cases "?r = pow2 ?k")
    case True
    have "binade (pow2 ?k) = ?k" by (rule binade_unique) (auto simp: pow2_Suc)
    then have "quantum ?r \<le> ?k" using True assms by (auto simp: quantum_def)
    then show ?thesis using True by (intro nearest_grid [of _ 1 ?k]) auto
  next
    case False
    then have "?r < pow2 ?k" using ub by simp
    then have "binade ?r < ?k" using binade_bounds [OF r] pow2_mono [of ?k "binade ?r"] by linarith
    then have "quantum ?r \<le> quantum x" using r assms by (auto simp: quantum_def)
    then show ?thesis
      using r assms by (intro nearest_grid [of _ _ "quantum x"]) (auto simp: nearest_def [of x])
  qed
qed simp

lemma nearest_idem [simp]: "nearest (nearest x) = nearest x"
proof -
  consider "0 < x" | "x = 0" | "0 < - x" by linarith
  then show ?thesis
  proof cases
    case 3
    from nearest_idem_pos [OF this] show ?thesis by (simp add: nearest_minus)
  qed (auto intro: nearest_idem_pos)
qed


section \<open>The operations on the format\<close>

lemma rnd_0 [simp]: "rnd 0 = F_fin 0"
  by (simp add: rnd_def)

lemma rnd_not_nan [simp]: "rnd x \<noteq> F_nan"
  by (simp add: rnd_def Let_def)

text \<open>An integer of at most 53 bits divided by a power of two is its own rounding.\<close>

lemma rnd_exact:
  assumes "x = of_int m / 2 ^ k" "\<bar>m\<bar> < 2 ^ 53" "k \<le> 1074"
  shows "rnd x = F_fin x"
proof (cases "x = 0")
  case False
  have x: "x = of_int m * pow2 (- int k)" using assms(1) by (simp add: pow2_neg)
  have "rat_of_int \<bar>m\<bar> < pow2 53" using assms(2) by (simp add: pow2_def flip: of_int_less_iff [where 'a = rat])
  then have b: "\<bar>x\<bar> < pow2 (53 - int k)"
    using pow2_add [of 53 "- int k"] by (simp add: x abs_mult)
  have "binade \<bar>x\<bar> < 53 - int k"
  proof (rule ccontr)
    assume "\<not> binade \<bar>x\<bar> < 53 - int k"
    then have "pow2 (53 - int k) \<le> pow2 (binade \<bar>x\<bar>)" by (intro pow2_mono) simp
    with b binade_bounds [of "\<bar>x\<bar>"] False show False by simp
  qed
  then have "quantum x \<le> - int k" using assms(3) by (simp add: quantum_def)
  then have near: "nearest x = x" using False x by (intro nearest_grid)
  have "\<bar>x\<bar> < pow2 1024" using b pow2_mono [of "53 - int k" 1024] by simp
  then have "\<bar>x\<bar> < 2 ^ 1024" by (simp add: pow2_def)
  with near show ?thesis by (simp add: rnd_def)
qed simp

lemma rnd_mono: "x \<le> y \<Longrightarrow> rnd x \<le> rnd y"
  using nearest_mono [of x y] by (auto simp: rnd_def Let_def less_eq_f64_def abs_le_iff)

lemma rnd_idem: "rnd x = F_fin y \<Longrightarrow> rnd y = F_fin y"
  by (auto simp: rnd_def Let_def split: if_splits)

lemma rnd_ok [simp]: "f64_ok (rnd x)"
  by (auto simp: f64_ok_def split: f64.splits intro: rnd_idem)

lemma rnd_nonneg: "0 \<le> x \<Longrightarrow> 0 \<le> rnd x"
  using rnd_mono [of 0 x] by (simp add: zero_f64_def)

lemma rnd_minus: "rnd (- x) = - rnd x"
  by (auto simp: rnd_def Let_def nearest_minus uminus_f64_def)

lemma f64_ok_simps [simp]: "f64_ok F_nan" "f64_ok (F_inf s)" "f64_ok 0"
  by (auto simp: f64_ok_def zero_f64_def)

lemma f_neg_inject [simp]: "f_neg a = f_neg b \<longleftrightarrow> a = b"
  by (cases a; cases b) auto

lemma f64_ok_minus [simp]: "f64_ok (- a) = f64_ok a"
  using f_neg_inject [of _ "F_fin _"]
  by (cases a) (auto simp: f64_ok_def uminus_f64_def rnd_minus simp del: f_neg_inject)

lemma f64_ok_add [simp]: "f64_ok (a + b)"
  unfolding plus_f64_def by (cases "(a, b)" rule: f_add.cases) auto

lemma f64_ok_diff [simp]: "f64_ok (a - b :: f64)"
  using f64_ok_add [of a "- b"] by (simp add: f64_ops_def)

lemma f64_ok_mult [simp]: "f64_ok (a * b)"
  unfolding times_f64_def by (cases "(a, b)" rule: f_mul.cases) auto

lemma f64_ok_div [simp]: "f64_ok (a / b)"
  unfolding divide_f64_def by (cases "(a, b)" rule: f_div.cases) (auto simp: zero_f64_def [symmetric])

lemma f64_ok_round [simp]: "f64_ok (f_round a)"
  by (cases a) auto

lemma f64_ok_max [simp]: "f64_ok a \<Longrightarrow> f64_ok b \<Longrightarrow> f64_ok (f_max a b)"
  by (simp add: f_max_def)

lemma f64_add_0 [simp]: "f64_ok a \<Longrightarrow> a + 0 = a" "f64_ok a \<Longrightarrow> 0 + a = a"
  by (cases a; auto simp: f64_ok_def f64_ops_def)+

lemma f64_add_commute: "(a :: f64) + b = b + a"
  unfolding plus_f64_def by (cases a; cases b) (auto simp: add.commute)

lemma f64_diff_self: "a = F_fin x \<Longrightarrow> a - a = 0"
  by (simp add: f64_ops_def)

section \<open>Order\<close>

lemma f64_le_refl [simp]: "(a :: f64) \<le> a \<longleftrightarrow> a \<noteq> F_nan"
  by (cases a) (auto simp: less_eq_f64_def)

lemma f64_le_trans [trans]: "(a :: f64) \<le> b \<Longrightarrow> b \<le> c \<Longrightarrow> a \<le> c"
  unfolding less_eq_f64_def by (cases a; cases b; cases c) auto

lemma f64_le_antisym: "(a :: f64) \<le> b \<Longrightarrow> b \<le> a \<Longrightarrow> a = b"
  unfolding less_eq_f64_def by (cases a; cases b) auto

lemma f64_le_not_nan: "(a :: f64) \<le> b \<Longrightarrow> a \<noteq> F_nan \<and> b \<noteq> F_nan"
  unfolding less_eq_f64_def by (cases a; cases b) auto

lemma f64_le_linear: "a \<noteq> F_nan \<Longrightarrow> b \<noteq> F_nan \<Longrightarrow> a \<le> b \<or> b \<le> (a :: f64)"
  unfolding less_eq_f64_def by (cases a; cases b) auto

lemma f64_not_less: "a \<noteq> F_nan \<Longrightarrow> b \<noteq> F_nan \<Longrightarrow> \<not> a < b \<longleftrightarrow> b \<le> (a :: f64)"
  unfolding less_f64_def less_eq_f64_def by (cases a; cases b) auto

lemma f_le_inf [simp]:
  "f_le (F_inf True) a \<longleftrightarrow> a \<noteq> F_nan" "f_le a (F_inf False) \<longleftrightarrow> a \<noteq> F_nan"
  by (cases a; simp)+

lemma f64_minus_le: "(- a :: f64) \<le> - b \<longleftrightarrow> b \<le> a"
  by (cases a; cases b) (auto simp: f64_ops_def)

lemma f64_diff_minus: "a - b = a + - (b :: f64)"
  by (simp add: f64_ops_def)

lemma f64_add_right_mono:
  assumes "b \<le> c" "a + b \<noteq> F_nan" "a + c \<noteq> F_nan"
  shows "a + b \<le> a + (c :: f64)"
  using assms rnd_mono
  by (cases a; cases b; cases c) (auto simp: f64_ops_def split: if_splits)

lemma f64_diff_mono:
  assumes "b \<le> c" "a - b \<noteq> F_nan" "a - c \<noteq> F_nan"
  shows "a - c \<le> a - (b :: f64)"
  using assms f64_add_right_mono [of "- c" "- b" a] by (simp add: f64_diff_minus f64_minus_le)

lemma round_half_away_int [simp]: "round_half_away (of_int n) = n"
  by (auto simp: round_half_away_def intro!: floor_unique)

lemma round_half_away_numeral [simp]: "round_half_away 0 = 0" "round_half_away (numeral k) = numeral k"
  using round_half_away_int [of 0] round_half_away_int [of "numeral k"] by simp_all

lemma round_half_away_mono: "x \<le> y \<Longrightarrow> round_half_away x \<le> round_half_away y"
  by (auto simp: round_half_away_def intro: floor_mono) linarith

lemma f_round_mono: "a \<le> b \<Longrightarrow> f_round a \<le> f_round b"
  using round_half_away_mono
  by (cases a; cases b) (auto simp: less_eq_f64_def intro: rnd_mono [unfolded less_eq_f64_def])

end
