(* ===== verification/Orca_Prelude.thy ===== *)
theory Orca_Prelude
  imports F64 "HOL-Library.Word"
begin

text \<open>
  What every component shares: the machine types, the outcome of a piece of Rust code and the
  way such pieces are sequenced, and the rows-with-a-key discipline of an SQL table.

  A fallible or effectful function of the source is a value of type \<open>('s, 'a) io\<close>: it takes
  the state and gives an outcome and the state after it. The outcome is \<open>Ok\<close> or \<open>Err\<close> of
  the function's \<open>Result\<close>, a \<open>Panic\<close> of the running task, or \<open>Hang\<close> when an awaited
  future is never resolved. A panic and a hang keep the effects performed before them.
\<close>

section \<open>Machine types and text\<close>

type_synonym byte = "8 word"
type_synonym u16 = "16 word"
type_synonym i32 = "32 word"
type_synonym i64 = "64 word"
type_synonym u64 = "64 word"

text \<open>\<open>str::starts_with\<close> and the byte slices of a string.\<close>

definition starts_with :: "string \<Rightarrow> string \<Rightarrow> bool" where
  "starts_with s p = (take (length p) s = p)"

text \<open>
  An index into a string is a character boundary when it is the end of the string or the byte
  there does not continue a UTF-8 sequence (\<open>0x80\<close> to \<open>0xBF\<close>).
\<close>

definition is_char_boundary :: "string \<Rightarrow> nat \<Rightarrow> bool" where
  "is_char_boundary s i =
     (i = length s \<or> i < length s \<and> (of_char (s ! i) < (128::nat) \<or> 192 \<le> (of_char (s ! i) :: nat)))"

text \<open>\<open>&s[i..]\<close> and \<open>&s[..i]\<close>: \<open>None\<close> is the slice panic.\<close>

definition slice_from :: "string \<Rightarrow> nat \<Rightarrow> string option" where
  "slice_from s i = (if is_char_boundary s i then Some (drop i s) else None)"

definition slice_to :: "string \<Rightarrow> nat \<Rightarrow> string option" where
  "slice_to s i = (if is_char_boundary s i then Some (take i s) else None)"

section \<open>Outcomes\<close>

text \<open>\<open>diesel::result::Error\<close>, as far as the program tells its values apart.\<close>

datatype query_error =
    NotFound
  | UniqueViolation
  | NotNullViolation
  | EngineFault string

text \<open>The boxed errors: which library raised them, with its text.\<close>

datatype error =
    Diesel query_error
  | Io string
  | Transport string
  | Rpc string
  | Msg string

datatype 'a outcome = Ok 'a | Err error | Panic string | Hang

type_synonym ('s, 'a) io = "'s \<Rightarrow> 'a outcome \<times> 's"

definition io_ret :: "'a \<Rightarrow> ('s, 'a) io" where
  "io_ret a s = (Ok a, s)"

definition io_fail :: "error \<Rightarrow> ('s, 'a) io" where
  "io_fail e s = (Err e, s)"

definition io_panic :: "string \<Rightarrow> ('s, 'a) io" where
  "io_panic p s = (Panic p, s)"

definition io_gets :: "('s \<Rightarrow> 'a) \<Rightarrow> ('s, 'a) io" where
  "io_gets f s = (Ok (f s), s)"

definition io_modify :: "('s \<Rightarrow> 's) \<Rightarrow> ('s, unit) io" where
  "io_modify f s = (Ok (), f s)"

text \<open>Sequencing; an \<open>Err\<close> leaves the function as the \<open>?\<close> operator does.\<close>

definition io_bind :: "('s, 'a) io \<Rightarrow> ('a \<Rightarrow> ('s, 'b) io) \<Rightarrow> ('s, 'b) io" where
  "io_bind m f s =
     (case m s of
        (Ok a, s') \<Rightarrow> f a s'
      | (Err e, s') \<Rightarrow> (Err e, s')
      | (Panic p, s') \<Rightarrow> (Panic p, s')
      | (Hang, s') \<Rightarrow> (Hang, s'))"

text \<open>A \<open>Result\<close> that the code inspects instead of propagating.\<close>

definition io_attempt :: "('s, 'a) io \<Rightarrow> ('s, error + 'a) io" where
  "io_attempt m s =
     (case m s of
        (Ok a, s') \<Rightarrow> (Ok (Inr a), s')
      | (Err e, s') \<Rightarrow> (Ok (Inl e), s')
      | (Panic p, s') \<Rightarrow> (Panic p, s')
      | (Hang, s') \<Rightarrow> (Hang, s'))"

text \<open>\<open>Result::expect\<close> and \<open>Result::unwrap\<close>.\<close>

definition io_expect :: "string \<Rightarrow> ('s, 'a) io \<Rightarrow> ('s, 'a) io" where
  "io_expect msg m s =
     (case m s of
        (Err e, s') \<Rightarrow> (Panic msg, s')
      | r \<Rightarrow> r)"

text \<open>\<open>Option::expect\<close>.\<close>

definition io_some :: "string \<Rightarrow> 'a option \<Rightarrow> ('s, 'a) io" where
  "io_some msg x s = (case x of None \<Rightarrow> (Panic msg, s) | Some a \<Rightarrow> (Ok a, s))"

definition io_of_sum :: "error + 'a \<Rightarrow> ('s, 'a) io" where
  "io_of_sum r s = (case r of Inl e \<Rightarrow> (Err e, s) | Inr a \<Rightarrow> (Ok a, s))"

text \<open>What awaiting a oneshot receiver gives: a value, a dropped sender, or nothing ever.\<close>

datatype 'a awaited = Answered 'a | Dropped | Unanswered

definition io_await :: "string \<Rightarrow> 'a awaited \<Rightarrow> ('s, 'a) io" where
  "io_await msg x s =
     (case x of Answered a \<Rightarrow> (Ok a, s) | Dropped \<Rightarrow> (Panic msg, s) | Unanswered \<Rightarrow> (Hang, s))"

section \<open>Rows with a key\<close>

text \<open>
  The statements of the database layer, on the rows of one table in insertion order: a row is
  rejected by \<open>INSERT\<close> when it clashes with a present one (primary key, \<open>UNIQUE\<close>), and
  \<open>SELECT\<close>, \<open>UPDATE\<close> and \<open>DELETE\<close> by key give the matching row or the number of
  rows they changed.
\<close>

definition sql_insert :: "('r \<Rightarrow> 'r \<Rightarrow> bool) \<Rightarrow> 'r \<Rightarrow> 'r list \<Rightarrow> query_error + 'r list" where
  "sql_insert clash r rows =
     (if \<exists>x \<in> set rows. clash r x then Inl UniqueViolation else Inr (rows @ [r]))"

definition sql_first :: "('r \<Rightarrow> bool) \<Rightarrow> 'r list \<Rightarrow> query_error + 'r" where
  "sql_first P rows = (case List.find P rows of None \<Rightarrow> Inl NotFound | Some r \<Rightarrow> Inr r)"

definition sql_update :: "('r \<Rightarrow> bool) \<Rightarrow> ('r \<Rightarrow> 'r) \<Rightarrow> 'r list \<Rightarrow> nat \<times> 'r list" where
  "sql_update P f rows = (length (filter P rows), map (\<lambda>r. if P r then f r else r) rows)"

definition sql_delete :: "('r \<Rightarrow> bool) \<Rightarrow> 'r list \<Rightarrow> nat \<times> 'r list" where
  "sql_delete P rows = (length (filter P rows), filter (\<lambda>r. \<not> P r) rows)"

text \<open>The rows with the row of one key changed, the way the statements by key leave them.\<close>

definition at_key :: "('r \<Rightarrow> 'k) \<Rightarrow> 'k \<Rightarrow> ('r \<Rightarrow> 'r) \<Rightarrow> 'r list \<Rightarrow> 'r list" where
  "at_key key k f rows = map (\<lambda>x. if key x = k then f x else x) rows"

section \<open>Preservation\<close>

text \<open>
  \<open>keeps P m\<close>: whatever its outcome, \<open>m\<close> leads from a state with \<open>P\<close> to a
  state with \<open>P\<close>. With \<open>P s = (f s = v)\<close> it says that \<open>m\<close> leaves the field
  \<open>f\<close> alone.
\<close>

definition keeps :: "('s \<Rightarrow> bool) \<Rightarrow> ('s, 'a) io \<Rightarrow> bool" where
  "keeps P m = (\<forall>s. P s \<longrightarrow> P (snd (m s)))"

section \<open>Proof support\<close>

named_theorems keeps_rules \<open>preservation, one rule per combinator and operation\<close>

named_theorems io_defs \<open>the sequencing combinators, unfolded\<close>

declare io_ret_def [io_defs] io_fail_def [io_defs] io_panic_def [io_defs] io_gets_def [io_defs]
  io_modify_def [io_defs] io_bind_def [io_defs] io_attempt_def [io_defs] io_expect_def [io_defs]
  io_some_def [io_defs] io_of_sum_def [io_defs] io_await_def [io_defs]

lemma starts_with_append [simp]: "starts_with (p @ s) p"
  by (simp add: starts_with_def)

lemma starts_with_iff: "starts_with s p \<longleftrightarrow> (\<exists>t. s = p @ t)"
  unfolding starts_with_def by (metis append_eq_conv_conj append_take_drop_id)

lemma io_bind_ret [simp]: "io_bind (io_ret a) f = f a"
  by (simp add: fun_eq_iff io_defs)

lemma io_bind_assoc: "io_bind (io_bind m f) g = io_bind m (\<lambda>a. io_bind (f a) g)"
  by (auto simp: fun_eq_iff io_defs split: prod.splits outcome.splits)

lemma io_bind_Ok:
  "io_bind m f s = (Ok b, t) \<longleftrightarrow> (\<exists>a u. m s = (Ok a, u) \<and> f a u = (Ok b, t))"
  by (auto simp: io_defs split: prod.splits outcome.splits)

lemma keepsI: "(\<And>s. P s \<Longrightarrow> P (snd (m s))) \<Longrightarrow> keeps P m"
  by (simp add: keeps_def)

lemma keepsD: "keeps P m \<Longrightarrow> m s = (r, t) \<Longrightarrow> P s \<Longrightarrow> P t"
  by (metis keeps_def snd_conv)

lemma keeps_basic [keeps_rules]:
  "keeps P (io_ret a)" "keeps P (io_fail e)" "keeps P (io_panic p)" "keeps P (io_gets g)"
  "keeps P (io_some msg x)" "keeps P (io_of_sum y)" "keeps P (io_await msg z)"
  by (auto simp: keeps_def io_defs split: option.splits sum.splits awaited.splits)

lemma keeps_bind [keeps_rules]:
  assumes "keeps P m" "\<And>a. keeps P (f a)"
  shows "keeps P (io_bind m f)"
  using assms by (fastforce simp: keeps_def io_bind_def split: prod.splits outcome.splits)

lemma keeps_attempt [keeps_rules]: "keeps P m \<Longrightarrow> keeps P (io_attempt m)"
  by (fastforce simp: keeps_def io_attempt_def split: prod.splits outcome.splits)

lemma keeps_expect [keeps_rules]: "keeps P m \<Longrightarrow> keeps P (io_expect msg m)"
  by (fastforce simp: keeps_def io_expect_def split: prod.splits outcome.splits)

lemma keeps_modify: "(\<And>s. P s \<Longrightarrow> P (f s)) \<Longrightarrow> keeps P (io_modify f)"
  by (simp add: keeps_def io_modify_def)

lemma keeps_if [keeps_rules]: "keeps P m \<Longrightarrow> keeps P n \<Longrightarrow> keeps P (if b then m else n)"
  by simp

lemma keeps_case_option [keeps_rules]:
  "keeps P m \<Longrightarrow> (\<And>a. keeps P (f a)) \<Longrightarrow> keeps P (case x of None \<Rightarrow> m | Some a \<Rightarrow> f a)"
  by (cases x) auto

lemma keeps_case_sum [keeps_rules]:
  "(\<And>e. keeps P (m e)) \<Longrightarrow> (\<And>a. keeps P (f a)) \<Longrightarrow> keeps P (case x of Inl e \<Rightarrow> m e | Inr a \<Rightarrow> f a)"
  by (cases x) auto

lemma find_Some_iff_unique:
  assumes "distinct (map k rows)" "r \<in> set rows"
  shows "List.find (\<lambda>x. k x = k r) rows = Some r"
  using assms by (induction rows) auto

lemma find_append:
  "List.find P (xs @ ys) = (case List.find P xs of None \<Rightarrow> List.find P ys | Some x \<Rightarrow> Some x)"
  by (induction xs) auto

lemma find_None_key: "List.find (\<lambda>x. k x = a) rows = None \<longleftrightarrow> a \<notin> k ` set rows"
  by (induction rows) auto

lemma find_Some_in: "List.find P rows = Some r \<Longrightarrow> r \<in> set rows \<and> P r"
  by (induction rows) (auto split: if_splits)

lemma find_map_key:
  assumes "\<And>r. k (f r) = k r"
  shows "List.find (\<lambda>x. k x = a) (map (\<lambda>r. if P r then f r else r) rows) =
         map_option (\<lambda>r. if P r then f r else r) (List.find (\<lambda>x. k x = a) rows)"
  using assms by (induction rows) auto

lemma find_filter_key:
  "List.find (\<lambda>x. k x = a) (filter (\<lambda>r. k r \<noteq> b) rows) =
   (if a = b then None else List.find (\<lambda>x. k x = a) rows)"
  by (induction rows) auto

lemma distinct_key_eq:
  "distinct (map k rows) \<Longrightarrow> x \<in> set rows \<Longrightarrow> y \<in> set rows \<Longrightarrow> k x = k y \<Longrightarrow> x = y"
  by (metis distinct_map inj_onD)

lemma map_key_at_key: "(\<And>x. k (f x) = k x) \<Longrightarrow> map k (at_key k a f rows) = map k rows"
  by (simp add: at_key_def)

lemma at_key_absent: "a \<notin> k ` set rows \<Longrightarrow> at_key k a f rows = rows"
  by (auto simp: at_key_def image_iff intro!: map_idI)

lemma at_key_member:
  "x \<in> set rows \<Longrightarrow> (if k x = a then f x else x) \<in> set (at_key k a f rows)"
  by (auto simp: at_key_def)

lemma at_key_at_key:
  "(\<And>x. k (f x) = k x) \<Longrightarrow> at_key k a g (at_key k a f rows) = at_key k a (\<lambda>x. g (f x)) rows"
  by (auto simp: at_key_def)

lemma length_filter_key:
  assumes "distinct (map k rows)"
  shows "length (filter (\<lambda>r. k r = a) rows) = (if a \<in> k ` set rows then 1 else 0)"
  using assms by (induction rows) auto

end
