(* ===== verification/Orca_Types.thy ===== *)
theory Orca_Types
  imports Orca_Prelude
begin

text \<open>
  The data of the node: the messages of \<open>common/types.rs\<close>, the rows of \<open>db/schema.rs\<close>,
  the JSON values of the configuration file, and the two records every operation works on:
  \<open>env\<close>, what the libraries and the outside world do (one field per third-party call), and
  \<open>node\<close>, the state one \<open>orca_node\<close> process keeps.
\<close>

section \<open>Messages (common/types.rs)\<close>

text \<open>A libp2p peer id, by its text form; a response channel and a oneshot sender, by number.\<close>

datatype PeerId = PeerId (peer_id_text: string)

type_synonym channel = nat

text \<open>A multiaddress, as the list of its protocol components.\<close>

datatype protocol =
    P2pCircuit
  | P2p PeerId
  | Ip4Unspecified
  | Ip6Unspecified
  | Tcp u16
  | Udp u16
  | QuicV1
  | OtherProtocol string

type_synonym Multiaddr = "protocol list"

record PaymentNotification =
  pn_sender_address :: string
  pn_receiver_address :: string
  pn_amount_transferred :: f64
  pn_tx_id :: string
  pn_payment_reference :: string

text \<open>The arguments of the two payment requests are in the order of their declaration.\<close>

datatype OrcaNetRequest =
    FileMetadataRequest string
  | FileContentRequest string
  | HTTPProxyMetadataRequest
  | HTTPProxyProvideRequest
  | HTTPProxyPrePaymentRequest string string f64 f64
      \<comment> \<open>\<open>client_id\<close>, \<open>auth_token\<close>, \<open>data_transferred_kb\<close>, \<open>fee_owed\<close>\<close>
  | HTTPProxyPostPaymentNotification string string PaymentNotification
      \<comment> \<open>\<open>client_id\<close>, \<open>auth_token\<close>, \<open>payment_notification\<close>\<close>

record HTTPProxyMetadata =
  hm_proxy_address :: string
  hm_fee_rate_per_kb :: f64
  hm_recipient_address :: string

record FileMetadata =
  fm_file_id :: string
  fm_file_name :: string
  fm_fee_rate_per_kb :: f64
  fm_recipient_address :: string

record PaymentRequest =
  pr_amount_to_send :: f64
  pr_payment_reference :: string
  pr_recipient_address :: string

datatype PrePaymentResponse =
    Accepted PaymentRequest
  | RejectedDataTransferDiffers
  | RejectedFeeOwedDiffers
  | ServerTerminatingConnection PaymentRequest

datatype OrcaNetError =
    AuthorizationFailed string
  | NotAProvider string
  | InternalServerError string
  | PaymentReferenceMismatch
  | SessionTerminatedByProvider

datatype OrcaNetResponse =
    FileMetadataResponse FileMetadata
  | FileContentResponse FileMetadata "byte list"
  | HTTPProxyMetadataResponse HTTPProxyMetadata
  | HTTPProxyProvideResponse HTTPProxyMetadata string string
      \<comment> \<open>\<open>metadata\<close>, \<open>client_id\<close>, \<open>auth_token\<close>\<close>
  | HTTPProxyPrePaymentResponse f64 f64 PrePaymentResponse
      \<comment> \<open>\<open>data_transferred_kb\<close>, \<open>fee_owed\<close>, \<open>pre_payment_response\<close>\<close>
  | ErrorResponse OrcaNetError
  | NullResponse

datatype StreamData = StreamRequestData OrcaNetRequest | StreamResponseData OrcaNetResponse

record StreamReq =
  sr_request_id :: string
  sr_stream_data :: StreamData

datatype ProxyMode = ProxyProviderMode | ProxyClientMode string

datatype NetworkCommand =
    StartListening Multiaddr channel
  | Dial PeerId Multiaddr channel
  | StartProviding string channel
  | StopProviding string
  | GetProviders string channel
  | PutKV string "byte list" channel
  | GetValue string channel
  | Request OrcaNetRequest PeerId channel
  | Respond OrcaNetResponse channel
  | SendInStream PeerId StreamReq "channel option"

datatype OrcaNetEvent =
    RequestEvent OrcaNetRequest PeerId channel
  | StreamRequestEvent OrcaNetRequest PeerId channel
  | ProvideFile string string
  | StopProvidingFile string bool
  | StartProxy ProxyMode
  | StopProxy

section \<open>Rows (db/schema.rs)\<close>

record ProvidedFileInfo =
  pf_file_id :: string
  pf_file_path :: string
  pf_file_name :: string
  pf_downloads_count :: i32
  pf_status :: i32
  pf_provide_start_timestamp :: "i64 option"

record DownloadedFileInfo =
  df_id :: string
  df_file_id :: string
  df_file_path :: string
  df_file_name :: string
  df_file_size_kb :: f64
  df_fee_rate_per_kb :: "f64 option"
  df_price :: "f64 option"
  df_payment_tx_id :: "string option"
  df_peer_id :: string
  df_download_timestamp :: i64

record ProxyClientInfo =
  pc_client_id :: string
  pc_auth_token :: string
  pc_start_timestamp :: i64
  pc_data_transferred_kb :: f64
  pc_total_fee_received :: f64
  pc_total_fee_received_unconfirmed :: f64
  pc_fee_rate_per_kb :: f64
  pc_client_peer_id :: string
  pc_status :: i32

record ProxySessionInfo =
  ps_session_id :: string
  ps_client_id :: string
  ps_auth_token :: string
  ps_proxy_address :: string
  ps_start_timestamp :: i64
  ps_end_timestamp :: "i64 option"
  ps_data_transferred_kb :: f64
  ps_total_fee_sent :: f64
  ps_total_fee_sent_unconfirmed :: f64
  ps_fee_rate_per_kb :: f64
  ps_provider_peer_id :: string
  ps_recipient_address :: string
  ps_status :: i32

record PaymentInfo =
  pay_payment_id :: string
  pay_tx_id :: "string option"
  pay_from_address :: "string option"
  pay_to_address :: string
  pay_expected_amount_btc :: "f64 option"
  pay_amount_btc :: "f64 option"
  pay_category :: string
  pay_status :: string
  pay_payment_reference :: "string option"
  pay_from_peer :: "string option"
  pay_to_peer :: "string option"

datatype ProxySessionStatus = Active | TerminatedByClient | TerminatedByServer

datatype PaymentStatus = AwaitingClientConfirmation | TransactionPending | TransactionConfirmed

datatype PaymentCategory = Receive | Send

datatype BTCNetwork = MainNet | TestNet | RegTest

section \<open>JSON values (serde\_json)\<close>

datatype json_num = PosInt u64 | NegInt i64 | Float f64

datatype json =
    JNull
  | JBool bool
  | JNum json_num
  | JStr string
  | JArr "json list"
  | JObj "(string \<times> json) list"

text \<open>The configuration file as reading and parsing it finds it.\<close>

datatype config_file = ConfigMissing | ConfigMalformed | ConfigJson json

section \<open>The node and its environment\<close>

datatype fs_entry = File "byte list" | Directory | Unreadable

text \<open>
  What the node does not decide. The numbered streams are consumed in order: \<open>uuid_v4 n\<close> is
  the text of the \<open>n\<close>-th \<open>Uuid::new_v4()\<close>, \<open>utc_now n\<close> the \<open>n\<close>-th clock
  reading, \<open>io_fault n\<close> whether the \<open>n\<close>-th call to the database engine, the file system
  or the Bitcoin daemon fails and with which text, \<open>torn_write n\<close> whether a failed file write
  had already truncated its file and how many bytes it left there. The answers to network
  commands depend on the commands sent so far; \<open>proxy_takes\<close> says whether the proxy task
  takes the last of the events sent to it, has dropped its receiver, or never polls it.
  \<open>error_text\<close> and \<open>debug_error\<close> are the printed forms of errors.
\<close>

record env =
  uuid_v4 :: "nat \<Rightarrow> string"
  utc_now :: "nat \<Rightarrow> i64"
  io_fault :: "nat \<Rightarrow> string option"
  torn_write :: "nat \<Rightarrow> nat option"
  error_text :: "error \<Rightarrow> string"
  debug_error :: "OrcaNetError \<Rightarrow> string"
  parse_peer_id :: "string \<Rightarrow> PeerId option"
  de_proxy_mode :: "json \<Rightarrow> ProxyMode option"
  de_btc_network :: "string \<Rightarrow> BTCNetwork option"
  valid_btc_address :: "string \<Rightarrow> bool"
  amount_from_btc :: "f64 \<Rightarrow> nat option"
  send_txid :: "nat \<Rightarrow> string"
  mined_blocks :: "nat \<Rightarrow> string list"
  commands_open :: "NetworkCommand list \<Rightarrow> bool"
  reply_unit :: "NetworkCommand list \<Rightarrow> unit awaited"
  reply_result :: "NetworkCommand list \<Rightarrow> (error + unit) awaited"
  reply_providers :: "NetworkCommand list \<Rightarrow> PeerId list awaited"
  reply_value :: "NetworkCommand list \<Rightarrow> (error + byte list) awaited"
  reply_response :: "NetworkCommand list \<Rightarrow> (error + OrcaNetResponse) awaited"
  proxy_takes :: "(channel \<times> OrcaNetEvent) list \<Rightarrow> unit awaited"

text \<open>A transfer handed to the Bitcoin daemon: network, recipient, satoshi, comment.\<close>

type_synonym transfer = "BTCNetwork \<times> string \<times> nat \<times> string option"

record node =
  config :: config_file
  files :: "(string \<times> fs_entry) list"
  provided_files :: "ProvidedFileInfo list"
  downloaded_files :: "DownloadedFileInfo list"
  proxy_clients :: "ProxyClientInfo list"
  proxy_sessions :: "ProxySessionInfo list"
  payments :: "PaymentInfo list"
  uuids_drawn :: nat
  clock_reads :: nat
  io_calls :: nat
  channels :: nat
  commands :: "NetworkCommand list"
  transfers :: "transfer list"
  blocks_requested :: "string list"
  stream_replies :: "(channel \<times> OrcaNetResponse) list"
  proxy_event_sender :: "channel option"
  proxies_spawned :: "(ProxyMode \<times> channel) list"
  proxy_events :: "(channel \<times> OrcaNetEvent) list"

type_synonym 'a node_io = "(node, 'a) io"

end
