(* ===== verification/Orca_Config.thy ===== *)
theory Orca_Config
  imports Orca_Types
begin

text \<open>
  The configuration of the node (\<open>common/config.rs\<close>), the string form of the unit enums
  (\<open>common/macros.rs\<close>), and the network selection of \<open>common/btc_rpc.rs\<close>. The file
  \<open>~/.orcanet/config.json\<close> is read and parsed on every access and rewritten on every change;
  a missing or malformed file, or a key of the wrong shape, panics where the source says
  \<open>expect\<close> or \<open>unwrap\<close>. Printing a JSON value and parsing it again is serde\_json's
  round trip, so the state keeps the value itself.
\<close>

section \<open>Constants\<close>

definition NAMESPACE :: string where "NAMESPACE = ''/orcanet''"

definition STREAM_PROTOCOL :: string where "STREAM_PROTOCOL = ''/orcanet/p2p''"

definition CONFIG_FILE_REL_PATH :: string where
  "CONFIG_FILE_REL_PATH = ''.orcanet/config.json''"

definition MAX_FILE_SIZE_BYTES :: nat where "MAX_FILE_SIZE_BYTES = 10 * 1024 * 1024"

definition PROXY_PROVIDER_KEY_DHT :: string where "PROXY_PROVIDER_KEY_DHT = ''http_proxy_providers''"

definition DEFAULT_SECRET_KEY_SEED :: u64 where "DEFAULT_SECRET_KEY_SEED = 4"

definition BTC_PRECISION :: nat where "BTC_PRECISION = 8"

definition FEE_OWED_PD_ALLOWED :: f64 where "FEE_OWED_PD_ALLOWED = F_fin 300"

definition DATA_TRANSFER_PD_ALLOWED :: f64 where "DATA_TRANSFER_PD_ALLOWED = F_fin 300"

definition PROXY_TERMINATION_PD_THRESHOLD :: f64 where "PROXY_TERMINATION_PD_THRESHOLD = F_fin 300"

text \<open>The peers that every node knows; the addresses are parsed from their text form.\<close>

definition get_bootstrap_peer_id :: PeerId where
  "get_bootstrap_peer_id = PeerId ''12D3KooWE1xpVccUXZJWZLVWPxXzUJQ7kMqN8UQ2WLn9uQVytmdA''"

definition get_bootstrap_address :: Multiaddr where
  "get_bootstrap_address =
     [OtherProtocol ''ip4/130.245.173.221'', Tcp 6001,
      P2p (PeerId ''12D3KooWE1xpVccUXZJWZLVWPxXzUJQ7kMqN8UQ2WLn9uQVytmdA'')]"

definition get_relay_peer_id :: PeerId where
  "get_relay_peer_id = PeerId ''12D3KooWDpJ7As7BWAwRMfu1VU2WCqNjvq387JEYKDBj4kx6nXTN''"

definition get_relay_address :: Multiaddr where
  "get_relay_address =
     [OtherProtocol ''ip4/130.245.173.221'', Tcp 4001,
      P2p (PeerId ''12D3KooWDpJ7As7BWAwRMfu1VU2WCqNjvq387JEYKDBj4kx6nXTN'')]"

section \<open>Unit enums as text (macro \<open>impl_str_serde\<close>)\<close>

datatype ConfigKey =
    DBPath
  | AppDataPath
  | BTCWalletName
  | BTCAddress
  | FileFeeRatePerKB
  | ProxyFeeRatePerKB
  | NetworkType
  | RunHTTPServer
  | ProxyConfig
  | SecretKeySeed
  | ProxyProviderServerAddress

text \<open>The serialised name of a unit variant is its identifier.\<close>

fun ConfigKey_name :: "ConfigKey \<Rightarrow> string" where
  "ConfigKey_name DBPath = ''DBPath''"
| "ConfigKey_name AppDataPath = ''AppDataPath''"
| "ConfigKey_name BTCWalletName = ''BTCWalletName''"
| "ConfigKey_name BTCAddress = ''BTCAddress''"
| "ConfigKey_name FileFeeRatePerKB = ''FileFeeRatePerKB''"
| "ConfigKey_name ProxyFeeRatePerKB = ''ProxyFeeRatePerKB''"
| "ConfigKey_name NetworkType = ''NetworkType''"
| "ConfigKey_name RunHTTPServer = ''RunHTTPServer''"
| "ConfigKey_name ProxyConfig = ''ProxyConfig''"
| "ConfigKey_name SecretKeySeed = ''SecretKeySeed''"
| "ConfigKey_name ProxyProviderServerAddress = ''ProxyProviderServerAddress''"

fun PaymentStatus_name :: "PaymentStatus \<Rightarrow> string" where
  "PaymentStatus_name AwaitingClientConfirmation = ''AwaitingClientConfirmation''"
| "PaymentStatus_name TransactionPending = ''TransactionPending''"
| "PaymentStatus_name TransactionConfirmed = ''TransactionConfirmed''"

fun PaymentCategory_name :: "PaymentCategory \<Rightarrow> string" where
  "PaymentCategory_name Receive = ''Receive''"
| "PaymentCategory_name Send = ''Send''"

fun BTCNetwork_name :: "BTCNetwork \<Rightarrow> string" where
  "BTCNetwork_name MainNet = ''MainNet''"
| "BTCNetwork_name TestNet = ''TestNet''"
| "BTCNetwork_name RegTest = ''RegTest''"

text \<open>\<open>serde_json::to_string\<close> of a unit variant: its name between double quotes.\<close>

definition quoted :: "string \<Rightarrow> string" where
  "quoted s = [CHR 0x22] @ s @ [CHR 0x22]"

text \<open>
  \<open>Display\<close> prints \<open>&s[1..(s.len() - 1)]\<close> of that; \<open>FromStr\<close> adds the quotes when the
  text does not start with one and hands it to the JSON parser \<open>de\<close>.
\<close>

definition serde_display :: "('v \<Rightarrow> string) \<Rightarrow> 'v \<Rightarrow> string" where
  "serde_display name v = (let s = quoted (name v) in take (length s - 1 - 1) (drop 1 s))"

definition serde_from_str :: "(string \<Rightarrow> 'v option) \<Rightarrow> string \<Rightarrow> 'v option" where
  "serde_from_str de s = (if \<not> starts_with s [CHR 0x22] then de (quoted s) else de s)"

abbreviation key_text :: "ConfigKey \<Rightarrow> string" where
  "key_text \<equiv> serde_display ConfigKey_name"

abbreviation status_text :: "PaymentStatus \<Rightarrow> string" where
  "status_text \<equiv> serde_display PaymentStatus_name"

abbreviation category_text :: "PaymentCategory \<Rightarrow> string" where
  "category_text \<equiv> serde_display PaymentCategory_name"

section \<open>JSON access\<close>

fun json_get :: "json \<Rightarrow> string \<Rightarrow> json option" where
  "json_get (JObj kvs) k = map_of kvs k"
| "json_get _ k = None"

fun as_str :: "json \<Rightarrow> string option" where
  "as_str (JStr s) = Some s"
| "as_str _ = None"

fun as_bool :: "json \<Rightarrow> bool option" where
  "as_bool (JBool b) = Some b"
| "as_bool _ = None"

fun as_u64 :: "json \<Rightarrow> u64 option" where
  "as_u64 (JNum (PosInt n)) = Some n"
| "as_u64 _ = None"

fun as_f64 :: "json \<Rightarrow> f64 option" where
  "as_f64 (JNum (PosInt n)) = Some (f_of_int (uint n))"
| "as_f64 (JNum (NegInt n)) = Some (f_of_int (sint n))"
| "as_f64 (JNum (Float x)) = Some x"
| "as_f64 _ = None"

text \<open>\<open>Map::insert\<close>: replaces the value of a present key.\<close>

fun obj_insert :: "string \<Rightarrow> json \<Rightarrow> (string \<times> json) list \<Rightarrow> (string \<times> json) list" where
  "obj_insert k v [] = [(k, v)]"
| "obj_insert k v ((k', v') # kvs) = (if k' = k then (k, v) # kvs else (k', v') # obj_insert k v kvs)"

text \<open>
  \<open>json!(proxy_mode)\<close> under \<open>#[serde(tag = "type", content = "message")]\<close>, and
  \<open>json!\<close> of an optional mode.
\<close>

fun ser_proxy_mode :: "ProxyMode \<Rightarrow> json" where
  "ser_proxy_mode ProxyProviderMode = JObj [(''type'', JStr ''ProxyProvider'')]"
| "ser_proxy_mode (ProxyClientMode sid) =
     JObj [(''type'', JStr ''ProxyClient''), (''message'', JObj [(''session_id'', JStr sid)])]"

definition ser_proxy_mode_opt :: "ProxyMode option \<Rightarrow> json" where
  "ser_proxy_mode_opt m = (case m of None \<Rightarrow> JNull | Some p \<Rightarrow> ser_proxy_mode p)"

section \<open>Calls that leave the process\<close>

text \<open>
  One call to the database engine, the file system or the Bitcoin daemon: it may fail with the
  error that \<open>mk\<close> makes of the environment's text.
\<close>

definition external :: "env \<Rightarrow> (string \<Rightarrow> error) \<Rightarrow> unit node_io" where
  "external E mk s =
     (let s' = s\<lparr>io_calls := Suc (io_calls s)\<rparr> in
      case io_fault E (io_calls s) of
        Some t \<Rightarrow> (Err (mk t), s')
      | None \<Rightarrow> (Ok (), s'))"

text \<open>The state after one such call that changed nothing else.\<close>

abbreviation tick :: "node \<Rightarrow> node" where
  "tick s \<equiv> s\<lparr>io_calls := Suc (io_calls s)\<rparr>"

section \<open>Reading and changing the configuration\<close>

definition get_config_json :: "json node_io" where
  "get_config_json s =
     (case config s of
        ConfigMissing \<Rightarrow> (Panic ''Config file to be present at $HOME/.orcanet/config.json'', s)
      | ConfigMalformed \<Rightarrow> (Panic ''called Result::unwrap() on an Err value'', s)
      | ConfigJson j \<Rightarrow> (Ok j, s))"

definition get_from_config :: "ConfigKey \<Rightarrow> json option node_io" where
  "get_from_config k = io_bind get_config_json (\<lambda>j. io_ret (json_get j (key_text k)))"

definition get_str_from_config :: "ConfigKey \<Rightarrow> string node_io" where
  "get_str_from_config k =
     io_bind (get_from_config k) (\<lambda>v.
     io_bind (io_some (ConfigKey_name k @ '' to be present in config'') v) (\<lambda>j.
     io_some (ConfigKey_name k @ '' to be valid as a string'') (as_str j)))"

definition modify_config_with_kv_pair :: "env \<Rightarrow> (string \<times> json) list \<Rightarrow> unit node_io" where
  "modify_config_with_kv_pair E kv_pair =
     io_bind get_config_json (\<lambda>j.
     io_bind (io_some ''Config to be a valid json object'' (case j of JObj kvs \<Rightarrow> Some kvs | _ \<Rightarrow> None)) (\<lambda>object_mut.
     let updated_json = JObj (fold (\<lambda>(k, v). obj_insert k v) kv_pair object_mut) in
     (\<lambda>s. case external E Io s of
         (Ok _, s') \<Rightarrow> (Ok (), s'\<lparr>config := ConfigJson updated_json\<rparr>)
       | (r, s') \<Rightarrow> (r, case torn_write E (io_calls s) of
                         None \<Rightarrow> s' | Some _ \<Rightarrow> s'\<lparr>config := ConfigMalformed\<rparr>))))"

definition modify_config :: "env \<Rightarrow> string \<Rightarrow> json \<Rightarrow> unit node_io" where
  "modify_config E key value = modify_config_with_kv_pair E [(key, value)]"

definition get_file_fee_rate :: "f64 node_io" where
  "get_file_fee_rate =
     io_bind (get_from_config FileFeeRatePerKB) (\<lambda>v.
     io_some ''Amount to be valid floating point value in BTC'' (Option.bind v as_f64))"

definition get_proxy_fee_rate :: "f64 node_io" where
  "get_proxy_fee_rate =
     io_bind (get_from_config ProxyFeeRatePerKB) (\<lambda>v.
     io_some ''Amount to be valid floating point value in BTC'' (Option.bind v as_f64))"

definition get_network_type :: "env \<Rightarrow> BTCNetwork node_io" where
  "get_network_type E =
     io_bind (get_str_from_config NetworkType) (\<lambda>t.
     io_some ''Expect network to be a valid value in config'' (serde_from_str (de_btc_network E) t))"

definition get_secret_key_seed :: "u64 node_io" where
  "get_secret_key_seed =
     io_bind (get_from_config SecretKeySeed) (\<lambda>v.
     io_ret (case Option.bind v as_u64 of None \<Rightarrow> DEFAULT_SECRET_KEY_SEED | Some n \<Rightarrow> n))"

definition get_proxy_config :: "env \<Rightarrow> ProxyMode option node_io" where
  "get_proxy_config E =
     io_bind (get_from_config ProxyConfig) (\<lambda>v. io_ret (Option.bind v (de_proxy_mode E)))"

definition should_start_http_server :: "bool node_io" where
  "should_start_http_server =
     io_bind (get_from_config RunHTTPServer) (\<lambda>v.
     io_ret (case Option.bind v as_bool of None \<Rightarrow> False | Some b \<Rightarrow> b))"

definition get_btc_address :: "string node_io" where
  "get_btc_address = get_str_from_config BTCAddress"

section \<open>The network selection (common/btc\_rpc.rs)\<close>

fun get_rpc_url :: "BTCNetwork \<Rightarrow> string" where
  "get_rpc_url MainNet = ''http://127.0.0.1:8332''"
| "get_rpc_url TestNet = ''http://127.0.0.1:18334''"
| "get_rpc_url RegTest = ''http://127.0.0.1:18443''"

section \<open>Lemmas\<close>

text \<open>What the configuration holds, as a partial function of the key.\<close>

definition cfg :: "node \<Rightarrow> ConfigKey \<Rightarrow> json option" where
  "cfg s k = (case config s of ConfigJson j \<Rightarrow> json_get j (key_text k) | _ \<Rightarrow> None)"

definition cfg_obj :: "node \<Rightarrow> bool" where
  "cfg_obj s = (\<exists>kvs. config s = ConfigJson (JObj kvs))"

text \<open>serde's documented laws for the mode: it reads back what it wrote, and null is no mode.\<close>

definition serde_ok :: "env \<Rightarrow> bool" where
  "serde_ok E = ((\<forall>m. de_proxy_mode E (ser_proxy_mode m) = Some m) \<and> de_proxy_mode E JNull = None)"

definition reliable :: "env \<Rightarrow> bool" where
  "reliable E = (\<forall>n. io_fault E n = None)"

lemma serde_display_eq [simp]: "serde_display name v = name v"
  by (simp add: serde_display_def quoted_def Let_def)

lemma ConfigKey_name_inj [simp]: "ConfigKey_name k = ConfigKey_name k' \<longleftrightarrow> k = k'"
  by (cases k; cases k') simp_all

lemma map_of_obj_insert: "map_of (obj_insert k v kvs) = (map_of kvs)(k \<mapsto> v)"
  by (induction k v kvs rule: obj_insert.induct) (auto simp: fun_eq_iff)

lemma map_of_fold_insert:
  "map_of (fold (\<lambda>(k, v). obj_insert k v) ps kvs) = map_of kvs ++ map_of (rev ps)"
  by (induction ps arbitrary: kvs) (auto simp: map_of_obj_insert fun_eq_iff map_add_def split: option.splits)

lemma external_reliable: "reliable E \<Longrightarrow> external E mk s = (Ok (), s\<lparr>io_calls := Suc (io_calls s)\<rparr>)"
  by (simp add: external_def reliable_def)

lemma get_from_config_obj:
  "cfg_obj s \<Longrightarrow> get_from_config k s = (Ok (cfg s k), s)"
  by (auto simp: get_from_config_def get_config_json_def cfg_obj_def cfg_def io_defs)

lemma get_str_from_config_Some:
  "cfg s k = Some (JStr v) \<Longrightarrow> get_str_from_config k s = (Ok v, s)"
  by (auto simp: get_str_from_config_def get_from_config_def get_config_json_def cfg_def io_defs
      split: config_file.splits)

lemma cfg_frame [simp]:
  "cfg (s\<lparr>io_calls := n\<rparr>) = cfg s" "cfg (s\<lparr>uuids_drawn := n\<rparr>) = cfg s"
  "cfg (s\<lparr>clock_reads := n\<rparr>) = cfg s" "cfg (s\<lparr>channels := n\<rparr>) = cfg s"
  "cfg (s\<lparr>payments := pays\<rparr>) = cfg s" "cfg (s\<lparr>proxy_clients := pcs\<rparr>) = cfg s"
  "cfg (s\<lparr>proxy_sessions := pss\<rparr>) = cfg s" "cfg (s\<lparr>provided_files := pfs\<rparr>) = cfg s"
  "cfg (s\<lparr>downloaded_files := dfs\<rparr>) = cfg s" "cfg (s\<lparr>files := f\<rparr>) = cfg s"
  "cfg (s\<lparr>commands := cs\<rparr>) = cfg s" "cfg (s\<lparr>transfers := ts\<rparr>) = cfg s"
  "cfg (s\<lparr>proxy_event_sender := pe\<rparr>) = cfg s" "cfg (s\<lparr>proxies_spawned := psp\<rparr>) = cfg s"
  "cfg (s\<lparr>proxy_events := es\<rparr>) = cfg s" "cfg (s\<lparr>stream_replies := rs\<rparr>) = cfg s"
  "cfg (s\<lparr>blocks_requested := bs\<rparr>) = cfg s"
  by (simp_all add: cfg_def fun_eq_iff)

lemma obj_insert_twice: "obj_insert k w (obj_insert k v kvs) = obj_insert k w kvs"
  by (induction k v kvs rule: obj_insert.induct) auto

lemma get_file_fee_rate_run:
  "cfg s FileFeeRatePerKB = Some j \<Longrightarrow> as_f64 j = Some x \<Longrightarrow> get_file_fee_rate s = (Ok x, s)"
  by (auto simp: get_file_fee_rate_def get_from_config_def get_config_json_def cfg_def io_defs
      split: config_file.splits)

lemma get_proxy_fee_rate_run:
  "cfg s ProxyFeeRatePerKB = Some j \<Longrightarrow> as_f64 j = Some x \<Longrightarrow> get_proxy_fee_rate s = (Ok x, s)"
  by (auto simp: get_proxy_fee_rate_def get_from_config_def get_config_json_def cfg_def io_defs
      split: config_file.splits)

lemma get_proxy_config_run:
  "cfg_obj s \<Longrightarrow> get_proxy_config E s = (Ok (Option.bind (cfg s ProxyConfig) (de_proxy_mode E)), s)"
  by (simp add: get_proxy_config_def io_defs get_from_config_obj)

lemma keeps_external [keeps_rules]:
  "(\<And>s n. P s \<Longrightarrow> P (s\<lparr>io_calls := n\<rparr>)) \<Longrightarrow> keeps P (external E mk)"
  by (auto simp: keeps_def external_def Let_def split: option.splits)

lemma keeps_get_config_json [keeps_rules]: "keeps P get_config_json"
  by (auto simp: keeps_def get_config_json_def split: config_file.splits)

lemma keeps_config_reads [keeps_rules]:
  "keeps P (get_from_config k)" "keeps P (get_str_from_config k)" "keeps P get_file_fee_rate"
  "keeps P get_proxy_fee_rate" "keeps P (get_network_type E)" "keeps P (get_proxy_config E)"
  "keeps P get_btc_address" "keeps P get_secret_key_seed" "keeps P should_start_http_server"
  unfolding get_from_config_def get_str_from_config_def get_file_fee_rate_def get_proxy_fee_rate_def
    get_network_type_def get_proxy_config_def get_btc_address_def get_secret_key_seed_def
    should_start_http_server_def
  by (intro keeps_rules)+

lemma keeps_modify_config [keeps_rules]:
  assumes "\<And>s n. P s \<Longrightarrow> P (s\<lparr>io_calls := n\<rparr>)" "\<And>s c. P s \<Longrightarrow> P (s\<lparr>config := c\<rparr>)"
  shows "keeps P (modify_config_with_kv_pair E kvs)" "keeps P (modify_config E k v)"
proof -
  show "keeps P (modify_config_with_kv_pair E kvs)" for kvs
    unfolding modify_config_with_kv_pair_def Let_def
    by (intro keeps_rules)
      (auto simp: keeps_def external_def Let_def assms split: option.splits)
  then show "keeps P (modify_config E k v)" by (simp add: modify_config_def)
qed

lemma modify_config_reliable:
  assumes "reliable E" "config s = ConfigJson (JObj kvs)"
  shows "modify_config E k v s =
    (Ok (), s\<lparr>io_calls := Suc (io_calls s), config := ConfigJson (JObj (obj_insert k v kvs))\<rparr>)"
  using assms
  by (simp add: modify_config_def modify_config_with_kv_pair_def get_config_json_def io_defs
      external_reliable)

end
