(* ===== verification/Orca_Utils.thy ===== *)
theory Orca_Utils
  imports Orca_Config "HOL-Library.AList"
begin

text \<open>
  The helpers of \<open>common/utils.rs\<close> that the other components call, and the key material that
  the three binaries derive from a seed: names and addresses, the fee arithmetic
  (\<open>round\<close>, \<open>get_percent_diff\<close>), fresh identifiers and the clock, and the path operations
  of the standard library that they use.
\<close>

section \<open>Names and addresses\<close>

definition get_address_through_relay :: "PeerId \<Rightarrow> Multiaddr option \<Rightarrow> Multiaddr" where
  "get_address_through_relay peer_id relay_address_override =
     (case relay_address_override of None \<Rightarrow> get_relay_address | Some a \<Rightarrow> a) @ [P2pCircuit, P2p peer_id]"

definition get_key_with_ns :: "string \<Rightarrow> string" where
  "get_key_with_ns key = (if starts_with key NAMESPACE then key else NAMESPACE @ ''/'' @ key)"

section \<open>Key material from a seed\<close>

definition to_le_bytes :: "u64 \<Rightarrow> byte list" where
  "to_le_bytes w = map (\<lambda>i. ucast (drop_bit (8 * i) w)) [0..<8]"

text \<open>The 32 bytes that \<open>generate_ed25519\<close> hands to libp2p, in the node and the boot node.\<close>

definition generate_ed25519_bytes :: "u64 \<Rightarrow> byte list" where
  "generate_ed25519_bytes secret_key_seed = to_le_bytes secret_key_seed @ replicate 24 0"

definition boot_generate_ed25519_bytes :: "u64 \<Rightarrow> byte list" where
  "boot_generate_ed25519_bytes secret_key_seed = to_le_bytes secret_key_seed @ replicate 24 0"

text \<open>The relay server's: \<open>bytes[0] = secret_key_seed\<close>.\<close>

definition relay_generate_ed25519_bytes :: "byte \<Rightarrow> byte list" where
  "relay_generate_ed25519_bytes secret_key_seed = (replicate 32 0)[0 := secret_key_seed]"

section \<open>Fee arithmetic\<close>

definition get_percent_diff :: "f64 \<Rightarrow> f64 \<Rightarrow> f64" where
  "get_percent_diff value target =
     (if f_eq target 0 then 0 else \<bar>(value - target) / target\<bar> * F_fin 100)"

text \<open>\<open>Utils::round\<close>; \<open>10i32.pow(decimals)\<close> wraps in a release build.\<close>

definition round_f64 :: "f64 \<Rightarrow> nat \<Rightarrow> f64" where
  "round_f64 x decimals =
     (let y = f_of_int (sint ((10 :: i32) ^ decimals)) in f_round (x * y) / y)"

section \<open>Identifiers and the clock\<close>

definition new_uuid :: "env \<Rightarrow> string node_io" where
  "new_uuid E s = (Ok (uuid_v4 E (uuids_drawn s)), s\<lparr>uuids_drawn := Suc (uuids_drawn s)\<rparr>)"

definition get_unix_timestamp :: "env \<Rightarrow> i64 node_io" where
  "get_unix_timestamp E s = (Ok (utc_now E (clock_reads s)), s\<lparr>clock_reads := Suc (clock_reads s)\<rparr>)"

section \<open>Paths (std::path, on Unix)\<close>

fun split_on :: "char \<Rightarrow> string \<Rightarrow> string list" where
  "split_on c [] = [[]]"
| "split_on c (x # xs) =
     (if x = c then [] # split_on c xs
      else case split_on c xs of [] \<Rightarrow> [[x]] | w # ws \<Rightarrow> (x # w) # ws)"

text \<open>
  \<open>Path::file_name\<close>: the last component, with empty and \<open>.\<close> components ignored; none for
  an empty path, the root and a path that ends in \<open>..\<close>.
\<close>

definition path_components :: "string \<Rightarrow> string list" where
  "path_components p = filter (\<lambda>w. w \<noteq> [] \<and> w \<noteq> ''.'') (split_on (CHR ''/'') p)"

definition path_file_name :: "string \<Rightarrow> string option" where
  "path_file_name p =
     (let ws = path_components p in if ws = [] \<or> last ws = ''..'' then None else Some (last ws))"

definition get_file_name_from_path :: "string \<Rightarrow> string node_io" where
  "get_file_name_from_path path = io_some ''called Option::unwrap() on a None value'' (path_file_name path)"

text \<open>\<open>Path::join\<close>: an absolute argument replaces the path.\<close>

definition path_join :: "string \<Rightarrow> string \<Rightarrow> string" where
  "path_join p q =
     (if starts_with q ''/'' then q
      else if p = [] \<or> last p = CHR ''/'' then p @ q else p @ ''/'' @ q)"

text \<open>\<open>Path::exists\<close>, \<open>std::fs::read\<close> and \<open>std::fs::write\<close>.\<close>

definition path_exists :: "node \<Rightarrow> string \<Rightarrow> bool" where
  "path_exists s p = (map_of (files s) p \<noteq> None)"

definition fs_read :: "env \<Rightarrow> string \<Rightarrow> byte list node_io" where
  "fs_read E p =
     io_bind (external E Io) (\<lambda>_ s.
       case map_of (files s) p of
         Some (File bs) \<Rightarrow> (Ok bs, s)
       | _ \<Rightarrow> (Err (Io ''cannot read file''), s))"

definition fs_write :: "env \<Rightarrow> string \<Rightarrow> byte list \<Rightarrow> unit node_io" where
  "fs_write E p bs s =
     (case external E Io s of
        (Ok _, s') \<Rightarrow>
          (if map_of (files s) p = Some Directory then (Err (Io ''Is a directory''), s')
           else (Ok (), s'\<lparr>files := AList.update p (File bs) (files s')\<rparr>))
      | (r, s') \<Rightarrow>
          (r, case torn_write E (io_calls s) of
                None \<Rightarrow> s'
              | Some k \<Rightarrow> s'\<lparr>files := AList.update p (File (take k bs)) (files s')\<rparr>))"

section \<open>Lemmas\<close>

lemma length_to_le_bytes [simp]: "length (to_le_bytes w) = 8"
  by (simp add: to_le_bytes_def)

lemma bit_to_le_bytes:
  assumes "n < 64"
  shows "bit (to_le_bytes w ! (n div 8)) (n mod 8) = bit w n"
proof -
  have "n div 8 < 8" using assms by simp
  then have "[0..<8] ! (n div 8) = n div 8" by (simp only: nth_upt)
  then show ?thesis using assms by (simp add: to_le_bytes_def bit_ucast_iff bit_drop_bit_eq)
qed

lemma to_le_bytes_inject: "to_le_bytes v = to_le_bytes w \<longleftrightarrow> v = w"
proof
  assume eq: "to_le_bytes v = to_le_bytes w"
  show "v = w"
  proof (rule bit_word_eqI)
    fix n assume "n < LENGTH(64)"
    then have "n < 64" by simp
    then show "bit v n = bit w n" using bit_to_le_bytes [of n v] bit_to_le_bytes [of n w] eq by simp
  qed
qed simp

lemma keeps_new_uuid [keeps_rules]:
  "(\<And>s n. P s \<Longrightarrow> P (s\<lparr>uuids_drawn := n\<rparr>)) \<Longrightarrow> keeps P (new_uuid E)"
  by (simp add: keeps_def new_uuid_def)

lemma keeps_get_unix_timestamp [keeps_rules]:
  "(\<And>s n. P s \<Longrightarrow> P (s\<lparr>clock_reads := n\<rparr>)) \<Longrightarrow> keeps P (get_unix_timestamp E)"
  by (simp add: keeps_def get_unix_timestamp_def)

lemma keeps_get_file_name_from_path [keeps_rules]: "keeps P (get_file_name_from_path p)"
  unfolding get_file_name_from_path_def by (intro keeps_rules)

lemma fs_read_run:
  "reliable E \<Longrightarrow> map_of (files s) p = Some (File bs) \<Longrightarrow> fs_read E p s = (Ok bs, tick s)"
  by (simp add: fs_read_def io_defs external_reliable)

lemma keeps_fs_read [keeps_rules]:
  "(\<And>s n. P s \<Longrightarrow> P (s\<lparr>io_calls := n\<rparr>)) \<Longrightarrow> keeps P (fs_read E p)"
  unfolding fs_read_def
  by (intro keeps_rules) (auto simp: keeps_def split: option.splits fs_entry.splits)

lemma keeps_fs_write [keeps_rules]:
  assumes "\<And>s n. P s \<Longrightarrow> P (s\<lparr>io_calls := n\<rparr>)" "\<And>s f. P s \<Longrightarrow> P (s\<lparr>files := f\<rparr>)"
  shows "keeps P (fs_write E p bs)"
  by (auto simp: keeps_def fs_write_def external_def Let_def assms split: option.splits)

lemma f_eq_0: "f_eq a 0 \<longleftrightarrow> a = 0"
  by (auto simp: f_eq_def zero_f64_def)

lemma f_max_0_nonneg: "0 \<le> f_max a 0"
  by (cases a) (auto simp: f_max_def less_eq_f64_def zero_f64_def)

lemma f_max_0_not_nan: "f_max a 0 \<noteq> F_nan"
  by (auto simp: f_max_def zero_f64_def)

lemma f_max_0_mono: "a \<le> b \<Longrightarrow> f_max a 0 \<le> f_max b 0"
  using f64_le_trans [of a b 0] f64_le_linear [of a 0] f64_le_linear [of b 0] f64_le_not_nan [of a b]
  by (auto simp: f_max_def less_eq_f64_def zero_f64_def)

lemma f_abs_nonneg: "a \<noteq> F_nan \<Longrightarrow> 0 \<le> \<bar>a :: f64\<bar>"
  by (cases a) (auto simp: f64_ops_def)

text \<open>The scale factor of \<open>round\<close> is exact for every precision the type admits.\<close>

lemma pow10_precision: "f_of_int (sint ((10 :: i32) ^ 8)) = F_fin 100000000"
proof -
  have "sint ((10 :: i32) ^ 8) = 100000000" by simp
  moreover have "rnd 100000000 = F_fin 100000000" by code_simp
  ultimately show ?thesis by (simp add: f_of_int_def)
qed

lemma f64_mul_scale_mono:
  assumes "a \<le> b" "0 < x"
  shows "a * F_fin x \<le> b * F_fin x"
  using assms rnd_mono mult_right_mono [of _ _ x]
  by (cases a; cases b) (auto simp: f64_ops_def)

lemma f64_div_scale_mono:
  assumes "a \<le> b" "0 < x"
  shows "a / F_fin x \<le> b / F_fin x"
  using assms rnd_mono divide_right_mono [of _ _ x]
  by (cases a; cases b) (auto simp: f64_ops_def)

lemma round_f64_mono: "a \<le> b \<Longrightarrow> round_f64 a 8 \<le> round_f64 b 8"
  unfolding round_f64_def Let_def pow10_precision
  by (intro f64_div_scale_mono f_round_mono f64_mul_scale_mono) auto

lemma round_f64_nan: "round_f64 F_nan 8 = F_nan"
  by (simp add: round_f64_def f64_ops_def)

end
