(* ===== verification/Orca_DB.thy ===== *)
theory Orca_DB
  imports Orca_Utils
begin

text \<open>
  The SQLite layer: \<open>db/schema.rs\<close> (the rows and what they compute) and
  \<open>db/db_client.rs\<close> (one operation per statement), over the tables that
  \<open>assets/db_commands.yaml\<close> declares. A statement is first a call to the engine, which may
  fail; when it runs, it has the meaning SQL gives it: \<open>INSERT\<close> fails on a primary-key or
  \<open>UNIQUE\<close> clash, a NaN bound to a column is \<open>NULL\<close>, so a \<open>REAL NOT NULL\<close>
  column rejects it, and \<open>UPDATE\<close> and \<open>DELETE\<close> by primary key report the number of
  rows. An \<open>i32\<close> column is read back by its low 32 bits, so incrementing it is addition of
  32-bit words.

  The locale \<open>keyed_table\<close> states what a table promises to its clients; it is interpreted on
  the five tables, and the invariant \<open>db_inv\<close> is kept by every operation.
\<close>

section \<open>Rows (db/schema.rs)\<close>

definition ProvidedFileInfo_with_defaults ::
  "env \<Rightarrow> string \<Rightarrow> string \<Rightarrow> string \<Rightarrow> ProvidedFileInfo node_io" where
  "ProvidedFileInfo_with_defaults E file_id file_path file_name =
     io_bind (get_unix_timestamp E) (\<lambda>now. io_ret
       \<lparr>pf_file_id = file_id, pf_file_path = file_path, pf_file_name = file_name,
        pf_downloads_count = 0, pf_status = 1, pf_provide_start_timestamp = Some now\<rparr>)"

fun ProxySessionStatus_try_from :: "i32 \<Rightarrow> ProxySessionStatus option" where
  "ProxySessionStatus_try_from value =
     (if value = 0 then Some TerminatedByClient
      else if value = 1 then Some Active
      else if value = 2 then Some TerminatedByServer
      else None)"

definition ProxyClientInfo_with_defaults ::
  "env \<Rightarrow> string \<Rightarrow> string \<Rightarrow> string \<Rightarrow> ProxyClientInfo node_io" where
  "ProxyClientInfo_with_defaults E client_id auth_token client_peer_id =
     io_bind (get_unix_timestamp E) (\<lambda>now.
     io_bind get_proxy_fee_rate (\<lambda>rate. io_ret
       \<lparr>pc_client_id = client_id, pc_auth_token = auth_token, pc_start_timestamp = now,
        pc_data_transferred_kb = 0, pc_total_fee_received = 0,
        pc_total_fee_received_unconfirmed = 0, pc_fee_rate_per_kb = rate,
        pc_client_peer_id = client_peer_id, pc_status = 1\<rparr>))"

definition ProxyClientInfo_get_fee_owed :: "ProxyClientInfo \<Rightarrow> f64" where
  "ProxyClientInfo_get_fee_owed c =
     f_max (round_f64 (pc_data_transferred_kb c * pc_fee_rate_per_kb c - pc_total_fee_received c
                         - pc_total_fee_received_unconfirmed c) BTC_PRECISION) 0"

definition from_proxy_connect_response ::
  "env \<Rightarrow> string \<Rightarrow> string \<Rightarrow> string \<Rightarrow> HTTPProxyMetadata \<Rightarrow> ProxySessionInfo node_io" where
  "from_proxy_connect_response E peer_id client_id auth_token metadata =
     io_bind (new_uuid E) (\<lambda>sid.
     io_bind (get_unix_timestamp E) (\<lambda>now. io_ret
       \<lparr>ps_session_id = sid, ps_client_id = client_id, ps_auth_token = auth_token,
        ps_proxy_address = hm_proxy_address metadata, ps_start_timestamp = now,
        ps_end_timestamp = None, ps_data_transferred_kb = 0, ps_total_fee_sent = 0,
        ps_total_fee_sent_unconfirmed = 0, ps_fee_rate_per_kb = hm_fee_rate_per_kb metadata,
        ps_provider_peer_id = peer_id, ps_recipient_address = hm_recipient_address metadata,
        ps_status = 1\<rparr>))"

definition ProxySessionInfo_get_fee_owed :: "ProxySessionInfo \<Rightarrow> f64" where
  "ProxySessionInfo_get_fee_owed p =
     f_max (round_f64 (ps_data_transferred_kb p * ps_fee_rate_per_kb p - ps_total_fee_sent p
                         - ps_total_fee_sent_unconfirmed p) BTC_PRECISION) 0"

definition PaymentInfo_default :: PaymentInfo where
  "PaymentInfo_default =
     \<lparr>pay_payment_id = [], pay_tx_id = None, pay_from_address = None, pay_to_address = [],
      pay_expected_amount_btc = None, pay_amount_btc = None, pay_category = [], pay_status = [],
      pay_payment_reference = None, pay_from_peer = None, pay_to_peer = None\<rparr>"

section \<open>Connections and statements\<close>

definition create_sqlite_connection :: "env \<Rightarrow> string option \<Rightarrow> unit node_io" where
  "create_sqlite_connection E db_path =
     io_bind (case db_path of None \<Rightarrow> get_str_from_config DBPath | Some p \<Rightarrow> io_ret p) (\<lambda>_.
     io_expect ''Can't proceed without DB connection'' (external E (\<lambda>t. Diesel (EngineFault t))))"

definition run_sql :: "env \<Rightarrow> (node \<Rightarrow> query_error + 'a \<times> node) \<Rightarrow> 'a node_io" where
  "run_sql E stmt =
     io_bind (external E (\<lambda>t. Diesel (EngineFault t))) (\<lambda>_ s.
       case stmt s of Inl e \<Rightarrow> (Err (Diesel e), s) | Inr (a, s') \<Rightarrow> (Ok a, s'))"

text \<open>A NaN is stored as \<open>NULL\<close>: a nullable column then reads back as \<open>None\<close>.\<close>

definition sql_nullable :: "f64 option \<Rightarrow> f64 option" where
  "sql_nullable v = (if v = Some F_nan then None else v)"

section \<open>provided\_files\<close>

definition provided_file_clash :: "ProvidedFileInfo \<Rightarrow> ProvidedFileInfo \<Rightarrow> bool" where
  "provided_file_clash a b = (pf_file_id a = pf_file_id b \<or> pf_file_path a = pf_file_path b)"

definition insert_provided_file :: "env \<Rightarrow> ProvidedFileInfo \<Rightarrow> nat node_io" where
  "insert_provided_file E file_info = run_sql E (\<lambda>s.
     case sql_insert provided_file_clash file_info (provided_files s) of
       Inl e \<Rightarrow> Inl e
     | Inr rows \<Rightarrow> Inr (1, s\<lparr>provided_files := rows\<rparr>))"

definition remove_provided_file :: "env \<Rightarrow> string \<Rightarrow> nat node_io" where
  "remove_provided_file E target_file_id = run_sql E (\<lambda>s.
     let (n, rows) = sql_delete (\<lambda>r. pf_file_id r = target_file_id) (provided_files s)
     in Inr (n, s\<lparr>provided_files := rows\<rparr>))"

definition get_provided_file_info :: "env \<Rightarrow> string \<Rightarrow> ProvidedFileInfo node_io" where
  "get_provided_file_info E target_file_id = run_sql E (\<lambda>s.
     case sql_first (\<lambda>r. pf_file_id r = target_file_id) (provided_files s) of
       Inl e \<Rightarrow> Inl e | Inr r \<Rightarrow> Inr (r, s))"

definition get_provided_files :: "env \<Rightarrow> ProvidedFileInfo list node_io" where
  "get_provided_files E = run_sql E (\<lambda>s. Inr (provided_files s, s))"

definition increment_download_count :: "env \<Rightarrow> string \<Rightarrow> nat node_io" where
  "increment_download_count E target_file_id = run_sql E (\<lambda>s.
     let (n, rows) = sql_update (\<lambda>r. pf_file_id r = target_file_id)
                       (\<lambda>r. r\<lparr>pf_downloads_count := pf_downloads_count r + 1\<rparr>) (provided_files s)
     in Inr (n, s\<lparr>provided_files := rows\<rparr>))"

definition set_provided_file_status :: "env \<Rightarrow> string \<Rightarrow> bool \<Rightarrow> i64 option \<Rightarrow> nat node_io" where
  "set_provided_file_status E target_file_id status_val timestamp_val = run_sql E (\<lambda>s.
     let (n, rows) = sql_update (\<lambda>r. pf_file_id r = target_file_id)
                       (\<lambda>r. r\<lparr>pf_status := (if status_val then 1 else 0),
                             pf_provide_start_timestamp := timestamp_val\<rparr>) (provided_files s)
     in Inr (n, s\<lparr>provided_files := rows\<rparr>))"

section \<open>downloaded\_files\<close>

definition downloaded_file_clash :: "DownloadedFileInfo \<Rightarrow> DownloadedFileInfo \<Rightarrow> bool" where
  "downloaded_file_clash a b = (df_id a = df_id b)"

definition downloaded_file_reals_ok :: "DownloadedFileInfo \<Rightarrow> bool" where
  "downloaded_file_reals_ok d =
     (df_file_size_kb d \<noteq> F_nan \<and> df_fee_rate_per_kb d \<noteq> Some F_nan \<and> df_price d \<noteq> Some F_nan)"

definition insert_downloaded_file :: "env \<Rightarrow> DownloadedFileInfo \<Rightarrow> nat node_io" where
  "insert_downloaded_file E info = run_sql E (\<lambda>s.
     if df_file_size_kb info = F_nan then Inl NotNullViolation
     else case sql_insert downloaded_file_clash
                 (info\<lparr>df_fee_rate_per_kb := sql_nullable (df_fee_rate_per_kb info),
                       df_price := sql_nullable (df_price info)\<rparr>) (downloaded_files s) of
            Inl e \<Rightarrow> Inl e
          | Inr rows \<Rightarrow> Inr (1, s\<lparr>downloaded_files := rows\<rparr>))"

definition get_downloaded_file_info :: "env \<Rightarrow> string \<Rightarrow> DownloadedFileInfo list node_io" where
  "get_downloaded_file_info E target_file_id = run_sql E (\<lambda>s.
     Inr (filter (\<lambda>r. df_file_id r = target_file_id) (downloaded_files s), s))"

definition get_downloaded_files :: "env \<Rightarrow> DownloadedFileInfo list node_io" where
  "get_downloaded_files E = run_sql E (\<lambda>s. Inr (downloaded_files s, s))"

section \<open>proxy\_clients\<close>

definition proxy_client_clash :: "ProxyClientInfo \<Rightarrow> ProxyClientInfo \<Rightarrow> bool" where
  "proxy_client_clash a b = (pc_client_id a = pc_client_id b \<or> pc_auth_token a = pc_auth_token b)"

definition proxy_client_reals_ok :: "ProxyClientInfo \<Rightarrow> bool" where
  "proxy_client_reals_ok c =
     (pc_data_transferred_kb c \<noteq> F_nan \<and> pc_total_fee_received c \<noteq> F_nan \<and>
      pc_total_fee_received_unconfirmed c \<noteq> F_nan \<and> pc_fee_rate_per_kb c \<noteq> F_nan)"

definition get_client_by_auth_token :: "env \<Rightarrow> string \<Rightarrow> ProxyClientInfo node_io" where
  "get_client_by_auth_token E given_auth_token = run_sql E (\<lambda>s.
     case sql_first (\<lambda>r. pc_auth_token r = given_auth_token) (proxy_clients s) of
       Inl e \<Rightarrow> Inl e | Inr r \<Rightarrow> Inr (r, s))"

definition add_client :: "env \<Rightarrow> ProxyClientInfo \<Rightarrow> nat node_io" where
  "add_client E client_info = run_sql E (\<lambda>s.
     if \<not> proxy_client_reals_ok client_info then Inl NotNullViolation
     else case sql_insert proxy_client_clash client_info (proxy_clients s) of
            Inl e \<Rightarrow> Inl e
          | Inr rows \<Rightarrow> Inr (1, s\<lparr>proxy_clients := rows\<rparr>))"

definition get_all_clients :: "env \<Rightarrow> ProxyClientInfo list node_io" where
  "get_all_clients E = run_sql E (\<lambda>s. Inr (proxy_clients s, s))"

text \<open>\<open>UPDATE proxy_clients SET c = c + v WHERE client_id = k\<close>, for one of its real columns.\<close>

definition update_client_reals :: "env \<Rightarrow> string \<Rightarrow> (ProxyClientInfo \<Rightarrow> ProxyClientInfo) \<Rightarrow> nat node_io" where
  "update_client_reals E target_client_id f = run_sql E (\<lambda>s.
     let (n, rows) = sql_update (\<lambda>r. pc_client_id r = target_client_id) f (proxy_clients s)
     in if list_all proxy_client_reals_ok rows then Inr (n, s\<lparr>proxy_clients := rows\<rparr>)
        else Inl NotNullViolation)"

definition clients_update_data_transfer_info :: "env \<Rightarrow> string \<Rightarrow> f64 \<Rightarrow> nat node_io" where
  "clients_update_data_transfer_info E target_client_id transferred_kb =
     update_client_reals E target_client_id
       (\<lambda>r. r\<lparr>pc_data_transferred_kb := pc_data_transferred_kb r + transferred_kb\<rparr>)"

definition update_total_fee_received :: "env \<Rightarrow> string \<Rightarrow> f64 \<Rightarrow> nat node_io" where
  "update_total_fee_received E target_client_id amount =
     update_client_reals E target_client_id
       (\<lambda>r. r\<lparr>pc_total_fee_received := pc_total_fee_received r + amount\<rparr>)"

definition update_total_fee_received_unconfirmed :: "env \<Rightarrow> string \<Rightarrow> f64 \<Rightarrow> nat node_io" where
  "update_total_fee_received_unconfirmed E target_client_id amount =
     update_client_reals E target_client_id
       (\<lambda>r. r\<lparr>pc_total_fee_received_unconfirmed := pc_total_fee_received_unconfirmed r + amount\<rparr>)"

section \<open>proxy\_sessions\<close>

definition proxy_session_clash :: "ProxySessionInfo \<Rightarrow> ProxySessionInfo \<Rightarrow> bool" where
  "proxy_session_clash a b = (ps_session_id a = ps_session_id b)"

definition proxy_session_reals_ok :: "ProxySessionInfo \<Rightarrow> bool" where
  "proxy_session_reals_ok p =
     (ps_data_transferred_kb p \<noteq> F_nan \<and> ps_total_fee_sent p \<noteq> F_nan \<and>
      ps_total_fee_sent_unconfirmed p \<noteq> F_nan \<and> ps_fee_rate_per_kb p \<noteq> F_nan)"

definition get_session_info :: "env \<Rightarrow> string \<Rightarrow> ProxySessionInfo node_io" where
  "get_session_info E target_session_id = run_sql E (\<lambda>s.
     case sql_first (\<lambda>r. ps_session_id r = target_session_id) (proxy_sessions s) of
       Inl e \<Rightarrow> Inl e | Inr r \<Rightarrow> Inr (r, s))"

definition insert_session_info :: "env \<Rightarrow> ProxySessionInfo \<Rightarrow> nat node_io" where
  "insert_session_info E session_info = run_sql E (\<lambda>s.
     if \<not> proxy_session_reals_ok session_info then Inl NotNullViolation
     else case sql_insert proxy_session_clash session_info (proxy_sessions s) of
            Inl e \<Rightarrow> Inl e
          | Inr rows \<Rightarrow> Inr (1, s\<lparr>proxy_sessions := rows\<rparr>))"

definition update_session_reals :: "env \<Rightarrow> string \<Rightarrow> (ProxySessionInfo \<Rightarrow> ProxySessionInfo) \<Rightarrow> nat node_io" where
  "update_session_reals E target_session_id f = run_sql E (\<lambda>s.
     let (n, rows) = sql_update (\<lambda>r. ps_session_id r = target_session_id) f (proxy_sessions s)
     in if list_all proxy_session_reals_ok rows then Inr (n, s\<lparr>proxy_sessions := rows\<rparr>)
        else Inl NotNullViolation)"

definition sessions_update_data_transfer_info :: "env \<Rightarrow> string \<Rightarrow> f64 \<Rightarrow> nat node_io" where
  "sessions_update_data_transfer_info E target_session_id transferred_kb =
     update_session_reals E target_session_id
       (\<lambda>r. r\<lparr>ps_data_transferred_kb := ps_data_transferred_kb r + transferred_kb\<rparr>)"

definition update_total_fee_sent_unconfirmed :: "env \<Rightarrow> string \<Rightarrow> f64 \<Rightarrow> nat node_io" where
  "update_total_fee_sent_unconfirmed E target_session_id amount =
     update_session_reals E target_session_id
       (\<lambda>r. r\<lparr>ps_total_fee_sent_unconfirmed := ps_total_fee_sent_unconfirmed r + amount\<rparr>)"

section \<open>payments\<close>

definition payment_clash :: "PaymentInfo \<Rightarrow> PaymentInfo \<Rightarrow> bool" where
  "payment_clash a b = (pay_payment_id a = pay_payment_id b)"

definition payment_reals_ok :: "PaymentInfo \<Rightarrow> bool" where
  "payment_reals_ok r = (pay_expected_amount_btc r \<noteq> Some F_nan \<and> pay_amount_btc r \<noteq> Some F_nan)"

definition get_payment_info :: "env \<Rightarrow> string \<Rightarrow> PaymentInfo node_io" where
  "get_payment_info E target_payment_id = run_sql E (\<lambda>s.
     case sql_first (\<lambda>r. pay_payment_id r = target_payment_id) (payments s) of
       Inl e \<Rightarrow> Inl e | Inr r \<Rightarrow> Inr (r, s))"

definition insert_payment_info :: "env \<Rightarrow> PaymentInfo \<Rightarrow> nat node_io" where
  "insert_payment_info E payment_info = run_sql E (\<lambda>s.
     case sql_insert payment_clash
            (payment_info\<lparr>pay_expected_amount_btc := sql_nullable (pay_expected_amount_btc payment_info),
                          pay_amount_btc := sql_nullable (pay_amount_btc payment_info)\<rparr>) (payments s) of
       Inl e \<Rightarrow> Inl e
     | Inr rows \<Rightarrow> Inr (1, s\<lparr>payments := rows\<rparr>))"

definition filter_by_status :: "env \<Rightarrow> string \<Rightarrow> PaymentInfo list node_io" where
  "filter_by_status E target_status = run_sql E (\<lambda>s.
     Inr (filter (\<lambda>r. pay_status r = target_status) (payments s), s))"

text \<open>
  \<open>AsChangeset\<close>: a field that is \<open>None\<close> is left out of the \<open>SET\<close> clause, every
  other field is assigned.
\<close>

definition keep_if_none :: "'a option \<Rightarrow> 'a option \<Rightarrow> 'a option" where
  "keep_if_none new old = (case new of None \<Rightarrow> old | Some _ \<Rightarrow> new)"

definition payment_changeset :: "PaymentInfo \<Rightarrow> PaymentInfo \<Rightarrow> PaymentInfo" where
  "payment_changeset c r =
     \<lparr>pay_payment_id = pay_payment_id c,
      pay_tx_id = keep_if_none (pay_tx_id c) (pay_tx_id r),
      pay_from_address = keep_if_none (pay_from_address c) (pay_from_address r),
      pay_to_address = pay_to_address c,
      pay_expected_amount_btc =
        sql_nullable (keep_if_none (pay_expected_amount_btc c) (pay_expected_amount_btc r)),
      pay_amount_btc = sql_nullable (keep_if_none (pay_amount_btc c) (pay_amount_btc r)),
      pay_category = pay_category c,
      pay_status = pay_status c,
      pay_payment_reference = keep_if_none (pay_payment_reference c) (pay_payment_reference r),
      pay_from_peer = keep_if_none (pay_from_peer c) (pay_from_peer r),
      pay_to_peer = keep_if_none (pay_to_peer c) (pay_to_peer r)\<rparr>"

definition update_payment_info :: "env \<Rightarrow> PaymentInfo \<Rightarrow> nat node_io" where
  "update_payment_info E payment_info = run_sql E (\<lambda>s.
     let (n, rows) = sql_update (\<lambda>r. pay_payment_id r = pay_payment_id payment_info)
                       (payment_changeset payment_info) (payments s)
     in Inr (n, s\<lparr>payments := rows\<rparr>))"

section \<open>The invariant of the database\<close>

text \<open>
  Keys and unique columns are distinct and no real column holds a NaN.
\<close>

definition db_inv :: "node \<Rightarrow> bool" where
  "db_inv s =
     (distinct (map pf_file_id (provided_files s)) \<and>
      distinct (map pf_file_path (provided_files s)) \<and>
      distinct (map df_id (downloaded_files s)) \<and>
      distinct (map pc_client_id (proxy_clients s)) \<and>
      distinct (map pc_auth_token (proxy_clients s)) \<and>
      distinct (map ps_session_id (proxy_sessions s)) \<and>
      distinct (map pay_payment_id (payments s)) \<and>
      list_all proxy_client_reals_ok (proxy_clients s) \<and>
      list_all proxy_session_reals_ok (proxy_sessions s) \<and>
      list_all downloaded_file_reals_ok (downloaded_files s) \<and>
      list_all payment_reals_ok (payments s))"

section \<open>What a table promises\<close>

text \<open>
  A table with a key: every clash relation that the schema declares contains equality of the
  key. The laws are the ones a client of the statements relies on.
\<close>

locale keyed_table =
  fixes key :: "'r \<Rightarrow> 'k"
    and clash :: "'r \<Rightarrow> 'r \<Rightarrow> bool"
  assumes clash_key: "key a = key b \<Longrightarrow> clash a b"
begin

lemma insert_Inr:
  "sql_insert clash r rows = Inr rows' \<Longrightarrow> rows' = rows @ [r] \<and> key r \<notin> key ` set rows"
  using clash_key by (auto simp: sql_insert_def split: if_splits)

lemma insert_distinct:
  "distinct (map key rows) \<Longrightarrow> sql_insert clash r rows = Inr rows' \<Longrightarrow> distinct (map key rows')"
  by (auto dest: insert_Inr)

lemma insert_first:
  "sql_insert clash r rows = Inr rows' \<Longrightarrow>
   sql_first (\<lambda>x. key x = k) rows' = (if k = key r then Inr r else sql_first (\<lambda>x. key x = k) rows)"
proof -
  assume "sql_insert clash r rows = Inr rows'"
  from insert_Inr [OF this] have eq: "rows' = rows @ [r]" and new: "key r \<notin> key ` set rows" by auto
  then have "List.find (\<lambda>x. key x = key r) rows = None" by (simp add: find_None_key)
  with eq show ?thesis by (auto simp: sql_first_def find_append split: option.splits)
qed

lemma update_distinct:
  assumes "\<And>r. P r \<Longrightarrow> key (f r) = key r" "distinct (map key rows)"
    and "sql_update P f rows = (n, rows')"
  shows "distinct (map key rows')"
proof -
  have "map key rows' = map key rows" using assms(1,3) by (auto simp: sql_update_def)
  with assms(2) show ?thesis by simp
qed

lemma update_count:
  "distinct (map key rows) \<Longrightarrow>
   fst (sql_update (\<lambda>r. key r = k) f rows) = (if k \<in> key ` set rows then 1 else 0)"
  by (simp add: sql_update_def length_filter_key)

lemma update_first:
  assumes "\<And>r. key (f r) = key r"
  shows "sql_first (\<lambda>x. key x = k') (snd (sql_update (\<lambda>r. key r = k) f rows)) =
    (case sql_first (\<lambda>x. key x = k') rows of
       Inl e \<Rightarrow> Inl e | Inr r \<Rightarrow> Inr (if k' = k then f r else r))"
  using assms
  by (auto simp: sql_first_def sql_update_def find_map_key split: option.splits dest: find_Some_in)

lemma update_unique:
  assumes "distinct (map key rows)" "r \<in> set rows" "g r = f r"
  shows "sql_update (\<lambda>x. key x = key r) g rows = (1, at_key key (key r) f rows)"
proof -
  have "length (filter (\<lambda>x. key x = key r) rows) = 1" using length_filter_key [OF assms(1)] assms(2) by auto
  then show ?thesis
    using distinct_key_eq [OF assms(1) _ assms(2)] assms(3)
    by (auto simp: sql_update_def at_key_def intro!: map_cong)
qed

lemma delete_distinct:
  "distinct (map key rows) \<Longrightarrow> distinct (map key (snd (sql_delete P rows)))"
  by (auto simp: sql_delete_def distinct_map_filter)

lemma delete_first:
  "sql_first (\<lambda>x. key x = k') (snd (sql_delete (\<lambda>r. key r = k) rows)) =
   (if k' = k then Inl NotFound else sql_first (\<lambda>x. key x = k') rows)"
  by (simp add: sql_first_def sql_delete_def find_filter_key)

lemma first_member:
  "distinct (map key rows) \<Longrightarrow> r \<in> set rows \<Longrightarrow> sql_first (\<lambda>x. key x = key r) rows = Inr r"
  by (simp add: sql_first_def find_Some_iff_unique)

end

interpretation pf_table: keyed_table pf_file_id provided_file_clash
  by unfold_locales (simp add: provided_file_clash_def)

interpretation pf_paths: keyed_table pf_file_path provided_file_clash
  by unfold_locales (simp add: provided_file_clash_def)

interpretation df_table: keyed_table df_id downloaded_file_clash
  by unfold_locales (simp add: downloaded_file_clash_def)

interpretation pc_table: keyed_table pc_client_id proxy_client_clash
  by unfold_locales (simp add: proxy_client_clash_def)

interpretation pc_tokens: keyed_table pc_auth_token proxy_client_clash
  by unfold_locales (simp add: proxy_client_clash_def)

interpretation ps_table: keyed_table ps_session_id proxy_session_clash
  by unfold_locales (simp add: proxy_session_clash_def)

interpretation pay_table: keyed_table pay_payment_id payment_clash
  by unfold_locales (simp add: payment_clash_def)

section \<open>What a lookup promises\<close>

lemma run_sql_reliable:
  "reliable E \<Longrightarrow> run_sql E stmt s =
     (case stmt (tick s) of Inl e \<Rightarrow> (Err (Diesel e), tick s) | Inr (a, s') \<Rightarrow> (Ok a, s'))"
  by (simp add: run_sql_def io_defs external_reliable)

lemma run_sql_fault:
  "io_fault E (io_calls s) = Some t \<Longrightarrow> run_sql E stmt s = (Err (Diesel (EngineFault t)), tick s)"
  by (simp add: run_sql_def io_defs external_def)

lemma run_sql_keeps:
  assumes "\<And>s n. P s \<Longrightarrow> P (s\<lparr>io_calls := n\<rparr>)"
    and "\<And>s a s'. P s \<Longrightarrow> stmt s = Inr (a, s') \<Longrightarrow> P s'"
  shows "keeps P (run_sql E stmt)"
  unfolding run_sql_def
proof (intro keeps_rules assms(1), assumption)
  show "keeps P (\<lambda>s. case stmt s of Inl e \<Rightarrow> (Err (Diesel e), s) | Inr (a, s') \<Rightarrow> (Ok a, s'))"
    using assms(2) by (auto simp: keeps_def split: sum.splits)
qed

text \<open>
  A lookup by key: it never changes the data, finds the row with the key when the engine runs
  the statement, and otherwise is the error that the callers treat as absence.
\<close>

locale row_lookup =
  fixes rows :: "node \<Rightarrow> 'r list"
    and key :: "'r \<Rightarrow> string"
    and get :: "env \<Rightarrow> string \<Rightarrow> 'r node_io"
  assumes get_run: "get E k = run_sql E (\<lambda>s. case sql_first (\<lambda>r. key r = k) (rows s) of
      Inl e \<Rightarrow> Inl e | Inr r \<Rightarrow> Inr (r, s))"
    and rows_tick: "rows (s\<lparr>io_calls := n\<rparr>) = rows s"
begin

lemma get_state: "snd (get E k s) = tick s"
  by (auto simp: get_run run_sql_def io_defs external_def Let_def split: option.splits sum.splits)

lemma get_Ok: "get E k s = (Ok r, s') \<Longrightarrow> r \<in> set (rows s) \<and> key r = k \<and> s' = tick s"
  by (auto simp: get_run run_sql_def io_defs external_def Let_def sql_first_def rows_tick
      split: option.splits sum.splits dest: find_Some_in)

lemma get_found:
  assumes "reliable E" "distinct (map key (rows s))" "r \<in> set (rows s)" "key r = k"
  shows "get E k s = (Ok r, tick s)"
  using assms(1) find_Some_iff_unique [OF assms(2,3)] assms(4)
  by (simp add: get_run run_sql_reliable sql_first_def rows_tick)

lemma get_missing:
  assumes "reliable E" "k \<notin> key ` set (rows s)"
  shows "get E k s = (Err (Diesel NotFound), tick s)"
proof -
  have "List.find (\<lambda>r. key r = k) (rows s) = None" using assms(2) by (simp add: find_None_key)
  then show ?thesis using assms(1) by (simp add: get_run run_sql_reliable sql_first_def rows_tick)
qed

lemma get_cases: "\<exists>r. get E k s = (Ok r, tick s) \<or> (\<exists>e. get E k s = (Err e, tick s))"
  by (auto simp: get_run run_sql_def io_defs external_def Let_def split: option.splits sum.splits)

lemma get_keeps: "(\<And>s n. P s \<Longrightarrow> P (s\<lparr>io_calls := n\<rparr>)) \<Longrightarrow> keeps P (get E k)"
  by (rule keepsI) (simp add: get_state)

end

interpretation pf_get: row_lookup provided_files pf_file_id get_provided_file_info
  by unfold_locales (simp_all add: get_provided_file_info_def)

interpretation pc_get: row_lookup proxy_clients pc_auth_token get_client_by_auth_token
  by unfold_locales (simp_all add: get_client_by_auth_token_def)

interpretation ps_get: row_lookup proxy_sessions ps_session_id get_session_info
  by unfold_locales (simp_all add: get_session_info_def)

interpretation pay_get: row_lookup payments pay_payment_id get_payment_info
  by unfold_locales (simp_all add: get_payment_info_def)

section \<open>Every operation keeps the invariant\<close>

lemma db_inv_frame [simp]:
  "db_inv (s\<lparr>io_calls := n\<rparr>) = db_inv s" "db_inv (s\<lparr>uuids_drawn := n\<rparr>) = db_inv s"
  "db_inv (s\<lparr>clock_reads := n\<rparr>) = db_inv s" "db_inv (s\<lparr>channels := n\<rparr>) = db_inv s"
  "db_inv (s\<lparr>config := c\<rparr>) = db_inv s" "db_inv (s\<lparr>files := f\<rparr>) = db_inv s"
  "db_inv (s\<lparr>commands := cs\<rparr>) = db_inv s" "db_inv (s\<lparr>transfers := ts\<rparr>) = db_inv s"
  "db_inv (s\<lparr>blocks_requested := bs\<rparr>) = db_inv s" "db_inv (s\<lparr>stream_replies := rs\<rparr>) = db_inv s"
  "db_inv (s\<lparr>proxy_event_sender := p\<rparr>) = db_inv s" "db_inv (s\<lparr>proxies_spawned := ps\<rparr>) = db_inv s"
  "db_inv (s\<lparr>proxy_events := es\<rparr>) = db_inv s"
  by (simp_all add: db_inv_def)

lemma keeps_create_sqlite_connection [keeps_rules]:
  "(\<And>s n. P s \<Longrightarrow> P (s\<lparr>io_calls := n\<rparr>)) \<Longrightarrow> keeps P (create_sqlite_connection E p)"
  unfolding create_sqlite_connection_def by (intro keeps_rules)

lemma keeps_row_constructors [keeps_rules]:
  assumes "\<And>s n. P s \<Longrightarrow> P (s\<lparr>uuids_drawn := n\<rparr>)" "\<And>s n. P s \<Longrightarrow> P (s\<lparr>clock_reads := n\<rparr>)"
  shows "keeps P (ProvidedFileInfo_with_defaults E a b c)"
    "keeps P (ProxyClientInfo_with_defaults E a b c)"
    "keeps P (from_proxy_connect_response E a b c m)"
  unfolding ProvidedFileInfo_with_defaults_def ProxyClientInfo_with_defaults_def
    from_proxy_connect_response_def
  using assms by (intro keeps_rules; simp)+

lemma db_inv_gets [keeps_rules]:
  "keeps db_inv (get_provided_file_info E k)" "keeps db_inv (get_client_by_auth_token E k)"
  "keeps db_inv (get_session_info E k)" "keeps db_inv (get_payment_info E k)"
  by (rule pf_get.get_keeps pc_get.get_keeps ps_get.get_keeps pay_get.get_keeps, simp)+

lemma db_inv_loads [keeps_rules]:
  "keeps db_inv (get_provided_files E)" "keeps db_inv (get_downloaded_file_info E k)"
  "keeps db_inv (get_downloaded_files E)" "keeps db_inv (get_all_clients E)"
  "keeps db_inv (filter_by_status E st)"
  unfolding get_provided_files_def get_downloaded_file_info_def get_downloaded_files_def
    get_all_clients_def filter_by_status_def
  by (rule run_sql_keeps; simp)+

lemma db_inv_insert_provided_file [keeps_rules]: "keeps db_inv (insert_provided_file E r)"
  unfolding insert_provided_file_def
  by (rule run_sql_keeps)
    (auto simp: db_inv_def split: sum.splits dest: pf_table.insert_distinct pf_paths.insert_distinct)

lemma db_inv_remove_provided_file [keeps_rules]: "keeps db_inv (remove_provided_file E k)"
  unfolding remove_provided_file_def
  by (rule run_sql_keeps)
    (auto simp: db_inv_def sql_delete_def distinct_map_filter)

lemma db_inv_increment_download_count [keeps_rules]: "keeps db_inv (increment_download_count E k)"
  unfolding increment_download_count_def
  by (rule run_sql_keeps) (auto simp: db_inv_def sql_update_def comp_def if_distrib cong: if_cong)

lemma db_inv_set_provided_file_status [keeps_rules]:
  "keeps db_inv (set_provided_file_status E k b t)"
  unfolding set_provided_file_status_def
  by (rule run_sql_keeps) (auto simp: db_inv_def sql_update_def comp_def if_distrib cong: if_cong)

lemma sql_insert_list_all:
  "sql_insert clash r rows = Inr rows' \<Longrightarrow> list_all Q rows' \<longleftrightarrow> list_all Q rows \<and> Q r"
  by (auto simp: sql_insert_def split: if_splits)

lemma db_inv_insert_downloaded_file [keeps_rules]: "keeps db_inv (insert_downloaded_file E r)"
  unfolding insert_downloaded_file_def
  by (rule run_sql_keeps)
    (auto simp: db_inv_def sql_insert_list_all downloaded_file_reals_ok_def sql_nullable_def
      split: sum.splits if_splits dest: df_table.insert_distinct)

lemma db_inv_add_client [keeps_rules]: "keeps db_inv (add_client E r)"
  unfolding add_client_def
  by (rule run_sql_keeps)
    (auto simp: db_inv_def sql_insert_list_all split: sum.splits if_splits
      dest: pc_table.insert_distinct pc_tokens.insert_distinct)

lemma db_inv_insert_session_info [keeps_rules]: "keeps db_inv (insert_session_info E r)"
  unfolding insert_session_info_def
  by (rule run_sql_keeps)
    (auto simp: db_inv_def sql_insert_list_all split: sum.splits if_splits
      dest: ps_table.insert_distinct)

lemma db_inv_update_client_reals [keeps_rules]:
  assumes "\<And>r. pc_client_id (f r) = pc_client_id r" "\<And>r. pc_auth_token (f r) = pc_auth_token r"
  shows "keeps db_inv (update_client_reals E k f)"
  unfolding update_client_reals_def
  by (rule run_sql_keeps)
    (auto simp: db_inv_def sql_update_def comp_def if_distrib assms Let_def split: if_splits cong: if_cong)

lemma db_inv_update_session_reals [keeps_rules]:
  assumes "\<And>r. ps_session_id (f r) = ps_session_id r"
  shows "keeps db_inv (update_session_reals E k f)"
  unfolding update_session_reals_def
  by (rule run_sql_keeps)
    (auto simp: db_inv_def sql_update_def comp_def if_distrib assms Let_def split: if_splits cong: if_cong)

lemma db_inv_real_updates [keeps_rules]:
  "keeps db_inv (clients_update_data_transfer_info E k x)"
  "keeps db_inv (update_total_fee_received E k x)"
  "keeps db_inv (update_total_fee_received_unconfirmed E k x)"
  "keeps db_inv (sessions_update_data_transfer_info E k x)"
  "keeps db_inv (update_total_fee_sent_unconfirmed E k x)"
  unfolding clients_update_data_transfer_info_def update_total_fee_received_def
    update_total_fee_received_unconfirmed_def sessions_update_data_transfer_info_def
    update_total_fee_sent_unconfirmed_def
  by (intro keeps_rules; simp)+

lemma sql_nullable_not_nan [simp]: "sql_nullable v \<noteq> Some F_nan"
  by (simp add: sql_nullable_def)

lemma db_inv_insert_payment_info [keeps_rules]: "keeps db_inv (insert_payment_info E r)"
  unfolding insert_payment_info_def
  by (rule run_sql_keeps)
    (auto simp: db_inv_def sql_insert_list_all payment_reals_ok_def
      split: sum.splits dest: pay_table.insert_distinct)

lemma payment_changeset_reals_ok: "payment_reals_ok (payment_changeset c r)"
  by (simp add: payment_reals_ok_def payment_changeset_def)

lemma db_inv_update_payment_info [keeps_rules]: "keeps db_inv (update_payment_info E r)"
  unfolding update_payment_info_def
proof (rule run_sql_keeps)
  fix s a s'
  assume inv: "db_inv s" and run: "(let (n, rows) = sql_update (\<lambda>x. pay_payment_id x = pay_payment_id r)
      (payment_changeset r) (payments s) in Inr (n, s\<lparr>payments := rows\<rparr>)) = Inr (a, s')"
  obtain n rows where upd: "sql_update (\<lambda>x. pay_payment_id x = pay_payment_id r)
      (payment_changeset r) (payments s) = (n, rows)" by fastforce
  have "distinct (map pay_payment_id rows)"
    using inv by (intro pay_table.update_distinct [OF _ _ upd]) (auto simp: payment_changeset_def db_inv_def)
  moreover have "list_all payment_reals_ok rows"
    using upd inv by (auto simp: sql_update_def list_all_iff payment_changeset_reals_ok db_inv_def)
  ultimately show "db_inv s'" using run upd inv by (auto simp: db_inv_def)
qed simp

section \<open>The statements on a working engine\<close>

lemma create_sqlite_connection_run:
  "reliable E \<Longrightarrow> cfg s DBPath = Some (JStr p) \<Longrightarrow> create_sqlite_connection E None s = (Ok (), tick s)"
  by (simp add: create_sqlite_connection_def io_defs get_str_from_config_Some external_reliable)

lemma get_client_run:
  "reliable E \<Longrightarrow> db_inv s \<Longrightarrow> c \<in> set (proxy_clients s) \<Longrightarrow>
   get_client_by_auth_token E (pc_auth_token c) s = (Ok c, tick s)"
  by (rule pc_get.get_found) (auto simp: db_inv_def)

lemma get_payment_run:
  "reliable E \<Longrightarrow> db_inv s \<Longrightarrow> r \<in> set (payments s) \<Longrightarrow>
   get_payment_info E (pay_payment_id r) s = (Ok r, tick s)"
  by (rule pay_get.get_found) (auto simp: db_inv_def)

lemma get_provided_file_run:
  "reliable E \<Longrightarrow> db_inv s \<Longrightarrow> r \<in> set (provided_files s) \<Longrightarrow>
   get_provided_file_info E (pf_file_id r) s = (Ok r, tick s)"
  by (rule pf_get.get_found) (auto simp: db_inv_def)

lemma get_session_run:
  "reliable E \<Longrightarrow> db_inv s \<Longrightarrow> r \<in> set (proxy_sessions s) \<Longrightarrow>
   get_session_info E (ps_session_id r) s = (Ok r, tick s)"
  by (rule ps_get.get_found) (auto simp: db_inv_def)

lemma insert_payment_info_run:
  assumes "reliable E" "pay_payment_id r \<notin> pay_payment_id ` set (payments s)" "payment_reals_ok r"
  shows "insert_payment_info E r s = (Ok 1, (tick s)\<lparr>payments := payments s @ [r]\<rparr>)"
proof -
  have "r\<lparr>pay_expected_amount_btc := sql_nullable (pay_expected_amount_btc r),
          pay_amount_btc := sql_nullable (pay_amount_btc r)\<rparr> = r"
    using assms(3) by (simp add: sql_nullable_def payment_reals_ok_def)
  then show ?thesis using assms(1,2)
    by (auto simp: insert_payment_info_def run_sql_reliable sql_insert_def payment_clash_def)
qed

text \<open>
  Writing back a row that was read and changed only in columns that are not \<open>NULL\<close> assigns
  exactly the changed row.
\<close>

lemma payment_changeset_same:
  assumes "payment_reals_ok r" "pay_payment_id c = pay_payment_id r"
    "pay_expected_amount_btc c = pay_expected_amount_btc r" "pay_amount_btc c = pay_amount_btc r"
    "pay_payment_reference c = pay_payment_reference r" "pay_from_peer c = pay_from_peer r"
    "pay_to_peer c = pay_to_peer r" "pay_tx_id c \<noteq> None" "pay_from_address c \<noteq> None"
  shows "payment_changeset c r = c"
  using assms
  by (auto simp: payment_changeset_def keep_if_none_def sql_nullable_def payment_reals_ok_def
      split: option.splits)

lemma add_client_run:
  assumes "reliable E" "proxy_client_reals_ok c"
    and "pc_client_id c \<notin> pc_client_id ` set (proxy_clients s)"
    and "pc_auth_token c \<notin> pc_auth_token ` set (proxy_clients s)"
  shows "add_client E c s = (Ok 1, (tick s)\<lparr>proxy_clients := proxy_clients s @ [c]\<rparr>)"
  using assms by (auto simp: add_client_def run_sql_reliable sql_insert_def proxy_client_clash_def)

lemma update_payment_info_run:
  assumes "reliable E" "db_inv s" "r \<in> set (payments s)"
    and "pay_payment_id (f r) = pay_payment_id r" "payment_changeset (f r) r = f r"
  shows "update_payment_info E (f r) s =
    (Ok 1, (tick s)\<lparr>payments := at_key pay_payment_id (pay_payment_id r) f (payments s)\<rparr>)"
  using assms pay_table.update_unique [of "payments s" r "payment_changeset (f r)" f]
  by (simp add: update_payment_info_def run_sql_reliable db_inv_def)

lemma update_client_reals_run:
  assumes "reliable E" "db_inv s" "c \<in> set (proxy_clients s)" "proxy_client_reals_ok (f c)"
  shows "update_client_reals E (pc_client_id c) f s =
    (Ok 1, (tick s)\<lparr>proxy_clients := at_key pc_client_id (pc_client_id c) f (proxy_clients s)\<rparr>)"
proof -
  have d: "distinct (map pc_client_id (proxy_clients s))" using assms(2) by (simp add: db_inv_def)
  moreover have "list_all proxy_client_reals_ok (at_key pc_client_id (pc_client_id c) f (proxy_clients s))"
    using assms(2-4) distinct_key_eq [OF d _ assms(3)] by (auto simp: at_key_def list_all_iff db_inv_def)
  ultimately show ?thesis
    using assms(1,3) pc_table.update_unique [of "proxy_clients s" c f f]
    by (simp add: update_client_reals_def run_sql_reliable)
qed

lemma update_client_reals_nan:
  assumes "reliable E" "c \<in> set (proxy_clients s)" "\<not> proxy_client_reals_ok (f c)"
  shows "update_client_reals E (pc_client_id c) f s = (Err (Diesel NotNullViolation), tick s)"
proof -
  have "\<not> list_all proxy_client_reals_ok
      (map (\<lambda>x. if pc_client_id x = pc_client_id c then f x else x) (proxy_clients s))"
    using assms(2,3) by (auto simp: list_all_iff)
  then show ?thesis using assms(1) by (simp add: update_client_reals_def run_sql_reliable sql_update_def)
qed

lemma update_session_reals_run:
  assumes "reliable E" "db_inv s" "p \<in> set (proxy_sessions s)" "proxy_session_reals_ok (f p)"
  shows "update_session_reals E (ps_session_id p) f s =
    (Ok 1, (tick s)\<lparr>proxy_sessions := at_key ps_session_id (ps_session_id p) f (proxy_sessions s)\<rparr>)"
proof -
  have d: "distinct (map ps_session_id (proxy_sessions s))" using assms(2) by (simp add: db_inv_def)
  moreover have "list_all proxy_session_reals_ok (at_key ps_session_id (ps_session_id p) f (proxy_sessions s))"
    using assms(2-4) distinct_key_eq [OF d _ assms(3)] by (auto simp: at_key_def list_all_iff db_inv_def)
  ultimately show ?thesis
    using assms(1,3) ps_table.update_unique [of "proxy_sessions s" p f f]
    by (simp add: update_session_reals_def run_sql_reliable)
qed

lemma increment_download_count_run:
  assumes "reliable E" "db_inv s" "r \<in> set (provided_files s)"
  shows "increment_download_count E (pf_file_id r) s =
    (Ok 1, (tick s)\<lparr>provided_files := at_key pf_file_id (pf_file_id r)
        (\<lambda>x. x\<lparr>pf_downloads_count := pf_downloads_count x + 1\<rparr>) (provided_files s)\<rparr>)"
  using assms pf_table.update_unique [of "provided_files s" r]
  by (simp add: increment_download_count_def run_sql_reliable db_inv_def)

text \<open>The fee a party computes is a number, at least zero.\<close>

lemma fee_owed_not_nan [simp]:
  "ProxyClientInfo_get_fee_owed c \<noteq> F_nan" "ProxySessionInfo_get_fee_owed p \<noteq> F_nan"
  by (simp_all add: ProxyClientInfo_get_fee_owed_def ProxySessionInfo_get_fee_owed_def f_max_0_not_nan)

end
