(* ===== verification/Orca_Btc.thy ===== *)
theory Orca_Btc
  imports Orca_DB
begin

text \<open>
  The wallet calls of \<open>common/btc_rpc.rs\<close>. Parsing an address, converting an amount and the
  daemon's answers are the libraries' and the daemon's; the model records which transfers and
  blocks the daemon was asked for, and when.
\<close>

text \<open>\<open>str::contains\<close>.\<close>

fun contains :: "string \<Rightarrow> string \<Rightarrow> bool" where
  "contains [] p = (p = [])"
| "contains (c # cs) p = (starts_with (c # cs) p \<or> contains cs p)"

definition send_to_address ::
  "env \<Rightarrow> BTCNetwork \<Rightarrow> string \<Rightarrow> f64 \<Rightarrow> string option \<Rightarrow> string node_io" where
  "send_to_address E network address_string btc_amount comment =
     (if \<not> valid_btc_address E address_string then io_fail (Rpc ''address'')
      else case amount_from_btc E btc_amount of
        None \<Rightarrow> io_fail (Msg ''amount'')
      | Some amount \<Rightarrow>
          io_bind (external E Rpc) (\<lambda>_ s.
            (Ok (send_txid E (length (transfers s))),
             s\<lparr>transfers := transfers s @ [(network, address_string, amount, comment)]\<rparr>)))"

definition load_wallet :: "env \<Rightarrow> string \<Rightarrow> unit node_io" where
  "load_wallet E wallet =
     io_bind (io_attempt (external E Rpc)) (\<lambda>r.
       case r of
         Inr _ \<Rightarrow> io_ret ()
       | Inl err \<Rightarrow> if contains (error_text E err) ''already loaded'' then io_ret () else io_fail err)"

definition generate_to_address :: "env \<Rightarrow> string \<Rightarrow> string node_io" where
  "generate_to_address E address_string =
     (if \<not> valid_btc_address E address_string then io_fail (Rpc ''address'')
      else
        io_bind (external E Rpc) (\<lambda>_ s.
          let s' = s\<lparr>blocks_requested := blocks_requested s @ [address_string]\<rparr> in
          case mined_blocks E (length (blocks_requested s)) of
            [] \<Rightarrow> (Panic ''index out of bounds'', s')
          | h # _ \<Rightarrow> (Ok h, s')))"

text \<open>The two calls that print what the daemon answers.\<close>

definition check_block_count :: "env \<Rightarrow> unit node_io" where
  "check_block_count E = io_expect ''Failed to get block count'' (external E Rpc)"

definition check_balance :: "env \<Rightarrow> unit node_io" where
  "check_balance E = io_expect ''Failed to get balance'' (external E Rpc)"

lemma keeps_wallet [keeps_rules]:
  assumes "\<And>s n. P s \<Longrightarrow> P (s\<lparr>io_calls := n\<rparr>)" "\<And>s t. P s \<Longrightarrow> P (s\<lparr>transfers := t\<rparr>)"
    and "\<And>s t. P s \<Longrightarrow> P (s\<lparr>blocks_requested := t\<rparr>)"
  shows "keeps P (send_to_address E network a x c)" "keeps P (generate_to_address E a)"
    "keeps P (load_wallet E w)"
proof -
  show "keeps P (send_to_address E network a x c)"
    unfolding send_to_address_def using assms
    by (intro keeps_rules; simp add: keeps_def)
  show "keeps P (generate_to_address E a)"
    unfolding generate_to_address_def using assms
    by (intro keeps_rules) (auto simp: keeps_def Let_def split: list.splits)
  show "keeps P (load_wallet E w)"
    unfolding load_wallet_def using assms by (intro keeps_rules)
qed

end
