(* ===== verification/Orca_Network_Client.thy ===== *)
theory Orca_Network_Client
  imports Orca_Btc
begin

text \<open>
  The network client (\<open>network/network_client.rs\<close>) and its users on the requesting side of a
  file transfer: \<open>Utils::request_from_peers\<close> and \<open>Utils::handle_file_content_response\<close>.
  An operation puts one command on the channel to the network event loop and awaits the oneshot
  receiver it created; the command log records what was sent, the environment what comes back.
  A closed command channel and a dropped sender panic, an answer that never comes hangs.
\<close>

section \<open>Commands and answers\<close>

definition new_channel :: "channel node_io" where
  "new_channel s = (Ok (channels s), s\<lparr>channels := Suc (channels s)\<rparr>)"

definition send_command :: "env \<Rightarrow> NetworkCommand \<Rightarrow> unit node_io" where
  "send_command E c s =
     (if commands_open E (commands s) then (Ok (), s\<lparr>commands := commands s @ [c]\<rparr>)
      else (Panic ''Command receiver not to be dropped.'', s))"

definition await_reply :: "(NetworkCommand list \<Rightarrow> 'a awaited) \<Rightarrow> 'a node_io" where
  "await_reply f = io_bind (io_gets (\<lambda>s. f (commands s))) (io_await ''Sender not to be dropped.'')"

section \<open>NetworkClient\<close>

definition start_listening :: "env \<Rightarrow> Multiaddr \<Rightarrow> unit node_io" where
  "start_listening E addr =
     io_bind new_channel (\<lambda>sender.
     io_bind (send_command E (StartListening addr sender)) (\<lambda>_.
     io_bind (await_reply (reply_result E)) io_of_sum))"

definition dial :: "env \<Rightarrow> PeerId \<Rightarrow> Multiaddr \<Rightarrow> unit node_io" where
  "dial E peer_id peer_addr =
     io_bind new_channel (\<lambda>sender.
     io_bind (send_command E (Dial peer_id peer_addr sender)) (\<lambda>_.
     io_bind (await_reply (reply_result E)) io_of_sum))"

definition start_providing :: "env \<Rightarrow> string \<Rightarrow> unit node_io" where
  "start_providing E key =
     io_bind new_channel (\<lambda>sender.
     io_bind (send_command E (StartProviding key sender)) (\<lambda>_.
     await_reply (reply_unit E)))"

definition stop_providing :: "env \<Rightarrow> string \<Rightarrow> unit node_io" where
  "stop_providing E key = send_command E (StopProviding key)"

definition get_providers :: "env \<Rightarrow> string \<Rightarrow> PeerId list node_io" where
  "get_providers E key =
     io_bind new_channel (\<lambda>sender.
     io_bind (send_command E (GetProviders key sender)) (\<lambda>_.
     await_reply (reply_providers E)))"

definition put_kv_pair :: "env \<Rightarrow> string \<Rightarrow> byte list \<Rightarrow> unit node_io" where
  "put_kv_pair E key value =
     io_bind new_channel (\<lambda>sender.
     io_bind (send_command E (PutKV key value sender)) (\<lambda>_.
     io_bind (await_reply (reply_result E)) io_of_sum))"

definition get_value :: "env \<Rightarrow> string \<Rightarrow> byte list node_io" where
  "get_value E key =
     io_bind new_channel (\<lambda>sender.
     io_bind (send_command E (GetValue key sender)) (\<lambda>_.
     io_bind (await_reply (reply_value E)) io_of_sum))"

definition send_request :: "env \<Rightarrow> PeerId \<Rightarrow> OrcaNetRequest \<Rightarrow> OrcaNetResponse node_io" where
  "send_request E peer request =
     io_bind new_channel (\<lambda>sender.
     io_bind (send_command E (Request request peer sender)) (\<lambda>_.
     io_bind (await_reply (reply_response E)) io_of_sum))"

definition respond :: "env \<Rightarrow> OrcaNetResponse \<Rightarrow> channel \<Rightarrow> unit node_io" where
  "respond E response channel = send_command E (Respond response channel)"

text \<open>The result is \<open>None\<close> when the peer cannot be dialled or no response is expected.\<close>

definition send_in_stream ::
  "env \<Rightarrow> PeerId \<Rightarrow> Multiaddr \<Rightarrow> StreamReq \<Rightarrow> bool \<Rightarrow> (error + OrcaNetResponse) option node_io" where
  "send_in_stream E peer_id peer_addr stream_req expect_response =
     io_bind (io_attempt (dial E peer_id peer_addr)) (\<lambda>d.
       case d of
         Inl _ \<Rightarrow> io_ret None
       | Inr _ \<Rightarrow>
           if \<not> expect_response then
             io_bind (send_command E (SendInStream peer_id stream_req None)) (\<lambda>_. io_ret None)
           else
             io_bind new_channel (\<lambda>sender.
             io_bind (send_command E (SendInStream peer_id stream_req (Some sender))) (\<lambda>_.
             io_bind (await_reply (reply_response E)) (\<lambda>r. io_ret (Some r)))))"

definition send_stream_request :: "env \<Rightarrow> PeerId \<Rightarrow> OrcaNetRequest \<Rightarrow> OrcaNetResponse node_io" where
  "send_stream_request E peer_id orca_net_request =
     (let addr = get_address_through_relay peer_id None in
      io_bind (new_uuid E) (\<lambda>request_id.
      io_bind (send_in_stream E peer_id addr
                 \<lparr>sr_request_id = request_id, sr_stream_data = StreamRequestData orca_net_request\<rparr> True) (\<lambda>resp.
        case resp of
          Some response \<Rightarrow> io_of_sum response
        | None \<Rightarrow> io_fail (Msg (''No valid response from peer '' @ peer_id_text peer_id)))))"

fun advertise_each :: "env \<Rightarrow> ProvidedFileInfo list \<Rightarrow> unit node_io" where
  "advertise_each E [] = io_ret ()"
| "advertise_each E (file_info # rest) =
     io_bind (if pf_status file_info = 1 then start_providing E (pf_file_id file_info) else io_ret ()) (\<lambda>_.
     advertise_each E rest)"

definition advertise_provided_files :: "env \<Rightarrow> unit node_io" where
  "advertise_provided_files E =
     io_bind (create_sqlite_connection E None) (\<lambda>_.
     io_bind (io_attempt (get_provided_files E)) (\<lambda>r.
       case r of Inr provided \<Rightarrow> advertise_each E provided | Inl _ \<Rightarrow> io_ret ()))"

section \<open>Asking several peers (Utils::request\_from\_peers)\<close>

fun request_from_peers ::
  "env \<Rightarrow> OrcaNetRequest \<Rightarrow> PeerId list \<Rightarrow> (PeerId \<times> OrcaNetResponse) list node_io" where
  "request_from_peers E request [] = io_ret []"
| "request_from_peers E request (peer_id # peers) =
     io_bind (io_attempt (send_request E peer_id request)) (\<lambda>response.
     io_bind (request_from_peers E request peers) (\<lambda>results.
       io_ret (case response of Inr resp \<Rightarrow> (peer_id, resp) # results | Inl _ \<Rightarrow> results)))"

section \<open>Downloading a file\<close>

text \<open>The path the received file is written to.\<close>

definition download_path :: "FileMetadata \<Rightarrow> string option \<Rightarrow> string node_io" where
  "download_path metadata dest_path =
     (case dest_path of
        Some p \<Rightarrow> io_ret p
      | None \<Rightarrow>
          io_bind (get_str_from_config AppDataPath) (\<lambda>app_data_path.
          io_bind (io_some ''byte index 16 is out of bounds or not a char boundary''
                     (slice_to (fm_file_id metadata) 16)) (\<lambda>prefix.
          io_ret (path_join app_data_path (prefix @ ''_'' @ fm_file_name metadata)))))"

definition handle_file_content_response ::
  "env \<Rightarrow> PeerId \<Rightarrow> OrcaNetResponse \<Rightarrow> string option \<Rightarrow> unit node_io" where
  "handle_file_content_response E peer_id resp dest_path =
     (case resp of
        FileContentResponse metadata content \<Rightarrow>
          io_bind (download_path metadata dest_path) (\<lambda>path.
          let size_kb = f_of_int (int (length content)) / F_fin 1000 in
          io_bind (io_attempt (fs_write E path content)) (\<lambda>_.
          io_bind get_btc_address (\<lambda>btc_addr.
          let cost_btc = round_f64 (fm_fee_rate_per_kb metadata * size_kb) BTC_PRECISION;
              comment = ''Payment for '' @ fm_file_id metadata in
          io_bind (io_attempt (send_to_address E RegTest (fm_recipient_address metadata) cost_btc (Some comment))) (\<lambda>sent.
          io_bind (case sent of
                     Inr tx_id \<Rightarrow>
                       io_bind (io_attempt (generate_to_address E btc_addr)) (\<lambda>_. io_ret (Some tx_id))
                   | Inl _ \<Rightarrow> io_ret None) (\<lambda>payment_tx_id.
          io_bind (create_sqlite_connection E None) (\<lambda>_.
          io_bind (new_uuid E) (\<lambda>id.
          io_bind (get_unix_timestamp E) (\<lambda>now.
          io_bind (io_attempt (insert_downloaded_file E
                     \<lparr>df_id = id, df_file_id = fm_file_id metadata, df_file_path = path,
                      df_file_name = fm_file_name metadata, df_file_size_kb = size_kb,
                      df_fee_rate_per_kb = Some (fm_fee_rate_per_kb metadata),
                      df_price = Some cost_btc, df_payment_tx_id = payment_tx_id,
                      df_peer_id = peer_id_text peer_id, df_download_timestamp = now\<rparr>)) (\<lambda>_.
          io_ret ())))))))))
      | ErrorResponse _ \<Rightarrow> io_ret ()
      | _ \<Rightarrow> io_ret ())"

definition download_file_from_peer :: "env \<Rightarrow> string \<Rightarrow> PeerId \<Rightarrow> string option \<Rightarrow> unit node_io" where
  "download_file_from_peer E file_id peer_id dest_path =
     io_bind (io_attempt (send_stream_request E peer_id (FileContentRequest file_id))) (\<lambda>response.
       case response of
         Inr file_response \<Rightarrow> handle_file_content_response E peer_id file_response dest_path
       | Inl _ \<Rightarrow> io_fail (Msg (''Could not get file from peer '' @ peer_id_text peer_id)))"

fun download_from_first :: "env \<Rightarrow> string \<Rightarrow> string option \<Rightarrow> PeerId list \<Rightarrow> unit node_io" where
  "download_from_first E file_id dest_path [] =
     io_fail (Msg (''Could not get file from any provider for '' @ file_id))"
| "download_from_first E file_id dest_path (peer_id # peers) =
     io_bind (io_attempt (download_file_from_peer E file_id peer_id dest_path)) (\<lambda>resp.
       case resp of Inr _ \<Rightarrow> io_ret () | Inl _ \<Rightarrow> download_from_first E file_id dest_path peers)"

definition download_file :: "env \<Rightarrow> string \<Rightarrow> string option \<Rightarrow> unit node_io" where
  "download_file E file_id dest_path =
     io_bind (get_providers E file_id) (\<lambda>providers.
       if providers = [] then io_fail (Msg (''No peer provides '' @ file_id))
       else download_from_first E file_id dest_path providers)"

section \<open>Preservation\<close>

lemma keeps_new_channel [keeps_rules]:
  "(\<And>s n. P s \<Longrightarrow> P (s\<lparr>channels := n\<rparr>)) \<Longrightarrow> keeps P new_channel"
  by (simp add: keeps_def new_channel_def)

lemma keeps_send_command [keeps_rules]:
  "(\<And>s cs. P s \<Longrightarrow> P (s\<lparr>commands := cs\<rparr>)) \<Longrightarrow> keeps P (send_command E c)"
  by (auto simp: keeps_def send_command_def)

lemma keeps_await_reply [keeps_rules]: "keeps P (await_reply f)"
  unfolding await_reply_def by (intro keeps_rules)

lemma keeps_network_client [keeps_rules]:
  assumes "\<And>s n. P s \<Longrightarrow> P (s\<lparr>channels := n\<rparr>)" "\<And>s cs. P s \<Longrightarrow> P (s\<lparr>commands := cs\<rparr>)"
  shows "keeps P (start_listening E a)" "keeps P (dial E p a)" "keeps P (start_providing E k)"
    "keeps P (stop_providing E k)" "keeps P (get_providers E k)" "keeps P (put_kv_pair E k v)"
    "keeps P (get_value E k)" "keeps P (send_request E p rq)" "keeps P (respond E resp ch)"
    "keeps P (send_in_stream E p a sr b)"
  unfolding start_listening_def dial_def start_providing_def stop_providing_def get_providers_def
    put_kv_pair_def get_value_def send_request_def respond_def send_in_stream_def
  using assms by (intro keeps_rules; simp)+

lemma keeps_request_from_peers [keeps_rules]:
  assumes "\<And>s n. P s \<Longrightarrow> P (s\<lparr>channels := n\<rparr>)" "\<And>s cs. P s \<Longrightarrow> P (s\<lparr>commands := cs\<rparr>)"
  shows "keeps P (request_from_peers E rq ps)"
  using assms by (induction ps) (auto intro!: keeps_rules)

section \<open>A responsive network\<close>

text \<open>The event loop answers every command and the proxy task takes the events sent to it.\<close>

definition responsive :: "env \<Rightarrow> bool" where
  "responsive E = ((\<forall>cs. commands_open E cs) \<and> (\<forall>cs. reply_unit E cs = Answered ()) \<and>
                   (\<forall>es. proxy_takes E es = Answered ()))"

lemma start_providing_run:
  "responsive E \<Longrightarrow> start_providing E k s =
     (Ok (), s\<lparr>channels := Suc (channels s), commands := commands s @ [StartProviding k (channels s)]\<rparr>)"
  by (simp add: start_providing_def new_channel_def send_command_def await_reply_def io_defs responsive_def)

lemma stop_providing_run:
  "responsive E \<Longrightarrow> stop_providing E k s = (Ok (), s\<lparr>commands := commands s @ [StopProviding k]\<rparr>)"
  by (simp add: stop_providing_def send_command_def responsive_def)

end
