(* ===== verification/Orca_Samples.thy ===== *)
theory Orca_Samples
  imports Orca_DB
begin

text \<open>
  A concrete environment and a concrete provider node, on which the theorems with hypotheses are
  applied. The environment never fails, numbers its identifiers, and reads back the two enums the
  way serde does.
\<close>

fun sample_de_proxy_mode :: "json \<Rightarrow> ProxyMode option" where
  "sample_de_proxy_mode (JObj kvs) =
     (if map_of kvs ''type'' = Some (JStr ''ProxyProvider'') then Some ProxyProviderMode
      else if map_of kvs ''type'' = Some (JStr ''ProxyClient'') then
        (case map_of kvs ''message'' of
           Some (JObj m) \<Rightarrow> map_option ProxyClientMode (Option.bind (map_of m ''session_id'') as_str)
         | _ \<Rightarrow> None)
      else None)"
| "sample_de_proxy_mode _ = None"

definition sample_de_btc_network :: "string \<Rightarrow> BTCNetwork option" where
  "sample_de_btc_network t =
     (if t = quoted ''MainNet'' then Some MainNet
      else if t = quoted ''TestNet'' then Some TestNet
      else if t = quoted ''RegTest'' then Some RegTest else None)"

fun sample_amount :: "f64 \<Rightarrow> nat option" where
  "sample_amount (F_fin x) = (if 0 \<le> x then Some (nat \<lfloor>x * 100000000\<rfloor>) else None)"
| "sample_amount _ = None"

definition sample_env :: env where
  "sample_env =
     \<lparr>uuid_v4 = (\<lambda>n. ''uuid-'' @ replicate n (CHR ''0'')), utc_now = of_nat, io_fault = (\<lambda>_. None),
      torn_write = (\<lambda>_. None),
      error_text = (\<lambda>e. if e = Diesel NotFound then ''Record not found'' else ''error''),
      debug_error = (\<lambda>_. ''error''), parse_peer_id = (\<lambda>t. Some (PeerId t)), de_proxy_mode = sample_de_proxy_mode,
      de_btc_network = sample_de_btc_network,
      valid_btc_address = (\<lambda>_. True), amount_from_btc = sample_amount,
      send_txid = (\<lambda>n. ''tx-'' @ replicate n (CHR ''0'')), mined_blocks = (\<lambda>_. [''block'']),
      commands_open = (\<lambda>_. True), reply_unit = (\<lambda>_. Answered ()),
      reply_result = (\<lambda>_. Answered (Inr ())), reply_providers = (\<lambda>_. Answered []),
      reply_value = (\<lambda>_. Answered (Inr [])), reply_response = (\<lambda>_. Answered (Inr NullResponse)),
      proxy_takes = (\<lambda>_. Answered ())\<rparr>"

definition sample_client :: ProxyClientInfo where
  "sample_client =
     \<lparr>pc_client_id = ''client'', pc_auth_token = ''token'', pc_start_timestamp = 0,
      pc_data_transferred_kb = F_fin 1000, pc_total_fee_received = F_fin 0,
      pc_total_fee_received_unconfirmed = F_fin (1 / 4), pc_fee_rate_per_kb = F_fin (1 / 1024),
      pc_client_peer_id = ''peer-c'', pc_status = 1\<rparr>"

definition sample_session :: ProxySessionInfo where
  "sample_session =
     \<lparr>ps_session_id = ''session'', ps_client_id = ''client'', ps_auth_token = ''token'',
      ps_proxy_address = ''10.0.0.1:3000'', ps_start_timestamp = 0, ps_end_timestamp = None,
      ps_data_transferred_kb = F_fin 1000, ps_total_fee_sent = F_fin 0,
      ps_total_fee_sent_unconfirmed = F_fin (1 / 4), ps_fee_rate_per_kb = F_fin (1 / 1024),
      ps_provider_peer_id = ''peer-p'', ps_recipient_address = ''addr-p'', ps_status = 1\<rparr>"

definition sample_payment :: PaymentInfo where
  "sample_payment = PaymentInfo_default
     \<lparr>pay_payment_id := ''ref'', pay_to_address := ''addr'', pay_expected_amount_btc := Some (F_fin (1 / 2)),
      pay_category := ''Receive'', pay_status := ''AwaitingClientConfirmation'',
      pay_from_peer := Some ''peer-c''\<rparr>"

definition sample_file :: ProvidedFileInfo where
  "sample_file =
     \<lparr>pf_file_id = ''0123456789abcdef0'', pf_file_path = ''/srv/a.txt'', pf_file_name = ''a.txt'',
      pf_downloads_count = 0, pf_status = 1, pf_provide_start_timestamp = Some 0\<rparr>"

definition sample_config :: "(string \<times> json) list" where
  "sample_config =
     [(''DBPath'', JStr ''/db''), (''AppDataPath'', JStr ''/data''), (''BTCAddress'', JStr ''addr''),
      (''FileFeeRatePerKB'', JNum (Float (F_fin (1 / 2)))),
      (''ProxyFeeRatePerKB'', JNum (Float (F_fin (1 / 1024)))),
      (''NetworkType'', JStr ''RegTest''), (''SecretKeySeed'', JNum (PosInt 7)),
      (''ProxyProviderServerAddress'', JStr ''10.0.0.1:3000''),
      (''ProxyConfig'', JObj [(''type'', JStr ''ProxyProvider'')])]"

definition sample_node :: node where
  "sample_node =
     \<lparr>config = ConfigJson (JObj sample_config), files = [(''/srv/a.txt'', File [1, 2, 3])],
      provided_files = [sample_file], downloaded_files = [], proxy_clients = [sample_client],
      proxy_sessions = [sample_session], payments = [sample_payment], uuids_drawn = 0, clock_reads = 0,
      io_calls = 0, channels = 0, commands = [], transfers = [], blocks_requested = [],
      stream_replies = [], proxy_event_sender = None, proxies_spawned = [], proxy_events = []\<rparr>"

lemma sample_reliable [simp]: "reliable sample_env"
  by (simp add: reliable_def sample_env_def)

lemma sample_serde_ok [simp]: "serde_ok sample_env"
proof -
  have "sample_de_proxy_mode (ser_proxy_mode m) = Some m" for m by (cases m) simp_all
  then show ?thesis by (simp add: serde_ok_def sample_env_def)
qed

lemma sample_db_inv [simp]: "db_inv sample_node"
  by (simp add: db_inv_def sample_node_def sample_client_def sample_session_def sample_payment_def
      sample_file_def proxy_client_reals_ok_def proxy_session_reals_ok_def payment_reals_ok_def
      PaymentInfo_default_def)

lemma sample_cfg_obj [simp]: "cfg_obj sample_node"
  by (simp add: cfg_obj_def sample_node_def)

lemma sample_cfg [simp]:
  "cfg sample_node DBPath = Some (JStr ''/db'')" "cfg sample_node AppDataPath = Some (JStr ''/data'')"
  "cfg sample_node BTCAddress = Some (JStr ''addr'')"
  "cfg sample_node FileFeeRatePerKB = Some (JNum (Float (F_fin (1 / 2))))"
  "cfg sample_node ProxyFeeRatePerKB = Some (JNum (Float (F_fin (1 / 1024))))"
  "cfg sample_node NetworkType = Some (JStr ''RegTest'')"
  "cfg sample_node SecretKeySeed = Some (JNum (PosInt 7))"
  "cfg sample_node ProxyProviderServerAddress = Some (JStr ''10.0.0.1:3000'')"
  "cfg sample_node ProxyConfig = Some (ser_proxy_mode ProxyProviderMode)"
  by (simp_all add: cfg_def sample_node_def sample_config_def)

lemma sample_tables [simp]:
  "provided_files sample_node = [sample_file]" "downloaded_files sample_node = []"
  "proxy_clients sample_node = [sample_client]" "proxy_sessions sample_node = [sample_session]"
  "payments sample_node = [sample_payment]"
  by (simp_all add: sample_node_def)

lemma sample_counters [simp]:
  "uuids_drawn sample_node = 0" "clock_reads sample_node = 0" "io_calls sample_node = 0"
  "channels sample_node = 0" "commands sample_node = []" "transfers sample_node = []"
  "proxy_event_sender sample_node = None" "proxies_spawned sample_node = []"
  "proxy_events sample_node = []" "stream_replies sample_node = []"
  "files sample_node = [(''/srv/a.txt'', File [1, 2, 3])]"
  "config sample_node = ConfigJson (JObj sample_config)"
  by (simp_all add: sample_node_def)

lemma sample_rows [simp]:
  "pc_client_id sample_client = ''client''" "pc_auth_token sample_client = ''token''"
  "pc_data_transferred_kb sample_client = F_fin 1000"
  "pc_total_fee_received_unconfirmed sample_client = F_fin (1 / 4)"
  "pay_payment_id sample_payment = ''ref''" "pf_file_id sample_file = ''0123456789abcdef0''"
  "pf_file_path sample_file = ''/srv/a.txt''" "pf_file_name sample_file = ''a.txt''"
  "ps_session_id sample_session = ''session''" "ps_auth_token sample_session = ''token''"
  "ps_data_transferred_kb sample_session = F_fin 1000" "ps_client_id sample_session = ''client''" "ps_provider_peer_id sample_session = ''peer-p''"
  by (simp_all add: sample_client_def sample_payment_def sample_file_def sample_session_def
      PaymentInfo_default_def)

lemma sample_error_text [simp]: "error_text sample_env (Diesel NotFound) = ''Record not found''"
  by (simp add: sample_env_def)

lemma sample_uuid [simp]: "uuid_v4 sample_env n = ''uuid-'' @ replicate n (CHR ''0'')"
  by (simp add: sample_env_def)

end
