(* ===== verification/Orca_Request_Handler.thy ===== *)
theory Orca_Request_Handler
  imports Orca_Network_Client Orca_Samples
begin

text \<open>
  The request handler loop (\<open>request_handler.rs\<close>): the requests of other peers (files, proxy
  metadata and sessions, the two payment steps) and the local events that start and stop the
  proxy and the providing of files. Each handler is one function with every branch, database
  statement and configuration access of the source.
\<close>

section \<open>File requests\<close>

definition handle_file_request :: "env \<Rightarrow> OrcaNetRequest \<Rightarrow> PeerId \<Rightarrow> OrcaNetResponse node_io" where
  "handle_file_request E request from_peer =
     (case (case request of
              FileMetadataRequest file_id \<Rightarrow> Some file_id
            | FileContentRequest file_id \<Rightarrow> Some file_id
            | _ \<Rightarrow> None) of
        None \<Rightarrow> io_panic ''Expected file request''
      | Some file_id \<Rightarrow>
          io_bind (create_sqlite_connection E None) (\<lambda>_.
          io_bind (io_attempt (get_provided_file_info E file_id)) (\<lambda>file_info_resp.
            case file_info_resp of
              Inl _ \<Rightarrow> io_ret (ErrorResponse (NotAProvider ''Not a provider of requested file''))
            | Inr file_info \<Rightarrow>
                io_bind get_file_fee_rate (\<lambda>rate.
                io_bind get_btc_address (\<lambda>addr.
                let file_metadata =
                  \<lparr>fm_file_id = file_id, fm_file_name = pf_file_name file_info,
                   fm_fee_rate_per_kb = rate, fm_recipient_address = addr\<rparr> in
                case request of
                  FileMetadataRequest _ \<Rightarrow> io_ret (FileMetadataResponse file_metadata)
                | FileContentRequest _ \<Rightarrow>
                    io_bind (fs_read E (pf_file_path file_info)) (\<lambda>content.
                    io_bind (io_attempt (increment_download_count E file_id)) (\<lambda>_.
                    io_ret (FileContentResponse file_metadata content)))
                | _ \<Rightarrow> io_panic ''Expected file request'')))))"

section \<open>Proxy requests\<close>

definition handle_http_proxy_request ::
  "env \<Rightarrow> OrcaNetRequest \<Rightarrow> PeerId \<Rightarrow> OrcaNetResponse node_io" where
  "handle_http_proxy_request E request from_peer =
     io_bind (get_proxy_config E) (\<lambda>mode.
       case mode of
         Some ProxyProviderMode \<Rightarrow>
           io_bind (get_str_from_config ProxyProviderServerAddress) (\<lambda>proxy_address.
           io_bind get_proxy_fee_rate (\<lambda>rate.
           io_bind get_btc_address (\<lambda>addr.
           let metadata =
             \<lparr>hm_proxy_address = proxy_address, hm_fee_rate_per_kb = rate,
              hm_recipient_address = addr\<rparr> in
           case request of
             HTTPProxyMetadataRequest \<Rightarrow> io_ret (HTTPProxyMetadataResponse metadata)
           | HTTPProxyProvideRequest \<Rightarrow>
               io_bind (new_uuid E) (\<lambda>client_id.
               io_bind (new_uuid E) (\<lambda>auth_token.
               io_bind (create_sqlite_connection E None) (\<lambda>_.
               io_bind (ProxyClientInfo_with_defaults E client_id auth_token (peer_id_text from_peer)) (\<lambda>info.
               io_bind (add_client E info) (\<lambda>_.
               io_ret (HTTPProxyProvideResponse metadata client_id auth_token))))))
           | _ \<Rightarrow> io_panic ''Expected only proxy requests in handle_proxy_requests'')))
       | _ \<Rightarrow> io_ret (ErrorResponse (NotAProvider ''Not a proxy provider'')))"

section \<open>Payment requests\<close>

definition pre_payment ::
  "env \<Rightarrow> PeerId \<Rightarrow> string \<Rightarrow> f64 \<Rightarrow> f64 \<Rightarrow> OrcaNetResponse node_io" where
  "pre_payment E from_peer auth_token data_transferred_kb_client fee_owed_client =
     io_bind (create_sqlite_connection E None) (\<lambda>_.
     io_bind (get_client_by_auth_token E auth_token) (\<lambda>client_info.
     let fee_owed = ProxyClientInfo_get_fee_owed client_info;
         fee_owed_percent_diff = get_percent_diff fee_owed_client fee_owed;
         data_trans_percent_diff =
           get_percent_diff data_transferred_kb_client (pc_data_transferred_kb client_info) in
     io_bind
       (if PROXY_TERMINATION_PD_THRESHOLD < fee_owed_percent_diff \<or>
           PROXY_TERMINATION_PD_THRESHOLD < data_trans_percent_diff then
          io_bind (new_uuid E) (\<lambda>payment_reference.
          io_bind get_btc_address (\<lambda>addr.
          io_ret (Accepted
            \<lparr>pr_amount_to_send = fee_owed, pr_payment_reference = payment_reference,
             pr_recipient_address = addr\<rparr>)))
        else if FEE_OWED_PD_ALLOWED < fee_owed_percent_diff then io_ret RejectedDataTransferDiffers
        else if DATA_TRANSFER_PD_ALLOWED < data_trans_percent_diff then io_ret RejectedFeeOwedDiffers
        else
          io_bind (new_uuid E) (\<lambda>payment_reference.
          io_bind get_btc_address (\<lambda>btc_address.
          io_bind (create_sqlite_connection E None) (\<lambda>_.
          io_bind (insert_payment_info E
                     (PaymentInfo_default
                        \<lparr>pay_payment_id := payment_reference, pay_to_address := btc_address,
                         pay_expected_amount_btc := Some fee_owed,
                         pay_category := category_text Receive,
                         pay_status := status_text AwaitingClientConfirmation,
                         pay_from_peer := Some (peer_id_text from_peer)\<rparr>)) (\<lambda>_.
          io_bind get_btc_address (\<lambda>addr.
          io_ret (Accepted
            \<lparr>pr_amount_to_send = fee_owed, pr_payment_reference = payment_reference,
             pr_recipient_address = addr\<rparr>)))))))
       (\<lambda>pre_payment_response.
     io_ret (HTTPProxyPrePaymentResponse (pc_data_transferred_kb client_info) fee_owed
               pre_payment_response))))"

definition post_payment ::
  "env \<Rightarrow> PeerId \<Rightarrow> string \<Rightarrow> PaymentNotification \<Rightarrow> OrcaNetResponse node_io" where
  "post_payment E from_peer auth_token payment_notification =
     io_bind (create_sqlite_connection E None) (\<lambda>_.
     io_bind (get_client_by_auth_token E auth_token) (\<lambda>client_info.
     io_bind (create_sqlite_connection E None) (\<lambda>_.
     io_bind (io_attempt (get_payment_info E (pn_payment_reference payment_notification))) (\<lambda>r.
       case r of
         Inl _ \<Rightarrow> io_ret (ErrorResponse PaymentReferenceMismatch)
       | Inr payment_info \<Rightarrow>
           io_bind (update_payment_info E
             (payment_info
                \<lparr>pay_tx_id := Some (pn_tx_id payment_notification),
                 pay_from_address := Some (pn_sender_address payment_notification),
                 pay_status := status_text TransactionPending\<rparr>)) (\<lambda>_.
           io_bind (update_total_fee_received_unconfirmed E (pc_client_id client_info)
                      (pn_amount_transferred payment_notification)) (\<lambda>_.
           io_ret NullResponse))))))"

definition handle_payment_request ::
  "env \<Rightarrow> OrcaNetRequest \<Rightarrow> PeerId \<Rightarrow> OrcaNetResponse node_io" where
  "handle_payment_request E request from_peer =
     (case request of
        HTTPProxyPrePaymentRequest client_id auth_token data_transferred_kb fee_owed \<Rightarrow>
          pre_payment E from_peer auth_token data_transferred_kb fee_owed
      | HTTPProxyPostPaymentNotification client_id auth_token payment_notification \<Rightarrow>
          post_payment E from_peer auth_token payment_notification
      | _ \<Rightarrow> io_panic ''Expected payment request'')"

section \<open>Dispatch\<close>

definition handle_request :: "env \<Rightarrow> OrcaNetRequest \<Rightarrow> PeerId \<Rightarrow> OrcaNetResponse node_io" where
  "handle_request E request from_peer =
     (case request of
        FileMetadataRequest _ \<Rightarrow> handle_file_request E request from_peer
      | FileContentRequest _ \<Rightarrow> handle_file_request E request from_peer
      | HTTPProxyMetadataRequest \<Rightarrow> handle_http_proxy_request E request from_peer
      | HTTPProxyProvideRequest \<Rightarrow> handle_http_proxy_request E request from_peer
      | HTTPProxyPrePaymentRequest _ _ _ _ \<Rightarrow> handle_payment_request E request from_peer
      | HTTPProxyPostPaymentNotification _ _ _ \<Rightarrow> handle_payment_request E request from_peer)"

text \<open>\<open>unwrap_or_else\<close>: an error of the handler is answered, not propagated.\<close>

definition answer_request :: "env \<Rightarrow> OrcaNetRequest \<Rightarrow> PeerId \<Rightarrow> OrcaNetResponse node_io" where
  "answer_request E request from_peer =
     io_bind (io_attempt (handle_request E request from_peer)) (\<lambda>r.
       io_ret (case r of
                 Inr response \<Rightarrow> response
               | Inl e \<Rightarrow> ErrorResponse (InternalServerError (error_text E e))))"

section \<open>Events\<close>

text \<open>
  The channel to the proxy has no buffer, so the send completes when the proxy task takes the
  event; a dropped receiver is an error that is only logged.
\<close>

definition send_event_to_proxy_server :: "env \<Rightarrow> OrcaNetEvent \<Rightarrow> channel option \<Rightarrow> unit node_io" where
  "send_event_to_proxy_server E event sender =
     (case sender of
        Some ch \<Rightarrow> (\<lambda>s.
          let sent = s\<lparr>proxy_events := proxy_events s @ [(ch, event)]\<rparr> in
          case proxy_takes E (proxy_events sent) of
            Answered _ \<Rightarrow> (Ok (), sent)
          | Dropped \<Rightarrow> (Ok (), s)
          | Unanswered \<Rightarrow> (Hang, sent))
      | None \<Rightarrow> io_ret ())"

definition handle_provide_file :: "env \<Rightarrow> string \<Rightarrow> string \<Rightarrow> unit node_io" where
  "handle_provide_file E file_id file_path =
     io_bind (get_file_name_from_path file_path) (\<lambda>file_name.
     io_bind (io_gets (\<lambda>s. path_exists s file_path)) (\<lambda>exists.
       if exists then
         io_bind (create_sqlite_connection E None) (\<lambda>_.
         io_bind (ProvidedFileInfo_with_defaults E file_id file_path file_name) (\<lambda>file_info.
         io_bind (io_attempt (insert_provided_file E file_info)) (\<lambda>resp.
           case resp of Inr _ \<Rightarrow> start_providing E file_id | Inl _ \<Rightarrow> io_ret ())))
       else io_ret ()))"

definition handle_stop_providing_file :: "env \<Rightarrow> string \<Rightarrow> bool \<Rightarrow> unit node_io" where
  "handle_stop_providing_file E file_id permanent =
     io_bind (create_sqlite_connection E None) (\<lambda>_.
     io_bind (io_attempt (if permanent then remove_provided_file E file_id
                          else set_provided_file_status E file_id False None)) (\<lambda>_.
     stop_providing E file_id))"

definition handle_start_proxy :: "env \<Rightarrow> ProxyMode \<Rightarrow> unit node_io" where
  "handle_start_proxy E proxy_mode =
     io_bind (io_gets proxy_event_sender) (\<lambda>running.
       if running \<noteq> None then io_ret ()
       else
         io_bind new_channel (\<lambda>ch.
         io_bind (io_modify (\<lambda>s. s\<lparr>proxies_spawned := proxies_spawned s @ [(proxy_mode, ch)],
                                  proxy_event_sender := Some ch\<rparr>)) (\<lambda>_.
         io_bind (case proxy_mode of
                    ProxyProviderMode \<Rightarrow> start_providing E PROXY_PROVIDER_KEY_DHT
                  | ProxyClientMode session_id \<Rightarrow> io_ret ()) (\<lambda>_.
         io_expect ''Proxy configuration to be updated''
           (modify_config E (key_text ProxyConfig) (ser_proxy_mode_opt (Some proxy_mode)))))))"

definition handle_stop_proxy :: "env \<Rightarrow> unit node_io" where
  "handle_stop_proxy E =
     io_bind (get_proxy_config E) (\<lambda>mode.
     io_bind (io_some ''Proxy mode to be present in config'' mode) (\<lambda>proxy_mode.
     io_bind (io_gets proxy_event_sender) (\<lambda>sender.
     io_bind (io_modify (\<lambda>s. s\<lparr>proxy_event_sender := None\<rparr>)) (\<lambda>_.
     io_bind (send_event_to_proxy_server E StopProxy sender) (\<lambda>_.
     io_bind (case proxy_mode of
                ProxyProviderMode \<Rightarrow> stop_providing E PROXY_PROVIDER_KEY_DHT
              | ProxyClientMode session_id \<Rightarrow> io_ret ()) (\<lambda>_.
     io_expect ''Proxy configuration to be updated''
       (modify_config E (key_text ProxyConfig) (ser_proxy_mode_opt None))))))))"

definition handle_event :: "env \<Rightarrow> OrcaNetEvent \<Rightarrow> unit node_io" where
  "handle_event E event =
     (case event of
        RequestEvent request from_peer channel \<Rightarrow>
          io_bind (answer_request E request from_peer) (\<lambda>response. respond E response channel)
      | StreamRequestEvent request from_peer sender \<Rightarrow>
          io_bind (answer_request E request from_peer) (\<lambda>response.
          io_modify (\<lambda>s. s\<lparr>stream_replies := stream_replies s @ [(sender, response)]\<rparr>))
      | ProvideFile file_id file_path \<Rightarrow> handle_provide_file E file_id file_path
      | StopProvidingFile file_id permanent \<Rightarrow> handle_stop_providing_file E file_id permanent
      | StartProxy proxy_mode \<Rightarrow> handle_start_proxy E proxy_mode
      | StopProxy \<Rightarrow> handle_stop_proxy E)"

text \<open>
  \<open>RequestHandlerLoop::new\<close> and \<open>run\<close>: the loop handles the events of its channel in
  order; the end of the channel is \<open>todo!\<close>.
\<close>

definition RequestHandlerLoop_new :: "node \<Rightarrow> node" where
  "RequestHandlerLoop_new s = s\<lparr>proxy_event_sender := None\<rparr>"

fun run_events :: "env \<Rightarrow> OrcaNetEvent list \<Rightarrow> unit node_io" where
  "run_events E [] = io_ret ()"
| "run_events E (ev # evs) = io_bind (handle_event E ev) (\<lambda>_. run_events E evs)"

definition request_handler_run :: "env \<Rightarrow> OrcaNetEvent list \<Rightarrow> unit node_io" where
  "request_handler_run E evs = io_bind (run_events E evs) (\<lambda>_. io_panic ''Not implemented'')"

section \<open>What the payment steps do\<close>

text \<open>The client's figures are within the tolerance of the provider's own.\<close>

definition claims_agree :: "ProxyClientInfo \<Rightarrow> f64 \<Rightarrow> f64 \<Rightarrow> bool" where
  "claims_agree c data_kb fee =
     (\<not> F_fin 300 < get_percent_diff fee (ProxyClientInfo_get_fee_owed c) \<and>
      \<not> F_fin 300 < get_percent_diff data_kb (pc_data_transferred_kb c))"

text \<open>The row of a payment the provider waits for, and the same row once it is announced.\<close>

definition awaiting_payment :: "string \<Rightarrow> string \<Rightarrow> f64 \<Rightarrow> PeerId \<Rightarrow> PaymentInfo" where
  "awaiting_payment reference address amount from_peer =
     \<lparr>pay_payment_id = reference, pay_tx_id = None, pay_from_address = None,
      pay_to_address = address, pay_expected_amount_btc = Some amount, pay_amount_btc = None,
      pay_category = ''Receive'', pay_status = ''AwaitingClientConfirmation'',
      pay_payment_reference = None, pay_from_peer = Some (peer_id_text from_peer), pay_to_peer = None\<rparr>"

definition announced :: "PaymentNotification \<Rightarrow> PaymentInfo \<Rightarrow> PaymentInfo" where
  "announced n r = r\<lparr>pay_tx_id := Some (pn_tx_id n), pay_from_address := Some (pn_sender_address n),
                     pay_status := ''TransactionPending''\<rparr>"

definition credited :: "f64 \<Rightarrow> ProxyClientInfo \<Rightarrow> ProxyClientInfo" where
  "credited amount c = c\<lparr>pc_total_fee_received_unconfirmed := pc_total_fee_received_unconfirmed c + amount\<rparr>"

lemma pre_payment_run:
  assumes "reliable E" "db_inv s" "cfg s DBPath = Some (JStr p)" "cfg s BTCAddress = Some (JStr a)"
    and "c \<in> set (proxy_clients s)" "uuid_v4 E (uuids_drawn s) \<notin> pay_payment_id ` set (payments s)"
  shows "pre_payment E peer (pc_auth_token c) d f s =
    (Ok (HTTPProxyPrePaymentResponse (pc_data_transferred_kb c) (ProxyClientInfo_get_fee_owed c)
           (Accepted \<lparr>pr_amount_to_send = ProxyClientInfo_get_fee_owed c,
                      pr_payment_reference = uuid_v4 E (uuids_drawn s), pr_recipient_address = a\<rparr>)),
     s\<lparr>uuids_drawn := Suc (uuids_drawn s),
       io_calls := io_calls s + (if claims_agree c d f then 4 else 2),
       payments := payments s @
         (if claims_agree c d f
          then [awaiting_payment (uuid_v4 E (uuids_drawn s)) a (ProxyClientInfo_get_fee_owed c) peer]
          else [])\<rparr>)"
proof -
  note [simp] = create_sqlite_connection_run [OF assms(1)] get_client_run [OF assms(1)]
    insert_payment_info_run [OF assms(1)] get_str_from_config_Some get_btc_address_def payment_reals_ok_def
  show ?thesis
    using assms
    by (simp add: pre_payment_def io_defs Let_def new_uuid_def claims_agree_def
        PROXY_TERMINATION_PD_THRESHOLD_def FEE_OWED_PD_ALLOWED_def DATA_TRANSFER_PD_ALLOWED_def
        PaymentInfo_default_def awaiting_payment_def)
qed

lemma mark_run:
  assumes "reliable E" "db_inv t" "r \<in> set (payments t)"
  shows "update_payment_info E (announced n r) t =
    (Ok 1, (tick t)\<lparr>payments := at_key pay_payment_id (pay_payment_id r) (announced n) (payments t)\<rparr>)"
proof -
  have "payment_reals_ok r" using assms by (auto simp: db_inv_def list_all_iff)
  then have "payment_changeset (announced n r) r = announced n r"
    by (rule payment_changeset_same) (simp_all add: announced_def)
  with update_payment_info_run [OF assms, of "announced n"] show ?thesis by (simp add: announced_def)
qed

lemma db_inv_marked:
  assumes "db_inv s"
  shows "db_inv (s\<lparr>payments := at_key pay_payment_id k (announced n) (payments s)\<rparr>)"
proof -
  have "distinct (map pay_payment_id (at_key pay_payment_id k (announced n) (payments s)))"
    using assms by (simp add: map_key_at_key announced_def db_inv_def)
  moreover have "list_all payment_reals_ok (at_key pay_payment_id k (announced n) (payments s))"
    using assms by (auto simp: at_key_def announced_def list_all_iff payment_reals_ok_def db_inv_def)
  ultimately show ?thesis using assms by (simp add: db_inv_def)
qed

lemma db_inv_credited:
  assumes "db_inv s" "c \<in> set (proxy_clients s)"
    and "pc_total_fee_received_unconfirmed c + x \<noteq> F_nan"
  shows "db_inv (s\<lparr>proxy_clients := at_key pc_client_id (pc_client_id c) (credited x) (proxy_clients s)\<rparr>)"
proof -
  have d: "distinct (map pc_client_id (proxy_clients s))" using assms(1) by (simp add: db_inv_def)
  have "map pc_auth_token (at_key pc_client_id (pc_client_id c) (credited x) (proxy_clients s))
      = map pc_auth_token (proxy_clients s)"
    by (auto simp: at_key_def credited_def)
  moreover have "map pc_client_id (at_key pc_client_id (pc_client_id c) (credited x) (proxy_clients s))
      = map pc_client_id (proxy_clients s)"
    by (rule map_key_at_key) (simp add: credited_def)
  moreover have "list_all proxy_client_reals_ok
      (at_key pc_client_id (pc_client_id c) (credited x) (proxy_clients s))"
    using assms
    by (auto simp: at_key_def credited_def list_all_iff proxy_client_reals_ok_def db_inv_def
        dest: distinct_key_eq [OF d _ assms(2)])
  ultimately show ?thesis using assms(1) by (simp add: db_inv_def)
qed

text \<open>Up to the last statement a valid notification always gets: the payment is marked.\<close>

lemma post_payment_marks:
  assumes "reliable E" "db_inv s" "cfg s DBPath = Some (JStr p)" "c \<in> set (proxy_clients s)"
    and "r \<in> set (payments s)" "pn_payment_reference n = pay_payment_id r"
  shows "post_payment E peer (pc_auth_token c) n s =
    io_bind (update_total_fee_received_unconfirmed E (pc_client_id c) (pn_amount_transferred n))
      (\<lambda>_. io_ret NullResponse)
      (s\<lparr>io_calls := io_calls s + 5,
         payments := at_key pay_payment_id (pn_payment_reference n) (announced n) (payments s)\<rparr>)"
proof -
  have upd: "r\<lparr>pay_tx_id := Some (pn_tx_id n), pay_from_address := Some (pn_sender_address n),
      pay_status := ''TransactionPending''\<rparr> = announced n r" by (simp add: announced_def)
  show ?thesis
    using assms
    by (simp add: post_payment_def io_defs create_sqlite_connection_run get_client_run get_payment_run
        upd mark_run eval_nat_numeral)
qed

lemma post_payment_run:
  assumes "reliable E" "db_inv s" "cfg s DBPath = Some (JStr p)" "c \<in> set (proxy_clients s)"
    and "r \<in> set (payments s)" "pn_payment_reference n = pay_payment_id r"
    and "pc_total_fee_received_unconfirmed c + pn_amount_transferred n \<noteq> F_nan"
  shows "post_payment E peer (pc_auth_token c) n s =
    (Ok NullResponse,
     s\<lparr>io_calls := io_calls s + 6,
       payments := at_key pay_payment_id (pn_payment_reference n) (announced n) (payments s),
       proxy_clients := at_key pc_client_id (pc_client_id c) (credited (pn_amount_transferred n))
                          (proxy_clients s)\<rparr>)"
proof -
  let ?x = "pn_amount_transferred n"
  have ok: "proxy_client_reals_ok (credited ?x c)"
    using assms by (auto simp: db_inv_def list_all_iff proxy_client_reals_ok_def credited_def)
  have "update_total_fee_received_unconfirmed E (pc_client_id c) ?x t =
      (Ok 1, (tick t)\<lparr>proxy_clients := at_key pc_client_id (pc_client_id c) (credited ?x) (proxy_clients t)\<rparr>)"
    if "db_inv t" "c \<in> set (proxy_clients t)" for t
    using update_client_reals_run [OF assms(1) that, of "credited ?x"] ok
    by (simp add: update_total_fee_received_unconfirmed_def credited_def [abs_def])
  then show ?thesis
    using post_payment_marks [OF assms(1-6)] assms(2,4)
      db_inv_marked [of "s\<lparr>io_calls := io_calls s + 5\<rparr>"] by (simp add: io_defs)
qed

text \<open>A notification whose amount does not add up to a number marks the payment and then fails.\<close>

lemma post_payment_nan:
  assumes "reliable E" "db_inv s" "cfg s DBPath = Some (JStr p)" "c \<in> set (proxy_clients s)"
    and "r \<in> set (payments s)" "pn_payment_reference n = pay_payment_id r"
    and "pc_total_fee_received_unconfirmed c + pn_amount_transferred n = F_nan"
  shows "post_payment E peer (pc_auth_token c) n s =
    (Err (Diesel NotNullViolation),
     s\<lparr>io_calls := io_calls s + 6,
       payments := at_key pay_payment_id (pn_payment_reference n) (announced n) (payments s)\<rparr>)"
proof -
  have "update_total_fee_received_unconfirmed E (pc_client_id c) (pn_amount_transferred n) t =
      (Err (Diesel NotNullViolation), tick t)" if "c \<in> set (proxy_clients t)" for t
    unfolding update_total_fee_received_unconfirmed_def
    by (rule update_client_reals_nan [OF assms(1) that]) (simp add: assms(7) proxy_client_reals_ok_def)
  then show ?thesis using post_payment_marks [OF assms(1-6)] assms(4) by (simp add: io_defs)
qed

lemma unknown_token_fails:
  assumes "reliable E" "cfg s DBPath = Some (JStr p)" "tok \<notin> pc_auth_token ` set (proxy_clients s)"
  shows "pre_payment E peer tok d f s = (Err (Diesel NotFound), s\<lparr>io_calls := io_calls s + 2\<rparr>)"
    and "post_payment E peer tok n s = (Err (Diesel NotFound), s\<lparr>io_calls := io_calls s + 2\<rparr>)"
  using assms
  by (simp_all add: pre_payment_def post_payment_def io_defs create_sqlite_connection_run
      pc_get.get_missing)


lemmas answer_defs = answer_request_def handle_request_def handle_payment_request_def io_defs

lemma answer_unknown_token:
  assumes "reliable E" "cfg s DBPath = Some (JStr p)" "tok \<notin> pc_auth_token ` set (proxy_clients s)"
    and "request = HTTPProxyPrePaymentRequest cid tok d f \<or>
         request = HTTPProxyPostPaymentNotification cid tok n"
  shows "answer_request E request peer s =
    (Ok (ErrorResponse (InternalServerError (error_text E (Diesel NotFound)))),
     s\<lparr>io_calls := io_calls s + 2\<rparr>)"
  using assms(4) unknown_token_fails [OF assms(1-3)] by (auto simp: answer_defs)

section \<open>Files and sessions\<close>

lemma handle_file_content_run:
  assumes "reliable E" "db_inv s" "cfg s DBPath = Some (JStr p)" "cfg s BTCAddress = Some (JStr a)"
    and "cfg s FileFeeRatePerKB = Some j" "as_f64 j = Some rate"
    and "r \<in> set (provided_files s)" "map_of (files s) (pf_file_path r) = Some (File bs)"
  shows "handle_file_request E (FileContentRequest (pf_file_id r)) peer s =
    (Ok (FileContentResponse
           \<lparr>fm_file_id = pf_file_id r, fm_file_name = pf_file_name r, fm_fee_rate_per_kb = rate,
            fm_recipient_address = a\<rparr> bs),
     s\<lparr>io_calls := io_calls s + 4,
       provided_files := at_key pf_file_id (pf_file_id r)
         (\<lambda>x. x\<lparr>pf_downloads_count := pf_downloads_count x + 1\<rparr>) (provided_files s)\<rparr>)"
  using assms
  by (simp add: handle_file_request_def io_defs create_sqlite_connection_run get_provided_file_run
      get_file_fee_rate_run get_btc_address_def get_str_from_config_Some fs_read_run
      increment_download_count_run eval_nat_numeral)

lemma handle_file_unknown:
  assumes "reliable E" "cfg s DBPath = Some (JStr p)" "fid \<notin> pf_file_id ` set (provided_files s)"
    and "request = FileMetadataRequest fid \<or> request = FileContentRequest fid"
  shows "handle_file_request E request peer s =
    (Ok (ErrorResponse (NotAProvider ''Not a provider of requested file'')), s\<lparr>io_calls := io_calls s + 2\<rparr>)"
  using assms
  by (auto simp: handle_file_request_def io_defs create_sqlite_connection_run pf_get.get_missing)

text \<open>The row of a client that has just been admitted.\<close>

definition admitted_client :: "string \<Rightarrow> string \<Rightarrow> i64 \<Rightarrow> f64 \<Rightarrow> PeerId \<Rightarrow> ProxyClientInfo" where
  "admitted_client client_id auth_token now rate peer =
     \<lparr>pc_client_id = client_id, pc_auth_token = auth_token, pc_start_timestamp = now,
      pc_data_transferred_kb = 0, pc_total_fee_received = 0, pc_total_fee_received_unconfirmed = 0,
      pc_fee_rate_per_kb = rate, pc_client_peer_id = peer_id_text peer, pc_status = 1\<rparr>"

lemma handle_provide_run:
  assumes "reliable E" "serde_ok E" "cfg_obj s" "cfg s ProxyConfig = Some (ser_proxy_mode ProxyProviderMode)"
    and "cfg s DBPath = Some (JStr p)" "cfg s BTCAddress = Some (JStr a)"
    and "cfg s ProxyProviderServerAddress = Some (JStr ip)"
    and "cfg s ProxyFeeRatePerKB = Some j" "as_f64 j = Some rate" "rate \<noteq> F_nan"
    and "uuid_v4 E (uuids_drawn s) \<notin> pc_client_id ` set (proxy_clients s)"
    and "uuid_v4 E (Suc (uuids_drawn s)) \<notin> pc_auth_token ` set (proxy_clients s)"
  shows "handle_http_proxy_request E HTTPProxyProvideRequest peer s =
    (Ok (HTTPProxyProvideResponse
           \<lparr>hm_proxy_address = ip, hm_fee_rate_per_kb = rate, hm_recipient_address = a\<rparr>
           (uuid_v4 E (uuids_drawn s)) (uuid_v4 E (Suc (uuids_drawn s)))),
     s\<lparr>uuids_drawn := uuids_drawn s + 2, io_calls := io_calls s + 2, clock_reads := Suc (clock_reads s),
       proxy_clients := proxy_clients s @
         [admitted_client (uuid_v4 E (uuids_drawn s)) (uuid_v4 E (Suc (uuids_drawn s)))
            (utc_now E (clock_reads s)) rate peer]\<rparr>)"
proof -
  have mode: "de_proxy_mode E (ser_proxy_mode ProxyProviderMode) = Some ProxyProviderMode"
    using assms(2) unfolding serde_ok_def by blast
  have "proxy_client_reals_ok (admitted_client cid tok now rate peer)" for cid tok now
    using assms(10) by (simp add: proxy_client_reals_ok_def admitted_client_def zero_f64_def)
  then show ?thesis
    using assms mode
    by (simp add: handle_http_proxy_request_def io_defs get_proxy_config_run get_str_from_config_Some
        get_proxy_fee_rate_run get_btc_address_def new_uuid_def create_sqlite_connection_run
        ProxyClientInfo_with_defaults_def get_unix_timestamp_def admitted_client_def add_client_run
        del: ser_proxy_mode.simps)
qed

section \<open>The life of the proxy\<close>

definition starts_dht :: "ProxyMode \<Rightarrow> channel \<Rightarrow> NetworkCommand list" where
  "starts_dht m ch = (case m of ProxyProviderMode \<Rightarrow> [StartProviding ''http_proxy_providers'' ch] | _ \<Rightarrow> [])"

definition stops_dht :: "ProxyMode \<Rightarrow> NetworkCommand list" where
  "stops_dht m = (case m of ProxyProviderMode \<Rightarrow> [StopProviding ''http_proxy_providers''] | _ \<Rightarrow> [])"

lemma handle_start_proxy_run:
  assumes "reliable E" "responsive E" "config s = ConfigJson (JObj kvs)" "proxy_event_sender s = None"
  shows "handle_start_proxy E m s =
    (Ok (), s\<lparr>channels := Suc (channels s) + length (starts_dht m 0),
              proxies_spawned := proxies_spawned s @ [(m, channels s)],
              proxy_event_sender := Some (channels s),
              commands := commands s @ starts_dht m (Suc (channels s)),
              io_calls := Suc (io_calls s),
              config := ConfigJson (JObj (obj_insert ''ProxyConfig'' (ser_proxy_mode m) kvs))\<rparr>)"
  using assms
  by (cases m)
    (simp_all add: handle_start_proxy_def io_defs new_channel_def start_providing_run starts_dht_def
      modify_config_reliable ser_proxy_mode_opt_def PROXY_PROVIDER_KEY_DHT_def)

lemma handle_start_proxy_running:
  "proxy_event_sender s \<noteq> None \<Longrightarrow> handle_start_proxy E m s = (Ok (), s)"
  by (auto simp: handle_start_proxy_def io_defs)

lemma handle_stop_proxy_run:
  assumes "reliable E" "responsive E" "config s = ConfigJson (JObj kvs)"
    and "Option.bind (map_of kvs ''ProxyConfig'') (de_proxy_mode E) = Some m"
  shows "handle_stop_proxy E s =
    (Ok (), s\<lparr>proxy_event_sender := None,
              proxy_events := proxy_events s @
                (case proxy_event_sender s of None \<Rightarrow> [] | Some ch \<Rightarrow> [(ch, StopProxy)]),
              commands := commands s @ stops_dht m,
              io_calls := Suc (io_calls s),
              config := ConfigJson (JObj (obj_insert ''ProxyConfig'' JNull kvs))\<rparr>)"
proof -
  have "get_proxy_config E s = (Ok (Some m), s)"
    using assms(3,4) get_proxy_config_run [of s E] by (simp add: cfg_obj_def cfg_def)
  moreover have "proxy_takes E es = Answered ()" for es using assms(2) by (simp add: responsive_def)
  ultimately show ?thesis
    using assms
    by (cases m; cases "proxy_event_sender s")
      (simp_all add: handle_stop_proxy_def io_defs send_event_to_proxy_server_def Let_def
        stop_providing_run stops_dht_def modify_config_reliable ser_proxy_mode_opt_def
        PROXY_PROVIDER_KEY_DHT_def)
qed

lemma handle_stop_proxy_panics:
  assumes "cfg_obj s" "Option.bind (cfg s ProxyConfig) (de_proxy_mode E) = None"
  shows "handle_stop_proxy E s = (Panic ''Proxy mode to be present in config'', s)"
  using assms by (simp add: handle_stop_proxy_def io_defs get_proxy_config_run)

lemma start_then_stop_run:
  assumes "reliable E" "responsive E" "serde_ok E" "config s = ConfigJson (JObj kvs)"
    and "proxy_event_sender s = None"
  shows "run_events E [StartProxy m, StopProxy] s =
    (Ok (), s\<lparr>channels := Suc (channels s) + length (starts_dht m 0),
              proxies_spawned := proxies_spawned s @ [(m, channels s)],
              proxy_events := proxy_events s @ [(channels s, StopProxy)],
              commands := commands s @ starts_dht m (Suc (channels s)) @ stops_dht m,
              io_calls := io_calls s + 2,
              config := ConfigJson (JObj (obj_insert ''ProxyConfig'' JNull kvs))\<rparr>)"
proof -
  have "de_proxy_mode E (ser_proxy_mode m) = Some m" using assms(3) by (simp add: serde_ok_def)
  then have "Option.bind (map_of (obj_insert ''ProxyConfig'' (ser_proxy_mode m) kvs) ''ProxyConfig'')
      (de_proxy_mode E) = Some m" by (simp add: map_of_obj_insert)
  then show ?thesis
    using assms
    by (simp add: handle_event_def io_defs handle_start_proxy_run handle_stop_proxy_run obj_insert_twice)
qed

section \<open>The invariant of the database\<close>

lemma db_inv_handle_file_request [keeps_rules]: "keeps db_inv (handle_file_request E rq p)"
  unfolding handle_file_request_def Let_def
  by (auto intro!: keeps_rules split: option.splits OrcaNetRequest.splits)

lemma db_inv_handle_http_proxy_request [keeps_rules]: "keeps db_inv (handle_http_proxy_request E rq p)"
  unfolding handle_http_proxy_request_def Let_def
  by (auto intro!: keeps_rules split: option.splits ProxyMode.splits OrcaNetRequest.splits)

lemma db_inv_payment_steps [keeps_rules]:
  "keeps db_inv (pre_payment E p tok d f)" "keeps db_inv (post_payment E p tok n)"
  unfolding pre_payment_def post_payment_def Let_def by (intro keeps_rules; simp)+

lemma db_inv_answer_request [keeps_rules]: "keeps db_inv (answer_request E rq p)"
  unfolding answer_request_def handle_request_def handle_payment_request_def
  by (auto intro!: keeps_rules split: OrcaNetRequest.splits)

lemma db_inv_file_events [keeps_rules]:
  "keeps db_inv (handle_provide_file E fid path)" "keeps db_inv (handle_stop_providing_file E fid b)"
  unfolding handle_provide_file_def handle_stop_providing_file_def by (intro keeps_rules; simp)+

lemma keeps_send_event [keeps_rules]:
  "(\<And>s es. P s \<Longrightarrow> P (s\<lparr>proxy_events := es\<rparr>)) \<Longrightarrow> keeps P (send_event_to_proxy_server E ev x)"
  by (auto simp: keeps_def send_event_to_proxy_server_def Let_def io_defs split: option.splits awaited.splits)

lemma db_inv_proxy_events [keeps_rules]:
  "keeps db_inv (handle_start_proxy E m)" "keeps db_inv (handle_stop_proxy E)"
  unfolding handle_start_proxy_def handle_stop_proxy_def
  by (auto intro!: keeps_rules keeps_modify split: ProxyMode.splits)

lemma db_inv_handle_event [keeps_rules]: "keeps db_inv (handle_event E ev)"
  unfolding handle_event_def
  by (auto intro!: keeps_rules keeps_modify split: OrcaNetEvent.splits)

lemma db_inv_run_events [keeps_rules]: "keeps db_inv (run_events E evs)"
  by (induction evs) (auto intro!: keeps_rules)

section \<open>Helper facts of the properties\<close>

lemma f64_add_fin_not_nan: "a \<noteq> F_nan \<Longrightarrow> a + F_fin x \<noteq> F_nan"
  by (cases a) (auto simp: f64_ops_def)

lemma get_percent_diff_self: "\<not> F_fin 300 < get_percent_diff v v"
  by (cases v) (auto simp: get_percent_diff_def f_eq_def f64_ops_def)

lemma honest_claims_agree: "claims_agree c (pc_data_transferred_kb c) (ProxyClientInfo_get_fee_owed c)"
  by (simp add: claims_agree_def get_percent_diff_self)

lemma credited_key [simp]: "pc_client_id (credited x c) = pc_client_id c" "pc_auth_token (credited x c) = pc_auth_token c"
  by (simp_all add: credited_def)

lemma announced_key [simp]: "pay_payment_id (announced n r) = pay_payment_id r"
  by (simp add: announced_def)

abbreviation notify :: "string \<Rightarrow> string \<Rightarrow> PaymentNotification \<Rightarrow> PeerId \<Rightarrow> channel \<Rightarrow> OrcaNetEvent" where
  "notify cid tok n peer ch \<equiv> StreamRequestEvent (HTTPProxyPostPaymentNotification cid tok n) peer ch"

lemma notify_run:
  assumes "reliable E" "db_inv s" "cfg s DBPath = Some (JStr p)" "c \<in> set (proxy_clients s)"
    and "r \<in> set (payments s)" "pn_payment_reference n = pay_payment_id r"
    and "pn_amount_transferred n = F_fin x"
  obtains t where "handle_event E (notify cid (pc_auth_token c) n peer ch) s = (Ok (), t)"
    "db_inv t" "cfg t = cfg s" "credited (F_fin x) c \<in> set (proxy_clients t)"
    "announced n r \<in> set (payments t)"
    "proxy_clients t = at_key pc_client_id (pc_client_id c) (credited (F_fin x)) (proxy_clients s)"
    "map pay_payment_id (payments t) = map pay_payment_id (payments s)"
    "stream_replies t = stream_replies s @ [(ch, NullResponse)]" "transfers t = transfers s"
proof -
  have "pc_total_fee_received_unconfirmed c \<noteq> F_nan"
    using assms(2,4) by (auto simp: db_inv_def list_all_iff proxy_client_reals_ok_def)
  then have fin: "pc_total_fee_received_unconfirmed c + pn_amount_transferred n \<noteq> F_nan"
    using assms(7) by (simp add: f64_add_fin_not_nan)
  obtain t where t: "handle_event E (notify cid (pc_auth_token c) n peer ch) s = (Ok (), t)"
    and eq: "t = s\<lparr>io_calls := io_calls s + 6,
       payments := at_key pay_payment_id (pn_payment_reference n) (announced n) (payments s),
       proxy_clients := at_key pc_client_id (pc_client_id c) (credited (F_fin x)) (proxy_clients s),
       stream_replies := stream_replies s @ [(ch, NullResponse)]\<rparr>"
    using post_payment_run [OF assms(1-6) fin] assms(7) by (simp add: handle_event_def answer_defs)
  show thesis
  proof (rule that [OF t])
    show "db_inv t" using keepsD [OF db_inv_handle_event t assms(2)] .
    show "credited (F_fin x) c \<in> set (proxy_clients t)"
      using at_key_member [OF assms(4), of pc_client_id "pc_client_id c" "credited (F_fin x)"] eq by simp
    show "announced n r \<in> set (payments t)"
      using at_key_member [OF assms(5), of pay_payment_id "pn_payment_reference n" "announced n"] eq assms(6) by simp
  qed (simp_all add: eq map_key_at_key)
qed

lemma replay_run:
  assumes "reliable E" "db_inv s" "cfg s DBPath = Some (JStr p)" "c \<in> set (proxy_clients s)"
    and "r \<in> set (payments s)" "pn_payment_reference n = pay_payment_id r"
    and "pn_amount_transferred n = F_fin x"
  shows "\<exists>t. run_events E (replicate k (notify cid (pc_auth_token c) n peer ch)) s = (Ok (), t) \<and>
     proxy_clients t = at_key pc_client_id (pc_client_id c) (credited (F_fin x) ^^ k) (proxy_clients s) \<and>
     map pay_payment_id (payments t) = map pay_payment_id (payments s) \<and>
     stream_replies t = stream_replies s @ replicate k (ch, NullResponse) \<and> transfers t = transfers s"
  using assms
proof (induction k arbitrary: s c r)
  case 0
  then show ?case by (simp add: io_defs at_key_def)
next
  case (Suc k)
  from notify_run [OF Suc.prems, of cid peer ch] obtain u where
    u: "handle_event E (notify cid (pc_auth_token c) n peer ch) s = (Ok (), u)"
      "db_inv u" "cfg u = cfg s" "credited (F_fin x) c \<in> set (proxy_clients u)"
      "announced n r \<in> set (payments u)"
      "proxy_clients u = at_key pc_client_id (pc_client_id c) (credited (F_fin x)) (proxy_clients s)"
      "map pay_payment_id (payments u) = map pay_payment_id (payments s)"
      "stream_replies u = stream_replies s @ [(ch, NullResponse)]" "transfers u = transfers s" .
  have db: "cfg u DBPath = Some (JStr p)" using u(3) Suc.prems(3) by simp
  have ref: "pn_payment_reference n = pay_payment_id (announced n r)" using Suc.prems(6) by simp
  from Suc.IH [OF Suc.prems(1) u(2) db u(4,5) ref Suc.prems(7)] obtain t where
    t: "run_events E (replicate k (notify cid (pc_auth_token c) n peer ch)) u = (Ok (), t)"
      "proxy_clients t = at_key pc_client_id (pc_client_id c) (credited (F_fin x) ^^ k) (proxy_clients u)"
      "map pay_payment_id (payments t) = map pay_payment_id (payments s)"
      "stream_replies t = stream_replies s @ replicate (Suc k) (ch, NullResponse)" "transfers t = transfers s"
    using u by (auto simp: io_defs)
  have "proxy_clients t = at_key pc_client_id (pc_client_id c) (credited (F_fin x) ^^ Suc k) (proxy_clients s)"
    using t(2) u(6) by (simp add: at_key_at_key funpow_Suc_right del: funpow.simps) (simp add: comp_def)
  moreover have "run_events E (replicate (Suc k) (notify cid (pc_auth_token c) n peer ch)) s = (Ok (), t)"
    using t(1) u(1) by (simp add: io_bind_def)
  ultimately show ?case using t(3-5) by blast
qed




lemma sample_responsive [simp]: "responsive sample_env"
  by (simp add: responsive_def sample_env_def)

lemma fee_owed_fresh:
  "ProxyClientInfo_get_fee_owed (admitted_client cid tok now rate peer) = 0"
proof -
  have "round_f64 0 8 = 0" unfolding round_f64_def Let_def pow10_precision
    by (simp add: f64_ops_def)
  then show ?thesis
    by (cases rate) (auto simp: ProxyClientInfo_get_fee_owed_def admitted_client_def BTC_PRECISION_def
        f_max_def round_f64_nan f64_ops_def)
qed

lemma run_events_append:
  "run_events E xs s = (Ok (), t) \<Longrightarrow> run_events E (xs @ ys) s = run_events E ys t"
  by (induction xs arbitrary: s) (auto simp: io_defs split: prod.splits outcome.splits)

section \<open>Properties\<close>

text \<open>
  C11. A pre-payment request with the token of a registered client is always accepted: the answer
  carries the provider's own figures, asks for exactly the fee the provider computes, under a
  fresh reference and the provider's address. When the client's figures are within 300 percent
  of the provider's, the payment is recorded as awaited with that amount; when they are not,
  nothing is recorded, and nothing else changes in either case.
\<close>

theorem pre_payment_answer:
  assumes "reliable E" "db_inv s" "cfg s DBPath = Some (JStr p)" "cfg s BTCAddress = Some (JStr a)"
    and "c \<in> set (proxy_clients s)" "uuid_v4 E (uuids_drawn s) \<notin> pay_payment_id ` set (payments s)"
  shows "answer_request E (HTTPProxyPrePaymentRequest cid (pc_auth_token c) d f) peer s =
    (Ok (HTTPProxyPrePaymentResponse (pc_data_transferred_kb c) (ProxyClientInfo_get_fee_owed c)
           (Accepted \<lparr>pr_amount_to_send = ProxyClientInfo_get_fee_owed c,
                      pr_payment_reference = uuid_v4 E (uuids_drawn s), pr_recipient_address = a\<rparr>)),
     s\<lparr>uuids_drawn := Suc (uuids_drawn s),
       io_calls := io_calls s + (if claims_agree c d f then 4 else 2),
       payments := payments s @
         (if claims_agree c d f
          then [awaiting_payment (uuid_v4 E (uuids_drawn s)) a (ProxyClientInfo_get_fee_owed c) peer]
          else [])\<rparr>)"
  using pre_payment_run [OF assms] by (simp add: answer_defs)

theorem pre_payment_answer_witness:
  "map pay_payment_id (payments (snd (answer_request sample_env
     (HTTPProxyPrePaymentRequest ''client'' ''token'' (F_fin 1000)
        (ProxyClientInfo_get_fee_owed sample_client)) (PeerId ''peer-c'') sample_node))) = [''ref'', ''uuid-'']"
  using pre_payment_answer [of sample_env sample_node "''/db''" "''addr''" sample_client "''client''"
      "F_fin 1000" "ProxyClientInfo_get_fee_owed sample_client" "PeerId ''peer-c''"]
    honest_claims_agree [of sample_client]
  by (simp add: awaiting_payment_def)

text \<open>
  C12. A payment notification with the token of a registered client and the reference of a recorded
  payment is acknowledged; the payment becomes pending with the transaction and the sender of
  the notification, and the amount of the notification is added to the unconfirmed receipts of
  that client. No other row and no other table changes.
\<close>

theorem post_payment_answer:
  assumes "reliable E" "db_inv s" "cfg s DBPath = Some (JStr p)" "c \<in> set (proxy_clients s)"
    and "r \<in> set (payments s)" "pn_payment_reference n = pay_payment_id r"
    and "pc_total_fee_received_unconfirmed c + pn_amount_transferred n \<noteq> F_nan"
  shows "answer_request E (HTTPProxyPostPaymentNotification cid (pc_auth_token c) n) peer s =
    (Ok NullResponse,
     s\<lparr>io_calls := io_calls s + 6,
       payments := at_key pay_payment_id (pn_payment_reference n) (announced n) (payments s),
       proxy_clients := at_key pc_client_id (pc_client_id c) (credited (pn_amount_transferred n))
                          (proxy_clients s)\<rparr>)"
  using post_payment_run [OF assms] by (simp add: answer_defs)

abbreviation sample_notification :: PaymentNotification where
  "sample_notification \<equiv>
     \<lparr>pn_sender_address = ''addr-c'', pn_receiver_address = ''addr'', pn_amount_transferred = F_fin (1 / 2),
      pn_tx_id = ''tx'', pn_payment_reference = ''ref''\<rparr>"

theorem post_payment_answer_witness:
  "map pc_total_fee_received_unconfirmed (proxy_clients (snd (answer_request sample_env
     (HTTPProxyPostPaymentNotification ''client'' ''token'' sample_notification)
     (PeerId ''peer-c'') sample_node))) = [F_fin (1 / 4) + F_fin (1 / 2)]"
  using post_payment_answer [of sample_env sample_node "''/db''" sample_client sample_payment
      sample_notification "''client''" "PeerId ''peer-c''"]
  by (simp add: at_key_def credited_def f64_add_fin_not_nan)

text \<open>
  C21. Either payment request with a token that belongs to no client is answered with an internal
  error, and no table changes.
\<close>

theorem unknown_token_answer:
  assumes "reliable E" "cfg s DBPath = Some (JStr p)" "tok \<notin> pc_auth_token ` set (proxy_clients s)"
    and "request = HTTPProxyPrePaymentRequest cid tok d f \<or>
         request = HTTPProxyPostPaymentNotification cid tok n"
  shows "answer_request E request peer s =
    (Ok (ErrorResponse (InternalServerError (error_text E (Diesel NotFound)))),
     s\<lparr>io_calls := io_calls s + 2\<rparr>)"
  using answer_unknown_token [OF assms] .

theorem unknown_token_answer_witness:
  "fst (answer_request sample_env (HTTPProxyPrePaymentRequest ''client'' ''stolen'' 0 0)
     (PeerId ''x'') sample_node) = Ok (ErrorResponse (InternalServerError ''Record not found''))"
  using unknown_token_answer [of sample_env sample_node "''/db''" "''stolen''"
      "HTTPProxyPrePaymentRequest ''client'' ''stolen'' 0 0" "''client''" 0 0 undefined "PeerId ''x''"]
  by simp



text \<open>
  C20. A notification is not bound to be used once: delivering the same notification \<open>k\<close> times
  acknowledges it \<open>k\<close> times and credits its amount \<open>k\<close> times, although there is one
  payment and no transfer.
\<close>

theorem notification_replay:
  assumes "reliable E" "db_inv s" "cfg s DBPath = Some (JStr p)" "c \<in> set (proxy_clients s)"
    and "r \<in> set (payments s)" "pn_payment_reference n = pay_payment_id r"
    and "pn_amount_transferred n = F_fin x"
  shows "\<exists>t. run_events E (replicate k (notify cid (pc_auth_token c) n peer ch)) s = (Ok (), t) \<and>
     proxy_clients t = at_key pc_client_id (pc_client_id c) (credited (F_fin x) ^^ k) (proxy_clients s) \<and>
     map pay_payment_id (payments t) = map pay_payment_id (payments s) \<and>
     stream_replies t = stream_replies s @ replicate k (ch, NullResponse) \<and> transfers t = transfers s"
  using replay_run [OF assms] .

theorem notification_replay_witness:
  "\<exists>t. run_events sample_env (replicate 2 (notify ''client'' ''token'' sample_notification (PeerId ''x'') 0))
     sample_node = (Ok (), t) \<and>
   map pc_total_fee_received_unconfirmed (proxy_clients t) = [F_fin (1 / 4) + F_fin (1 / 2) + F_fin (1 / 2)]"
  using notification_replay [of sample_env sample_node "''/db''" sample_client sample_payment
      sample_notification "1 / 2" 2 "''client''" "PeerId ''x''" 0]
  by (auto simp: at_key_def credited_def eval_nat_numeral)

text \<open>
  C29. A notification whose amount does not add up to a number, for instance a NaN, is answered with
  an internal error, but the payment has been marked as pending by then: the two statements of the
  handler are not one transaction.
\<close>

theorem notification_not_atomic:
  assumes "reliable E" "db_inv s" "cfg s DBPath = Some (JStr p)" "c \<in> set (proxy_clients s)"
    and "r \<in> set (payments s)" "pn_payment_reference n = pay_payment_id r"
    and "pc_total_fee_received_unconfirmed c + pn_amount_transferred n = F_nan"
  shows "answer_request E (HTTPProxyPostPaymentNotification cid (pc_auth_token c) n) peer s =
    (Ok (ErrorResponse (InternalServerError (error_text E (Diesel NotNullViolation)))),
     s\<lparr>io_calls := io_calls s + 6,
       payments := at_key pay_payment_id (pn_payment_reference n) (announced n) (payments s)\<rparr>)"
  using post_payment_nan [OF assms] by (simp add: answer_defs)

theorem notification_not_atomic_witness:
  "map pay_status (payments (snd (answer_request sample_env
     (HTTPProxyPostPaymentNotification ''client'' ''token''
        (sample_notification\<lparr>pn_amount_transferred := F_nan\<rparr>)) (PeerId ''x'') sample_node)))
   = [''TransactionPending'']"
  using notification_not_atomic [of sample_env sample_node "''/db''" sample_client sample_payment
      "sample_notification\<lparr>pn_amount_transferred := F_nan\<rparr>" "''client''" "PeerId ''x''"]
  by (simp add: at_key_def announced_def plus_f64_def)

text \<open>
  C22. A provide request to a provider admits a client: the answer carries a fresh client id and a
  fresh token with the configured address, rate and recipient, the client is stored with zero
  balances at that rate, and from then on the token finds exactly that client, which owes nothing.
\<close>

theorem provide_request_admits:
  assumes "reliable E" "serde_ok E" "cfg_obj s" "cfg s ProxyConfig = Some (ser_proxy_mode ProxyProviderMode)"
    and "cfg s DBPath = Some (JStr p)" "cfg s BTCAddress = Some (JStr a)"
    and "cfg s ProxyProviderServerAddress = Some (JStr ip)"
    and "cfg s ProxyFeeRatePerKB = Some j" "as_f64 j = Some rate" "rate \<noteq> F_nan"
    and "uuid_v4 E (uuids_drawn s) \<notin> pc_client_id ` set (proxy_clients s)"
    and "uuid_v4 E (Suc (uuids_drawn s)) \<notin> pc_auth_token ` set (proxy_clients s)" "db_inv s"
  shows "\<exists>t c. answer_request E HTTPProxyProvideRequest peer s =
      (Ok (HTTPProxyProvideResponse
             \<lparr>hm_proxy_address = ip, hm_fee_rate_per_kb = rate, hm_recipient_address = a\<rparr>
             (pc_client_id c) (pc_auth_token c)), t) \<and>
    proxy_clients t = proxy_clients s @ [c] \<and>
    c = admitted_client (uuid_v4 E (uuids_drawn s)) (uuid_v4 E (Suc (uuids_drawn s)))
          (utc_now E (clock_reads s)) rate peer \<and>
    get_client_by_auth_token E (pc_auth_token c) t = (Ok c, tick t) \<and>
    ProxyClientInfo_get_fee_owed c = 0"
proof -
  obtain t c where t: "answer_request E HTTPProxyProvideRequest peer s =
      (Ok (HTTPProxyProvideResponse
             \<lparr>hm_proxy_address = ip, hm_fee_rate_per_kb = rate, hm_recipient_address = a\<rparr>
             (pc_client_id c) (pc_auth_token c)), t)"
    and c: "c = admitted_client (uuid_v4 E (uuids_drawn s)) (uuid_v4 E (Suc (uuids_drawn s)))
          (utc_now E (clock_reads s)) rate peer"
    and pcs: "proxy_clients t = proxy_clients s @ [c]"
    using handle_provide_run [OF assms(1-12), of peer] by (simp add: answer_defs admitted_client_def)
  have "db_inv t" using keepsD [OF db_inv_answer_request t assms(13)] .
  then have "get_client_by_auth_token E (pc_auth_token c) t = (Ok c, tick t)"
    by (rule get_client_run [OF assms(1)]) (simp add: pcs)
  moreover have "ProxyClientInfo_get_fee_owed c = 0"
    by (simp add: c fee_owed_fresh)
  ultimately show ?thesis using t c pcs by blast
qed

theorem provide_request_admits_witness:
  "\<exists>t. answer_request sample_env HTTPProxyProvideRequest (PeerId ''q'') sample_node =
     (Ok (HTTPProxyProvideResponse
       \<lparr>hm_proxy_address = ''10.0.0.1:3000'', hm_fee_rate_per_kb = F_fin (1 / 1024),
        hm_recipient_address = ''addr''\<rparr> ''uuid-'' ''uuid-0''), t) \<and>
     length (proxy_clients t) = 2"
  using provide_request_admits [of sample_env sample_node "''/db''" "''addr''" "''10.0.0.1:3000''"
      "JNum (Float (F_fin (1 / 1024)))" "F_fin (1 / 1024)" "PeerId ''q''"]
  by (auto simp: admitted_client_def)

text \<open>
  C23. A content request for a provided file whose path can be read is answered with the bytes of
  the file and its metadata at the configured rate and address, and its download counter goes up
  by one, modulo \<open>2^32\<close>; the file's status plays no part.
\<close>

theorem file_content_answer:
  assumes "reliable E" "db_inv s" "cfg s DBPath = Some (JStr p)" "cfg s BTCAddress = Some (JStr a)"
    and "cfg s FileFeeRatePerKB = Some j" "as_f64 j = Some rate"
    and "r \<in> set (provided_files s)" "map_of (files s) (pf_file_path r) = Some (File bs)"
  shows "answer_request E (FileContentRequest (pf_file_id r)) peer s =
    (Ok (FileContentResponse
           \<lparr>fm_file_id = pf_file_id r, fm_file_name = pf_file_name r, fm_fee_rate_per_kb = rate,
            fm_recipient_address = a\<rparr> bs),
     s\<lparr>io_calls := io_calls s + 4,
       provided_files := at_key pf_file_id (pf_file_id r)
         (\<lambda>x. x\<lparr>pf_downloads_count := pf_downloads_count x + 1\<rparr>) (provided_files s)\<rparr>)"
  using handle_file_content_run [OF assms] by (simp add: answer_defs)

theorem file_content_answer_witness:
  "map pf_downloads_count (provided_files (snd (answer_request sample_env
     (FileContentRequest ''0123456789abcdef0'') (PeerId ''q'') sample_node))) = [1]"
  using file_content_answer [of sample_env sample_node "''/db''" "''addr''"
      "JNum (Float (F_fin (1 / 2)))" "F_fin (1 / 2)" sample_file "[1, 2, 3]" "PeerId ''q''"]
  by (simp add: at_key_def sample_file_def)

text \<open>
  A file request for an id that is not in the table of provided files, and a proxy request to a
  node that is not a provider, are answered with \<open>NotAProvider\<close> and change nothing.
\<close>

lemma not_a_provider_answer:
  assumes "reliable E" "cfg_obj s" "cfg s DBPath = Some (JStr p)"
    and "fid \<notin> pf_file_id ` set (provided_files s)"
    and "Option.bind (cfg s ProxyConfig) (de_proxy_mode E) \<noteq> Some ProxyProviderMode"
    and "request \<in> {FileMetadataRequest fid, FileContentRequest fid, HTTPProxyMetadataRequest, HTTPProxyProvideRequest}"
  shows "\<exists>msg. fst (answer_request E request peer s) = Ok (ErrorResponse (NotAProvider msg)) \<and>
    snd (answer_request E request peer s) \<in> {s, s\<lparr>io_calls := io_calls s + 2\<rparr>}"
proof -
  have "handle_http_proxy_request E request peer s =
      (Ok (ErrorResponse (NotAProvider ''Not a proxy provider'')), s)"
    using assms(2,5)
    by (auto simp: handle_http_proxy_request_def io_defs get_proxy_config_run split: option.splits ProxyMode.splits)
  then show ?thesis
    using assms(6) handle_file_unknown [OF assms(1,3,4), of _ peer] by (auto simp: answer_defs)
qed

lemma not_a_provider_answer_witness:
  "\<exists>msg. fst (answer_request sample_env HTTPProxyProvideRequest (PeerId ''q'')
     (sample_node\<lparr>config := ConfigJson (JObj [(''DBPath'', JStr ''/db'')])\<rparr>)) = Ok (ErrorResponse (NotAProvider msg))"
  using not_a_provider_answer [of sample_env "sample_node\<lparr>config := ConfigJson (JObj [(''DBPath'', JStr ''/db'')])\<rparr>"
      "''/db''" "''none''" HTTPProxyProvideRequest "PeerId ''q''"]
  by (auto simp: cfg_obj_def cfg_def)

text \<open>
  C40. Starting a proxy and stopping it again: one proxy task is spawned and it is the one that gets
  the stop event, a provider enters and leaves the provider record of the DHT, and afterwards no
  proxy is running, no mode is configured and every other key of the configuration is as before.
\<close>

theorem start_then_stop:
  assumes "reliable E" "responsive E" "serde_ok E" "config s = ConfigJson (JObj kvs)"
    and "proxy_event_sender s = None"
  shows "\<exists>t. run_events E [StartProxy m, StopProxy] s = (Ok (), t) \<and>
    proxies_spawned t = proxies_spawned s @ [(m, channels s)] \<and>
    proxy_events t = proxy_events s @ [(channels s, StopProxy)] \<and>
    commands t = commands s @ starts_dht m (Suc (channels s)) @ stops_dht m \<and>
    proxy_event_sender t = None \<and> get_proxy_config E t = (Ok None, t) \<and>
    (\<forall>k. k \<noteq> ProxyConfig \<longrightarrow> cfg t k = cfg s k)"
proof -
  from start_then_stop_run [OF assms, of m] obtain t where
    t: "run_events E [StartProxy m, StopProxy] s = (Ok (), t)"
    "t = s\<lparr>channels := Suc (channels s) + length (starts_dht m 0),
              proxies_spawned := proxies_spawned s @ [(m, channels s)],
              proxy_events := proxy_events s @ [(channels s, StopProxy)],
              commands := commands s @ starts_dht m (Suc (channels s)) @ stops_dht m,
              io_calls := io_calls s + 2,
              config := ConfigJson (JObj (obj_insert ''ProxyConfig'' JNull kvs))\<rparr>" by blast
  have key: "ConfigKey_name k = ''ProxyConfig'' \<longleftrightarrow> k = ProxyConfig" for k by (cases k) simp_all
  have "cfg t k = (if k = ProxyConfig then Some JNull else cfg s k)" for k
    using t(2) assms(4) by (simp add: cfg_def map_of_obj_insert key)
  moreover have "de_proxy_mode E JNull = None" "cfg_obj t"
    using assms(3) t(2) by (simp_all add: serde_ok_def cfg_obj_def)
  ultimately show ?thesis using t assms(5) by (intro exI [of _ t]) (simp add: get_proxy_config_run)
qed

theorem start_then_stop_witness:
  "\<exists>t. run_events sample_env [StartProxy ProxyProviderMode, StopProxy] sample_node = (Ok (), t) \<and>
     proxy_events t = [(0, StopProxy)] \<and>
     commands t = [StartProviding ''http_proxy_providers'' 1, StopProviding ''http_proxy_providers'']"
  using start_then_stop [of sample_env sample_node sample_config ProxyProviderMode]
  by (auto simp: starts_dht_def stops_dht_def)

text \<open>
  Stopping the proxy when no mode is configured panics the request handler: no later event is
  handled. So a second stop in a row ends the loop.
\<close>

lemma second_stop_panics:
  assumes "reliable E" "responsive E" "serde_ok E" "config s = ConfigJson (JObj kvs)"
    and "proxy_event_sender s = None"
  shows "fst (request_handler_run E (StartProxy m # StopProxy # StopProxy # evs) s) =
    Panic ''Proxy mode to be present in config''"
proof -
  from start_then_stop_run [OF assms, of m] obtain t where
    t: "run_events E [StartProxy m, StopProxy] s = (Ok (), t)"
    "config t = ConfigJson (JObj (obj_insert ''ProxyConfig'' JNull kvs))" by simp
  then have "cfg_obj t" "Option.bind (cfg t ProxyConfig) (de_proxy_mode E) = None"
    using assms(3) by (simp_all add: cfg_obj_def cfg_def map_of_obj_insert serde_ok_def)
  then have "handle_event E StopProxy t = (Panic ''Proxy mode to be present in config'', t)"
    by (simp add: handle_event_def handle_stop_proxy_panics)
  then have stop: "run_events E (StopProxy # evs) t = (Panic ''Proxy mode to be present in config'', t)"
    by (simp add: io_bind_def)
  have "run_events E (StartProxy m # StopProxy # StopProxy # evs) s =
      (Panic ''Proxy mode to be present in config'', t)"
    using run_events_append [OF t(1), of "StopProxy # evs"] stop by (simp only: append.simps)
  then show ?thesis by (simp only: request_handler_run_def io_bind_def prod.case outcome.case fst_conv)
qed

lemma second_stop_panics_witness:
  "fst (request_handler_run sample_env [StartProxy ProxyProviderMode, StopProxy, StopProxy] sample_node) =
   Panic ''Proxy mode to be present in config''"
  using second_stop_panics [of sample_env sample_node sample_config ProxyProviderMode "[]"]
  by simp

text \<open>
  Whatever events arrive and whatever the database, the file system and the network do, the
  request handler leaves the database well formed: keys, unique columns and real columns stay
  as the schema declares them.
\<close>

lemma request_handler_keeps_db_inv:
  assumes "db_inv s"
  shows "db_inv (snd (request_handler_run E evs s))"
proof -
  have "keeps db_inv (request_handler_run E evs)"
    unfolding request_handler_run_def by (intro keeps_rules)
  with assms show ?thesis by (simp add: keeps_def)
qed

lemma request_handler_keeps_db_inv_witness:
  "db_inv (snd (request_handler_run sample_env [StartProxy ProxyProviderMode, StopProxy] sample_node))"
  using request_handler_keeps_db_inv [OF sample_db_inv] .

end
