(* ===== verification/Orca_Payment.thy ===== *)
theory Orca_Payment
  imports Orca_Request_Handler
begin

text \<open>
  The client side of the payment protocol (\<open>proxy/proxy_payment.rs\<close>): on every tick of its
  interval the loop reads its session, asks the provider how much to pay, transfers that amount,
  records the transfer, and notifies the provider.
\<close>

section \<open>Definitions\<close>

definition pre_payment_step :: "env \<Rightarrow> PeerId \<Rightarrow> ProxySessionInfo \<Rightarrow> PaymentRequest node_io" where
  "pre_payment_step E peer_id session_info =
     io_bind (send_request E peer_id
                (HTTPProxyPrePaymentRequest (ps_client_id session_info) (ps_auth_token session_info)
                   (ps_data_transferred_kb session_info) (ProxySessionInfo_get_fee_owed session_info))) (\<lambda>resp.
       case resp of
         HTTPProxyPrePaymentResponse data_transferred_kb fee_owed pre_payment_response \<Rightarrow>
           (case pre_payment_response of
              Accepted payment_req \<Rightarrow> io_ret payment_req
            | RejectedDataTransferDiffers \<Rightarrow> io_panic ''not yet implemented''
            | RejectedFeeOwedDiffers \<Rightarrow> io_panic ''not yet implemented''
            | ServerTerminatingConnection payment_req \<Rightarrow> io_panic ''not yet implemented'')
       | ErrorResponse e \<Rightarrow> io_fail (Msg (''Got error for pre payment request '' @ debug_error E e))
       | _ \<Rightarrow> io_fail (Msg ''Got invalid response for pre payment request''))"

text \<open>\<open>process_payment\<close> from the created transaction on: record it, then notify the provider.\<close>

definition record_and_notify ::
  "env \<Rightarrow> string \<Rightarrow> ProxySessionInfo \<Rightarrow> PeerId \<Rightarrow> PaymentRequest \<Rightarrow> string \<Rightarrow> string option node_io" where
  "record_and_notify E session_id session_info provider_peer payment_request tx_id =
     io_bind (create_sqlite_connection E None) (\<lambda>_.
     io_bind (new_uuid E) (\<lambda>payment_id.
     io_bind (insert_payment_info E
                (PaymentInfo_default
                   \<lparr>pay_payment_id := payment_id, pay_tx_id := Some tx_id,
                    pay_to_address := pr_recipient_address payment_request,
                    pay_amount_btc := Some (pr_amount_to_send payment_request),
                    pay_category := category_text Send,
                    pay_status := status_text TransactionPending,
                    pay_payment_reference := Some (pr_payment_reference payment_request),
                    pay_from_peer := None,
                    pay_to_peer := Some (ps_provider_peer_id session_info)\<rparr>)) (\<lambda>_.
     io_bind (create_sqlite_connection E None) (\<lambda>_.
     io_bind (update_total_fee_sent_unconfirmed E session_id (pr_amount_to_send payment_request)) (\<lambda>_.
     io_bind get_btc_address (\<lambda>sender_address.
     io_bind (io_attempt (send_request E provider_peer
                (HTTPProxyPostPaymentNotification (ps_client_id session_info) (ps_auth_token session_info)
                   \<lparr>pn_sender_address = sender_address,
                    pn_receiver_address = pr_recipient_address payment_request,
                    pn_amount_transferred = pr_amount_to_send payment_request,
                    pn_tx_id = tx_id,
                    pn_payment_reference = pr_payment_reference payment_request\<rparr>))) (\<lambda>_.
     io_ret (Some (pr_payment_reference payment_request)))))))))"

definition process_payment :: "env \<Rightarrow> string \<Rightarrow> string option node_io" where
  "process_payment E session_id =
     io_bind (create_sqlite_connection E None) (\<lambda>_.
     io_bind (get_session_info E session_id) (\<lambda>session_info.
       if f_eq (ProxySessionInfo_get_fee_owed session_info) 0 then io_ret None
       else
         io_bind (io_some ''Provider peer id to be valid''
                    (parse_peer_id E (ps_provider_peer_id session_info))) (\<lambda>provider_peer.
         io_bind (pre_payment_step E provider_peer session_info) (\<lambda>payment_request.
         io_bind (get_network_type E) (\<lambda>network.
         io_bind (send_to_address E network (pr_recipient_address payment_request)
                    (pr_amount_to_send payment_request) None) (\<lambda>tx_id.
         record_and_notify E session_id session_info provider_peer payment_request tx_id))))))"

text \<open>
  The branches of the \<open>select!\<close> in the order they are taken. The value says whether the loop
  has returned; an error of a payment attempt is logged and the loop goes on.
\<close>

datatype loop_event = Cancelled | IntervalTick

fun start_loop :: "env \<Rightarrow> string \<Rightarrow> loop_event list \<Rightarrow> bool node_io" where
  "start_loop E session_id [] = io_ret False"
| "start_loop E session_id (Cancelled # evs) = io_ret True"
| "start_loop E session_id (IntervalTick # evs) =
     io_bind (io_attempt (process_payment E session_id)) (\<lambda>_. start_loop E session_id evs)"

section \<open>What one attempt does\<close>

text \<open>The two messages of an attempt.\<close>

definition pre_payment_msg :: "ProxySessionInfo \<Rightarrow> OrcaNetRequest" where
  "pre_payment_msg p = HTTPProxyPrePaymentRequest (ps_client_id p) (ps_auth_token p)
     (ps_data_transferred_kb p) (ProxySessionInfo_get_fee_owed p)"

definition payment_note :: "string \<Rightarrow> string \<Rightarrow> PaymentRequest \<Rightarrow> PaymentNotification" where
  "payment_note sender tx_id req =
     \<lparr>pn_sender_address = sender, pn_receiver_address = pr_recipient_address req,
      pn_amount_transferred = pr_amount_to_send req, pn_tx_id = tx_id,
      pn_payment_reference = pr_payment_reference req\<rparr>"

definition post_payment_msg :: "ProxySessionInfo \<Rightarrow> string \<Rightarrow> string \<Rightarrow> PaymentRequest \<Rightarrow> OrcaNetRequest" where
  "post_payment_msg p sender tx_id req =
     HTTPProxyPostPaymentNotification (ps_client_id p) (ps_auth_token p) (payment_note sender tx_id req)"

definition sent_payment :: "string \<Rightarrow> string \<Rightarrow> ProxySessionInfo \<Rightarrow> PaymentRequest \<Rightarrow> PaymentInfo" where
  "sent_payment payment_id tx_id p req =
     \<lparr>pay_payment_id = payment_id, pay_tx_id = Some tx_id, pay_from_address = None,
      pay_to_address = pr_recipient_address req, pay_expected_amount_btc = None,
      pay_amount_btc = Some (pr_amount_to_send req), pay_category = ''Send'',
      pay_status = ''TransactionPending'', pay_payment_reference = Some (pr_payment_reference req),
      pay_from_peer = None, pay_to_peer = Some (ps_provider_peer_id p)\<rparr>"

definition debited :: "f64 \<Rightarrow> ProxySessionInfo \<Rightarrow> ProxySessionInfo" where
  "debited amount p = p\<lparr>ps_total_fee_sent_unconfirmed := ps_total_fee_sent_unconfirmed p + amount\<rparr>"

lemma send_request_run:
  assumes "commands_open E (commands s)"
    and "reply_response E (commands s @ [Request rq peer (channels s)]) = Answered (Inr resp)"
  shows "send_request E peer rq s =
    (Ok resp, s\<lparr>channels := Suc (channels s), commands := commands s @ [Request rq peer (channels s)]\<rparr>)"
  using assms by (simp add: send_request_def new_channel_def send_command_def await_reply_def io_defs)

lemma get_network_type_run:
  "cfg s NetworkType = Some (JStr t) \<Longrightarrow> serde_from_str (de_btc_network E) t = Some net \<Longrightarrow>
   get_network_type E s = (Ok net, s)"
  by (simp add: get_network_type_def io_defs get_str_from_config_Some)

lemma send_to_address_run:
  "reliable E \<Longrightarrow> valid_btc_address E a \<Longrightarrow> amount_from_btc E x = Some sat \<Longrightarrow>
   send_to_address E net a x c s =
     (Ok (send_txid E (length (transfers s))),
      (tick s)\<lparr>transfers := transfers s @ [(net, a, sat, c)]\<rparr>)"
  by (simp add: send_to_address_def io_defs external_reliable)

lemma process_payment_nothing_owed:
  assumes "reliable E" "db_inv s" "cfg s DBPath = Some (JStr d)" "p \<in> set (proxy_sessions s)"
    and "ProxySessionInfo_get_fee_owed p = 0"
  shows "process_payment E (ps_session_id p) s = (Ok None, s\<lparr>io_calls := io_calls s + 2\<rparr>)"
  using assms
  by (simp add: process_payment_def io_defs create_sqlite_connection_run get_session_run f_eq_0)

lemma pre_payment_step_run:
  assumes "commands_open E (commands s)"
    and "reply_response E (commands s @ [Request (pre_payment_msg p) peer (channels s)]) =
      Answered (Inr (HTTPProxyPrePaymentResponse d f (Accepted req)))"
  shows "pre_payment_step E peer p s =
    (Ok req, s\<lparr>channels := Suc (channels s),
                commands := commands s @ [Request (pre_payment_msg p) peer (channels s)]\<rparr>)"
  using send_request_run [OF assms] by (simp add: pre_payment_step_def io_defs pre_payment_msg_def)

text \<open>
  What an attempt needs to go through: a working engine and daemon, a configuration, a provider
  that asks for \<open>req\<close>, and a notification that is answered in some way.
\<close>

definition attempt_ready ::
  "env \<Rightarrow> node \<Rightarrow> ProxySessionInfo \<Rightarrow> PeerId \<Rightarrow> BTCNetwork \<Rightarrow> string \<Rightarrow> nat \<Rightarrow> PaymentRequest \<Rightarrow> bool" where
  "attempt_ready E s p peer net sender sat req =
     (reliable E \<and> db_inv s \<and> p \<in> set (proxy_sessions s) \<and>
      (\<exists>d. cfg s DBPath = Some (JStr d)) \<and> cfg s BTCAddress = Some (JStr sender) \<and>
      (\<exists>t. cfg s NetworkType = Some (JStr t) \<and> serde_from_str (de_btc_network E) t = Some net) \<and>
      parse_peer_id E (ps_provider_peer_id p) = Some peer \<and> (\<forall>cs. commands_open E cs) \<and>
      valid_btc_address E (pr_recipient_address req) \<and>
      amount_from_btc E (pr_amount_to_send req) = Some sat \<and>
      pr_amount_to_send req \<noteq> F_nan \<and>
      ps_total_fee_sent_unconfirmed p + pr_amount_to_send req \<noteq> F_nan \<and>
      uuid_v4 E (uuids_drawn s) \<notin> pay_payment_id ` set (payments s))"

definition attempt_commands ::
  "node \<Rightarrow> ProxySessionInfo \<Rightarrow> PeerId \<Rightarrow> string \<Rightarrow> string \<Rightarrow> PaymentRequest \<Rightarrow> NetworkCommand list" where
  "attempt_commands s p peer sender tx_id req =
     [Request (pre_payment_msg p) peer (channels s),
      Request (post_payment_msg p sender tx_id req) peer (Suc (channels s))]"

lemma insert_sent_payment_run:
  assumes "reliable E" "pr_amount_to_send req \<noteq> F_nan" "k \<notin> pay_payment_id ` set (payments s)"
  shows "insert_payment_info E
      (PaymentInfo_default
         \<lparr>pay_payment_id := k, pay_tx_id := Some tx, pay_to_address := pr_recipient_address req,
          pay_amount_btc := Some (pr_amount_to_send req), pay_category := ''Send'',
          pay_status := ''TransactionPending'', pay_payment_reference := Some (pr_payment_reference req),
          pay_from_peer := None, pay_to_peer := Some (ps_provider_peer_id p)\<rparr>) s =
    (Ok 1, (tick s)\<lparr>payments := payments s @ [sent_payment k tx p req]\<rparr>)"
  using assms insert_payment_info_run [OF assms(1), of "sent_payment k tx p req" s]
  by (simp add: sent_payment_def PaymentInfo_default_def payment_reals_ok_def)

lemma debit_run:
  assumes "reliable E" "db_inv s" "p \<in> set (proxy_sessions s)"
    and "ps_total_fee_sent_unconfirmed p + x \<noteq> F_nan"
  shows "update_total_fee_sent_unconfirmed E (ps_session_id p) x s =
    (Ok 1, (tick s)\<lparr>proxy_sessions := at_key ps_session_id (ps_session_id p) (debited x) (proxy_sessions s)\<rparr>)"
proof -
  have "proxy_session_reals_ok (debited x p)"
    using assms(2-4) by (auto simp: db_inv_def list_all_iff proxy_session_reals_ok_def debited_def)
  then show ?thesis
    using update_session_reals_run [OF assms(1-3), of "debited x"]
    by (simp add: update_total_fee_sent_unconfirmed_def debited_def [abs_def])
qed

lemma process_payment_run:
  assumes ready: "attempt_ready E s p peer net sender sat req"
    and owed: "ProxySessionInfo_get_fee_owed p \<noteq> 0"
    and ask: "reply_response E (commands s @ [Request (pre_payment_msg p) peer (channels s)]) =
      Answered (Inr (HTTPProxyPrePaymentResponse d f (Accepted req)))"
    and told: "reply_response E (commands s @
        attempt_commands s p peer sender (send_txid E (length (transfers s))) req) = Answered res"
  shows "process_payment E (ps_session_id p) s =
    (Ok (Some (pr_payment_reference req)),
     s\<lparr>channels := channels s + 2,
       commands := commands s @ attempt_commands s p peer sender (send_txid E (length (transfers s))) req,
       uuids_drawn := Suc (uuids_drawn s), io_calls := io_calls s + 7,
       transfers := transfers s @ [(net, pr_recipient_address req, sat, None)],
       payments := payments s @
         [sent_payment (uuid_v4 E (uuids_drawn s)) (send_txid E (length (transfers s))) p req],
       proxy_sessions := at_key ps_session_id (ps_session_id p) (debited (pr_amount_to_send req))
         (proxy_sessions s)\<rparr>)"
proof -
  let ?tx = "send_txid E (length (transfers s))"
  from ready have rel: "reliable E" and inv: "db_inv s" and mem: "p \<in> set (proxy_sessions s)"
    and addr: "cfg s BTCAddress = Some (JStr sender)"
    and peer: "parse_peer_id E (ps_provider_peer_id p) = Some peer"
    and op: "\<And>cs. commands_open E cs" and va: "valid_btc_address E (pr_recipient_address req)"
    and am: "amount_from_btc E (pr_amount_to_send req) = Some sat"
    and nn: "pr_amount_to_send req \<noteq> F_nan" "ps_total_fee_sent_unconfirmed p + pr_amount_to_send req \<noteq> F_nan"
    and fresh: "uuid_v4 E (uuids_drawn s) \<notin> pay_payment_id ` set (payments s)"
    unfolding attempt_ready_def by auto
  from ready obtain db t where cf: "cfg s DBPath = Some (JStr db)" "cfg s NetworkType = Some (JStr t)"
    "serde_from_str (de_btc_network E) t = Some net" unfolding attempt_ready_def by auto
  have reals: "payment_reals_ok (sent_payment k ?tx p req)" for k
    using nn by (simp add: sent_payment_def payment_reals_ok_def)
  have debit: "update_total_fee_sent_unconfirmed E (ps_session_id p) (pr_amount_to_send req) t =
      (Ok 1, (tick t)\<lparr>proxy_sessions :=
         at_key ps_session_id (ps_session_id p) (debited (pr_amount_to_send req)) (proxy_sessions t)\<rparr>)"
    if "provided_files t = provided_files s" "downloaded_files t = downloaded_files s"
      "proxy_clients t = proxy_clients s" "proxy_sessions t = proxy_sessions s"
      "payments t = payments s @ [sent_payment (uuid_v4 E (uuids_drawn s)) ?tx p req]" for t
  proof (rule debit_run [OF rel _ _ nn(2)])
    show "db_inv t" using inv fresh reals that by (auto simp: db_inv_def sent_payment_def)
  qed (simp add: that mem)
  have step: "pre_payment_step E peer p (s\<lparr>io_calls := n\<rparr>) =
      (Ok req, s\<lparr>io_calls := n, channels := Suc (channels s),
                  commands := commands s @ [Request (pre_payment_msg p) peer (channels s)]\<rparr>)" for n
    using pre_payment_step_run [of E "s\<lparr>io_calls := n\<rparr>" p peer d f req] op ask by simp
  note runs = create_sqlite_connection_run [OF rel] get_session_run [OF rel] send_to_address_run [OF rel va am]
    insert_sent_payment_run [OF rel nn(1)] debit get_str_from_config_Some
    get_network_type_run step
  show ?thesis
    using owed mem inv fresh cf addr told
    by (simp add: process_payment_def record_and_notify_def io_defs f_eq_0 peer runs new_uuid_def get_btc_address_def
        send_request_def new_channel_def send_command_def op await_reply_def attempt_commands_def
        post_payment_msg_def payment_note_def eval_nat_numeral split: sum.splits)
qed

section \<open>No transfer without an accepted request\<close>

text \<open>The state after any outcome, by cases on the outcome of the first step.\<close>

lemma snd_bind_cases:
  "snd (io_bind m f s) = snd (m s) \<or> (\<exists>a t. m s = (Ok a, t) \<and> snd (io_bind m f s) = snd (f a t))"
  by (auto simp: io_bind_def split: prod.splits outcome.splits)

lemma get_session_cases:
  "get_session_info E k s = (Ok p, t) \<Longrightarrow> p \<in> set (proxy_sessions s) \<and> t = tick s"
  using ps_get.get_Ok by blast

lemma send_to_address_transfers:
  "transfers (snd (send_to_address E net a x c s)) = transfers s \<or>
   (\<exists>sat. amount_from_btc E x = Some sat \<and>
          transfers (snd (send_to_address E net a x c s)) = transfers s @ [(net, a, sat, c)])"
  by (auto simp: send_to_address_def io_defs external_def Let_def split: option.splits)

lemma pre_payment_step_Ok:
  assumes "pre_payment_step E peer p s = (Ok req, t)"
  shows "\<exists>d f. reply_response E (commands s @ [Request (pre_payment_msg p) peer (channels s)]) =
      Answered (Inr (HTTPProxyPrePaymentResponse d f (Accepted req)))"
  using assms
  by (auto simp: pre_payment_step_def send_request_def new_channel_def send_command_def await_reply_def
      io_defs pre_payment_msg_def
      split: if_splits awaited.splits sum.splits OrcaNetResponse.splits PrePaymentResponse.splits)

text \<open>Everything but the transfer itself leaves the list of transfers alone.\<close>

lemma transfers_create_sqlite [simp]: "transfers (snd (create_sqlite_connection E d s)) = transfers s"
  using keeps_create_sqlite_connection [of "\<lambda>x. transfers x = transfers s" E d]
  by (simp add: keeps_def)

lemma keeps_transfers_step [keeps_rules]:
  "keeps (\<lambda>x. transfers x = T) (pre_payment_step E peer p)"
  unfolding pre_payment_step_def
  by (auto intro!: keeps_rules split: OrcaNetResponse.splits PrePaymentResponse.splits)

lemma keeps_transfers_db [keeps_rules]:
  "keeps (\<lambda>x. transfers x = T) (insert_payment_info E r)"
  "keeps (\<lambda>x. transfers x = T) (update_total_fee_sent_unconfirmed E k y)"
  unfolding insert_payment_info_def update_total_fee_sent_unconfirmed_def update_session_reals_def
  by (rule run_sql_keeps; auto simp: Let_def split: sum.splits prod.splits if_splits)+

text \<open>What an attempt may do to the list of transfers.\<close>

definition transfer_justified :: "env \<Rightarrow> node \<Rightarrow> transfer list \<Rightarrow> bool" where
  "transfer_justified E s ts =
     (ts = transfers s \<or>
      (\<exists>p peer net sat d f req. p \<in> set (proxy_sessions s) \<and> ProxySessionInfo_get_fee_owed p \<noteq> 0 \<and>
         reply_response E (commands s @ [Request (pre_payment_msg p) peer (channels s)]) =
           Answered (Inr (HTTPProxyPrePaymentResponse d f (Accepted req))) \<and>
         amount_from_btc E (pr_amount_to_send req) = Some sat \<and>
         ts = transfers s @ [(net, pr_recipient_address req, sat, None)]))"

lemma transfers_keeps_rest:
  assumes "keeps (\<lambda>x. transfers x = transfers t) m"
  shows "transfers (snd (m t)) = transfers t"
  using assms by (simp add: keeps_def)

lemma keeps_transfers_record [keeps_rules]:
  "keeps (\<lambda>x. transfers x = T) (record_and_notify E sid p peer req tx)"
  unfolding record_and_notify_def by (intro keeps_rules; simp)

lemma transfer_then_record:
  "transfers (snd (io_bind (send_to_address E net a x None) (\<lambda>tx. record_and_notify E sid p peer req tx) t))
     = transfers (snd (send_to_address E net a x None t))"
  using snd_bind_cases [of "send_to_address E net a x None" "\<lambda>tx. record_and_notify E sid p peer req tx" t]
    transfers_keeps_rest [OF keeps_transfers_record] by auto

lemma snd_bindI:
  "(\<And>a t. m s = (Ok a, t) \<Longrightarrow> Q (snd (f a t))) \<Longrightarrow> Q (snd (m s)) \<Longrightarrow> Q (snd (io_bind m f s))"
  by (auto simp: io_bind_def split: prod.splits outcome.splits)

lemma create_sqlite_connection_state: "snd (create_sqlite_connection E None s) \<in> {s, tick s}"
  by (auto simp: create_sqlite_connection_def get_str_from_config_def get_from_config_def
      get_config_json_def external_def Let_def io_defs split: config_file.splits option.splits)

lemma pay_transfers:
  "let t = snd (io_bind (get_network_type E) (\<lambda>network.
      io_bind (send_to_address E network (pr_recipient_address req) (pr_amount_to_send req) None) (\<lambda>tx.
        record_and_notify E sid p peer req tx)) s)
   in transfers t = transfers s \<or>
     (\<exists>net sat. amount_from_btc E (pr_amount_to_send req) = Some sat \<and>
        transfers t = transfers s @ [(net, pr_recipient_address req, sat, None)])"
  unfolding Let_def
proof (rule snd_bindI)
  fix net t assume "get_network_type E s = (Ok net, t)"
  then have "t = s" using keepsD [OF keeps_config_reads(5), of E s "Ok net" t "\<lambda>x. x = s"] by simp
  then show "transfers (snd (io_bind
        (send_to_address E net (pr_recipient_address req) (pr_amount_to_send req) None)
        (\<lambda>tx. record_and_notify E sid p peer req tx) t)) = transfers s \<or>
      (\<exists>net' sat. amount_from_btc E (pr_amount_to_send req) = Some sat \<and>
        transfers (snd (io_bind
          (send_to_address E net (pr_recipient_address req) (pr_amount_to_send req) None)
          (\<lambda>tx. record_and_notify E sid p peer req tx) t)) =
        transfers s @ [(net', pr_recipient_address req, sat, None)])"
    using send_to_address_transfers [of E net "pr_recipient_address req" "pr_amount_to_send req" None s]
    by (auto simp: transfer_then_record)
qed (simp add: transfers_keeps_rest [OF keeps_config_reads(5)])

lemma process_payment_justified: "transfer_justified E s (transfers (snd (process_payment E sid s)))"
  unfolding process_payment_def
proof (rule snd_bindI)
  show "transfer_justified E s (transfers (snd (create_sqlite_connection E None s)))"
    by (simp add: transfer_justified_def)
  fix x u assume "create_sqlite_connection E None s = (Ok x, u)"
  then have u: "u \<in> {s, tick s}" using create_sqlite_connection_state [of E s] by simp
  let ?pay = "\<lambda>p peer req. io_bind (get_network_type E) (\<lambda>network.
      io_bind (send_to_address E network (pr_recipient_address req) (pr_amount_to_send req) None) (\<lambda>tx.
        record_and_notify E sid p peer req tx))"
  show "transfer_justified E s (transfers (snd (io_bind (get_session_info E sid) (\<lambda>p.
      if f_eq (ProxySessionInfo_get_fee_owed p) 0 then io_ret None
      else io_bind (io_some ''Provider peer id to be valid'' (parse_peer_id E (ps_provider_peer_id p))) (\<lambda>peer.
        io_bind (pre_payment_step E peer p) (?pay p peer))) u)))"
  proof (rule snd_bindI)
    show "transfer_justified E s (transfers (snd (get_session_info E sid u)))"
      using u by (auto simp: ps_get.get_state transfer_justified_def)
    fix p v assume "get_session_info E sid u = (Ok p, v)"
    then have v: "p \<in> set (proxy_sessions s)" "transfers v = transfers s" "commands v = commands s"
      "channels v = channels s" using u by (auto dest: ps_get.get_Ok)
    have "transfer_justified E s (transfers (snd (io_bind (pre_payment_step E peer p) (?pay p peer) v)))"
      if owed: "ProxySessionInfo_get_fee_owed p \<noteq> 0" for peer
    proof (rule snd_bindI)
      show "transfer_justified E s (transfers (snd (pre_payment_step E peer p v)))"
        using transfers_keeps_rest [OF keeps_transfers_step] v(2) by (simp add: transfer_justified_def)
      fix req w assume step: "pre_payment_step E peer p v = (Ok req, w)"
      have w: "transfers w = transfers s" using keepsD [OF keeps_transfers_step step] v(2) by simp
      show "transfer_justified E s (transfers (snd (?pay p peer req w)))"
        using pay_transfers [of E req sid p peer w, unfolded Let_def] pre_payment_step_Ok [OF step] v owed w
        unfolding transfer_justified_def by metis
    qed
    then show "transfer_justified E s (transfers (snd ((
      if f_eq (ProxySessionInfo_get_fee_owed p) 0 then io_ret None
      else io_bind (io_some ''Provider peer id to be valid'' (parse_peer_id E (ps_provider_peer_id p))) (\<lambda>peer.
        io_bind (pre_payment_step E peer p) (?pay p peer))) v)))"
      using v(2) by (auto simp: f_eq_0 transfer_justified_def io_some_def io_ret_def io_bind_def [of "io_some _ _"] split: option.splits)
  qed
qed

lemma start_loop_transfers:
  "\<exists>ts. transfers (snd (start_loop E sid evs s)) = transfers s @ ts \<and>
        length ts \<le> length (filter (\<lambda>ev. ev = IntervalTick) evs)"
proof (induction evs arbitrary: s)
  case Nil
  then show ?case by (simp add: io_ret_def)
next
  case (Cons ev evs)
  show ?case
  proof (cases ev)
    case Cancelled
    then show ?thesis by (simp add: io_ret_def)
  next
    case IntervalTick
    have one: "\<exists>ts. transfers (snd (process_payment E sid s)) = transfers s @ ts \<and> length ts \<le> 1"
      using process_payment_justified [of E s sid] by (auto simp: transfer_justified_def)
    show ?thesis
      using one Cons.IH [of "snd (process_payment E sid s)"]
      by (auto simp: IntervalTick io_bind_def io_attempt_def split: prod.splits outcome.splits)
  qed
qed

section \<open>A client node\<close>

text \<open>The environment of a client whose provider asks for the claimed fee under one reference.\<close>

definition sample_reply :: "NetworkCommand list \<Rightarrow> (error + OrcaNetResponse) awaited" where
  "sample_reply cs =
     (case last cs of
        Request (HTTPProxyPrePaymentRequest cid tok d f) peer ch \<Rightarrow>
          Answered (Inr (HTTPProxyPrePaymentResponse d f
            (Accepted \<lparr>pr_amount_to_send = f, pr_payment_reference = ''ref'', pr_recipient_address = ''addr-p''\<rparr>)))
      | _ \<Rightarrow> Answered (Inr NullResponse))"

definition sample_client_env :: env where
  "sample_client_env = sample_env\<lparr>reply_response := sample_reply\<rparr>"

abbreviation sample_request :: PaymentRequest where
  "sample_request \<equiv> \<lparr>pr_amount_to_send = F_fin (93 / 128), pr_payment_reference = ''ref'',
                     pr_recipient_address = ''addr-p''\<rparr>"

lemma sample_fee: "ProxySessionInfo_get_fee_owed sample_session = F_fin (93 / 128)"
proof -
  note exact = rnd_exact [of "125 / 128" 125 7] rnd_exact [of "93 / 128" 93 7]
    rnd_exact [of 72656250 72656250 0]
  have "f_max (f_round ((F_fin 1000 * F_fin (1 / 1024) - F_fin 0 - F_fin (1 / 4)) * F_fin 100000000)
      / F_fin 100000000) 0 = F_fin (93 / 128)"
    using exact by (simp add: f64_ops_def f_max_def)
  then show ?thesis
    unfolding ProxySessionInfo_get_fee_owed_def sample_session_def BTC_PRECISION_def round_f64_def
      Let_def pow10_precision by simp
qed

lemma sample_attempt_ready:
  "attempt_ready sample_client_env sample_node sample_session (PeerId ''peer-p'') RegTest ''addr''
     72656250 sample_request"
proof -
  have "F_fin (1 / 4) + F_fin (93 / 128) \<noteq> F_nan" by (rule f64_add_fin_not_nan) simp
  moreover have "sample_amount (F_fin (93 / 128)) = Some 72656250" by simp
  moreover have "serde_from_str sample_de_btc_network ''RegTest'' = Some RegTest"
    by (simp add: serde_from_str_def sample_de_btc_network_def quoted_def starts_with_def)
  moreover have "reliable sample_client_env" by (simp add: reliable_def sample_client_env_def sample_env_def)
  ultimately show ?thesis
    by (simp add: attempt_ready_def sample_client_env_def) (simp add: sample_env_def sample_session_def)
qed

section \<open>Properties\<close>

text \<open>
  C10. One tick of the payment loop of a session that owes something, when the provider accepts:
  exactly the requested amount is transferred to the requested address, the transfer is stored
  under a fresh id with the provider's reference, the session's unconfirmed payments grow by it,
  and the provider is notified of that transaction, amount and reference; nothing else changes,
  and a cancellation then ends the loop.
\<close>

theorem payment_attempt:
  assumes "attempt_ready E s p peer net sender sat req" "ProxySessionInfo_get_fee_owed p \<noteq> 0"
    and "reply_response E (commands s @ [Request (pre_payment_msg p) peer (channels s)]) =
      Answered (Inr (HTTPProxyPrePaymentResponse d f (Accepted req)))"
    and "reply_response E (commands s @
        attempt_commands s p peer sender (send_txid E (length (transfers s))) req) = Answered res"
  shows "start_loop E (ps_session_id p) [IntervalTick, Cancelled] s =
    (Ok True,
     s\<lparr>channels := channels s + 2,
       commands := commands s @ attempt_commands s p peer sender (send_txid E (length (transfers s))) req,
       uuids_drawn := Suc (uuids_drawn s), io_calls := io_calls s + 7,
       transfers := transfers s @ [(net, pr_recipient_address req, sat, None)],
       payments := payments s @
         [sent_payment (uuid_v4 E (uuids_drawn s)) (send_txid E (length (transfers s))) p req],
       proxy_sessions := at_key ps_session_id (ps_session_id p) (debited (pr_amount_to_send req))
         (proxy_sessions s)\<rparr>)"
  using process_payment_run [OF assms] by (simp add: io_defs)

theorem payment_attempt_witness:
  "transfers (snd (start_loop sample_client_env ''session'' [IntervalTick, Cancelled] sample_node)) =
     [(RegTest, ''addr-p'', 72656250, None)]"
  using payment_attempt [OF sample_attempt_ready, of "F_fin 1000" "F_fin (93 / 128)" "Inr NullResponse"]
  by (simp add: sample_fee sample_client_env_def sample_reply_def pre_payment_msg_def attempt_commands_def
      post_payment_msg_def zero_f64_def)

text \<open>
  A session that owes nothing causes no traffic: any number of ticks sends no message, moves
  no money and changes no table.
\<close>

lemma idle_without_debt:
  assumes "reliable E" "db_inv s" "cfg s DBPath = Some (JStr d)" "p \<in> set (proxy_sessions s)"
    and "ProxySessionInfo_get_fee_owed p = 0"
  shows "start_loop E (ps_session_id p) (replicate k IntervalTick) s =
    (Ok False, s\<lparr>io_calls := io_calls s + 2 * k\<rparr>)"
  using assms
proof (induction k arbitrary: s)
  case (Suc k)
  have "process_payment E (ps_session_id p) s = (Ok None, s\<lparr>io_calls := io_calls s + 2\<rparr>)"
    using process_payment_nothing_owed [OF Suc.prems] .
  with Suc.IH [of "s\<lparr>io_calls := io_calls s + 2\<rparr>"] Suc.prems show ?case by (simp add: io_defs)
qed (simp add: io_defs)

lemma idle_without_debt_witness:
  "start_loop sample_env ''idle'' (replicate 3 IntervalTick)
     (sample_node\<lparr>proxy_sessions := [sample_session\<lparr>ps_session_id := ''idle'', ps_data_transferred_kb := 0,
        ps_total_fee_sent_unconfirmed := 0\<rparr>]\<rparr>) =
   (Ok False, sample_node\<lparr>proxy_sessions := [sample_session\<lparr>ps_session_id := ''idle'',
        ps_data_transferred_kb := 0, ps_total_fee_sent_unconfirmed := 0\<rparr>], io_calls := 6\<rparr>)"
proof -
  let ?p = "sample_session\<lparr>ps_session_id := ''idle'', ps_data_transferred_kb := 0, ps_total_fee_sent_unconfirmed := 0\<rparr>"
  have "ProxySessionInfo_get_fee_owed ?p = 0"
    unfolding ProxySessionInfo_get_fee_owed_def sample_session_def BTC_PRECISION_def round_f64_def
      Let_def pow10_precision by (simp add: f64_ops_def f_max_def)
  moreover have "db_inv (sample_node\<lparr>proxy_sessions := [?p]\<rparr>)"
    using sample_db_inv by (simp add: db_inv_def proxy_session_reals_ok_def sample_session_def zero_f64_def)
  ultimately show ?thesis
    using idle_without_debt [of sample_env "sample_node\<lparr>proxy_sessions := [?p]\<rparr>" "''/db''" ?p 3] by simp
qed


text \<open>
  Over any run of the loop the transfers only grow, by at most one per tick.
\<close>

lemma loop_transfers_bounded:
  "\<exists>ts. transfers (snd (start_loop E session_id evs s)) = transfers s @ ts \<and>
        length ts \<le> length (filter (\<lambda>ev. ev = IntervalTick) evs)"
  using start_loop_transfers .

text \<open>
  C30. Any answer of the provider other than an acceptance of the pre-payment request or an error
  panics the payment loop: no later tick pays and a cancellation is not seen.
\<close>

theorem refusal_panics:
  assumes "attempt_ready E s p peer net sender sat req" "ProxySessionInfo_get_fee_owed p \<noteq> 0"
    and "reply_response E (commands s @ [Request (pre_payment_msg p) peer (channels s)]) =
      Answered (Inr (HTTPProxyPrePaymentResponse d f refusal))"
    and "refusal \<in> {RejectedDataTransferDiffers, RejectedFeeOwedDiffers, ServerTerminatingConnection req'}"
  shows "fst (start_loop E (ps_session_id p) (IntervalTick # evs) s) = Panic ''not yet implemented''"
proof -
  from assms(1) obtain db where rel: "reliable E" "db_inv s" "p \<in> set (proxy_sessions s)"
    and db: "cfg s DBPath = Some (JStr db)" "parse_peer_id E (ps_provider_peer_id p) = Some peer"
    and op: "\<And>cs. commands_open E cs"
    unfolding attempt_ready_def by auto
  have "send_request E peer (pre_payment_msg p) (s\<lparr>io_calls := n\<rparr>) =
      (Ok (HTTPProxyPrePaymentResponse d f refusal), s\<lparr>io_calls := n, channels := Suc (channels s),
         commands := commands s @ [Request (pre_payment_msg p) peer (channels s)]\<rparr>)" for n
    using send_request_run [of E "s\<lparr>io_calls := n\<rparr>"] op assms(3) by simp
  then show ?thesis
    using assms(2,4) rel db
    by (auto simp: process_payment_def pre_payment_step_def pre_payment_msg_def io_defs f_eq_0
        create_sqlite_connection_run get_session_run)
qed

theorem refusal_panics_witness:
  "fst (start_loop (sample_client_env\<lparr>reply_response :=
       (\<lambda>_. Answered (Inr (HTTPProxyPrePaymentResponse 0 0 RejectedFeeOwedDiffers)))\<rparr>)
     ''session'' [IntervalTick, Cancelled] sample_node) = Panic ''not yet implemented''"
proof -
  let ?E = "sample_client_env\<lparr>reply_response :=
       (\<lambda>_. Answered (Inr (HTTPProxyPrePaymentResponse 0 0 RejectedFeeOwedDiffers)))\<rparr>"
  have "attempt_ready ?E sample_node sample_session (PeerId ''peer-p'') RegTest ''addr'' 72656250 sample_request"
    using sample_attempt_ready by (simp add: attempt_ready_def reliable_def sample_client_env_def)
  from refusal_panics [OF this, of 0 0 RejectedFeeOwedDiffers undefined "[Cancelled]"] show ?thesis
    by (simp add: sample_fee zero_f64_def)
qed

end
