(* ===== verification/Orca_Settlement.thy ===== *)
theory Orca_Settlement
  imports Orca_Payment
begin

text \<open>
  The two sides of the payment protocol together: a client node whose requests are answered by
  the request handler of a provider node. The provider serves the requests in the order in which
  the client sends them, each in the state the one before it left.
\<close>

section \<open>A client wired to a provider\<close>

fun serve :: "env \<Rightarrow> PeerId \<Rightarrow> OrcaNetRequest list \<Rightarrow> OrcaNetResponse node_io" where
  "serve E client [] = (\<lambda>s. (Hang, s))"
| "serve E client [rq] = answer_request E rq client"
| "serve E client (rq # rqs) = (\<lambda>s. serve E client rqs (snd (answer_request E rq client s)))"

fun requests_of :: "NetworkCommand list \<Rightarrow> OrcaNetRequest list" where
  "requests_of [] = []"
| "requests_of (Request rq peer ch # cs) = rq # requests_of cs"
| "requests_of (_ # cs) = requests_of cs"

definition wire_reply :: "env \<Rightarrow> PeerId \<Rightarrow> node \<Rightarrow> nat \<Rightarrow> NetworkCommand list \<Rightarrow> (error + OrcaNetResponse) awaited" where
  "wire_reply Ep client provider n cs =
     (case fst (serve Ep client (requests_of (drop n cs)) provider) of
        Ok r \<Rightarrow> Answered (Inr r)
      | _ \<Rightarrow> Dropped)"

text \<open>The client's environment when its requests go to \<open>provider\<close>, from its state \<open>s\<close> on.\<close>

definition wired :: "env \<Rightarrow> env \<Rightarrow> PeerId \<Rightarrow> node \<Rightarrow> node \<Rightarrow> env" where
  "wired Ec Ep client provider s = Ec\<lparr>reply_response := wire_reply Ep client provider (length (commands s))\<rparr>"

text \<open>The provider after all that the client has sent since \<open>s\<close>.\<close>

definition provider_after :: "env \<Rightarrow> PeerId \<Rightarrow> node \<Rightarrow> node \<Rightarrow> node \<Rightarrow> node" where
  "provider_after Ep client provider s t =
     snd (serve Ep client (requests_of (drop (length (commands s)) (commands t))) provider)"

text \<open>The session of the client and the client row of the provider tell the same story.\<close>

definition ledgers_agree :: "ProxySessionInfo \<Rightarrow> ProxyClientInfo \<Rightarrow> bool" where
  "ledgers_agree p c =
     (ps_client_id p = pc_client_id c \<and> ps_auth_token p = pc_auth_token c \<and>
      ps_data_transferred_kb p = pc_data_transferred_kb c \<and> ps_fee_rate_per_kb p = pc_fee_rate_per_kb c \<and>
      ps_total_fee_sent p = pc_total_fee_received c \<and>
      ps_total_fee_sent_unconfirmed p = pc_total_fee_received_unconfirmed c)"

section \<open>Lemmas\<close>

lemma ledgers_agree_fee:
  "ledgers_agree p c \<Longrightarrow> ProxySessionInfo_get_fee_owed p = ProxyClientInfo_get_fee_owed c"
  by (simp add: ledgers_agree_def ProxySessionInfo_get_fee_owed_def ProxyClientInfo_get_fee_owed_def)

lemma ledgers_agree_pay: "ledgers_agree p c \<Longrightarrow> ledgers_agree (debited x p) (credited x c)"
  by (simp add: ledgers_agree_def debited_def credited_def)

lemma attempt_ready_wired [simp]:
  "attempt_ready (wired Ec Ep cl sp sc') s p peer net sender sat req = attempt_ready Ec s p peer net sender sat req"
  by (simp add: attempt_ready_def wired_def reliable_def)

lemma wired_simps [simp]: "send_txid (wired Ec Ep cl sp sc) = send_txid Ec" "uuid_v4 (wired Ec Ep cl sp sc) = uuid_v4 Ec"
  by (simp_all add: wired_def)

lemma requests_of_append: "requests_of (xs @ ys) = requests_of xs @ requests_of ys"
  by (induction xs rule: requests_of.induct) simp_all

text \<open>The provider's part of an honest round, in one go.\<close>

lemma serve_round:
  assumes "reliable E" "db_inv s" "cfg s DBPath = Some (JStr d)" "cfg s BTCAddress = Some (JStr a)"
    and "c \<in> set (proxy_clients s)" "uuid_v4 E (uuids_drawn s) \<notin> pay_payment_id ` set (payments s)"
    and "ledgers_agree p c"
    and "pc_total_fee_received_unconfirmed c + ProxyClientInfo_get_fee_owed c \<noteq> F_nan"
    and "req = \<lparr>pr_amount_to_send = ProxyClientInfo_get_fee_owed c,
                pr_payment_reference = uuid_v4 E (uuids_drawn s), pr_recipient_address = a\<rparr>"
  obtains t where
    "answer_request E (pre_payment_msg p) cl s =
       (Ok (HTTPProxyPrePaymentResponse (pc_data_transferred_kb c) (ProxyClientInfo_get_fee_owed c) (Accepted req)),
        snd (answer_request E (pre_payment_msg p) cl s))"
    "serve E cl [pre_payment_msg p, post_payment_msg p sender tx req] s = (Ok NullResponse, t)"
    "proxy_clients t = at_key pc_client_id (pc_client_id c) (credited (pr_amount_to_send req)) (proxy_clients s)"
    "announced (payment_note sender tx req)
       (awaiting_payment (pr_payment_reference req) a (pr_amount_to_send req) cl) \<in> set (payments t)"
proof -
  let ?r = "awaiting_payment (uuid_v4 E (uuids_drawn s)) a (ProxyClientInfo_get_fee_owed c) cl"
  let ?n = "payment_note sender tx req"
  have msg: "pre_payment_msg p = HTTPProxyPrePaymentRequest (pc_client_id c) (pc_auth_token c)
      (pc_data_transferred_kb c) (ProxyClientInfo_get_fee_owed c)"
    "post_payment_msg p sender tx req = HTTPProxyPostPaymentNotification (pc_client_id c) (pc_auth_token c) ?n"
    using assms(7) ledgers_agree_fee [OF assms(7)]
    by (simp_all add: pre_payment_msg_def post_payment_msg_def ledgers_agree_def)
  obtain u where u: "answer_request E (pre_payment_msg p) cl s =
      (Ok (HTTPProxyPrePaymentResponse (pc_data_transferred_kb c) (ProxyClientInfo_get_fee_owed c) (Accepted req)), u)"
    and pays: "payments u = payments s @ [?r]" and same: "cfg u = cfg s" "proxy_clients u = proxy_clients s"
    using pre_payment_run [OF assms(1-6), of cl "pc_data_transferred_kb c" "ProxyClientInfo_get_fee_owed c"]
      honest_claims_agree [of c] assms(9)
    by (simp add: answer_defs msg)
  have inv: "db_inv u" using keepsD [OF db_inv_answer_request u assms(2)] .
  have ref: "pn_payment_reference ?n = pay_payment_id ?r" and amt: "pn_amount_transferred ?n = pr_amount_to_send req"
    by (simp_all add: payment_note_def awaiting_payment_def assms(9))
  have "post_payment E cl (pc_auth_token c) ?n u =
    (Ok NullResponse,
     u\<lparr>io_calls := io_calls u + 6,
       payments := at_key pay_payment_id (pn_payment_reference ?n) (announced ?n) (payments u),
       proxy_clients := at_key pc_client_id (pc_client_id c) (credited (pn_amount_transferred ?n)) (proxy_clients u)\<rparr>)"
    using assms same pays amt by (intro post_payment_run [OF assms(1) inv _ _ _ ref]) auto
  then obtain t where t: "answer_request E (post_payment_msg p sender tx req) cl u = (Ok NullResponse, t)"
    and upd: "payments t = at_key pay_payment_id (pay_payment_id ?r) (announced ?n) (payments s @ [?r])"
      "proxy_clients t = at_key pc_client_id (pc_client_id c) (credited (pr_amount_to_send req)) (proxy_clients s)"
    by (simp add: answer_defs msg same pays ref amt)
  show thesis
  proof (rule that)
    show "announced ?n (awaiting_payment (pr_payment_reference req) a (pr_amount_to_send req) cl) \<in> set (payments t)"
      using at_key_member [of ?r "payments s @ [?r]" pay_payment_id "pay_payment_id ?r" "announced ?n"] upd(1)
      by (simp add: assms(9))
    show "serve E cl [pre_payment_msg p, post_payment_msg p sender tx req] s = (Ok NullResponse, t)"
      using u t by simp
  qed (simp_all add: u upd)
qed

lemma wired_replies:
  assumes "answer_request Ep rq cl sp = (Ok r, u)"
  shows "reply_response (wired Ec Ep cl sp sc) (commands sc @ [Request rq peer ch]) = Answered (Inr r)"
    and "serve Ep cl [rq, rq'] sp = (Ok r', t) \<Longrightarrow>
      reply_response (wired Ec Ep cl sp sc) (commands sc @ [Request rq peer ch, Request rq' peer' ch']) = Answered (Inr r')"
  using assms by (simp_all add: wired_def wire_reply_def)

section \<open>Properties\<close>

text \<open>
  C1. The two ledgers stay in step: when the client's session and the provider's client row agree,
  one tick of the client's payment loop against that provider goes through, transfers exactly the
  fee that both compute to the provider's address, and afterwards the two rows agree again, to the
  last bit of their floating-point columns. The provider's payment is pending with the amount it
  expected and the client's transaction, and the client has stored the same reference,
  transaction and amount.
\<close>

theorem settlement_keeps_ledgers_equal:
  assumes "attempt_ready Ec s p peer net sender sat req" "ProxySessionInfo_get_fee_owed p \<noteq> 0"
    and "reliable Ep" "db_inv sp" "cfg sp DBPath = Some (JStr d)" "cfg sp BTCAddress = Some (JStr a)"
    and "c \<in> set (proxy_clients sp)" "uuid_v4 Ep (uuids_drawn sp) \<notin> pay_payment_id ` set (payments sp)"
    and "ledgers_agree p c"
    and "req = \<lparr>pr_amount_to_send = ProxyClientInfo_get_fee_owed c,
                pr_payment_reference = uuid_v4 Ep (uuids_drawn sp), pr_recipient_address = a\<rparr>"
  shows "\<exists>t sp'. process_payment (wired Ec Ep cl sp s) (ps_session_id p) s =
      (Ok (Some (pr_payment_reference req)), t) \<and> sp' = provider_after Ep cl sp s t \<and>
    transfers t = transfers s @ [(net, a, sat, None)] \<and>
    debited (pr_amount_to_send req) p \<in> set (proxy_sessions t) \<and>
    credited (pr_amount_to_send req) c \<in> set (proxy_clients sp') \<and>
    ledgers_agree (debited (pr_amount_to_send req) p) (credited (pr_amount_to_send req) c) \<and>
    (\<exists>r r' tx. r \<in> set (payments sp') \<and> r' \<in> set (payments t) \<and>
       pay_payment_id r = pr_payment_reference req \<and> pay_payment_reference r' = Some (pr_payment_reference req) \<and>
       pay_status r = ''TransactionPending'' \<and> pay_tx_id r = Some tx \<and> pay_tx_id r' = Some tx \<and>
       pay_expected_amount_btc r = Some (pr_amount_to_send req) \<and>
       pay_amount_btc r' = Some (pr_amount_to_send req))"
proof -
  let ?E = "wired Ec Ep cl sp s" and ?tx = "send_txid Ec (length (transfers s))"
  have nn: "pc_total_fee_received_unconfirmed c + ProxyClientInfo_get_fee_owed c \<noteq> F_nan"
    using assms(1,9,10) by (simp add: attempt_ready_def ledgers_agree_def)
  from serve_round [OF assms(3-9) nn assms(10), where cl = cl and sender = sender and tx = ?tx] obtain t' where
    ask: "answer_request Ep (pre_payment_msg p) cl sp =
       (Ok (HTTPProxyPrePaymentResponse (pc_data_transferred_kb c) (ProxyClientInfo_get_fee_owed c) (Accepted req)),
        snd (answer_request Ep (pre_payment_msg p) cl sp))"
    and told: "serve Ep cl [pre_payment_msg p, post_payment_msg p sender ?tx req] sp = (Ok NullResponse, t')"
    and pcs: "proxy_clients t' = at_key pc_client_id (pc_client_id c) (credited (pr_amount_to_send req)) (proxy_clients sp)"
    and pay: "announced (payment_note sender ?tx req)
       (awaiting_payment (pr_payment_reference req) a (pr_amount_to_send req) cl) \<in> set (payments t')" .
  obtain t where t: "process_payment ?E (ps_session_id p) s = (Ok (Some (pr_payment_reference req)), t)"
    and upd: "transfers t = transfers s @ [(net, pr_recipient_address req, sat, None)]"
      "commands t = commands s @ attempt_commands s p peer sender ?tx req"
      "proxy_sessions t = at_key ps_session_id (ps_session_id p) (debited (pr_amount_to_send req)) (proxy_sessions s)"
      "sent_payment (uuid_v4 Ec (uuids_drawn s)) ?tx p req \<in> set (payments t)"
    using process_payment_run [of ?E s p peer net sender sat req] assms(1,2) wired_replies(1) [OF ask]
      wired_replies(2) [OF ask told] by (simp add: attempt_commands_def)
  have after: "provider_after Ep cl sp s t = t'"
    using told upd(2) by (simp add: provider_after_def attempt_commands_def)
  have "p \<in> set (proxy_sessions s)" using assms(1) by (simp add: attempt_ready_def)
  then have "debited (pr_amount_to_send req) p \<in> set (proxy_sessions t)"
    using at_key_member [of p _ ps_session_id "ps_session_id p" "debited (pr_amount_to_send req)"] upd(3) by simp
  moreover have "credited (pr_amount_to_send req) c \<in> set (proxy_clients t')"
    using at_key_member [OF assms(7), of pc_client_id "pc_client_id c" "credited (pr_amount_to_send req)"] pcs by simp
  ultimately show ?thesis
    using t after upd(1) ledgers_agree_pay [OF assms(9)] pay upd(4) assms(10)
    by (intro exI [of _ t] exI [of _ t'])
      (fastforce simp: sent_payment_def announced_def awaiting_payment_def payment_note_def)
qed

lemma sample_ledgers_agree: "ledgers_agree sample_session sample_client"
  by (simp add: ledgers_agree_def sample_session_def sample_client_def)

theorem settlement_keeps_ledgers_equal_witness:
  "\<exists>t. process_payment (wired sample_env sample_env (PeerId ''peer-c'') sample_node sample_node)
       ''session'' sample_node = (Ok (Some ''uuid-''), t) \<and>
     transfers t = [(RegTest, ''addr'', 72656250, None)] \<and>
     credited (F_fin (93 / 128)) sample_client \<in>
       set (proxy_clients (provider_after sample_env (PeerId ''peer-c'') sample_node sample_node t))"
proof -
  have fee: "ProxyClientInfo_get_fee_owed sample_client = F_fin (93 / 128)"
    using sample_fee ledgers_agree_fee [OF sample_ledgers_agree] by simp
  have "attempt_ready sample_env sample_node sample_session (PeerId ''peer-p'') RegTest ''addr'' 72656250
      \<lparr>pr_amount_to_send = F_fin (93 / 128), pr_payment_reference = ''uuid-'', pr_recipient_address = ''addr''\<rparr>"
    using sample_attempt_ready
    by (simp add: attempt_ready_def sample_client_env_def) (simp add: sample_env_def)
  from settlement_keeps_ledgers_equal [OF this _ sample_reliable sample_db_inv sample_cfg(1) sample_cfg(3),
      of sample_client "PeerId ''peer-c''"] fee
  show ?thesis by (auto simp: sample_fee sample_ledgers_agree zero_f64_def)
qed

end
