(* ===== verification/Orca_Download.thy ===== *)
theory Orca_Download
  imports Orca_Settlement
begin

text \<open>
  A file download across two nodes: the download path of the network client
  (\<open>network/network_client.rs\<close>, \<open>common/utils.rs\<close>) against the answers of a request handler.
\<close>

section \<open>Lemmas\<close>

lemma size_kb_not_nan: "f_of_int n / F_fin 1000 \<noteq> F_nan"
  by (cases "f_of_int n") (simp_all add: f64_ops_def f_of_int_def)

lemma fs_write_run:
  "reliable E \<Longrightarrow> map_of (files s) p \<noteq> Some Directory \<Longrightarrow>
   fs_write E p bs s = (Ok (), (tick s)\<lparr>files := AList.update p (File bs) (files s)\<rparr>)"
  by (simp add: fs_write_def external_reliable)

lemma generate_to_address_run:
  "reliable E \<Longrightarrow> valid_btc_address E a \<Longrightarrow> mined_blocks E (length (blocks_requested s)) \<noteq> [] \<Longrightarrow>
   generate_to_address E a s =
     (Ok (hd (mined_blocks E (length (blocks_requested s)))),
      (tick s)\<lparr>blocks_requested := blocks_requested s @ [a]\<rparr>)"
  by (cases "mined_blocks E (length (blocks_requested s))")
    (simp_all add: generate_to_address_def io_defs external_reliable)

lemma insert_downloaded_file_run:
  assumes "reliable E" "df_file_size_kb i \<noteq> F_nan" "df_id i \<notin> df_id ` set (downloaded_files s)"
  shows "insert_downloaded_file E i s =
    (Ok 1, (tick s)\<lparr>downloaded_files := downloaded_files s @
       [i\<lparr>df_fee_rate_per_kb := sql_nullable (df_fee_rate_per_kb i), df_price := sql_nullable (df_price i)\<rparr>]\<rparr>)"
  using assms by (auto simp: insert_downloaded_file_def run_sql_reliable sql_insert_def downloaded_file_clash_def)

text \<open>The two commands of a stream request.\<close>

abbreviation stream_commands :: "env \<Rightarrow> PeerId \<Rightarrow> OrcaNetRequest \<Rightarrow> node \<Rightarrow> NetworkCommand list" where
  "stream_commands E peer rq s \<equiv>
     [Dial peer (get_address_through_relay peer None) (channels s),
      SendInStream peer \<lparr>sr_request_id = uuid_v4 E (uuids_drawn s), sr_stream_data = StreamRequestData rq\<rparr>
        (Some (Suc (channels s)))]"

lemma send_stream_request_run:
  assumes "\<forall>cs. commands_open E cs" "\<forall>cs. reply_result E cs = Answered (Inr ())"
    and "reply_response E (commands s @ stream_commands E peer rq s) = Answered (Inr resp)"
  shows "send_stream_request E peer rq s =
    (Ok resp, s\<lparr>uuids_drawn := Suc (uuids_drawn s), channels := channels s + 2,
               commands := commands s @ stream_commands E peer rq s\<rparr>)"
  using assms
  by (simp add: send_stream_request_def send_in_stream_def dial_def new_channel_def send_command_def
      await_reply_def io_defs new_uuid_def)

text \<open>A client that can save and pay for what the response \<open>m\<close> brings.\<close>

definition can_pay :: "env \<Rightarrow> node \<Rightarrow> string \<Rightarrow> FileMetadata \<Rightarrow> byte list \<Rightarrow> nat \<Rightarrow> bool" where
  "can_pay E s dest m bs sat =
     (reliable E \<and> map_of (files s) dest \<noteq> Some Directory \<and>
      (\<exists>p. cfg s DBPath = Some (JStr p)) \<and>
      (\<exists>own. cfg s BTCAddress = Some (JStr own) \<and> valid_btc_address E own) \<and>
      valid_btc_address E (fm_recipient_address m) \<and>
      amount_from_btc E (round_f64 (fm_fee_rate_per_kb m * (f_of_int (int (length bs)) / F_fin 1000)) BTC_PRECISION) = Some sat \<and>
      mined_blocks E (length (blocks_requested s)) \<noteq> [] \<and>
      uuid_v4 E (uuids_drawn s) \<notin> df_id ` set (downloaded_files s))"

lemma handle_file_content_response_run:
  assumes "can_pay E s dest m bs sat"
  shows "\<exists>t row. handle_file_content_response E peer (FileContentResponse m bs) (Some dest) s = (Ok (), t) \<and>
    files t = AList.update dest (File bs) (files s) \<and>
    transfers t = transfers s @ [(RegTest, fm_recipient_address m, sat, Some (''Payment for '' @ fm_file_id m))] \<and>
    downloaded_files t = downloaded_files s @ [row] \<and> df_file_id row = fm_file_id m \<and> df_file_path row = dest \<and>
    df_payment_tx_id row = Some (send_txid E (length (transfers s))) \<and> df_peer_id row = peer_id_text peer \<and>
    commands t = commands s"
proof -
  from assms obtain d own where
    op: "reliable E" "map_of (files s) dest \<noteq> Some Directory" "cfg s DBPath = Some (JStr d)"
      "cfg s BTCAddress = Some (JStr own)" "valid_btc_address E own" "valid_btc_address E (fm_recipient_address m)"
      "amount_from_btc E (round_f64 (fm_fee_rate_per_kb m * (f_of_int (int (length bs)) / F_fin 1000)) BTC_PRECISION) = Some sat"
      "mined_blocks E (length (blocks_requested s)) \<noteq> []"
      "uuid_v4 E (uuids_drawn s) \<notin> df_id ` set (downloaded_files s)"
    by (auto simp: can_pay_def)
  show ?thesis using op(2-5,8,9)
    by (simp add: handle_file_content_response_def download_path_def io_defs Let_def fs_write_run [OF op(1)]
        get_btc_address_def get_str_from_config_Some send_to_address_run [OF op(1,6,7)]
        generate_to_address_run [OF op(1)] create_sqlite_connection_run [OF op(1)] new_uuid_def
        get_unix_timestamp_def insert_downloaded_file_run [OF op(1)] size_kb_not_nan)
qed

section \<open>Properties\<close>

text \<open>
  C4. A download across two nodes. When the stream request reaches a provider of the file whose
  configuration is complete, the client ends with a file of the very bytes of the provider at the
  destination and every other file as it was; it has made one transfer, to the address and at the
  rate of the provider; its record of the download names the file, the path, the peer and the
  transaction; and the provider has counted one download.
\<close>

theorem file_download:
  assumes "reliable Ep" "db_inv p" "cfg p DBPath = Some (JStr d)" "cfg p BTCAddress = Some (JStr a)"
    and "cfg p FileFeeRatePerKB = Some j" "as_f64 j = Some rate"
    and "r \<in> set (provided_files p)" "map_of (files p) (pf_file_path r) = Some (File bs)"
    and "\<forall>cs. commands_open Ec cs" "\<forall>cs. reply_result Ec cs = Answered (Inr ())"
    and "reply_response Ec (commands c @ stream_commands Ec provider (FileContentRequest (pf_file_id r)) c) =
      (case answer_request Ep (FileContentRequest (pf_file_id r)) me p of (Ok resp, _) \<Rightarrow> Answered (Inr resp) | _ \<Rightarrow> Dropped)"
    and "can_pay Ec (c\<lparr>uuids_drawn := Suc (uuids_drawn c)\<rparr>) dest
      \<lparr>fm_file_id = pf_file_id r, fm_file_name = pf_file_name r, fm_fee_rate_per_kb = rate, fm_recipient_address = a\<rparr> bs sat"
  shows "\<exists>t row. download_file_from_peer Ec (pf_file_id r) provider (Some dest) c = (Ok (), t) \<and>
    map_of (files t) = (map_of (files c))(dest \<mapsto> File bs) \<and>
    transfers t = transfers c @ [(RegTest, a, sat, Some (''Payment for '' @ pf_file_id r))] \<and>
    downloaded_files t = downloaded_files c @ [row] \<and> df_file_id row = pf_file_id r \<and> df_file_path row = dest \<and>
    df_payment_tx_id row = Some (send_txid Ec (length (transfers c))) \<and> df_peer_id row = peer_id_text provider \<and>
    provided_files (snd (answer_request Ep (FileContentRequest (pf_file_id r)) me p)) =
      at_key pf_file_id (pf_file_id r) (\<lambda>x. x\<lparr>pf_downloads_count := pf_downloads_count x + 1\<rparr>) (provided_files p)"
proof -
  let ?m = "\<lparr>fm_file_id = pf_file_id r, fm_file_name = pf_file_name r, fm_fee_rate_per_kb = rate, fm_recipient_address = a\<rparr>"
  let ?rq = "FileContentRequest (pf_file_id r)"
  have ans: "answer_request Ep ?rq me p = (Ok (FileContentResponse ?m bs),
      p\<lparr>io_calls := io_calls p + 4, provided_files := at_key pf_file_id (pf_file_id r)
         (\<lambda>x. x\<lparr>pf_downloads_count := pf_downloads_count x + 1\<rparr>) (provided_files p)\<rparr>)"
    using handle_file_content_run [OF assms(1-8)] by (simp add: answer_defs)
  let ?u = "c\<lparr>uuids_drawn := Suc (uuids_drawn c), channels := channels c + 2,
      commands := commands c @ stream_commands Ec provider ?rq c\<rparr>"
  have run: "send_stream_request Ec provider ?rq c = (Ok (FileContentResponse ?m bs), ?u)"
    by (rule send_stream_request_run [OF assms(9,10)]) (simp add: assms(11) ans)
  have "can_pay Ec ?u dest ?m bs sat" using assms(12) by (simp add: can_pay_def cfg_def)
  from handle_file_content_response_run [OF this, of provider] obtain t row where
    t: "handle_file_content_response Ec provider (FileContentResponse ?m bs) (Some dest) ?u = (Ok (), t)"
      "files t = AList.update dest (File bs) (files c)"
      "transfers t = transfers c @ [(RegTest, a, sat, Some (''Payment for '' @ pf_file_id r))]"
      "downloaded_files t = downloaded_files c @ [row]" "df_file_id row = pf_file_id r" "df_file_path row = dest"
      "df_payment_tx_id row = Some (send_txid Ec (length (transfers c)))" "df_peer_id row = peer_id_text provider"
    by auto
  have "download_file_from_peer Ec (pf_file_id r) provider (Some dest) c = (Ok (), t)"
    using run t(1) by (simp add: download_file_from_peer_def io_defs)
  moreover have "map_of (files t) = (map_of (files c))(dest \<mapsto> File bs)"
    by (simp add: t(2) update_conv')
  ultimately show ?thesis using t(3-8) ans by auto
qed

text \<open>A client that is wired to the sample provider and whose wallet takes any amount.\<close>

definition sample_download_env :: env where
  "sample_download_env = sample_env\<lparr>amount_from_btc := (\<lambda>_. Some 150000),
     reply_providers := (\<lambda>_. Answered [PeerId ''p'', PeerId ''q'']),
     reply_response := (\<lambda>_. case answer_request sample_env (FileContentRequest ''0123456789abcdef0'') (PeerId ''me'') sample_node of
         (Ok resp, _) \<Rightarrow> Answered (Inr resp) | _ \<Rightarrow> Dropped)\<rparr>"

lemma sample_download_can_pay:
  "can_pay sample_download_env (sample_node\<lparr>uuids_drawn := Suc 0\<rparr>) ''/tmp/a'' m bs 150000"
  by (simp add: can_pay_def sample_download_env_def reliable_def)
    (simp add: sample_env_def sample_node_def)

theorem file_download_witness:
  "\<exists>t. download_file_from_peer sample_download_env ''0123456789abcdef0'' (PeerId ''p'') (Some ''/tmp/a'') sample_node = (Ok (), t) \<and>
     map_of (files t) ''/tmp/a'' = Some (File [1, 2, 3]) \<and> length (downloaded_files t) = 1"
proof -
  have open_cmds: "\<forall>cs. commands_open sample_download_env cs" "\<forall>cs. reply_result sample_download_env cs = Answered (Inr ())"
    by (simp_all add: sample_download_env_def sample_env_def)
  have wired: "reply_response sample_download_env (commands sample_node @
      stream_commands sample_download_env (PeerId ''p'') (FileContentRequest (pf_file_id sample_file)) sample_node) =
      (case answer_request sample_env (FileContentRequest (pf_file_id sample_file)) (PeerId ''me'') sample_node of
         (Ok resp, _) \<Rightarrow> Answered (Inr resp) | _ \<Rightarrow> Dropped)" by (simp add: sample_download_env_def)
  show ?thesis
    using file_download [of sample_env sample_node "''/db''" "''addr''" "JNum (Float (F_fin (1 / 2)))" "F_fin (1 / 2)"
        sample_file "[1, 2, 3]" sample_download_env sample_node "PeerId ''p''" "PeerId ''me''" "''/tmp/a''" 150000]
      open_cmds wired sample_download_can_pay by fastforce
qed

text \<open>
  C32. The first provider that answers at all ends a download. When it answers with an error, the
  download is reported as done although no file was saved, nothing was paid or recorded, and none
  of the other providers was asked.
\<close>

theorem error_ends_download:
  assumes "\<forall>cs. commands_open E cs" "\<forall>cs. reply_result E cs = Answered (Inr ())"
    and "reply_providers E (commands c @ [GetProviders fid (channels c)]) = Answered (peer # peers)"
    and "c' = c\<lparr>channels := Suc (channels c), commands := commands c @ [GetProviders fid (channels c)]\<rparr>"
    and "reply_response E (commands c' @ stream_commands E peer (FileContentRequest fid) c') = Answered (Inr (ErrorResponse e))"
  shows "download_file E fid dest c =
    (Ok (), c'\<lparr>uuids_drawn := Suc (uuids_drawn c), channels := channels c + 3,
      commands := commands c' @ stream_commands E peer (FileContentRequest fid) c'\<rparr>)"
proof -
  have "get_providers E fid c = (Ok (peer # peers), c')"
    using assms(1,3,4) by (simp add: get_providers_def new_channel_def send_command_def await_reply_def io_defs)
  moreover have "send_stream_request E peer (FileContentRequest fid) c' = (Ok (ErrorResponse e),
      c'\<lparr>uuids_drawn := Suc (uuids_drawn c), channels := channels c + 3,
        commands := commands c' @ stream_commands E peer (FileContentRequest fid) c'\<rparr>)"
    using send_stream_request_run [OF assms(1,2,5)] assms(4) by (simp add: eval_nat_numeral)
  ultimately show ?thesis
    by (simp add: download_file_def download_file_from_peer_def handle_file_content_response_def io_defs)
qed

theorem error_ends_download_witness:
  "let E = sample_download_env\<lparr>reply_response := (\<lambda>_. Answered (Inr (ErrorResponse SessionTerminatedByProvider)))\<rparr>;
       (r, t) = download_file E ''f'' None sample_node
   in r = Ok () \<and> files t = files sample_node \<and> length (commands t) = 3"
  using error_ends_download [of "sample_download_env\<lparr>reply_response := (\<lambda>_. Answered (Inr (ErrorResponse SessionTerminatedByProvider)))\<rparr>"
      sample_node "''f''" "PeerId ''p''" "[PeerId ''q'']" _ SessionTerminatedByProvider None]
  by (simp add: Let_def sample_download_env_def) (simp add: sample_env_def)

text \<open>
  C33. Without a destination, the file goes to a name that the provider's metadata chooses. A file id of
  fewer than 16 bytes panics before anything is written. An id that starts with a slash makes the path
  independent of the configured directory: the node writes where the provider says.
\<close>

theorem download_path_chosen_by_provider:
  assumes "cfg s AppDataPath = Some (JStr dir)"
  shows "(length (fm_file_id m) < 16 \<longrightarrow>
      (\<exists>msg. handle_file_content_response E peer (FileContentResponse m bs) None s = (Panic msg, s))) \<and>
    (is_char_boundary (fm_file_id m) 16 \<and> starts_with (fm_file_id m) ''/'' \<longrightarrow>
      download_path m None s = (Ok (take 16 (fm_file_id m) @ ''_'' @ fm_file_name m), s)) \<and>
    (is_char_boundary (fm_file_id m) 16 \<and> \<not> starts_with (fm_file_id m) ''/'' \<longrightarrow>
      download_path m None s = (Ok (path_join dir (take 16 (fm_file_id m) @ ''_'' @ fm_file_name m)), s) \<and>
      starts_with (path_join dir (take 16 (fm_file_id m) @ ''_'' @ fm_file_name m)) dir)"
proof (intro conjI impI)
  note dir = get_str_from_config_Some [OF assms]
  show "\<exists>msg. handle_file_content_response E peer (FileContentResponse m bs) None s = (Panic msg, s)"
    if "length (fm_file_id m) < 16"
    using that by (simp add: handle_file_content_response_def download_path_def io_defs dir slice_to_def is_char_boundary_def)
  show "download_path m None s = (Ok (take 16 (fm_file_id m) @ ''_'' @ fm_file_name m), s)"
    if "is_char_boundary (fm_file_id m) 16 \<and> starts_with (fm_file_id m) ''/''"
    using that by (auto simp: download_path_def io_defs dir slice_to_def path_join_def starts_with_iff)
  show "download_path m None s = (Ok (path_join dir (take 16 (fm_file_id m) @ ''_'' @ fm_file_name m)), s)"
    if "is_char_boundary (fm_file_id m) 16 \<and> \<not> starts_with (fm_file_id m) ''/''"
    using that by (simp add: download_path_def io_defs dir slice_to_def)
  show "starts_with (path_join dir (take 16 (fm_file_id m) @ ''_'' @ fm_file_name m)) dir"
    if "is_char_boundary (fm_file_id m) 16 \<and> \<not> starts_with (fm_file_id m) ''/''"
    using that by (cases "fm_file_id m") (auto simp: path_join_def starts_with_def is_char_boundary_def)
qed

theorem download_path_chosen_by_provider_witness:
  "download_path \<lparr>fm_file_id = ''/etc/cron.d/jobs'', fm_file_name = ''x'', fm_fee_rate_per_kb = 0,
     fm_recipient_address = ''a''\<rparr> None sample_node = (Ok ''/etc/cron.d/jobs_x'', sample_node)"
  using download_path_chosen_by_provider [of sample_node "''/data''"
      "\<lparr>fm_file_id = ''/etc/cron.d/jobs'', fm_file_name = ''x'', fm_fee_rate_per_kb = 0, fm_recipient_address = ''a''\<rparr>"]
  by (simp add: starts_with_def is_char_boundary_def)

end
