(* ===== verification/Orca_App.thy ===== *)
theory Orca_App
  imports Orca_Download
begin

text \<open>
  What the HTTP handlers and the command line share: the state of the process around a node, with the
  channel to the request handler, the responses of \<open>http_server/endpoints/mod.rs\<close> and the JSON form of
  what they carry, and the remaining helpers of \<open>common/utils.rs\<close>.
\<close>

section \<open>State\<close>

text \<open>
  The environment of a handler: that of the node, whether the request handler takes the \<open>n\<close>-th event
  (the channel has no buffer), the printed forms of errors, the digest, how many bytes the \<open>n\<close>-th read
  of a file gives, the length of what is not a readable file, the answers of the Bitcoin daemon, the
  peer of a key, and whether integer overflow is checked (a debug build) or wraps (a release build).
\<close>

datatype rpc_query = GetBlockCount | GetBalance | GetTransaction string

record app_env =
  node_env :: env
  event_sent :: "nat \<Rightarrow> unit awaited"
  debug_text :: "error \<Rightarrow> string"
  parse_error_text :: "string \<Rightarrow> string"
  sha256 :: "byte list \<Rightarrow> byte list"
  read_size :: "nat \<Rightarrow> nat"
  entry_len :: "string \<Rightarrow> u64"
  rpc_answer :: "rpc_query \<Rightarrow> json"
  rpc_transactions :: "u64 \<Rightarrow> u64 \<Rightarrow> (u64 \<times> json) list" \<comment> \<open>count and skip; time and entry\<close>
  parse_txid :: "string \<Rightarrow> string option"
  key_peer_id :: "byte list \<Rightarrow> PeerId"
  overflow_checks :: bool

text \<open>The process around a node: the events sent to the request handler and the tasks that were spawned.\<close>

datatype task = NetworkLoopTask | RequestHandlerTask | HttpServerTask | BlockGenTask string

record app =
  app_node :: node
  app_events :: "OrcaNetEvent list"
  app_tasks :: "task list"

type_synonym 'a app_io = "(app, 'a) io"

definition on_node :: "'a node_io \<Rightarrow> 'a app_io" where
  "on_node m s = (case m (app_node s) of (r, n) \<Rightarrow> (r, s\<lparr>app_node := n\<rparr>))"

text \<open>\<open>event_sender.clone().send(ev).await\<close>; the value says whether it was sent.\<close>

definition send_app_event :: "app_env \<Rightarrow> OrcaNetEvent \<Rightarrow> bool app_io" where
  "send_app_event A ev s =
     (case event_sent A (length (app_events s)) of
        Answered _ \<Rightarrow> (Ok True, s\<lparr>app_events := app_events s @ [ev]\<rparr>)
      | Dropped \<Rightarrow> (Ok False, s)
      | Unanswered \<Rightarrow> (Hang, s\<lparr>app_events := app_events s @ [ev]\<rparr>))"

definition spawn :: "task \<Rightarrow> unit app_io" where
  "spawn t = io_modify (\<lambda>s. s\<lparr>app_tasks := app_tasks s @ [t]\<rparr>)"

section \<open>Responses (endpoints/mod.rs)\<close>

record AppResponse =
  ar_success :: bool
  ar_error :: "string option"
  ar_data :: "json option"

definition AppResponse_success :: "json \<Rightarrow> AppResponse" where
  "AppResponse_success data = \<lparr>ar_success = True, ar_error = None, ar_data = Some data\<rparr>"

definition AppResponse_error :: "string \<Rightarrow> AppResponse" where
  "AppResponse_error error = \<lparr>ar_success = False, ar_error = Some error, ar_data = None\<rparr>"

text \<open>\<open>json!\<close> of the values that the handlers return; a float that is not finite becomes null.\<close>

fun json_f64 :: "f64 \<Rightarrow> json" where
  "json_f64 (F_fin x) = JNum (Float (F_fin x))"
| "json_f64 _ = JNull"

definition json_i64 :: "i64 \<Rightarrow> json" where
  "json_i64 w = JNum (if 0 \<le> sint w then PosInt w else NegInt w)"

definition json_i32 :: "i32 \<Rightarrow> json" where
  "json_i32 w = json_i64 (word_of_int (sint w))"

definition json_opt :: "('a \<Rightarrow> json) \<Rightarrow> 'a option \<Rightarrow> json" where
  "json_opt f x = (case x of None \<Rightarrow> JNull | Some a \<Rightarrow> f a)"

definition json_provided_file :: "ProvidedFileInfo \<Rightarrow> json" where
  "json_provided_file r = JObj
     [(''file_id'', JStr (pf_file_id r)), (''file_path'', JStr (pf_file_path r)),
      (''file_name'', JStr (pf_file_name r)), (''downloads_count'', json_i32 (pf_downloads_count r)),
      (''status'', json_i32 (pf_status r)),
      (''provide_start_timestamp'', json_opt json_i64 (pf_provide_start_timestamp r))]"

definition json_downloaded_file :: "DownloadedFileInfo \<Rightarrow> json" where
  "json_downloaded_file r = JObj
     [(''id'', JStr (df_id r)), (''file_id'', JStr (df_file_id r)), (''file_path'', JStr (df_file_path r)),
      (''file_name'', JStr (df_file_name r)), (''file_size_kb'', json_f64 (df_file_size_kb r)),
      (''fee_rate_per_kb'', json_opt json_f64 (df_fee_rate_per_kb r)), (''price'', json_opt json_f64 (df_price r)),
      (''payment_tx_id'', json_opt JStr (df_payment_tx_id r)), (''peer_id'', JStr (df_peer_id r)),
      (''download_timestamp'', json_i64 (df_download_timestamp r))]"

definition json_file_metadata :: "FileMetadata \<Rightarrow> json" where
  "json_file_metadata m = JObj
     [(''file_id'', JStr (fm_file_id m)), (''file_name'', JStr (fm_file_name m)),
      (''fee_rate_per_kb'', json_f64 (fm_fee_rate_per_kb m)),
      (''recipient_address'', JStr (fm_recipient_address m))]"

definition json_proxy_metadata :: "HTTPProxyMetadata \<Rightarrow> json" where
  "json_proxy_metadata m = JObj
     [(''proxy_address'', JStr (hm_proxy_address m)), (''fee_rate_per_kb'', json_f64 (hm_fee_rate_per_kb m)),
      (''recipient_address'', JStr (hm_recipient_address m))]"

section \<open>Utilities used by the handlers (common/utils.rs)\<close>

text \<open>\<open>hex::encode\<close>.\<close>

definition hex_digit :: "nat \<Rightarrow> char" where
  "hex_digit n = ''0123456789abcdef'' ! n"

definition hex_encode :: "byte list \<Rightarrow> string" where
  "hex_encode bs = concat (map (\<lambda>b. [hex_digit (unat b div 16), hex_digit (unat b mod 16)]) bs)"

text \<open>
  The loop of \<open>sha256_digest\<close>: \<open>rest\<close> is what is left of the file, \<open>ctx\<close> what the digest context has
  been given. A read gives at least one byte, at most the 1024 bytes of the buffer.
\<close>

function sha_loop :: "app_env \<Rightarrow> nat \<Rightarrow> byte list \<Rightarrow> byte list \<Rightarrow> byte list" where
  "sha_loop A n rest ctx =
     (if rest = [] then ctx
      else let count = max 1 (min 1024 (read_size A n)) in
           sha_loop A (Suc n) (drop count rest) (ctx @ take count rest))"
  by pat_completeness auto

termination by (relation "measure (\<lambda>(A, n, rest, ctx). length rest)") auto

definition sha256_digest :: "app_env \<Rightarrow> string \<Rightarrow> string node_io" where
  "sha256_digest A file_path =
     io_bind (external (node_env A) Io) (\<lambda>_ s.
       case map_of (files s) file_path of
         Some (File bs) \<Rightarrow> (Ok (hex_encode (sha256 A (sha_loop A 0 bs []))), s)
       | _ \<Rightarrow> (Err (Io ''cannot read file''), s))"

text \<open>\<open>Path::is_dir\<close>, \<open>Path::metadata().len()\<close> and \<open>Path::parent\<close>.\<close>

definition path_is_dir :: "node \<Rightarrow> string \<Rightarrow> bool" where
  "path_is_dir s p = (map_of (files s) p = Some Directory)"

definition path_len :: "app_env \<Rightarrow> string \<Rightarrow> u64 node_io" where
  "path_len A p =
     io_bind (io_expect ''called Result::unwrap() on an Err value'' (external (node_env A) Io)) (\<lambda>_ s.
       (Ok (case map_of (files s) p of Some (File bs) \<Rightarrow> of_nat (length bs) | _ \<Rightarrow> entry_len A p), s))"

text \<open>Trailing separators and \<open>.\<close> components, of a path that is read from its end.\<close>

fun trim_back :: "string \<Rightarrow> string" where
  "trim_back (c # d # cs) =
     (if c = CHR ''/'' \<or> c = CHR ''.'' \<and> d = CHR ''/'' then trim_back (d # cs) else c # d # cs)"
| "trim_back cs = cs"

definition path_parent :: "string \<Rightarrow> string option" where
  "path_parent p =
     (let r = trim_back (rev p) in
      if r = [] \<or> r = ''/'' then None else Some (rev (trim_back (dropWhile (\<lambda>c. c \<noteq> CHR ''/'') r))))"

text \<open>\<open>u64::from_str\<close>: an optional plus sign and decimal digits that fit.\<close>

definition is_digit :: "char \<Rightarrow> bool" where
  "is_digit c = (48 \<le> (of_char c :: nat) \<and> (of_char c :: nat) \<le> 57)"

definition digits_value :: "string \<Rightarrow> nat" where
  "digits_value ds = foldl (\<lambda>n c. 10 * n + (of_char c - 48)) 0 ds"

definition u64_from_str :: "string \<Rightarrow> u64 option" where
  "u64_from_str t =
     (let ds = (if starts_with t ''+'' then drop 1 t else t) in
      if ds \<noteq> [] \<and> list_all is_digit ds \<and> digits_value ds < 2 ^ 64 then Some (of_nat (digits_value ds)) else None)"

definition get_peer_id_from_input :: "app_env \<Rightarrow> string \<Rightarrow> PeerId node_io" where
  "get_peer_id_from_input A input =
     (case u64_from_str input of
        Some seed \<Rightarrow> io_ret (key_peer_id A (generate_ed25519_bytes seed))
      | None \<Rightarrow> io_some ''called Result::unwrap() on an Err value'' (parse_peer_id (node_env A) input))"

text \<open>\<open>start_async_block_gen\<close> spawns a task; \<open>block_gen_task\<close> is what the task does.\<close>

definition start_async_block_gen :: "unit app_io" where
  "start_async_block_gen =
     io_bind (on_node get_btc_address) (\<lambda>address.
     spawn (BlockGenTask address))"

definition block_gen_task :: "env \<Rightarrow> string \<Rightarrow> unit node_io" where
  "block_gen_task E address =
     io_bind (get_network_type E) (\<lambda>_.
     io_bind (io_attempt (generate_to_address E address)) (\<lambda>_. io_ret ()))"

section \<open>Lemmas\<close>

lemma on_node_run [simp]: "m (app_node s) = (r, n) \<Longrightarrow> on_node m s = (r, s\<lparr>app_node := n\<rparr>)"
  by (simp add: on_node_def)

lemma keeps_on_node: "keeps P m \<Longrightarrow> keeps (\<lambda>s. P (app_node s)) (on_node m)"
  by (auto simp: keeps_def on_node_def split: prod.splits)

lemma keeps_send_app_event: "keeps (\<lambda>s. P (app_node s)) (send_app_event A ev)"
  by (auto simp: keeps_def send_app_event_def split: awaited.splits)

lemma keeps_spawn: "keeps (\<lambda>s. P (app_node s)) (spawn t)"
  by (simp add: keeps_def spawn_def io_modify_def)

lemma sha_loop_all: "sha_loop A n rest ctx = ctx @ rest"
  by (induction A n rest ctx rule: sha_loop.induct) (auto simp: Let_def)

declare sha_loop.simps [simp del]

lemma sha256_digest_run:
  "reliable (node_env A) \<Longrightarrow> map_of (files s) p = Some (File bs) \<Longrightarrow>
   sha256_digest A p s = (Ok (hex_encode (sha256 A bs)), tick s)"
  by (simp add: sha256_digest_def io_defs external_reliable sha_loop_all)

lemma path_len_run:
  "reliable (node_env A) \<Longrightarrow> map_of (files s) p = Some (File bs) \<Longrightarrow>
   path_len A p s = (Ok (of_nat (length bs)), tick s)"
  by (simp add: path_len_def io_defs external_reliable)

lemma length_hex_encode [simp]: "length (hex_encode bs) = 2 * length bs"
  by (induction bs) (simp_all add: hex_encode_def)

lemma hex_digit_ascii:
  assumes "n < 16"
  shows "of_char (hex_digit n) < (128 :: nat)"
proof -
  have "hex_digit n \<in> set ''0123456789abcdef''" unfolding hex_digit_def by (rule nth_mem) (use assms in simp)
  then show ?thesis by auto
qed

lemma unat_byte: "unat (b :: byte) < 256"
  using unsigned_less [of b, where 'a = nat] by simp

lemma unat_byte_div: "unat (b :: byte) div 16 < 16"
  using unat_byte [of b] by simp

lemma hex_digit_inject: "m < 16 \<Longrightarrow> n < 16 \<Longrightarrow> hex_digit m = hex_digit n \<longleftrightarrow> m = n"
  by (simp add: hex_digit_def nth_eq_iff_index_eq)

lemma hex_encode_ascii: "c \<in> set (hex_encode bs) \<Longrightarrow> of_char c < (128 :: nat)"
  using unat_byte_div by (auto simp: hex_encode_def intro!: hex_digit_ascii)

lemma hex_encode_inject: "hex_encode as = hex_encode bs \<longleftrightarrow> as = bs"
proof (induction as arbitrary: bs)
  case (Cons a as)
  show ?case
  proof (cases bs)
    case (Cons b bs')
    have "a = b" if "unat a div 16 = unat b div 16" "unat a mod 16 = unat b mod 16"
      unfolding word_unat_eq_iff using that by (metis div_mult_mod_eq)
    then show ?thesis
      using Cons.IH [of bs'] Cons unat_byte_div by (auto simp: hex_encode_def hex_digit_inject)
  qed (simp add: hex_encode_def)
qed (auto simp: hex_encode_def neq_Nil_conv)

text \<open>The id of a file, as the digest gives it, can always be shortened to sixteen bytes.\<close>

lemma hex_encode_boundary:
  assumes "8 \<le> length bs"
  shows "is_char_boundary (hex_encode bs) 16"
proof -
  have "of_char (hex_encode bs ! 16) < (128 :: nat)" if "16 < length (hex_encode bs)"
    using that by (intro hex_encode_ascii) (rule nth_mem)
  then show ?thesis using assms by (auto simp: is_char_boundary_def)
qed

end
