(* ===== verification/Orca_Endpoints.thy ===== *)
theory Orca_Endpoints
  imports Orca_App "HOL-Library.Multiset"
begin

text \<open>
  The HTTP interface of the node (\<open>http_server/endpoints/\<close>): the handlers behind the routes for files,
  for the proxy and for the wallet. A handler works on the node's tables and configuration, on the
  network client, and sends events to the request handler; what it returns is an \<open>AppResponse\<close>.
\<close>

section \<open>Files (endpoints/file\_endpoints.rs)\<close>

definition dial_endpoint :: "app_env \<Rightarrow> string \<Rightarrow> AppResponse app_io" where
  "dial_endpoint A peer_id_str =
     (case parse_peer_id (node_env A) peer_id_str of
        None \<Rightarrow> io_ret (AppResponse_error (''Error parsing peer_id: '' @ parse_error_text A peer_id_str))
      | Some peer_id \<Rightarrow>
          let addr = get_address_through_relay peer_id None in
          io_bind (io_attempt (on_node (dial (node_env A) peer_id addr))) (\<lambda>dial_resp.
          io_ret (case dial_resp of
              Inr _ \<Rightarrow> AppResponse_success (JStr ''Dialled successfully'')
            | Inl e \<Rightarrow> AppResponse_error (''Dialing failed: '' @ debug_text A e))))"

definition get_provided_files_endpoint :: "app_env \<Rightarrow> AppResponse app_io" where
  "get_provided_files_endpoint A =
     io_bind (on_node (create_sqlite_connection (node_env A) None)) (\<lambda>_.
     io_bind (io_attempt (on_node (get_provided_files (node_env A)))) (\<lambda>r.
     io_ret (case r of
         Inr fs \<Rightarrow> AppResponse_success (JArr (map json_provided_file fs))
       | Inl e \<Rightarrow> AppResponse_error (''Error getting files: '' @ debug_text A e))))"

definition get_downloaded_files_endpoint :: "app_env \<Rightarrow> AppResponse app_io" where
  "get_downloaded_files_endpoint A =
     io_bind (on_node (create_sqlite_connection (node_env A) None)) (\<lambda>_.
     io_bind (io_attempt (on_node (get_downloaded_files (node_env A)))) (\<lambda>r.
     io_ret (case r of
         Inr fs \<Rightarrow> AppResponse_success (JArr (map json_downloaded_file fs))
       | Inl e \<Rightarrow> AppResponse_error (''Error getting files: '' @ debug_text A e))))"

definition get_file_info :: "app_env \<Rightarrow> string \<Rightarrow> AppResponse app_io" where
  "get_file_info A file_id =
     io_bind (on_node (create_sqlite_connection (node_env A) None)) (\<lambda>_.
     io_bind (io_attempt (on_node (get_provided_file_info (node_env A) file_id))) (\<lambda>r.
     io_ret (case r of
         Inr file \<Rightarrow> AppResponse_success (json_provided_file file)
       | Inl e \<Rightarrow> AppResponse_error (''Error getting file: '' @ debug_text A e))))"

definition provide_file :: "app_env \<Rightarrow> string \<Rightarrow> AppResponse app_io" where
  "provide_file A file_path =
     io_bind (io_gets (\<lambda>s. path_exists (app_node s) file_path)) (\<lambda>exists.
     if \<not> exists then io_ret (AppResponse_error ''Path does not exist'')
     else
       io_bind (on_node (path_len A file_path)) (\<lambda>len.
       if MAX_FILE_SIZE_BYTES < unat len then
         io_ret (AppResponse_error ''File size exceeds threshold of 10485760 bytes'')
       else
         io_bind (io_attempt (on_node (sha256_digest A file_path))) (\<lambda>digest.
           case digest of
             Inl _ \<Rightarrow> io_ret (AppResponse_error ''Error computing digest'')
           | Inr file_id \<Rightarrow>
               io_bind (send_app_event A (ProvideFile file_id file_path)) (\<lambda>_.
               io_ret (AppResponse_success (JObj [(''file_id'', JStr file_id)]))))))"

definition stop_providing_endpoint :: "app_env \<Rightarrow> string \<Rightarrow> bool \<Rightarrow> AppResponse app_io" where
  "stop_providing_endpoint A file_id permanent =
     io_bind (send_app_event A (StopProvidingFile file_id permanent)) (\<lambda>_.
     io_ret (AppResponse_success (JStr ''Stopped providing file'')))"

definition resume_providing :: "app_env \<Rightarrow> string \<Rightarrow> AppResponse app_io" where
  "resume_providing A file_id =
     io_bind (on_node (create_sqlite_connection (node_env A) None)) (\<lambda>_.
     io_bind (io_attempt (on_node (set_provided_file_status (node_env A) file_id True None))) (\<lambda>r.
       case r of
         Inr rows \<Rightarrow>
           if rows = 0 then io_ret (AppResponse_error (''File id '' @ file_id @ '' is not provided''))
           else
             io_bind (on_node (start_providing (node_env A) file_id)) (\<lambda>_.
             io_ret (AppResponse_success (JStr ''Resumed providing file'')))
       | Inl e \<Rightarrow> io_ret (AppResponse_error (''Failed to resume providing file: '' @ debug_text A e))))"

definition download_file_endpoint :: "app_env \<Rightarrow> string \<Rightarrow> string \<Rightarrow> string \<Rightarrow> AppResponse app_io" where
  "download_file_endpoint A file_id peer_id_str dest_path =
     io_bind (io_gets app_node) (\<lambda>s.
     if path_exists s dest_path then
       io_ret (AppResponse_error (''A file with the same name already exists in the given path. '' @
         ''Provide a different name or path.''))
     else if path_is_dir s dest_path \<or>
             (case path_parent dest_path of None \<Rightarrow> False | Some v \<Rightarrow> \<not> path_exists s v) then
       io_ret (AppResponse_error (''Invalid path. Either it's not a file path or the parent directory '' @
         ''does not exist''))
     else
       case parse_peer_id (node_env A) peer_id_str of
         None \<Rightarrow> io_ret (AppResponse_error (''Error parsing peer_id: '' @ parse_error_text A peer_id_str))
       | Some peer_id \<Rightarrow>
           io_bind (io_attempt (on_node (download_file_from_peer (node_env A) file_id peer_id (Some dest_path)))) (\<lambda>r.
           io_ret (case r of
               Inr _ \<Rightarrow> AppResponse_success (JStr ''Downloaded file'')
             | Inl e \<Rightarrow> AppResponse_error (''Error downloading file: '' @ debug_text A e))))"

text \<open>
  The early answer for an empty list of providers is not returned in the source: the handler goes on
  with no peers.
\<close>

definition file_metadata_list :: "(PeerId \<times> OrcaNetResponse) list \<Rightarrow> json list" where
  "file_metadata_list responses = List.map_filter (\<lambda>(peer_id, resp).
     case resp of
       FileMetadataResponse metadata \<Rightarrow>
         Some (JObj [(''peer_id'', JStr (peer_id_text peer_id)), (''file_metadata'', json_file_metadata metadata)])
     | _ \<Rightarrow> None) responses"

definition get_file_providers :: "app_env \<Rightarrow> string \<Rightarrow> AppResponse app_io" where
  "get_file_providers A file_id =
     io_bind (on_node (get_providers (node_env A) file_id)) (\<lambda>providers.
     io_bind (on_node (request_from_peers (node_env A) (FileMetadataRequest file_id) providers)) (\<lambda>responses.
     io_ret (AppResponse_success (JArr (file_metadata_list responses)))))"

section \<open>Proxy (endpoints/proxy\_endpoints.rs)\<close>

definition proxy_metadata_list :: "(PeerId \<times> OrcaNetResponse) list \<Rightarrow> json list" where
  "proxy_metadata_list responses = List.map_filter (\<lambda>(peer_id, resp).
     case resp of
       HTTPProxyMetadataResponse metadata \<Rightarrow>
         Some (JObj [(''peer_id'', JStr (peer_id_text peer_id)), (''proxy_metadata'', json_proxy_metadata metadata)])
     | _ \<Rightarrow> None) responses"

definition get_proxy_providers :: "app_env \<Rightarrow> AppResponse app_io" where
  "get_proxy_providers A =
     io_bind (on_node (get_providers (node_env A) PROXY_PROVIDER_KEY_DHT)) (\<lambda>proxy_providers.
     if proxy_providers = [] then io_ret (AppResponse_success (JArr []))
     else
       io_bind (on_node (request_from_peers (node_env A) HTTPProxyMetadataRequest proxy_providers)) (\<lambda>responses.
       io_ret (AppResponse_success (JArr (proxy_metadata_list responses)))))"

definition stop_proxy :: "app_env \<Rightarrow> AppResponse app_io" where
  "stop_proxy A =
     io_bind (on_node (get_proxy_config (node_env A))) (\<lambda>mode.
       case mode of
         Some _ \<Rightarrow>
           io_bind (send_app_event A StopProxy) (\<lambda>sent.
           if sent then io_ret (AppResponse_success (JStr ''proxy stopped''))
           else io_panic ''Sender not to be dropped'')
       | None \<Rightarrow> io_ret (AppResponse_error ''Proxy not running''))"

definition connect_endpoint :: "app_env \<Rightarrow> string \<Rightarrow> AppResponse app_io" where
  "connect_endpoint A peer_id_str =
     io_bind (on_node (get_proxy_config (node_env A))) (\<lambda>mode.
     if mode \<noteq> None then
       io_ret (AppResponse_error ''Proxy already running. Stop it before starting a new client session.'')
     else
       case parse_peer_id (node_env A) peer_id_str of
         None \<Rightarrow> io_ret (AppResponse_error ''Invalid peer_id'')
       | Some peer_id \<Rightarrow>
           io_bind (io_attempt (on_node (send_request (node_env A) peer_id HTTPProxyProvideRequest))) (\<lambda>provide_resp.
             case provide_resp of
               Inr (HTTPProxyProvideResponse metadata client_id auth_token) \<Rightarrow>
                 io_bind (on_node (create_sqlite_connection (node_env A) None)) (\<lambda>_.
                 io_bind (on_node (from_proxy_connect_response (node_env A) peer_id_str client_id auth_token metadata)) (\<lambda>proxy_session.
                 io_bind (io_expect ''Session info to be added to DB''
                            (on_node (insert_session_info (node_env A) proxy_session))) (\<lambda>_.
                 io_bind (send_app_event A (StartProxy (ProxyClientMode (ps_session_id proxy_session)))) (\<lambda>_.
                 io_ret (AppResponse_success (JObj [(''session_id'', JStr (ps_session_id proxy_session))]))))))
             | Inr _ \<Rightarrow> io_ret (AppResponse_error ''Couldn't connect to proxy'')
             | Inl _ \<Rightarrow> io_ret (AppResponse_error ''Couldn't connect to proxy'')))"

definition start_providing_endpoint :: "app_env \<Rightarrow> AppResponse app_io" where
  "start_providing_endpoint A =
     io_bind (on_node (get_proxy_config (node_env A))) (\<lambda>mode.
     if mode \<noteq> None then io_ret (AppResponse_error ''Proxy already running'')
     else
       io_bind (send_app_event A (StartProxy ProxyProviderMode)) (\<lambda>_.
       io_ret (AppResponse_success (JStr ''Started providing proxy''))))"

definition start_client :: "app_env \<Rightarrow> string \<Rightarrow> AppResponse app_io" where
  "start_client A session_id =
     io_bind (on_node (get_proxy_config (node_env A))) (\<lambda>mode.
     if mode \<noteq> None then io_ret (AppResponse_error ''Proxy already running'')
     else
       io_bind (send_app_event A (StartProxy (ProxyClientMode session_id))) (\<lambda>_.
       io_ret (AppResponse_success (JStr ''Started local proxy client''))))"

section \<open>Wallet (endpoints/wallet\_endpoints.rs)\<close>

definition rpc_query_endpoint :: "app_env \<Rightarrow> rpc_query \<Rightarrow> string \<Rightarrow> AppResponse app_io" where
  "rpc_query_endpoint A q msg =
     io_bind (io_attempt (on_node (external (node_env A) Rpc))) (\<lambda>r.
     io_ret (case r of
         Inr _ \<Rightarrow> AppResponse_success (rpc_answer A q)
       | Inl e \<Rightarrow> AppResponse_error (msg @ debug_text A e)))"

definition get_block_count :: "app_env \<Rightarrow> AppResponse app_io" where
  "get_block_count A =
     io_bind (on_node (get_network_type (node_env A))) (\<lambda>_.
     rpc_query_endpoint A GetBlockCount ''Error getting block count '')"

definition get_balance :: "app_env \<Rightarrow> AppResponse app_io" where
  "get_balance A =
     io_bind (on_node (get_network_type (node_env A))) (\<lambda>_.
     rpc_query_endpoint A GetBalance ''Error getting balance '')"

definition load_wallet_endpoint :: "app_env \<Rightarrow> string \<Rightarrow> AppResponse app_io" where
  "load_wallet_endpoint A wallet_name =
     io_bind (on_node (get_network_type (node_env A))) (\<lambda>_.
     io_bind (io_attempt (on_node (load_wallet (node_env A) wallet_name))) (\<lambda>r.
     io_ret (case r of
         Inr _ \<Rightarrow> AppResponse_success (JStr ''Wallet loaded'')
       | Inl e \<Rightarrow> AppResponse_error (''Error loading wallet '' @ debug_text A e))))"

definition send_to_address_endpoint :: "app_env \<Rightarrow> string \<Rightarrow> f64 \<Rightarrow> string option \<Rightarrow> AppResponse app_io" where
  "send_to_address_endpoint A address amount comment =
     io_bind (on_node (get_network_type (node_env A))) (\<lambda>network.
     io_bind (io_attempt (on_node (send_to_address (node_env A) network address amount comment))) (\<lambda>r.
     io_ret (case r of
         Inr tx_id \<Rightarrow> AppResponse_success (JObj [(''tx_id'', JStr tx_id)])
       | Inl e \<Rightarrow> AppResponse_error (''Failed to send: '' @ debug_text A e))))"

definition generate_block :: "AppResponse app_io" where
  "generate_block =
     io_bind start_async_block_gen (\<lambda>_.
     io_ret (AppResponse_success (JStr ''Started block generation'')))"

text \<open>Subtraction on \<open>usize\<close>: a panic when overflow is checked, wrap-around otherwise.\<close>

definition usize_sub :: "app_env \<Rightarrow> u64 \<Rightarrow> u64 \<Rightarrow> u64 app_io" where
  "usize_sub A a b =
     (if overflow_checks A \<and> a < b then io_panic ''attempt to subtract with overflow'' else io_ret (a - b))"

definition list_transactions :: "app_env \<Rightarrow> u64 \<Rightarrow> u64 \<Rightarrow> AppResponse app_io" where
  "list_transactions A start_offset end_offset =
     io_bind (on_node (get_network_type (node_env A))) (\<lambda>_.
     io_bind (usize_sub A end_offset start_offset) (\<lambda>count.
     io_bind (usize_sub A start_offset 1) (\<lambda>skip.
     io_bind (io_attempt (on_node (external (node_env A) Rpc))) (\<lambda>r.
     io_ret (case r of
         Inr _ \<Rightarrow> AppResponse_success (JArr (map snd
           (sort_key (\<lambda>(time, _). - uint time) (rpc_transactions A count skip))))
       | Inl e \<Rightarrow> AppResponse_error (''Error fetching transactions '' @ debug_text A e))))))"

definition get_transaction_info :: "app_env \<Rightarrow> string \<Rightarrow> AppResponse app_io" where
  "get_transaction_info A tx_id =
     io_bind (on_node (get_network_type (node_env A))) (\<lambda>_.
       case parse_txid A tx_id of
         None \<Rightarrow> io_ret (AppResponse_error (''Error parsing tx_id: '' @ parse_error_text A tx_id))
       | Some tx_id_val \<Rightarrow> rpc_query_endpoint A (GetTransaction tx_id_val) ''Error fetching transactions '')"

section \<open>Routes\<close>

text \<open>The routes that \<open>start_http_server\<close> mounts, with the parameters that Rocket parses.\<close>

datatype http_call =
    PostDial string
  | GetProvidedFiles
  | GetDownloadedFiles
  | GetFileInfo string
  | PostProvideFile string
  | PostStopProviding string bool
  | PostResumeProviding string
  | PostDownloadFile string string string
  | GetFileProviders string
  | GetProxyProviders
  | PostStopProxy
  | PostConnect string
  | PostStartProviding
  | PostStartClient string
  | GetBlockCountCall
  | GetBalanceCall
  | LoadWallet string
  | PostSendToAddress string f64 "string option"
  | PostGenerateBlock
  | ListTransactions u64 u64
  | GetTransactionInfo string

fun handle_http :: "app_env \<Rightarrow> http_call \<Rightarrow> AppResponse app_io" where
  "handle_http A (PostDial p) = dial_endpoint A p"
| "handle_http A GetProvidedFiles = get_provided_files_endpoint A"
| "handle_http A GetDownloadedFiles = get_downloaded_files_endpoint A"
| "handle_http A (GetFileInfo f) = get_file_info A f"
| "handle_http A (PostProvideFile p) = provide_file A p"
| "handle_http A (PostStopProviding f b) = stop_providing_endpoint A f b"
| "handle_http A (PostResumeProviding f) = resume_providing A f"
| "handle_http A (PostDownloadFile f p d) = download_file_endpoint A f p d"
| "handle_http A (GetFileProviders f) = get_file_providers A f"
| "handle_http A GetProxyProviders = get_proxy_providers A"
| "handle_http A PostStopProxy = stop_proxy A"
| "handle_http A (PostConnect p) = connect_endpoint A p"
| "handle_http A PostStartProviding = start_providing_endpoint A"
| "handle_http A (PostStartClient sid) = start_client A sid"
| "handle_http A GetBlockCountCall = get_block_count A"
| "handle_http A GetBalanceCall = get_balance A"
| "handle_http A (LoadWallet w) = load_wallet_endpoint A w"
| "handle_http A (PostSendToAddress a x c) = send_to_address_endpoint A a x c"
| "handle_http A PostGenerateBlock = generate_block"
| "handle_http A (ListTransactions i j) = list_transactions A i j"
| "handle_http A (GetTransactionInfo t) = get_transaction_info A t"

section \<open>Lemmas\<close>

lemmas app_defs = io_defs on_node_def send_app_event_def

lemma insert_provided_file_run:
  assumes "reliable E" "pf_file_id i \<notin> pf_file_id ` set (provided_files s)"
    "pf_file_path i \<notin> pf_file_path ` set (provided_files s)"
  shows "insert_provided_file E i s = (Ok 1, (tick s)\<lparr>provided_files := provided_files s @ [i]\<rparr>)"
  using assms by (auto simp: insert_provided_file_def run_sql_reliable sql_insert_def provided_file_clash_def)

lemma insert_session_info_run:
  assumes "reliable E" "proxy_session_reals_ok p" "ps_session_id p \<notin> ps_session_id ` set (proxy_sessions s)"
  shows "insert_session_info E p s = (Ok 1, (tick s)\<lparr>proxy_sessions := proxy_sessions s @ [p]\<rparr>)"
  using assms by (auto simp: insert_session_info_def run_sql_reliable sql_insert_def proxy_session_clash_def)

lemma handle_provide_file_run:
  assumes "reliable E" "responsive E" "cfg s DBPath = Some (JStr d)" "path_file_name path = Some name"
    and "path_exists s path" "fid \<notin> pf_file_id ` set (provided_files s)"
    and "path \<notin> pf_file_path ` set (provided_files s)"
  shows "handle_provide_file E fid path s =
    (Ok (), s\<lparr>io_calls := io_calls s + 2, clock_reads := Suc (clock_reads s),
       provided_files := provided_files s @
         [\<lparr>pf_file_id = fid, pf_file_path = path, pf_file_name = name, pf_downloads_count = 0, pf_status = 1,
           pf_provide_start_timestamp = Some (utc_now E (clock_reads s))\<rparr>],
       channels := Suc (channels s), commands := commands s @ [StartProviding fid (channels s)]\<rparr>)"
  using assms
  by (simp add: handle_provide_file_def get_file_name_from_path_def io_defs create_sqlite_connection_run
      ProvidedFileInfo_with_defaults_def get_unix_timestamp_def insert_provided_file_run start_providing_run)

lemma provide_file_run:
  assumes "reliable (node_env A)" "map_of (files (app_node s)) path = Some (File bs)" "length bs < 2 ^ 64"
    and "event_sent A (length (app_events s)) = Answered ()"
  shows "provide_file A path s =
    (if length bs \<le> 10 * 1024 * 1024 then
       (Ok (AppResponse_success (JObj [(''file_id'', JStr (hex_encode (sha256 A bs)))])),
        s\<lparr>app_node := (app_node s)\<lparr>io_calls := io_calls (app_node s) + 2\<rparr>,
          app_events := app_events s @ [ProvideFile (hex_encode (sha256 A bs)) path]\<rparr>)
     else (Ok (AppResponse_error ''File size exceeds threshold of 10485760 bytes''),
           s\<lparr>app_node := tick (app_node s)\<rparr>))"
proof -
  have len: "unat (of_nat (length bs) :: u64) = length bs" using assms(3) by (simp add: unsigned_of_nat take_bit_nat_eq_self)
  show ?thesis
    using assms by (simp add: provide_file_def app_defs path_exists_def path_len_run sha256_digest_run len
        MAX_FILE_SIZE_BYTES_def)
qed

lemma unat_diff_le:
  assumes "b \<le> (a :: u64)"
  shows "unat (a - b) = unat a - unat b"
proof -
  have "uint (a - b) = uint a - uint b" using assms by (simp add: word_le_def flip: uint_sub_lem)
  then show ?thesis using assms unfolding uint_nat word_le_nat_alt by linarith
qed

lemma unat_diff_wrap:
  assumes "a < (b :: u64)"
  shows "unat (a - b) = 2 ^ 64 + unat a - unat b"
proof -
  have b: "uint b < 2 ^ 64" using uint_lt2p [of b] by simp
  have "(uint a - uint b) mod 2 ^ 64 = (uint a - uint b + 2 ^ 64) mod 2 ^ 64" by simp
  also have "\<dots> = uint a - uint b + 2 ^ 64"
  proof (rule mod_pos_pos_trivial)
    show "0 \<le> uint a - uint b + 2 ^ 64" using b uint_ge_0 [of a] by linarith
    show "uint a - uint b + 2 ^ 64 < 2 ^ 64" using assms unfolding word_less_def by linarith
  qed
  finally have "uint (a - b) = uint a - uint b + 2 ^ 64" by (simp add: uint_word_ariths)
  then have "int (unat (a - b) + unat b) = int (2 ^ 64 + unat a)" unfolding uint_nat by simp
  then have "unat (a - b) + unat b = 2 ^ 64 + unat a" unfolding of_nat_eq_iff .
  then show ?thesis by simp
qed

lemma unat_diff:
  "unat (a - b :: u64) = (if b \<le> a then unat a - unat b else 2 ^ 64 + unat a - unat b)"
  using unat_diff_le unat_diff_wrap linorder_not_le by metis

section \<open>Properties\<close>

text \<open>
  C8. Providing a file. The endpoint accepts a file of at most ten mebibytes; the answer and the event
  it sends carry the digest of the content, however the reads of the file were chunked. Once the
  request handler has taken the event, the id is announced in the DHT and a peer that asks for it is
  answered with the content of the file. A larger file is refused and nothing is sent.
\<close>

theorem provide_then_serve:
  assumes "reliable (node_env A)" "responsive (node_env A)" "db_inv (app_node s)"
    and "cfg (app_node s) DBPath = Some (JStr d)" "cfg (app_node s) BTCAddress = Some (JStr a)"
    and "cfg (app_node s) FileFeeRatePerKB = Some j" "as_f64 j = Some rate"
    and "map_of (files (app_node s)) path = Some (File bs)" "length bs < 2 ^ 64" "path_file_name path = Some name"
    and "event_sent A (length (app_events s)) = Answered ()" "fid = hex_encode (sha256 A bs)"
    and "fid \<notin> pf_file_id ` set (provided_files (app_node s))"
    and "path \<notin> pf_file_path ` set (provided_files (app_node s))"
  shows "if length bs \<le> 10485760 then
      \<exists>t u. provide_file A path s = (Ok (AppResponse_success (JObj [(''file_id'', JStr fid)])), t) \<and>
        app_events t = app_events s @ [ProvideFile fid path] \<and>
        handle_event (node_env A) (ProvideFile fid path) (app_node t) = (Ok (), u) \<and>
        commands u = commands (app_node s) @ [StartProviding fid (channels (app_node s))] \<and>
        fst (answer_request (node_env A) (FileContentRequest fid) peer u) =
          Ok (FileContentResponse \<lparr>fm_file_id = fid, fm_file_name = name, fm_fee_rate_per_kb = rate,
                fm_recipient_address = a\<rparr> bs)
    else \<exists>msg. provide_file A path s = (Ok (AppResponse_error msg), s\<lparr>app_node := tick (app_node s)\<rparr>)"
proof (cases "length bs \<le> 10485760")
  case True
  let ?n = "(app_node s)\<lparr>io_calls := io_calls (app_node s) + 2\<rparr>"
  let ?row = "\<lparr>pf_file_id = fid, pf_file_path = path, pf_file_name = name, pf_downloads_count = 0, pf_status = 1,
      pf_provide_start_timestamp = Some (utc_now (node_env A) (clock_reads (app_node s)))\<rparr>"
  obtain u where u: "handle_provide_file (node_env A) fid path ?n = (Ok (), u)"
    "provided_files u = provided_files (app_node s) @ [?row]" "files u = files (app_node s)" "cfg u = cfg (app_node s)"
    "commands u = commands (app_node s) @ [StartProviding fid (channels (app_node s))]"
    using handle_provide_file_run [of "node_env A" ?n d path name fid] assms by (simp add: path_exists_def)
  have "db_inv ?n" using assms(3) by (simp add: db_inv_def)
  then have "db_inv u" using keepsD [OF db_inv_file_events(1) u(1)] by simp
  from handle_file_content_run [OF assms(1) this, of d a j rate ?row bs peer] assms(4-8) u(2-4)
  have "fst (answer_request (node_env A) (FileContentRequest fid) peer u) =
      Ok (FileContentResponse \<lparr>fm_file_id = fid, fm_file_name = name, fm_fee_rate_per_kb = rate,
            fm_recipient_address = a\<rparr> bs)" by (simp add: answer_defs)
  then show ?thesis
    using True u(1,5) provide_file_run [OF assms(1,8,9,11)] assms(12) by (simp add: handle_event_def)
next
  case False
  with provide_file_run [OF assms(1,8,9,11)] show ?thesis by auto
qed

text \<open>An application around the sample node.\<close>

definition sample_app_env :: app_env where
  "sample_app_env =
     \<lparr>node_env = sample_env, event_sent = (\<lambda>_. Answered ()), debug_text = (\<lambda>_. ''error''),
      parse_error_text = (\<lambda>_. ''parse''), sha256 = (\<lambda>bs. replicate 31 0 @ [of_nat (length bs)]), read_size = (\<lambda>n. n),
      entry_len = (\<lambda>_. 4096), rpc_answer = (\<lambda>_. JNull),
      rpc_transactions = (\<lambda>count skip. [(3, JStr ''a''), (5, JStr ''b''), (3, JStr ''c'')]),
      parse_txid = (\<lambda>t. None), key_peer_id = (\<lambda>bs. PeerId ''peer''), overflow_checks = True\<rparr>"

definition sample_app :: app where
  "sample_app = \<lparr>app_node = sample_node\<lparr>provided_files := []\<rparr>, app_events = [], app_tasks = []\<rparr>"

lemma sample_app_simps [simp]:
  "node_env sample_app_env = sample_env" "event_sent sample_app_env n = Answered ()"
  "app_node sample_app = sample_node\<lparr>provided_files := []\<rparr>" "app_events sample_app = []"
  "overflow_checks sample_app_env"
  "rpc_transactions sample_app_env c k = [(3, JStr ''a''), (5, JStr ''b''), (3, JStr ''c'')]"
  by (simp_all add: sample_app_env_def sample_app_def)

lemma sample_responsive_app: "responsive sample_env"
  by (simp add: responsive_def sample_env_def)

theorem provide_then_serve_witness:
  "\<exists>t u. provide_file sample_app_env ''/srv/a.txt'' sample_app =
       (Ok (AppResponse_success (JObj [(''file_id'', JStr (hex_encode (replicate 31 0 @ [3])))])), t) \<and>
     handle_event sample_env (ProvideFile (hex_encode (replicate 31 0 @ [3])) ''/srv/a.txt'') (app_node t) = (Ok (), u)"
proof -
  have "db_inv (sample_node\<lparr>provided_files := []\<rparr>)" using sample_db_inv by (simp add: db_inv_def)
  moreover have "path_file_name ''/srv/a.txt'' = Some ''a.txt''" by code_simp
  moreover have "hex_encode (sha256 sample_app_env [1, 2, 3]) = hex_encode (replicate 31 0 @ [3])"
    by (simp add: sample_app_env_def)
  ultimately show ?thesis
    using provide_then_serve [of sample_app_env sample_app "''/db''" "''addr''" "JNum (Float (F_fin (1 / 2)))"
        "F_fin (1 / 2)" "''/srv/a.txt''" "[1, 2, 3]" "''a.txt''" "hex_encode (replicate 31 0 @ [3])" "PeerId ''p''"]
      sample_responsive_app by fastforce
qed

text \<open>
  C7. Connecting to a provider opens two ledgers that agree. When the connect request reaches a proxy
  provider, the client's new session and the provider's new client row carry the same identifier,
  token and rate and the same balances; the session is active and is the one that the local proxy is
  started for.
\<close>

theorem connect_opens_agreeing_ledgers:
  assumes "reliable Ep" "serde_ok Ep" "cfg_obj sp" "cfg sp ProxyConfig = Some (ser_proxy_mode ProxyProviderMode)"
    and "cfg sp DBPath = Some (JStr d)" "cfg sp BTCAddress = Some (JStr a)"
    and "cfg sp ProxyProviderServerAddress = Some (JStr ip)"
    and "cfg sp ProxyFeeRatePerKB = Some j" "as_f64 j = Some rate" "rate \<noteq> F_nan"
    and "uuid_v4 Ep (uuids_drawn sp) \<notin> pc_client_id ` set (proxy_clients sp)"
    and "uuid_v4 Ep (Suc (uuids_drawn sp)) \<notin> pc_auth_token ` set (proxy_clients sp)"
    and "E = node_env A" "n = app_node s" "reliable E" "cfg_obj n"
    and "Option.bind (cfg n ProxyConfig) (de_proxy_mode E) = None" "cfg n DBPath = Some (JStr d')"
    and "parse_peer_id E pid = Some peer" "commands_open E (commands n)"
    and "reply_response E (commands n @ [Request HTTPProxyProvideRequest peer (channels n)]) =
      (case answer_request Ep HTTPProxyProvideRequest me sp of (Ok resp, _) \<Rightarrow> Answered (Inr resp) | _ \<Rightarrow> Dropped)"
    and "uuid_v4 E (uuids_drawn n) \<notin> ps_session_id ` set (proxy_sessions n)"
    and "event_sent A (length (app_events s)) = Answered ()"
  shows "\<exists>t p c. connect_endpoint A pid s = (Ok (AppResponse_success (JObj [(''session_id'', JStr (ps_session_id p))])), t) \<and>
    proxy_sessions (app_node t) = proxy_sessions n @ [p] \<and> ps_status p = 1 \<and> ps_provider_peer_id p = pid \<and>
    app_events t = app_events s @ [StartProxy (ProxyClientMode (ps_session_id p))] \<and>
    proxy_clients (snd (answer_request Ep HTTPProxyProvideRequest me sp)) = proxy_clients sp @ [c] \<and>
    ledgers_agree p c"
proof -
  let ?cid = "uuid_v4 Ep (uuids_drawn sp)" and ?tok = "uuid_v4 Ep (Suc (uuids_drawn sp))"
  let ?m = "\<lparr>hm_proxy_address = ip, hm_fee_rate_per_kb = rate, hm_recipient_address = a\<rparr>"
  let ?c = "admitted_client ?cid ?tok (utc_now Ep (clock_reads sp)) rate me"
  have ans: "fst (answer_request Ep HTTPProxyProvideRequest me sp) = Ok (HTTPProxyProvideResponse ?m ?cid ?tok)"
    "proxy_clients (snd (answer_request Ep HTTPProxyProvideRequest me sp)) = proxy_clients sp @ [?c]"
    using handle_provide_run [OF assms(1-12), of me] by (simp_all add: answer_defs)
  let ?u = "n\<lparr>channels := Suc (channels n), commands := commands n @ [Request HTTPProxyProvideRequest peer (channels n)]\<rparr>"
  have req: "send_request E peer HTTPProxyProvideRequest n = (Ok (HTTPProxyProvideResponse ?m ?cid ?tok), ?u)"
    using send_request_run [OF assms(20)] assms(21) ans(1)
    by (cases "answer_request Ep HTTPProxyProvideRequest me sp") simp
  have mode: "get_proxy_config E n = (Ok None, n)" using get_proxy_config_run [OF assms(16)] assms(17) by simp
  define p where "p = \<lparr>ps_session_id = uuid_v4 E (uuids_drawn n), ps_client_id = ?cid, ps_auth_token = ?tok,
      ps_proxy_address = ip, ps_start_timestamp = utc_now E (clock_reads n), ps_end_timestamp = None,
      ps_data_transferred_kb = 0, ps_total_fee_sent = 0, ps_total_fee_sent_unconfirmed = 0,
      ps_fee_rate_per_kb = rate, ps_provider_peer_id = pid, ps_recipient_address = a, ps_status = 1\<rparr>"
  have ok: "proxy_session_reals_ok p" using assms(10) by (simp add: p_def proxy_session_reals_ok_def zero_f64_def)
  have new: "ps_session_id p \<notin> ps_session_id ` set (proxy_sessions n)" using assms(22) by (simp add: p_def)
  have "\<exists>t. connect_endpoint A pid s = (Ok (AppResponse_success (JObj [(''session_id'', JStr (ps_session_id p))])), t) \<and>
      proxy_sessions (app_node t) = proxy_sessions n @ [p] \<and>
      app_events t = app_events s @ [StartProxy (ProxyClientMode (ps_session_id p))]"
    using assms(13-15,18,19,23) req mode ok new
    by (simp add: connect_endpoint_def app_defs create_sqlite_connection_run from_proxy_connect_response_def
        new_uuid_def get_unix_timestamp_def insert_session_info_run p_def)
  moreover have "ledgers_agree p ?c" by (simp add: ledgers_agree_def p_def admitted_client_def)
  moreover have "ps_status p = 1" "ps_provider_peer_id p = pid" by (simp_all add: p_def)
  ultimately show ?thesis using ans(2) by blast
qed

definition sample_connect_env :: app_env where
  "sample_connect_env = sample_app_env\<lparr>node_env := sample_env\<lparr>reply_response :=
     (\<lambda>_. case answer_request sample_env HTTPProxyProvideRequest (PeerId ''me'') sample_node of
            (Ok resp, _) \<Rightarrow> Answered (Inr resp) | _ \<Rightarrow> Dropped)\<rparr>\<rparr>"

definition sample_idle_app :: app where
  "sample_idle_app = sample_app\<lparr>app_node := sample_node\<lparr>config := ConfigJson (JObj [(''DBPath'', JStr ''/db'')])\<rparr>\<rparr>"

theorem connect_opens_agreeing_ledgers_witness:
  "\<exists>t p c. proxy_sessions (app_node t) = [sample_session, p] \<and> ps_status p = 1 \<and>
     connect_endpoint sample_connect_env ''peer-p'' sample_idle_app =
       (Ok (AppResponse_success (JObj [(''session_id'', JStr (ps_session_id p))])), t) \<and> ledgers_agree p c"
proof -
  let ?E = "sample_env\<lparr>reply_response :=
     (\<lambda>_. case answer_request sample_env HTTPProxyProvideRequest (PeerId ''me'') sample_node of
            (Ok resp, _) \<Rightarrow> Answered (Inr resp) | _ \<Rightarrow> Dropped)\<rparr>"
  let ?n = "sample_node\<lparr>config := ConfigJson (JObj [(''DBPath'', JStr ''/db'')])\<rparr>"
  have env: "?E = node_env sample_connect_env" "?n = app_node sample_idle_app" "event_sent sample_connect_env k = Answered ()"
    "app_events sample_idle_app = []" for k
    by (simp_all add: sample_connect_env_def sample_idle_app_def)
  have node: "reliable ?E" "parse_peer_id ?E ''peer-p'' = Some (PeerId ''peer-p'')" "commands_open ?E cs"
    "cfg ?n DBPath = Some (JStr ''/db'')" "cfg_obj ?n" "cfg ?n ProxyConfig = None" for cs
    by (simp_all add: reliable_def sample_env_def cfg_def cfg_obj_def)
  have "\<exists>t p c. connect_endpoint sample_connect_env ''peer-p'' sample_idle_app =
        (Ok (AppResponse_success (JObj [(''session_id'', JStr (ps_session_id p))])), t) \<and>
      proxy_sessions (app_node t) = proxy_sessions ?n @ [p] \<and> ps_status p = 1 \<and> ps_provider_peer_id p = ''peer-p'' \<and>
      app_events t = app_events sample_idle_app @ [StartProxy (ProxyClientMode (ps_session_id p))] \<and>
      proxy_clients (snd (answer_request sample_env HTTPProxyProvideRequest (PeerId ''me'') sample_node)) =
        proxy_clients sample_node @ [c] \<and> ledgers_agree p c"
    by (rule connect_opens_agreeing_ledgers [OF sample_reliable sample_serde_ok sample_cfg_obj sample_cfg(9,1,3,8,5)
          _ _ _ _ env(1,2) node(1,5) _ node(4,2,3), where rate = "F_fin (1 / 1024)"])
      (simp_all add: node(6) env(3))
  then show ?thesis by auto
qed

text \<open>
  C36. The window of a transaction listing. For \<open>1 \<le> start \<le> end\<close> the daemon is asked for
  \<open>end - start\<close> transactions after skipping \<open>start - 1\<close>, and they are returned latest first. For a start of
  zero, or beyond the end, the subtraction overflows: the handler panics in a build with overflow
  checks and otherwise asks for a window of about \<open>2^64\<close>.
\<close>

theorem list_transactions_window:
  assumes "reliable (node_env A)" "cfg (app_node s) NetworkType = Some (JStr net)"
    and "serde_from_str (de_btc_network (node_env A)) net \<noteq> None"
  shows "(if overflow_checks A \<and> (i = 0 \<or> j < i) then
       list_transactions A i j s = (Panic ''attempt to subtract with overflow'', s)
     else
       \<exists>xs. list_transactions A i j s = (Ok (AppResponse_success (JArr (map snd xs))), s\<lparr>app_node := tick (app_node s)\<rparr>) \<and>
         mset xs = mset (rpc_transactions A (j - i) (i - 1)) \<and> sorted_wrt (\<lambda>x y. fst y \<le> fst x) xs) \<and>
    unat (j - i) = (if i \<le> j then unat j - unat i else 2 ^ 64 + unat j - unat i) \<and>
    unat (i - 1) = (if i = 0 then 2 ^ 64 - 1 else unat i - 1)"
proof -
  obtain network where net: "get_network_type (node_env A) (app_node s) = (Ok network, app_node s)"
    using assms(2,3) get_network_type_run by fastforce
  define xs where "xs = sort_key (\<lambda>(time, _ :: json). - uint time) (rpc_transactions A (j - i) (i - 1))"
  have "sorted (map (\<lambda>(time, _). - uint time) xs)" unfolding xs_def by (rule sorted_sort_key)
  then have sorted: "sorted_wrt (\<lambda>x y. fst y \<le> fst x) xs"
    by (simp add: sorted_map case_prod_unfold word_le_def)
  have zero: "i < 1 \<longleftrightarrow> i = 0" "1 \<le> i \<longleftrightarrow> i \<noteq> 0" by (simp_all add: word_less_nat_alt word_le_nat_alt unat_eq_0 unat_gt_0 Suc_le_eq)
  have "unat (i - 1) = (if i = 0 then 2 ^ 64 - 1 else unat i - 1)" using unat_diff [of i 1] zero(2) by simp
  moreover have "list_transactions A i j s = (Panic ''attempt to subtract with overflow'', s)"
    if "overflow_checks A \<and> (i = 0 \<or> j < i)"
    using that net by (auto simp: list_transactions_def app_defs usize_sub_def zero)
  moreover have "list_transactions A i j s = (Ok (AppResponse_success (JArr (map snd xs))), s\<lparr>app_node := tick (app_node s)\<rparr>)"
    if "\<not> (overflow_checks A \<and> (i = 0 \<or> j < i))"
    using that net assms(1) by (auto simp: list_transactions_def app_defs usize_sub_def external_reliable xs_def zero)
  moreover have "mset xs = mset (rpc_transactions A (j - i) (i - 1))" by (simp add: xs_def)
  ultimately show ?thesis using sorted unat_diff [of j i] by auto
qed

theorem list_transactions_window_witness:
  "(\<exists>xs. list_transactions sample_app_env 2 4 sample_app =
      (Ok (AppResponse_success (JArr (map snd xs))), sample_app\<lparr>app_node := tick (app_node sample_app)\<rparr>) \<and>
      mset xs = {#(3 :: u64, JStr ''a''), (5, JStr ''b''), (3, JStr ''c'')#} \<and> sorted_wrt (\<lambda>x y. fst y \<le> fst x) xs) \<and>
   list_transactions sample_app_env 0 4 sample_app = (Panic ''attempt to subtract with overflow'', sample_app)"
proof -
  have net: "cfg (app_node sample_app) NetworkType = Some (JStr ''RegTest'')" "reliable (node_env sample_app_env)" by simp_all
  have ok: "serde_from_str (de_btc_network (node_env sample_app_env)) ''RegTest'' \<noteq> None"
    by (simp add: sample_env_def serde_from_str_def sample_de_btc_network_def quoted_def starts_with_def)
  show ?thesis
    using list_transactions_window [OF net(2,1) ok, of 2 4] list_transactions_window [OF net(2,1) ok, of 0 4] by auto
qed

text \<open>
  C35. Two stop requests that both read the configuration before the request handler has changed it are
  both answered with success, and the request handler does not survive the second event.
\<close>

theorem concurrent_stops_panic_handler:
  assumes "reliable (node_env A)" "responsive (node_env A)" "serde_ok (node_env A)"
    and "config (app_node s) = ConfigJson (JObj kvs)"
    and "Option.bind (map_of kvs ''ProxyConfig'') (de_proxy_mode (node_env A)) = Some m"
    and "\<forall>k. event_sent A k = Answered ()"
  shows "\<exists>t u. stop_proxy A s = (Ok (AppResponse_success (JStr ''proxy stopped'')), t) \<and>
    stop_proxy A t = (Ok (AppResponse_success (JStr ''proxy stopped'')), u) \<and>
    app_events u = app_events s @ [StopProxy, StopProxy] \<and>
    fst (run_events (node_env A) ([StopProxy, StopProxy] @ later) (app_node u)) = Panic ''Proxy mode to be present in config''"
proof -
  have "get_proxy_config (node_env A) (app_node s) = (Ok (Some m), app_node s)"
    using get_proxy_config_run [of "app_node s"] assms(4,5) by (simp add: cfg_obj_def cfg_def)
  then have stop: "stop_proxy A (s\<lparr>app_events := evs\<rparr>) = (Ok (AppResponse_success (JStr ''proxy stopped'')), s\<lparr>app_events := evs @ [StopProxy]\<rparr>)" for evs
    using assms(6) by (simp add: stop_proxy_def app_defs)
  obtain n where n: "handle_stop_proxy (node_env A) (app_node s) = (Ok (), n)"
    "config n = ConfigJson (JObj (obj_insert ''ProxyConfig'' JNull kvs))"
    using handle_stop_proxy_run [OF assms(1,2,4,5)] by simp
  have "handle_stop_proxy (node_env A) n = (Panic ''Proxy mode to be present in config'', n)"
    using assms(3) n(2) by (intro handle_stop_proxy_panics) (simp_all add: cfg_obj_def cfg_def map_of_obj_insert serde_ok_def)
  then have "fst (run_events (node_env A) ([StopProxy, StopProxy] @ later) (app_node s)) = Panic ''Proxy mode to be present in config''"
    using n(1) by (simp add: handle_event_def io_defs)
  then show ?thesis
    using stop [of "app_events s"] stop [of "app_events s @ [StopProxy]"] by auto
qed

theorem concurrent_stops_panic_handler_witness:
  "\<exists>t u. stop_proxy sample_app_env sample_app = (Ok (AppResponse_success (JStr ''proxy stopped'')), t) \<and>
     stop_proxy sample_app_env t = (Ok (AppResponse_success (JStr ''proxy stopped'')), u) \<and>
     fst (run_events sample_env [StopProxy, StopProxy, StopProxy] (app_node u)) = Panic ''Proxy mode to be present in config''"
proof -
  have m: "Option.bind (map_of sample_config ''ProxyConfig'') (de_proxy_mode sample_env) = Some ProxyProviderMode"
    using sample_serde_ok unfolding serde_ok_def by (simp add: sample_config_def) (metis ser_proxy_mode.simps(1))
  show ?thesis
    using concurrent_stops_panic_handler [of sample_app_env sample_app sample_config ProxyProviderMode "[StopProxy]"]
      sample_responsive_app m by auto
qed

end
