(* ===== verification/Orca_Event_Loop.thy ===== *)
theory Orca_Event_Loop
  imports Orca_Utils "HOL-Library.Multiset"
begin

text \<open>
  The network event loop (\<open>network/event_loop.rs\<close>): it turns the commands of the network
  client into calls of the libp2p swarm, keeps the oneshot sender of each until the swarm reports
  the outcome, and hands the requests of other peers to the request handler.

  The swarm is a parameter (\<open>swarm_env\<close>); the loop's own state is a record, with a log of the
  calls it makes, of the answers it sends, and of the senders it drops without an answer.
\<close>

section \<open>State\<close>

text \<open>What is sent through a oneshot channel.\<close>

datatype reply =
    ReplyUnit
  | ReplyResult "error + unit"
  | ReplyProviders "PeerId list"
  | ReplyValue "error + byte list"
  | ReplyResponse "error + OrcaNetResponse"

datatype swarm_call =
    ListenOn Multiaddr
  | AddAddress PeerId Multiaddr
  | DialAddress Multiaddr
  | KadStartProviding string
  | KadStopProviding string
  | KadGetProviders string
  | KadPutRecord string "byte list"
  | KadGetRecord string
  | SendRequest PeerId OrcaNetRequest
  | SendResponse channel OrcaNetResponse
  | OpenStream PeerId StreamReq
  | KadServerMode

datatype stream_outcome = OpenFailed | StreamWriteFailed | StreamWritten

text \<open>
  The swarm: \<open>query_id n\<close> and \<open>request_id n\<close> are the identifiers of the \<open>n\<close>-th Kademlia
  query and the \<open>n\<close>-th request, the other fields say how the \<open>n\<close>-th call ends, whether the
  receiver of a channel is gone, whether the request handler takes the \<open>n\<close>-th event (the
  channel to it has no buffer), and what it answers to it.
\<close>

record swarm_env =
  query_id :: "nat \<Rightarrow> nat"
  request_id :: "nat \<Rightarrow> nat"
  call_error :: "nat \<Rightarrow> error option"
  stream_result :: "nat \<Rightarrow> stream_outcome"
  receiver_gone :: "channel \<Rightarrow> bool"
  event_taken :: "nat \<Rightarrow> unit awaited"
  handler_reply :: "nat \<Rightarrow> OrcaNetResponse awaited"

record event_loop =
  pending_dial :: "PeerId \<rightharpoonup> channel"
  pending_start_providing :: "nat \<rightharpoonup> channel"
  pending_get_providers :: "nat \<rightharpoonup> channel"
  pending_request :: "nat \<rightharpoonup> channel"
  pending_put_kv :: "nat \<rightharpoonup> channel"
  pending_get_value :: "nat \<rightharpoonup> channel"
  pending_stream_requests :: "string \<rightharpoonup> channel"
  queries :: nat
  requests :: nat
  calls :: "swarm_call list"
  answers :: "(channel \<times> reply) list"
  dropped :: "channel list"
  events_sent :: "OrcaNetEvent list"

type_synonym 'a loop_io = "(event_loop, 'a) io"

definition NetworkEventLoop_new :: event_loop where
  "NetworkEventLoop_new =
     \<lparr>pending_dial = Map.empty, pending_start_providing = Map.empty, pending_get_providers = Map.empty,
      pending_request = Map.empty, pending_put_kv = Map.empty, pending_get_value = Map.empty,
      pending_stream_requests = Map.empty, queries = 0, requests = 0, calls = [], answers = [],
      dropped = [], events_sent = []\<rparr>"

section \<open>Channels and calls\<close>

text \<open>\<open>let _ = sender.send(r)\<close>, and \<open>sender.send(r).expect(..)\<close>.\<close>

definition answer :: "swarm_env \<Rightarrow> channel \<Rightarrow> reply \<Rightarrow> unit loop_io" where
  "answer N ch r =
     (if receiver_gone N ch then io_modify (\<lambda>s. s\<lparr>dropped := dropped s @ [ch]\<rparr>)
      else io_modify (\<lambda>s. s\<lparr>answers := answers s @ [(ch, r)]\<rparr>))"

definition answer_expect :: "swarm_env \<Rightarrow> string \<Rightarrow> channel \<Rightarrow> reply \<Rightarrow> unit loop_io" where
  "answer_expect N msg ch r =
     io_bind (answer N ch r) (\<lambda>_. if receiver_gone N ch then io_panic msg else io_ret ())"

text \<open>A sender that goes out of scope, here because it is replaced in a map or never stored.\<close>

definition drop_sender :: "channel option \<Rightarrow> unit loop_io" where
  "drop_sender ch = (case ch of None \<Rightarrow> io_ret () | Some c \<Rightarrow> io_modify (\<lambda>s. s\<lparr>dropped := dropped s @ [c]\<rparr>))"

text \<open>A call of the swarm, recorded, and its error if it has one.\<close>

definition swarm_call :: "swarm_env \<Rightarrow> swarm_call \<Rightarrow> error option loop_io" where
  "swarm_call N c s = (Ok (call_error N (length (calls s))), s\<lparr>calls := calls s @ [c]\<rparr>)"

definition new_query :: "swarm_env \<Rightarrow> nat loop_io" where
  "new_query N s = (Ok (query_id N (queries s)), s\<lparr>queries := Suc (queries s)\<rparr>)"

definition new_request :: "swarm_env \<Rightarrow> nat loop_io" where
  "new_request N s = (Ok (request_id N (requests s)), s\<lparr>requests := Suc (requests s)\<rparr>)"

definition call_expect :: "swarm_env \<Rightarrow> string \<Rightarrow> swarm_call \<Rightarrow> unit loop_io" where
  "call_expect N msg c =
     io_bind (swarm_call N c) (\<lambda>e. case e of None \<Rightarrow> io_ret () | Some _ \<Rightarrow> io_panic msg)"

section \<open>Setting up\<close>

text \<open>What the swarm is built from: the key material of its identity and the settings of its behaviours.\<close>

record kad_store_config =
  max_records :: nat
  max_provided_keys :: nat
  max_providers_per_key :: nat
  max_value_bytes :: nat

record swarm_config =
  identity_key :: "byte list"
  tcp_nodelay :: bool
  with_relay_client :: bool
  identify_protocol :: string
  kad_store :: kad_store_config
  with_streams :: bool
  request_protocols :: "string list"
  idle_timeout_secs :: nat

definition node_kad_store :: kad_store_config where
  "node_kad_store =
     \<lparr>max_records = 2 * 1000 * 1000, max_provided_keys = 2 * 1000 * 1000, max_providers_per_key = 500,
      max_value_bytes = 1 * 1024 * 1024\<rparr>"

definition node_swarm_config :: "byte list \<Rightarrow> swarm_config" where
  "node_swarm_config key =
     \<lparr>identity_key = key, tcp_nodelay = True, with_relay_client = True, identify_protocol = ''/TODO/0.0.1'',
      kad_store = node_kad_store, with_streams = True, request_protocols = [''/file-exchange/1''],
      idle_timeout_secs = 60\<rparr>"

text \<open>
  \<open>setup_network_event_loop\<close>: \<open>built\<close> is the outcome of building a swarm. The value is the key
  material of the node's identity.
\<close>

definition setup_network_event_loop ::
  "swarm_env \<Rightarrow> (swarm_config \<Rightarrow> error + unit) \<Rightarrow> u64 \<Rightarrow> byte list loop_io" where
  "setup_network_event_loop N built secret_key_seed =
     (let key = generate_ed25519_bytes secret_key_seed in
      io_bind (io_of_sum (built (node_swarm_config key))) (\<lambda>_.
      io_bind (call_expect N ''Listening for TCP failed''
                 (ListenOn [Ip4Unspecified, Tcp 0])) (\<lambda>_.
      io_bind (call_expect N ''Listening for QuickV1 failed''
                 (ListenOn [Ip4Unspecified, Udp 0, QuicV1])) (\<lambda>_.
      io_bind (call_expect N ''Reservation attempt failed'' (ListenOn (get_relay_address @ [P2pCircuit]))) (\<lambda>_.
      io_bind (swarm_call N KadServerMode) (\<lambda>_.
      io_bind (swarm_call N (AddAddress get_bootstrap_peer_id get_bootstrap_address)) (\<lambda>_.
      io_bind (call_expect N ''Failed to connect to bootstrap node'' (DialAddress get_bootstrap_address)) (\<lambda>_.
      io_ret key))))))))"

section \<open>Commands\<close>

definition send_in_stream_command ::
  "swarm_env \<Rightarrow> PeerId \<Rightarrow> StreamReq \<Rightarrow> channel option \<Rightarrow> unit loop_io" where
  "send_in_stream_command N peer_id stream_req sender =
     io_bind (io_gets (\<lambda>s. stream_result N (length (calls s)))) (\<lambda>res.
     io_bind (swarm_call N (OpenStream peer_id stream_req)) (\<lambda>_.
       case res of
         StreamWritten \<Rightarrow>
           (case sender of
              Some ch \<Rightarrow>
                io_bind (io_gets (\<lambda>s. pending_stream_requests s (sr_request_id stream_req))) (\<lambda>old.
                io_bind (io_modify (\<lambda>s. s\<lparr>pending_stream_requests :=
                    (pending_stream_requests s)(sr_request_id stream_req \<mapsto> ch)\<rparr>)) (\<lambda>_.
                drop_sender old))
            | None \<Rightarrow> io_ret ())
       | StreamWriteFailed \<Rightarrow> drop_sender sender
       | OpenFailed \<Rightarrow> drop_sender sender))"

fun handle_command :: "swarm_env \<Rightarrow> NetworkCommand \<Rightarrow> unit loop_io" where
  "handle_command N (StartListening addr sender) =
     io_bind (swarm_call N (ListenOn addr)) (\<lambda>e.
       answer N sender (ReplyResult (case e of None \<Rightarrow> Inr () | Some err \<Rightarrow> Inl err)))"
| "handle_command N (Dial peer_id peer_addr sender) =
     io_bind (io_gets (\<lambda>s. pending_dial s peer_id)) (\<lambda>entry.
       if entry = None then
         io_bind (swarm_call N (AddAddress peer_id peer_addr)) (\<lambda>_.
         io_bind (swarm_call N (DialAddress peer_addr)) (\<lambda>e.
           case e of
             None \<Rightarrow> io_modify (\<lambda>s. s\<lparr>pending_dial := (pending_dial s)(peer_id \<mapsto> sender)\<rparr>)
           | Some err \<Rightarrow> answer N sender (ReplyResult (Inl err))))
       else io_panic ''not yet implemented: Already dialing peer.'')"
| "handle_command N (StartProviding key sender) =
     io_bind (call_expect N ''No store error.'' (KadStartProviding (get_key_with_ns key))) (\<lambda>_.
     io_bind (new_query N) (\<lambda>q.
     io_modify (\<lambda>s. s\<lparr>pending_start_providing := (pending_start_providing s)(q \<mapsto> sender)\<rparr>)))"
| "handle_command N (StopProviding key) =
     io_bind (swarm_call N (KadStopProviding (get_key_with_ns key))) (\<lambda>_. io_ret ())"
| "handle_command N (GetProviders key sender) =
     io_bind (swarm_call N (KadGetProviders (get_key_with_ns key))) (\<lambda>_.
     io_bind (new_query N) (\<lambda>q.
     io_modify (\<lambda>s. s\<lparr>pending_get_providers := (pending_get_providers s)(q \<mapsto> sender)\<rparr>)))"
| "handle_command N (Request request peer sender) =
     io_bind (swarm_call N (SendRequest peer request)) (\<lambda>_.
     io_bind (new_request N) (\<lambda>rid.
     io_modify (\<lambda>s. s\<lparr>pending_request := (pending_request s)(rid \<mapsto> sender)\<rparr>)))"
| "handle_command N (Respond response channel) =
     call_expect N ''Connection to peer to be still open.'' (SendResponse channel response)"
| "handle_command N (PutKV key value sender) =
     io_bind (call_expect N ''Failed to initiate put request'' (KadPutRecord (get_key_with_ns key) value)) (\<lambda>_.
     io_bind (new_query N) (\<lambda>q.
     io_modify (\<lambda>s. s\<lparr>pending_put_kv := (pending_put_kv s)(q \<mapsto> sender)\<rparr>)))"
| "handle_command N (GetValue key sender) =
     io_bind (swarm_call N (KadGetRecord (get_key_with_ns key))) (\<lambda>_.
     io_bind (new_query N) (\<lambda>q.
     io_modify (\<lambda>s. s\<lparr>pending_get_value := (pending_get_value s)(q \<mapsto> sender)\<rparr>)))"
| "handle_command N (SendInStream peer_id stream_req sender) =
     send_in_stream_command N peer_id stream_req sender"

section \<open>Events of the swarm\<close>

datatype kad_result =
    FoundProviders "PeerId list"
  | GetProvidersFailed error
  | FoundRecord "byte list"
  | GetRecordFailed error
  | PutRecordDone
  | PutRecordFailed error
  | StartProvidingDone
  | StartProvidingFailed error
  | OtherResult \<comment> \<open>among them the end of a query that found nothing\<close>

text \<open>\<open>if let Some(sender) = map.remove(&id)\<close>: take the sender out, answer it, expect the receiver.\<close>

definition answer_removed ::
  "swarm_env \<Rightarrow> (event_loop \<Rightarrow> 'k \<rightharpoonup> channel) \<Rightarrow> (('k \<rightharpoonup> channel) \<Rightarrow> event_loop \<Rightarrow> event_loop) \<Rightarrow> 'k \<Rightarrow> reply \<Rightarrow> unit loop_io" where
  "answer_removed N get put k r =
     io_bind (io_gets (\<lambda>s. get s k)) (\<lambda>entry.
     io_bind (io_modify (\<lambda>s. put ((get s)(k := None)) s)) (\<lambda>_.
       case entry of Some ch \<Rightarrow> answer_expect N ''Receiver not to be dropped'' ch r | None \<Rightarrow> io_ret ()))"

fun handle_kademlia_events :: "swarm_env \<Rightarrow> nat \<Rightarrow> kad_result \<Rightarrow> unit loop_io" where
  "handle_kademlia_events N q (FoundProviders providers) =
     answer_removed N pending_get_providers (\<lambda>m. pending_get_providers_update (\<lambda>_. m)) q (ReplyProviders providers)"
| "handle_kademlia_events N q (GetProvidersFailed err) =
     answer_removed N pending_get_providers (\<lambda>m. pending_get_providers_update (\<lambda>_. m)) q (ReplyProviders [])"
| "handle_kademlia_events N q (FoundRecord value) =
     answer_removed N pending_get_value (\<lambda>m. pending_get_value_update (\<lambda>_. m)) q (ReplyValue (Inr value))"
| "handle_kademlia_events N q (GetRecordFailed err) =
     answer_removed N pending_get_value (\<lambda>m. pending_get_value_update (\<lambda>_. m)) q (ReplyValue (Inl err))"
| "handle_kademlia_events N q PutRecordDone =
     answer_removed N pending_put_kv (\<lambda>m. pending_put_kv_update (\<lambda>_. m)) q (ReplyResult (Inr ()))"
| "handle_kademlia_events N q (PutRecordFailed err) =
     answer_removed N pending_put_kv (\<lambda>m. pending_put_kv_update (\<lambda>_. m)) q (ReplyResult (Inl err))"
| "handle_kademlia_events N q StartProvidingDone =
     io_bind (io_gets (\<lambda>s. pending_start_providing s q)) (\<lambda>entry.
     io_bind (io_modify (\<lambda>s. s\<lparr>pending_start_providing := (pending_start_providing s)(q := None)\<rparr>)) (\<lambda>_.
     io_bind (io_some ''Completed query to be previously pending.'' entry) (\<lambda>ch.
     answer N ch ReplyUnit)))"
| "handle_kademlia_events N q (StartProvidingFailed err) = io_ret ()"
| "handle_kademlia_events N q OtherResult = io_ret ()"

datatype swarm_event =
    KadQueryProgressed nat kad_result
  | RequestReceived OrcaNetRequest PeerId channel
  | ResponseReceived nat OrcaNetResponse
  | OutboundFailure nat error
  | ConnectionEstablished PeerId bool \<comment> \<open>whether this node dialled\<close>
  | OutgoingConnectionError "PeerId option" error
  | OtherSwarmEvent

definition send_event :: "swarm_env \<Rightarrow> string \<Rightarrow> OrcaNetEvent \<Rightarrow> unit loop_io" where
  "send_event N msg ev =
     io_bind (io_gets (\<lambda>s. event_taken N (length (events_sent s)))) (\<lambda>taken.
     io_bind (io_modify (\<lambda>s. s\<lparr>events_sent := events_sent s @ [ev]\<rparr>)) (\<lambda>_.
     io_await msg taken))"

definition answer_request_id :: "swarm_env \<Rightarrow> nat \<Rightarrow> error + OrcaNetResponse \<Rightarrow> unit loop_io" where
  "answer_request_id N rid r =
     io_bind (io_gets (\<lambda>s. pending_request s rid)) (\<lambda>entry.
     io_bind (io_modify (\<lambda>s. s\<lparr>pending_request := (pending_request s)(rid := None)\<rparr>)) (\<lambda>_.
     io_bind (io_some ''Request to still be pending.'' entry) (\<lambda>ch.
     answer N ch (ReplyResponse r))))"

definition answer_dial :: "swarm_env \<Rightarrow> PeerId \<Rightarrow> error + unit \<Rightarrow> unit loop_io" where
  "answer_dial N peer_id r =
     io_bind (io_gets (\<lambda>s. pending_dial s peer_id)) (\<lambda>entry.
     io_bind (io_modify (\<lambda>s. s\<lparr>pending_dial := (pending_dial s)(peer_id := None)\<rparr>)) (\<lambda>_.
       case entry of Some ch \<Rightarrow> answer N ch (ReplyResult r) | None \<Rightarrow> io_ret ()))"

fun loop_handle_event :: "swarm_env \<Rightarrow> swarm_event \<Rightarrow> unit loop_io" where
  "loop_handle_event N (KadQueryProgressed q result) = handle_kademlia_events N q result"
| "loop_handle_event N (RequestReceived request peer channel) =
     send_event N ''Event receiver not to be dropped.'' (RequestEvent request peer channel)"
| "loop_handle_event N (ResponseReceived rid response) = answer_request_id N rid (Inr response)"
| "loop_handle_event N (OutboundFailure rid err) = answer_request_id N rid (Inl err)"
| "loop_handle_event N (ConnectionEstablished peer_id is_dialer) =
     (if is_dialer then answer_dial N peer_id (Inr ()) else io_ret ())"
| "loop_handle_event N (OutgoingConnectionError peer err) =
     (case peer of Some peer_id \<Rightarrow> answer_dial N peer_id (Inl err) | None \<Rightarrow> io_ret ())"
| "loop_handle_event N OtherSwarmEvent = io_ret ()"

section \<open>Incoming streams\<close>

text \<open>What reading a stream to its end and decoding it gives.\<close>

datatype incoming = ReadFailed | Undecodable | Decoded StreamReq

text \<open>The oneshot of a stream request is numbered by the events sent before it.\<close>

definition handle_stream_req :: "swarm_env \<Rightarrow> PeerId \<Rightarrow> incoming \<Rightarrow> unit loop_io" where
  "handle_stream_req N peer_id stream =
     (case stream of
        ReadFailed \<Rightarrow> io_ret ()
      | Undecodable \<Rightarrow> io_ret ()
      | Decoded stream_req \<Rightarrow>
          (case sr_stream_data stream_req of
             StreamRequestData request \<Rightarrow>
               io_bind (io_gets (\<lambda>s. length (events_sent s))) (\<lambda>n.
               io_bind (send_event N ''Command receiver not to be dropped''
                          (StreamRequestEvent request peer_id n)) (\<lambda>_.
               io_bind (io_await ''Sender not to be dropped'' (handler_reply N n)) (\<lambda>response.
               handle_command N (SendInStream peer_id
                 \<lparr>sr_request_id = sr_request_id stream_req, sr_stream_data = StreamResponseData response\<rparr>
                 None))))
           | StreamResponseData response \<Rightarrow>
               io_bind (io_gets (\<lambda>s. pending_stream_requests s (sr_request_id stream_req))) (\<lambda>entry.
               io_bind (io_modify (\<lambda>s. s\<lparr>pending_stream_requests :=
                   (pending_stream_requests s)(sr_request_id stream_req := None)\<rparr>)) (\<lambda>_.
                 case entry of
                   Some ch \<Rightarrow> answer_expect N ''Send to work'' ch (ReplyResponse (Inr response))
                 | None \<Rightarrow> io_ret ()))))"

section \<open>The loop\<close>

text \<open>The branches of the \<open>select!\<close>: what the loop takes next.\<close>

datatype loop_input =
    FromSwarm swarm_event
  | FromClient "NetworkCommand option"
  | FromPeer "(PeerId \<times> incoming) option"

text \<open>The value says whether the loop has returned.\<close>

fun event_loop_run :: "swarm_env \<Rightarrow> loop_input list \<Rightarrow> bool loop_io" where
  "event_loop_run N [] = io_ret False"
| "event_loop_run N (FromSwarm ev # ins) = io_bind (loop_handle_event N ev) (\<lambda>_. event_loop_run N ins)"
| "event_loop_run N (FromClient (Some c) # ins) = io_bind (handle_command N c) (\<lambda>_. event_loop_run N ins)"
| "event_loop_run N (FromClient None # ins) = io_ret True"
| "event_loop_run N (FromPeer (Some (peer_id, stream)) # ins) =
     io_bind (handle_stream_req N peer_id stream) (\<lambda>_. event_loop_run N ins)"
| "event_loop_run N (FromPeer None # ins) = event_loop_run N ins"

section \<open>The table of waiting senders\<close>

text \<open>
  The seven maps as one table: a slot says which map and which key. This is the abstract state
  that the loop maintains; storing and taking are its two operations.
\<close>

datatype slot =
    DialSlot PeerId
  | StartSlot nat
  | ProvidersSlot nat
  | RequestSlot nat
  | PutSlot nat
  | ValueSlot nat
  | StreamSlot string

fun pending :: "event_loop \<Rightarrow> slot \<Rightarrow> channel option" where
  "pending s (DialSlot p) = pending_dial s p"
| "pending s (StartSlot q) = pending_start_providing s q"
| "pending s (ProvidersSlot q) = pending_get_providers s q"
| "pending s (RequestSlot r) = pending_request s r"
| "pending s (PutSlot q) = pending_put_kv s q"
| "pending s (ValueSlot q) = pending_get_value s q"
| "pending s (StreamSlot k) = pending_stream_requests s k"

definition settled :: "event_loop \<Rightarrow> channel list" where
  "settled s = map fst (answers s) @ dropped s"

lemma pending_update [simp]:
  "pending_dial s = pending_dial u \<Longrightarrow> pending (s\<lparr>pending_dial := (pending_dial u)(p := w)\<rparr>) = (pending s)(DialSlot p := w)"
  "pending_start_providing s = pending_start_providing u \<Longrightarrow> pending (s\<lparr>pending_start_providing := (pending_start_providing u)(q := w)\<rparr>) = (pending s)(StartSlot q := w)"
  "pending_get_providers s = pending_get_providers u \<Longrightarrow> pending (s\<lparr>pending_get_providers := (pending_get_providers u)(q := w)\<rparr>) = (pending s)(ProvidersSlot q := w)"
  "pending_request s = pending_request u \<Longrightarrow> pending (s\<lparr>pending_request := (pending_request u)(q := w)\<rparr>) = (pending s)(RequestSlot q := w)"
  "pending_put_kv s = pending_put_kv u \<Longrightarrow> pending (s\<lparr>pending_put_kv := (pending_put_kv u)(q := w)\<rparr>) = (pending s)(PutSlot q := w)"
  "pending_get_value s = pending_get_value u \<Longrightarrow> pending (s\<lparr>pending_get_value := (pending_get_value u)(q := w)\<rparr>) = (pending s)(ValueSlot q := w)"
  "pending_stream_requests s = pending_stream_requests u \<Longrightarrow> pending (s\<lparr>pending_stream_requests := (pending_stream_requests u)(k := w)\<rparr>) = (pending s)(StreamSlot k := w)"
  by (rule ext, case_tac x; simp)+

lemma pending_frame [simp]:
  "pending (s\<lparr>queries := n\<rparr>) = pending s" "pending (s\<lparr>requests := n\<rparr>) = pending s"
  "pending (s\<lparr>calls := cs\<rparr>) = pending s" "pending (s\<lparr>answers := as\<rparr>) = pending s"
  "pending (s\<lparr>dropped := ds\<rparr>) = pending s" "pending (s\<lparr>events_sent := es\<rparr>) = pending s"
  by (rule ext, case_tac x; simp)+

text \<open>
  A state that differs from \<open>s\<close> only in its table, its answers and dropped senders, its logs,
  and its counters; \<open>view\<close> is what the invariants look at.
\<close>

definition view :: "event_loop \<Rightarrow> (slot \<Rightarrow> channel option) \<times> channel list \<times> nat \<times> nat" where
  "view s = (pending s, settled s, queries s, requests s)"

section \<open>Conservation\<close>

text \<open>
  Every sender that came in (\<open>T\<close>) is waiting in exactly one slot or has been settled exactly
  once; the identifiers in use were drawn before.
\<close>

definition conserved :: "event_loop \<Rightarrow> channel list \<Rightarrow> bool" where
  "conserved s T =
     (distinct (settled s) \<and> inj_on (pending s) (dom (pending s)) \<and>
      ran (pending s) \<inter> set (settled s) = {} \<and> ran (pending s) \<union> set (settled s) = set T)"

definition ids_drawn :: "swarm_env \<Rightarrow> event_loop \<Rightarrow> bool" where
  "ids_drawn N s =
     (\<forall>q. (pending s (StartSlot q) \<noteq> None \<or> pending s (ProvidersSlot q) \<noteq> None \<or>
           pending s (PutSlot q) \<noteq> None \<or> pending s (ValueSlot q) \<noteq> None \<longrightarrow> q \<in> query_id N ` {..<queries s}) \<and>
          (pending s (RequestSlot q) \<noteq> None \<longrightarrow> q \<in> request_id N ` {..<requests s}))"

lemma distinct_mset_add:
  assumes "mset xs = mset ys + {#c#}" "c \<notin> set ys" "distinct ys"
  shows "distinct xs"
proof -
  have "distinct xs = distinct (c # ys)" by (rule mset_eq_imp_distinct_iff) (simp add: assms(1))
  with assms(2,3) show ?thesis by simp
qed

lemma conserved_store:
  assumes "conserved s T" "ch \<notin> set T" "pending s k = None"
    and "pending t = (pending s)(k \<mapsto> ch)" "settled t = settled s"
  shows "conserved t (T @ [ch])"
proof -
  have "ch \<notin> ran (pending s)" "ch \<notin> set (settled s)" using assms(1,2) by (auto simp: conserved_def)
  moreover have "ran (pending t) = insert ch (ran (pending s))" using assms(3,4) by (simp add: ran_map_upd)
  moreover have "inj_on (pending t) (dom (pending t))"
  proof (rule inj_onI)
    fix a b assume ab: "a \<in> dom (pending t)" "b \<in> dom (pending t)" "pending t a = pending t b"
    have other: "pending s x \<noteq> Some ch" for x using \<open>ch \<notin> ran (pending s)\<close> by (auto simp: ran_def)
    show "a = b"
    proof (cases "a = k \<or> b = k")
      case True
      with ab(3) other show ?thesis by (auto simp: assms(4) split: if_splits)
    next
      case False
      with ab assms(1) show ?thesis by (auto simp: assms(4) conserved_def dest: inj_onD)
    qed
  qed
  ultimately show ?thesis using assms(1,5) by (auto simp: conserved_def)
qed

lemma conserved_settle_new:
  assumes "conserved s T" "ch \<notin> set T" "pending t = pending s"
    and "mset (settled t) = mset (settled s) + {#ch#}"
  shows "conserved t (T @ [ch])"
proof -
  have "ch \<notin> ran (pending s)" "ch \<notin> set (settled s)" using assms(1,2) by (auto simp: conserved_def)
  moreover have "set (settled t) = insert ch (set (settled s))"
    using arg_cong [OF assms(4), of set_mset] by simp
  moreover have "distinct (settled t)"
    using distinct_mset_add [OF assms(4)] assms(1) \<open>ch \<notin> set (settled s)\<close> by (simp add: conserved_def)
  ultimately show ?thesis using assms(1,3) by (auto simp: conserved_def)
qed

lemma conserved_take:
  assumes "conserved s T" "pending s k = Some ch" "pending t = (pending s)(k := None)"
    and "mset (settled t) = mset (settled s) + {#ch#}"
  shows "conserved t T"
proof -
  have ch: "ch \<in> ran (pending s)" using assms(2) by (auto simp: ran_def)
  then have new: "ch \<notin> set (settled s)" using assms(1) by (auto simp: conserved_def)
  have only: "k' = k" if "pending s k' = Some ch" for k'
    using that assms(1,2) by (auto simp: conserved_def inj_on_def dom_def)
  have "ran (pending t) = ran (pending s) - {ch}"
    using assms(2) by (auto simp: assms(3) ran_def dest: only) (metis option.inject)
  moreover have "set (settled t) = insert ch (set (settled s))"
    using arg_cong [OF assms(4), of set_mset] by simp
  moreover have "distinct (settled t)"
    using distinct_mset_add [OF assms(4)] assms(1) new by (simp add: conserved_def)
  moreover have "inj_on (pending t) (dom (pending t))"
    using assms(1,3) by (auto simp: conserved_def inj_on_def dom_def split: if_splits)
  ultimately show ?thesis using assms(1) ch by (auto simp: conserved_def)
qed

lemma conserved_same:
  "conserved s T \<Longrightarrow> pending t = pending s \<Longrightarrow> settled t = settled s \<Longrightarrow> conserved t T"
  by (simp add: conserved_def)

fun command_channels :: "NetworkCommand \<Rightarrow> channel list" where
  "command_channels (StartListening addr ch) = [ch]"
| "command_channels (Dial p addr ch) = [ch]"
| "command_channels (StartProviding key ch) = [ch]"
| "command_channels (GetProviders key ch) = [ch]"
| "command_channels (PutKV key v ch) = [ch]"
| "command_channels (GetValue key ch) = [ch]"
| "command_channels (Request rq p ch) = [ch]"
| "command_channels (SendInStream p sr (Some ch)) = [ch]"
| "command_channels _ = []"

lemmas loop_defs = io_defs swarm_call_def new_query_def new_request_def call_expect_def answer_def
  answer_expect_def drop_sender_def send_in_stream_command_def answer_removed_def send_event_def
  answer_request_id_def answer_dial_def

lemma fresh_query: "inj (query_id N) \<Longrightarrow> ids_drawn N s \<Longrightarrow>
    pending s (StartSlot (query_id N (queries s))) = None \<and> pending s (ProvidersSlot (query_id N (queries s))) = None \<and>
    pending s (PutSlot (query_id N (queries s))) = None \<and> pending s (ValueSlot (query_id N (queries s))) = None"
  unfolding ids_drawn_def by (metis imageE injD lessThan_iff less_irrefl)

lemma fresh_request: "inj (request_id N) \<Longrightarrow> ids_drawn N s \<Longrightarrow>
    pending s (RequestSlot (request_id N (requests s))) = None"
  unfolding ids_drawn_def by (metis imageE injD lessThan_iff less_irrefl)

text \<open>
  The specification of a command that goes through: it brings no sender and changes nothing, or
  the sender it brings is settled at once, or it is stored under a free or a fresh slot, or it
  replaces the sender of a stream request with the same identifier.
\<close>

inductive command_effect :: "swarm_env \<Rightarrow> event_loop \<Rightarrow> channel list \<Rightarrow> event_loop \<Rightarrow> bool" for N where
  none: "view t = view s \<Longrightarrow> command_effect N s [] t"
| settle: "pending t = pending s \<Longrightarrow> mset (settled t) = mset (settled s) + {#ch#} \<Longrightarrow>
    queries t = queries s \<Longrightarrow> requests t = requests s \<Longrightarrow> command_effect N s [ch] t"
| dial: "pending s (DialSlot p) = None \<Longrightarrow>
    view t = ((pending s)(DialSlot p \<mapsto> ch), settled s, queries s, requests s) \<Longrightarrow> command_effect N s [ch] t"
| kad: "slot \<in> {StartSlot, ProvidersSlot, PutSlot, ValueSlot} \<Longrightarrow>
    view t = ((pending s)(slot (query_id N (queries s)) \<mapsto> ch), settled s, Suc (queries s), requests s) \<Longrightarrow>
    command_effect N s [ch] t"
| req: "view t = ((pending s)(RequestSlot (request_id N (requests s)) \<mapsto> ch), settled s, queries s, Suc (requests s)) \<Longrightarrow>
    command_effect N s [ch] t"
| stream: "pending t = (pending s)(StreamSlot k \<mapsto> ch) \<Longrightarrow> queries t = queries s \<Longrightarrow> requests t = requests s \<Longrightarrow>
    mset (settled t) = mset (settled s) + (case pending s (StreamSlot k) of None \<Rightarrow> {#} | Some old \<Rightarrow> {#old#}) \<Longrightarrow>
    command_effect N s [ch] t"

lemma send_in_stream_effect:
  assumes "send_in_stream_command N p sr sender s = (Ok (), t)"
  shows "command_effect N s (case sender of None \<Rightarrow> [] | Some ch \<Rightarrow> [ch]) t"
proof (cases sender)
  case None
  with assms show ?thesis
    by (auto simp: loop_defs settled_def view_def split: stream_outcome.splits intro!: command_effect.none)
next
  case (Some ch)
  show ?thesis
  proof (cases "stream_result N (length (calls s))")
    case StreamWritten
    with assms Some show ?thesis
      by (cases "pending_stream_requests s (sr_request_id sr)")
        (auto simp: loop_defs settled_def intro!: command_effect.stream [where k = "sr_request_id sr"])
  qed (use assms Some in \<open>auto simp: loop_defs settled_def intro!: command_effect.settle\<close>)
qed

lemma dial_effect:
  assumes "handle_command N (Dial p addr ch) s = (Ok (), t)"
  shows "command_effect N s [ch] t"
proof -
  from assms have vacant: "pending s (DialSlot p) = None" by (simp add: loop_defs split: if_splits)
  show ?thesis
  proof (cases "call_error N (Suc (length (calls s)))")
    case None
    with assms vacant show ?thesis
      by (auto simp: loop_defs settled_def view_def intro!: command_effect.dial [OF vacant])
  next
    case (Some err)
    with assms vacant show ?thesis
      by (auto simp: loop_defs settled_def split: if_splits intro!: command_effect.settle)
  qed
qed

definition takes_slot :: "event_loop \<Rightarrow> slot \<Rightarrow> event_loop \<Rightarrow> bool" where
  "takes_slot s k t =
     (queries t = queries s \<and> requests t = requests s \<and>
      (\<exists>ch. pending s k = Some ch \<and> pending t = (pending s)(k := None) \<and>
            mset (settled t) = mset (settled s) + {#ch#}))"

lemma answer_settles:
  "answer N ch r s = (Ok (), t) \<Longrightarrow> pending t = pending s \<and> queries t = queries s \<and> requests t = requests s \<and>
     mset (settled t) = mset (settled s) + {#ch#}"
  by (auto simp: answer_def io_defs settled_def split: if_splits)

lemma pending_upd_None: "pending s k = None \<Longrightarrow> (pending s)(k := None) = pending s"
  by auto

text \<open>
  One of the seven maps: \<open>get\<close> reads it, \<open>put\<close> replaces it, and \<open>slot\<close> is its part of the
  table. A map of Kademlia queries is keyed by query identifiers.
\<close>

locale waiting_map =
  fixes get :: "event_loop \<Rightarrow> 'k \<Rightarrow> channel option"
    and put :: "('k \<Rightarrow> channel option) \<Rightarrow> event_loop \<Rightarrow> event_loop"
    and slot :: "'k \<Rightarrow> slot"
  assumes get_pending: "get s k = pending s (slot k)"
    and put_pending: "pending (put ((get s)(k := w)) s) = (pending s)(slot k := w)"
    and put_frame: "settled (put m s) = settled s" "queries (put m s) = queries s" "requests (put m s) = requests s"
begin

lemma answer_removed_view:
  assumes "answer_removed N get put k r s = (Ok (), t)"
  shows "view t = view s \<or> takes_slot s (slot k) t"
proof (cases "get s k")
  case None
  with assms have "t = put ((get s)(k := None)) s" by (auto simp: answer_removed_def io_defs)
  with None show ?thesis by (simp add: view_def put_pending put_frame get_pending pending_upd_None)
next
  case (Some ch)
  with assms have "answer N ch r (put ((get s)(k := None)) s) = (Ok (), t)"
    by (auto simp: answer_removed_def answer_expect_def io_defs split: prod.splits outcome.splits if_splits)
  from answer_settles [OF this] Some show ?thesis
    by (simp add: takes_slot_def put_pending put_frame get_pending)
qed

end

locale query_map = waiting_map get put slot
  for get :: "event_loop \<Rightarrow> nat \<Rightarrow> channel option" and put slot +
  assumes slot_kad: "slot \<in> {StartSlot, ProvidersSlot, PutSlot, ValueSlot}"
begin

lemma query_effect:
  assumes "get u = get s" "pending u = pending s" "settled u = settled s"
    "queries u = Suc (queries s)" "requests u = requests s"
  shows "command_effect N s [ch] (put ((get s)(query_id N (queries s) \<mapsto> ch)) u)"
  using assms put_pending [of u "query_id N (queries s)" "Some ch"]
  by (intro command_effect.kad [OF slot_kad]) (simp add: view_def put_frame)

end

interpretation starts: query_map pending_start_providing "\<lambda>m. pending_start_providing_update (\<lambda>_. m)" StartSlot
  by unfold_locales (simp_all add: settled_def)

interpretation providers: query_map pending_get_providers "\<lambda>m. pending_get_providers_update (\<lambda>_. m)" ProvidersSlot
  by unfold_locales (simp_all add: settled_def)

interpretation puts: query_map pending_put_kv "\<lambda>m. pending_put_kv_update (\<lambda>_. m)" PutSlot
  by unfold_locales (simp_all add: settled_def)

interpretation gets: query_map pending_get_value "\<lambda>m. pending_get_value_update (\<lambda>_. m)" ValueSlot
  by unfold_locales (simp_all add: settled_def)

lemma handle_command_effect:
  assumes "handle_command N c s = (Ok (), t)"
  shows "command_effect N s (command_channels c) t"
proof (cases c)
  case (StartListening addr ch)
  with assms show ?thesis by (auto simp: loop_defs settled_def split: if_splits intro!: command_effect.settle)
next
  case (Dial p addr ch)
  with assms dial_effect show ?thesis by simp
next
  case (SendInStream p sr sender)
  with assms send_in_stream_effect [of N p sr sender s t] show ?thesis by (cases sender) simp_all
next
  case (Request rq p ch)
  with assms show ?thesis by (auto simp: loop_defs settled_def view_def intro!: command_effect.req)
next
  case (StopProviding key)
  with assms show ?thesis by (auto simp: loop_defs settled_def view_def intro!: command_effect.none)
next
  case (Respond r ch)
  with assms show ?thesis
    by (auto simp: loop_defs settled_def view_def split: option.splits intro!: command_effect.none)
qed (use assms in \<open>auto simp: loop_defs settled_def split: option.splits intro!: starts.query_effect
       providers.query_effect puts.query_effect gets.query_effect\<close>)

text \<open>The slot that an event of the swarm, or a stream, may settle.\<close>

fun kad_slot :: "nat \<Rightarrow> kad_result \<Rightarrow> slot option" where
  "kad_slot q (FoundProviders ps) = Some (ProvidersSlot q)"
| "kad_slot q (GetProvidersFailed e) = Some (ProvidersSlot q)"
| "kad_slot q (FoundRecord v) = Some (ValueSlot q)"
| "kad_slot q (GetRecordFailed e) = Some (ValueSlot q)"
| "kad_slot q PutRecordDone = Some (PutSlot q)"
| "kad_slot q (PutRecordFailed e) = Some (PutSlot q)"
| "kad_slot q StartProvidingDone = Some (StartSlot q)"
| "kad_slot q (StartProvidingFailed e) = None"
| "kad_slot q OtherResult = None"

fun event_slot :: "swarm_event \<Rightarrow> slot option" where
  "event_slot (KadQueryProgressed q r) = kad_slot q r"
| "event_slot (ResponseReceived rid r) = Some (RequestSlot rid)"
| "event_slot (OutboundFailure rid e) = Some (RequestSlot rid)"
| "event_slot (ConnectionEstablished p d) = (if d then Some (DialSlot p) else None)"
| "event_slot (OutgoingConnectionError p e) = map_option DialSlot p"
| "event_slot _ = None"

fun stream_slot :: "incoming \<Rightarrow> slot option" where
  "stream_slot (Decoded sr) =
     (case sr_stream_data sr of StreamResponseData _ \<Rightarrow> Some (StreamSlot (sr_request_id sr)) | _ \<Rightarrow> None)"
| "stream_slot _ = None"

lemma handle_kademlia_view:
  assumes "handle_kademlia_events N q r s = (Ok (), t)"
  shows "view t = view s \<or> (\<exists>k. kad_slot q r = Some k \<and> takes_slot s k t)"
proof (cases r)
  case StartProvidingDone
  with assms obtain ch where ch: "pending s (StartSlot q) = Some ch"
    and u: "answer N ch ReplyUnit (s\<lparr>pending_start_providing := (pending_start_providing s)(q := None)\<rparr>) = (Ok (), t)"
    by (auto simp: io_defs split: option.splits)
  from answer_settles [OF u] ch StartProvidingDone show ?thesis by (simp add: takes_slot_def settled_def)
qed (use assms in \<open>auto simp: io_ret_def dest!: providers.answer_removed_view
       gets.answer_removed_view puts.answer_removed_view\<close>)

lemma answer_request_id_view:
  assumes "answer_request_id N rid r s = (Ok (), t)"
  shows "takes_slot s (RequestSlot rid) t"
proof -
  from assms obtain ch where ch: "pending s (RequestSlot rid) = Some ch"
    and u: "answer N ch (ReplyResponse r) (s\<lparr>pending_request := (pending_request s)(rid := None)\<rparr>) = (Ok (), t)"
    by (auto simp: answer_request_id_def io_defs split: option.splits)
  from answer_settles [OF u] ch show ?thesis by (simp add: takes_slot_def settled_def)
qed

lemma answer_dial_view:
  assumes "answer_dial N p r s = (Ok (), t)"
  shows "view t = view s \<or> takes_slot s (DialSlot p) t"
proof (cases "pending s (DialSlot p)")
  case None
  with assms show ?thesis by (auto simp: answer_dial_def io_defs view_def settled_def)
next
  case (Some ch)
  with assms have "answer N ch (ReplyResult r) (s\<lparr>pending_dial := (pending_dial s)(p := None)\<rparr>) = (Ok (), t)"
    by (simp add: answer_dial_def io_defs)
  from answer_settles [OF this] Some show ?thesis by (simp add: takes_slot_def settled_def)
qed

lemma loop_handle_event_view:
  assumes "loop_handle_event N ev s = (Ok (), t)"
  shows "view t = view s \<or> (\<exists>k. event_slot ev = Some k \<and> takes_slot s k t)"
proof (cases ev)
  case (RequestReceived rq p ch)
  with assms show ?thesis by (auto simp: send_event_def io_defs view_def settled_def split: awaited.splits)
qed (use assms in \<open>auto simp: io_ret_def split: if_splits option.splits
       dest!: handle_kademlia_view answer_request_id_view answer_dial_view\<close>)

lemma handle_stream_req_view:
  assumes "handle_stream_req N p st s = (Ok (), t)"
  shows "view t = view s \<or> (\<exists>k. stream_slot st = Some k \<and> takes_slot s k t)"
proof (cases st)
  case (Decoded sr)
  show ?thesis
  proof (cases "sr_stream_data sr")
    case (StreamRequestData rq)
    with assms Decoded show ?thesis
      by (auto simp: handle_stream_req_def loop_defs view_def settled_def
          split: awaited.splits stream_outcome.splits)
  next
    case (StreamResponseData resp)
    show ?thesis
    proof (cases "pending s (StreamSlot (sr_request_id sr))")
      case None
      with assms Decoded StreamResponseData show ?thesis
        by (auto simp: handle_stream_req_def io_defs view_def settled_def)
    next
      case (Some ch)
      with assms Decoded StreamResponseData have "answer N ch (ReplyResponse (Inr resp))
          (s\<lparr>pending_stream_requests := (pending_stream_requests s)(sr_request_id sr := None)\<rparr>) = (Ok (), t)"
        by (auto simp: handle_stream_req_def answer_expect_def io_defs split: prod.splits outcome.splits if_splits)
      from answer_settles [OF this] Some Decoded StreamResponseData show ?thesis
        by (simp add: takes_slot_def settled_def)
    qed
  qed
qed (use assms in \<open>simp_all add: handle_stream_req_def io_ret_def\<close>)

section \<open>Steps and traces\<close>

inductive loop_step :: "swarm_env \<Rightarrow> event_loop \<Rightarrow> loop_input \<Rightarrow> event_loop \<Rightarrow> bool" for N where
  swarm: "loop_handle_event N ev s = (Ok (), t) \<Longrightarrow> loop_step N s (FromSwarm ev) t"
| client: "handle_command N c s = (Ok (), t) \<Longrightarrow> loop_step N s (FromClient (Some c)) t"
| peer: "handle_stream_req N p st s = (Ok (), t) \<Longrightarrow> loop_step N s (FromPeer (Some (p, st))) t"
| idle: "loop_step N s (FromPeer None) s"

inductive_cases loop_step_cases: "loop_step N s i t"

inductive loop_trace :: "swarm_env \<Rightarrow> event_loop \<Rightarrow> loop_input list \<Rightarrow> event_loop \<Rightarrow> bool" for N where
  refl: "loop_trace N s [] s"
| step: "loop_step N s i t \<Longrightarrow> loop_trace N t ins u \<Longrightarrow> loop_trace N s (i # ins) u"

fun input_channels :: "loop_input \<Rightarrow> channel list" where
  "input_channels (FromClient (Some c)) = command_channels c"
| "input_channels _ = []"

fun input_slot :: "loop_input \<Rightarrow> slot option" where
  "input_slot (FromSwarm ev) = event_slot ev"
| "input_slot (FromPeer (Some (p, st))) = stream_slot st"
| "input_slot _ = None"

lemma run_trace: "event_loop_run N ins s = (Ok False, t) \<Longrightarrow> loop_trace N s ins t"
proof (induction N ins arbitrary: s rule: event_loop_run.induct)
  case (2 N ev ins)
  then show ?case by (auto simp: io_bind_Ok intro!: loop_trace.step loop_step.swarm)
next
  case (3 N c ins)
  then show ?case by (auto simp: io_bind_Ok intro!: loop_trace.step loop_step.client)
next
  case (5 N p st ins)
  then show ?case by (auto simp: io_bind_Ok intro!: loop_trace.step loop_step.peer)
next
  case (6 N ins)
  then show ?case by (auto intro!: loop_trace.step loop_step.idle)
qed (auto simp: io_ret_def intro: loop_trace.refl)

text \<open>A step that brings no sender either leaves the table alone or settles the slot of its input.\<close>

lemma loop_step_view:
  assumes "loop_step N s i t" "\<And>c. i \<noteq> FromClient (Some c)"
  shows "view t = view s \<or> (\<exists>k. input_slot i = Some k \<and> takes_slot s k t)"
  using assms
  by (auto elim!: loop_step_cases dest!: loop_handle_event_view handle_stream_req_view)

lemma ids_drawn_view: "view t = view s \<Longrightarrow> ids_drawn N t = ids_drawn N s"
  by (simp add: ids_drawn_def view_def)

lemma conserved_view: "view t = view s \<Longrightarrow> conserved t T = conserved s T"
  by (simp add: conserved_def view_def)

lemma ids_drawn_mono:
  assumes "ids_drawn N s" "queries s \<le> queries t" "requests s \<le> requests t"
    and "\<And>k. pending t k \<noteq> None \<Longrightarrow> pending s k \<noteq> None \<or>
        k \<in> {DialSlot p | p. True} \<union> {StreamSlot x | x. True} \<or>
        (\<exists>q\<in>query_id N ` {..<queries t}. k \<in> {StartSlot q, ProvidersSlot q, PutSlot q, ValueSlot q}) \<or>
        (\<exists>r\<in>request_id N ` {..<requests t}. k = RequestSlot r)"
  shows "ids_drawn N t"
proof -
  have sub: "query_id N ` {..<queries s} \<subseteq> query_id N ` {..<queries t}"
    "request_id N ` {..<requests s} \<subseteq> request_id N ` {..<requests t}" using assms(2,3) by auto
  have "q \<in> query_id N ` {..<queries t}"
    if "pending t k \<noteq> None" "k \<in> {StartSlot q, ProvidersSlot q, PutSlot q, ValueSlot q}" for k q
    using assms(4) [OF that(1)] that(2) assms(1) sub(1) unfolding ids_drawn_def by blast
  moreover have "q \<in> request_id N ` {..<requests t}" if "pending t (RequestSlot q) \<noteq> None" for q
    using assms(4) [OF that] assms(1) sub(2) unfolding ids_drawn_def by blast
  ultimately show ?thesis unfolding ids_drawn_def by blast
qed

lemma takes_slot_ids: "takes_slot s k t \<Longrightarrow> ids_drawn N s \<Longrightarrow> ids_drawn N t"
  by (rule ids_drawn_mono) (auto simp: takes_slot_def split: if_splits)

lemma conserved_takes_slot: "takes_slot s k t \<Longrightarrow> conserved s T \<Longrightarrow> conserved t T"
  unfolding takes_slot_def using conserved_take by blast

lemma conserved_replace:
  assumes "conserved s T" "ch \<notin> set T" "pending t = (pending s)(k \<mapsto> ch)"
    and "mset (settled t) = mset (settled s) + (case pending s k of None \<Rightarrow> {#} | Some old \<Rightarrow> {#old#})"
    and "\<exists>u. pending u = (pending s)(k := None) \<and> settled u = settled t"
  shows "conserved t (T @ [ch])"
proof -
  from assms(5) obtain u where u: "pending u = (pending s)(k := None)" "settled u = settled t" by blast
  have "conserved u T"
  proof (cases "pending s k")
    case None
    then have "pending u = pending s" "mset (settled u) = mset (settled s)" using u assms(4) by auto
    with assms(1) show ?thesis
      unfolding conserved_def by (metis mset_eq_imp_distinct_iff mset_eq_setD)
  next
    case (Some old)
    with u assms(4) show ?thesis by (intro conserved_take [OF assms(1) Some]) auto
  qed
  then show ?thesis using u assms(2,3) by (intro conserved_store [of u T ch k]) auto
qed

lemma command_ids:
  assumes "command_effect N s chs t" "ids_drawn N s"
  shows "ids_drawn N t"
  using assms(1)
proof cases
  case none
  then show ?thesis using assms(2) ids_drawn_view [of t s N] by simp
next
  case settle
  then show ?thesis using assms(2) by (simp add: ids_drawn_def)
next
  case dial
  then show ?thesis by (intro ids_drawn_mono [OF assms(2)]) (auto simp: view_def split: if_splits)
next
  case (kad slot)
  then have "query_id N (queries s) \<in> query_id N ` {..<queries t}" by (auto simp: view_def)
  with kad show ?thesis by (intro ids_drawn_mono [OF assms(2)]) (auto simp: view_def split: if_splits)
next
  case req
  then have "request_id N (requests s) \<in> request_id N ` {..<requests t}" by (auto simp: view_def)
  with req show ?thesis by (intro ids_drawn_mono [OF assms(2)]) (auto simp: view_def split: if_splits)
next
  case stream
  then show ?thesis by (intro ids_drawn_mono [OF assms(2)]) (auto split: if_splits)
qed

lemma command_conserves:
  assumes "command_effect N s chs t" "conserved s T" "ids_drawn N s"
    and "inj (query_id N)" "inj (request_id N)" "set chs \<inter> set T = {}"
  shows "conserved t (T @ chs)"
  using assms(1)
proof cases
  case none
  then show ?thesis using assms(2) conserved_view [of t s T] by simp
next
  case (settle ch)
  with assms(6) show ?thesis by (auto intro!: conserved_settle_new [OF assms(2)])
next
  case (dial p ch)
  with assms(6) show ?thesis by (auto simp: view_def intro!: conserved_store [OF assms(2)])
next
  case (kad slot ch)
  then have "pending s (slot (query_id N (queries s))) = None" using fresh_query [OF assms(4,3)] by auto
  with kad assms(6) show ?thesis by (auto simp: view_def intro!: conserved_store [OF assms(2)])
next
  case (req ch)
  with assms(6) fresh_request [OF assms(5,3)] show ?thesis
    by (auto simp: view_def intro!: conserved_store [OF assms(2)])
next
  case (stream k ch)
  have "\<exists>u. pending u = (pending s)(StreamSlot k := None) \<and> settled u = settled t"
    by (intro exI [of _ "s\<lparr>pending_stream_requests := (pending_stream_requests s)(k := None), answers := [],
        dropped := settled t\<rparr>"]) (simp add: settled_def)
  with stream assms(6) show ?thesis by (auto intro!: conserved_replace [OF assms(2)])
qed

text \<open>A sender that does not wait for a stream response is not touched by commands.\<close>

lemma command_keeps_slot:
  assumes "command_effect N s chs t" "ids_drawn N s" "inj (query_id N)" "inj (request_id N)"
    and "pending s k = Some ch" "\<And>x. k \<noteq> StreamSlot x"
  shows "pending t k = Some ch"
  using assms(1)
proof cases
  case (kad slot)
  then have "pending s (slot (query_id N (queries s))) = None" using fresh_query [OF assms(3,2)] by auto
  with kad assms(5) show ?thesis by (auto simp: view_def)
next
  case req
  with assms(5) fresh_request [OF assms(4,2)] show ?thesis by (auto simp: view_def)
qed (use assms(5,6) in \<open>auto simp: view_def\<close>)

text \<open>Every step is a command in the sense above, or takes the sender of the slot of its input.\<close>

lemma step_effect:
  assumes "loop_step N s i t"
  shows "command_effect N s (input_channels i) t \<or>
    (\<exists>k. input_slot i = Some k \<and> takes_slot s k t \<and> input_channels i = [])"
proof (cases "\<exists>c. i = FromClient (Some c)")
  case True
  then obtain c where c: "i = FromClient (Some c)" by blast
  with assms have "handle_command N c s = (Ok (), t)" by (auto elim: loop_step_cases)
  from handle_command_effect [OF this] c show ?thesis by simp
next
  case False
  then have "input_channels i = []" by (cases i rule: input_channels.cases) auto
  moreover have "view t = view s \<or> (\<exists>k. input_slot i = Some k \<and> takes_slot s k t)"
    using loop_step_view [OF assms] False by blast
  ultimately show ?thesis using command_effect.none by auto
qed

lemma step_ids: "loop_step N s i t \<Longrightarrow> ids_drawn N s \<Longrightarrow> ids_drawn N t"
  using step_effect command_ids takes_slot_ids by blast

lemma trace_ids: "loop_trace N s ins t \<Longrightarrow> ids_drawn N s \<Longrightarrow> ids_drawn N t"
  by (induction rule: loop_trace.induct) (auto dest: step_ids)

lemma step_conserves:
  assumes "loop_step N s i t" "conserved s T" "ids_drawn N s" "inj (query_id N)" "inj (request_id N)"
    and "set (input_channels i) \<inter> set T = {}"
  shows "conserved t (T @ input_channels i)"
  using step_effect [OF assms(1)]
proof (elim disjE exE conjE)
  assume "command_effect N s (input_channels i) t"
  then show ?thesis by (rule command_conserves [OF _ assms(2-6)])
qed (use assms(2) conserved_takes_slot in simp)

lemma trace_conserved:
  assumes "loop_trace N s ins t" "conserved s T" "ids_drawn N s" "inj (query_id N)" "inj (request_id N)"
    and "distinct (T @ concat (map input_channels ins))"
  shows "conserved t (T @ concat (map input_channels ins))"
  using assms
proof (induction arbitrary: T rule: loop_trace.induct)
  case (step s i t ins u)
  then have "conserved t (T @ input_channels i)" by (intro step_conserves [of N s]) auto
  with step.IH [of "T @ input_channels i"] step.prems step_ids [OF step.hyps(1)] show ?case by simp
qed simp

lemma step_keeps_slot:
  assumes "loop_step N s i t" "ids_drawn N s" "inj (query_id N)" "inj (request_id N)"
    and "pending s k = Some ch" "\<And>x. k \<noteq> StreamSlot x" "input_slot i \<noteq> Some k"
  shows "pending t k = Some ch"
  using step_effect [OF assms(1)]
proof (elim disjE exE conjE)
  assume "command_effect N s (input_channels i) t"
  then show ?thesis by (rule command_keeps_slot [OF _ assms(2-6)])
qed (use assms(5,7) in \<open>auto simp: takes_slot_def\<close>)

lemma trace_keeps_slot:
  assumes "loop_trace N s ins t" "ids_drawn N s" "inj (query_id N)" "inj (request_id N)"
    and "pending s k = Some ch" "\<And>x. k \<noteq> StreamSlot x" "\<forall>i\<in>set ins. input_slot i \<noteq> Some k"
  shows "pending t k = Some ch"
  using assms
proof (induction rule: loop_trace.induct)
  case (step s i t ins u)
  then have "pending t k = Some ch" by (intro step_keeps_slot [of N s i t k ch]) auto
  with step step_ids [OF step.hyps(1)] show ?case by simp
qed simp

lemma trace_append: "loop_trace N s xs t \<Longrightarrow> loop_trace N t ys u \<Longrightarrow> loop_trace N s (xs @ ys) u"
  by (induction rule: loop_trace.induct) (auto intro: loop_trace.step)

lemma new_conserved: "conserved NetworkEventLoop_new []" "ids_drawn N NetworkEventLoop_new"
proof -
  have "pending NetworkEventLoop_new k = None" for k by (cases k) (simp_all add: NetworkEventLoop_new_def)
  then show "conserved NetworkEventLoop_new []" "ids_drawn N NetworkEventLoop_new"
    by (auto simp: conserved_def ids_drawn_def settled_def NetworkEventLoop_new_def dom_def ran_def)
qed

section \<open>Keys of the DHT\<close>

fun kad_key :: "swarm_call \<Rightarrow> string option" where
  "kad_key (KadStartProviding k) = Some k"
| "kad_key (KadStopProviding k) = Some k"
| "kad_key (KadGetProviders k) = Some k"
| "kad_key (KadPutRecord k v) = Some k"
| "kad_key (KadGetRecord k) = Some k"
| "kad_key _ = None"

definition keys_named :: "event_loop \<Rightarrow> bool" where
  "keys_named s = (\<forall>c\<in>set (calls s). case kad_key c of None \<Rightarrow> True | Some k \<Rightarrow> starts_with k NAMESPACE)"

lemma starts_with_get_key_with_ns [simp]: "starts_with (get_key_with_ns key) NAMESPACE"
  by (simp add: get_key_with_ns_def)

lemma keeps_named_call [keeps_rules]:
  "(case kad_key c of None \<Rightarrow> True | Some k \<Rightarrow> starts_with k NAMESPACE) \<Longrightarrow> keeps keys_named (swarm_call N c)"
  "(case kad_key c of None \<Rightarrow> True | Some k \<Rightarrow> starts_with k NAMESPACE) \<Longrightarrow> keeps keys_named (call_expect N msg c)"
  by (auto simp: keeps_def keys_named_def loop_defs split: option.splits)

lemma keeps_named_rest [keeps_rules]:
  "keeps keys_named (answer N ch r)" "keeps keys_named (answer_expect N msg ch r)"
  "keeps keys_named (drop_sender x)" "keeps keys_named (new_query N)" "keeps keys_named (new_request N)"
  "keeps keys_named (send_event N msg ev)" "keeps keys_named (answer_request_id N rid res)"
  "keeps keys_named (answer_dial N p d)"
  by (auto simp: keeps_def keys_named_def loop_defs split: option.splits awaited.splits)

lemma keeps_named_modify [keeps_rules]:
  "(\<And>s. calls (f s) = calls s) \<Longrightarrow> keeps keys_named (io_modify f)"
  by (simp add: keeps_def keys_named_def io_modify_def)

lemma keeps_named_stream [keeps_rules]: "keeps keys_named (send_in_stream_command N p sr sender)"
  by (auto simp: send_in_stream_command_def split: stream_outcome.splits option.splits intro!: keeps_rules)

lemma keeps_named_command [keeps_rules]: "keeps keys_named (handle_command N c)"
  by (cases c) (auto simp del: io_bind_ret intro!: keeps_rules)

lemma keeps_named_answer_removed [keeps_rules]:
  "(\<And>m s. calls (put m s) = calls s) \<Longrightarrow> keeps keys_named (answer_removed N get put k r)"
  unfolding answer_removed_def by (intro keeps_rules) simp

lemma keeps_named_event [keeps_rules]: "keeps keys_named (loop_handle_event N ev)"
proof (cases ev)
  case (KadQueryProgressed q r)
  then show ?thesis by (cases r) (auto intro!: keeps_rules)
qed (auto split: option.splits intro!: keeps_rules)

lemma keeps_named_incoming [keeps_rules]: "keeps keys_named (handle_stream_req N p st)"
  unfolding handle_stream_req_def
  by (auto split: incoming.splits StreamData.splits option.splits intro!: keeps_rules simp del: handle_command.simps)

lemma keeps_named_run: "keeps keys_named (event_loop_run N ins)"
  by (induction N ins rule: event_loop_run.induct) (auto intro!: keeps_rules)

section \<open>Properties\<close>

text \<open>A swarm with numbered identifiers in which every call succeeds and every receiver waits.\<close>

definition sample_swarm :: swarm_env where
  "sample_swarm =
     \<lparr>query_id = (\<lambda>n. n), request_id = (\<lambda>n. n), call_error = (\<lambda>_. None), stream_result = (\<lambda>_. StreamWritten),
      receiver_gone = (\<lambda>_. False), event_taken = (\<lambda>_. Answered ()),
      handler_reply = (\<lambda>_. Answered NullResponse)\<rparr>"

lemma sample_swarm_simps [simp]:
  "query_id sample_swarm n = n" "request_id sample_swarm n = n" "call_error sample_swarm n = None"
  "stream_result sample_swarm n = StreamWritten" "receiver_gone sample_swarm ch = False"
  "event_taken sample_swarm n = Answered ()" "handler_reply sample_swarm n = Answered NullResponse"
  "inj (query_id sample_swarm)" "inj (request_id sample_swarm)"
  by (simp_all add: sample_swarm_def inj_def)

lemma run_append:
  "event_loop_run N xs s = (Ok False, t) \<Longrightarrow> event_loop_run N (xs @ ys) s = event_loop_run N ys t"
proof (induction N xs arbitrary: s rule: event_loop_run.induct)
qed (auto simp: io_defs split: prod.splits outcome.splits)

lemma run_new_ids: "event_loop_run N ins NetworkEventLoop_new = (Ok False, s) \<Longrightarrow> ids_drawn N s"
  using trace_ids run_trace new_conserved(2) by blast

text \<open>Under which slot the sender of a Kademlia query waits.\<close>

fun query_slot :: "swarm_env \<Rightarrow> event_loop \<Rightarrow> NetworkCommand \<Rightarrow> slot option" where
  "query_slot N s (StartProviding key ch) = Some (StartSlot (query_id N (queries s)))"
| "query_slot N s (GetProviders key ch) = Some (ProvidersSlot (query_id N (queries s)))"
| "query_slot N s (PutKV key v ch) = Some (PutSlot (query_id N (queries s)))"
| "query_slot N s (GetValue key ch) = Some (ValueSlot (query_id N (queries s)))"
| "query_slot N s _ = None"

lemma query_stored:
  assumes "handle_command N c s = (Ok (), t)" "query_slot N s c = Some k" "command_channels c = [ch]"
  shows "pending t k = Some ch"
  using assms by (cases c) (auto simp: loop_defs split: option.splits)

text \<open>
  C2. Senders are conserved. Start the event loop and feed it any sequence of swarm events, commands
  and streams that it survives; let the commands bring distinct oneshot senders and the swarm give
  distinct identifiers. Then every sender that came in is waiting in exactly one entry of one of the
  pending maps, or has been used for an answer or dropped, exactly once; and none is made up.
\<close>

theorem senders_conserved:
  assumes "event_loop_run N ins NetworkEventLoop_new = (Ok False, t)"
    and "inj (query_id N)" "inj (request_id N)" "distinct (concat (map input_channels ins))"
  shows "distinct (map fst (answers t) @ dropped t) \<and>
    inj_on (pending t) (dom (pending t)) \<and>
    ran (pending t) \<inter> set (map fst (answers t) @ dropped t) = {} \<and>
    ran (pending t) \<union> set (map fst (answers t) @ dropped t) = set (concat (map input_channels ins))"
  using trace_conserved [OF run_trace [OF assms(1)] new_conserved assms(2,3)] assms(4)
  by (simp add: conserved_def settled_def)

theorem senders_conserved_witness:
  "let ins = [FromClient (Some (GetProviders ''f'' 7)), FromClient (Some (StartListening [] 8)),
      FromClient (Some (Dial (PeerId ''peer'') [] 9)), FromSwarm (ConnectionEstablished (PeerId ''peer'') True)];
       t = snd (event_loop_run sample_swarm ins NetworkEventLoop_new)
   in ran (pending t) \<union> set (map fst (answers t) @ dropped t) = {7, 8, 9}"
proof -
  let ?ins = "[FromClient (Some (GetProviders ''f'' 7)), FromClient (Some (StartListening [] 8)),
      FromClient (Some (Dial (PeerId ''peer'') [] 9)), FromSwarm (ConnectionEstablished (PeerId ''peer'') True)]"
  have "fst (event_loop_run sample_swarm ?ins NetworkEventLoop_new) = Ok False"
    by (simp add: loop_defs NetworkEventLoop_new_def)
  then have "event_loop_run sample_swarm ?ins NetworkEventLoop_new =
      (Ok False, snd (event_loop_run sample_swarm ?ins NetworkEventLoop_new))" by (metis prod.collapse)
  from senders_conserved [OF this] show ?thesis by (simp add: Let_def)
qed

text \<open>
  C9. A response reaches its caller. Take any state of the loop, let a client send a request, and let
  anything happen that the loop survives except an outcome for the identifier of that request. When
  the swarm then reports the outcome, a response or a failure, exactly that outcome is sent to the
  sender of the request, and its entry is removed; no other sender is touched.
\<close>

theorem response_routed:
  assumes "event_loop_run N past NetworkEventLoop_new = (Ok False, s)"
    and "event_loop_run N (FromClient (Some (Request rq p ch)) # mid) s = (Ok False, t)"
    and "inj (query_id N)" "inj (request_id N)"
    and "\<forall>i\<in>set mid. input_slot i \<noteq> Some (RequestSlot (request_id N (requests s)))"
    and "\<not> receiver_gone N ch"
  shows "event_loop_run N [FromSwarm (case r of Inr response \<Rightarrow> ResponseReceived (request_id N (requests s)) response
        | Inl err \<Rightarrow> OutboundFailure (request_id N (requests s)) err)] t =
      (Ok False, t\<lparr>pending_request := (pending_request t)(request_id N (requests s) := None),
                  answers := answers t @ [(ch, ReplyResponse r)]\<rparr>)"
proof -
  let ?k = "RequestSlot (request_id N (requests s))"
  from assms(2) obtain u where u: "handle_command N (Request rq p ch) s = (Ok (), u)"
    "event_loop_run N mid u = (Ok False, t)" by (auto simp: io_bind_Ok simp del: handle_command.simps)
  have "pending u ?k = Some ch" using u(1) by (auto simp: loop_defs)
  moreover have "ids_drawn N u" by (rule command_ids [OF handle_command_effect [OF u(1)] run_new_ids [OF assms(1)]])
  ultimately have "pending t ?k = Some ch"
    by (intro trace_keeps_slot [OF run_trace [OF u(2)] _ assms(3,4)]) (use assms(5) in auto)
  with assms(6) show ?thesis by (cases r) (simp_all add: loop_defs)
qed

theorem response_routed_witness:
  "let s = NetworkEventLoop_new;
       t = snd (event_loop_run sample_swarm [FromClient (Some (Request HTTPProxyMetadataRequest (PeerId ''peer'') 7)),
             FromClient (Some (Request HTTPProxyMetadataRequest (PeerId ''peer'') 8))] s);
       u = snd (event_loop_run sample_swarm [FromSwarm (ResponseReceived 0 NullResponse)] t)
   in answers u = [(7, ReplyResponse (Inr NullResponse))]"
  using response_routed [of sample_swarm "[]" NetworkEventLoop_new HTTPProxyMetadataRequest "PeerId ''peer''" 7
      "[FromClient (Some (Request HTTPProxyMetadataRequest (PeerId ''peer'') 8))]" _ "Inr NullResponse"]
  by (simp add: Let_def loop_defs NetworkEventLoop_new_def)

text \<open>
  C24. A query is answered by its own result only. The sender of a query (start providing, get
  providers, put, get value) waits, neither answered nor dropped, as long as no result of that kind
  comes for its identifier. Among the results that do not count are a failed start of providing and
  the end of a provider search that found nothing: after these the caller waits for ever.
\<close>

theorem query_waits:
  assumes "event_loop_run N past NetworkEventLoop_new = (Ok False, s)"
    and "event_loop_run N (FromClient (Some c) # later) s = (Ok False, t)"
    and "inj (query_id N)" "inj (request_id N)"
    and "query_slot N s c = Some k" "command_channels c = [ch]"
    and "\<forall>i\<in>set later. input_slot i \<noteq> Some k"
    and "distinct (concat (map input_channels (past @ FromClient (Some c) # later)))"
  shows "pending t k = Some ch \<and> ch \<notin> fst ` set (answers t) \<and> ch \<notin> set (dropped t) \<and>
    input_slot (FromSwarm (KadQueryProgressed q (StartProvidingFailed err))) \<noteq> Some k \<and>
    input_slot (FromSwarm (KadQueryProgressed q OtherResult)) \<noteq> Some k"
proof -
  from assms(2) obtain u where u: "handle_command N c s = (Ok (), u)" "event_loop_run N later u = (Ok False, t)"
    by (auto simp: io_bind_Ok simp del: handle_command.simps)
  have "ids_drawn N u" by (rule command_ids [OF handle_command_effect [OF u(1)] run_new_ids [OF assms(1)]])
  then have k: "pending t k = Some ch"
    using query_stored [OF u(1) assms(5,6)] assms(5,7)
    by (intro trace_keeps_slot [OF run_trace [OF u(2)] _ assms(3,4)]) (auto elim: query_slot.elims)
  have "event_loop_run N (past @ FromClient (Some c) # later) NetworkEventLoop_new = (Ok False, t)"
    using run_append [OF assms(1)] assms(2) by simp
  from trace_conserved [OF run_trace [OF this] new_conserved assms(3,4)] assms(8)
  have "conserved t (concat (map input_channels (past @ FromClient (Some c) # later)))" by simp
  then have "ran (pending t) \<inter> set (settled t) = {}" by (simp add: conserved_def)
  then have "ch \<notin> set (settled t)" using ranI [of "pending t", OF k] by blast
  then show ?thesis using k by (simp add: settled_def)
qed

theorem query_waits_witness:
  "let t = snd (event_loop_run sample_swarm [FromClient (Some (GetProviders ''f'' 7)),
        FromSwarm (KadQueryProgressed 0 OtherResult), FromSwarm (KadQueryProgressed 1 (FoundProviders []))]
        NetworkEventLoop_new)
   in pending t (ProvidersSlot 0) = Some 7 \<and> 7 \<notin> fst ` set (answers t)"
  using query_waits [of sample_swarm "[]" NetworkEventLoop_new "GetProviders ''f'' 7"
      "[FromSwarm (KadQueryProgressed 0 OtherResult), FromSwarm (KadQueryProgressed 1 (FoundProviders []))]"
      _ "ProvidersSlot 0" 7]
  by (simp add: Let_def loop_defs NetworkEventLoop_new_def)

text \<open>
  C34. Dialling a peer twice ends the loop. After a dial that the swarm accepted, and as long as
  neither a connection to that peer nor a dialling error is reported, a second dial of the same peer
  panics and nothing that comes after it is handled.
\<close>

theorem second_dial_panics:
  assumes "event_loop_run N past NetworkEventLoop_new = (Ok False, s)"
    and "event_loop_run N (FromClient (Some (Dial p addr ch)) # mid) s = (Ok False, t)"
    and "inj (query_id N)" "inj (request_id N)" "call_error N (Suc (length (calls s))) = None"
    and "\<forall>i\<in>set mid. input_slot i \<noteq> Some (DialSlot p)"
  shows "event_loop_run N (FromClient (Some (Dial p addr' ch')) # later) t =
    (Panic ''not yet implemented: Already dialing peer.'', t)"
proof -
  from assms(2) obtain u where u: "handle_command N (Dial p addr ch) s = (Ok (), u)"
    "event_loop_run N mid u = (Ok False, t)" by (auto simp: io_bind_Ok simp del: handle_command.simps)
  have "pending u (DialSlot p) = Some ch" using u(1) assms(5) by (auto simp: loop_defs split: if_splits)
  moreover have "ids_drawn N u" by (rule command_ids [OF handle_command_effect [OF u(1)] run_new_ids [OF assms(1)]])
  ultimately have "pending t (DialSlot p) = Some ch"
    by (intro trace_keeps_slot [OF run_trace [OF u(2)] _ assms(3,4)]) (use assms(6) in auto)
  then show ?thesis by (simp add: loop_defs)
qed

theorem second_dial_panics_witness:
  "fst (event_loop_run sample_swarm [FromClient (Some (Dial (PeerId ''peer'') [] 8)), FromClient None]
     (snd (event_loop_run sample_swarm [FromClient (Some (Dial (PeerId ''peer'') [] 7)), FromPeer None]
       NetworkEventLoop_new))) = Panic ''not yet implemented: Already dialing peer.''"
  using second_dial_panics [of sample_swarm "[]" NetworkEventLoop_new "PeerId ''peer''" "[]" 7 "[FromPeer None]"
      _ "[]" 8 "[FromClient None]"]
  by (simp add: loop_defs NetworkEventLoop_new_def)

text \<open>
  C15. A stream request and its response, over the loops of two nodes. Node A writes the request to a
  stream to B; B hands it to its request handler and writes the handler's response, under the same
  request identifier, to a stream to A; when A reads it, the response goes to the sender that A kept
  for the request. A matches by the identifier alone: the peer that the response comes from is free.
\<close>

theorem stream_round_trip:
  assumes "stream_result A (length (calls s)) = StreamWritten" "\<not> receiver_gone A ch"
    and "sr_stream_data sr = StreamRequestData rq"
    and "event_taken B (length (events_sent t)) = Answered ()"
    and "handler_reply B (length (events_sent t)) = Answered response"
    and "reply = \<lparr>sr_request_id = sr_request_id sr, sr_stream_data = StreamResponseData response\<rparr>"
  shows "event_loop_run B [FromPeer (Some (a, Decoded sr))] t =
      (Ok False, t\<lparr>events_sent := events_sent t @ [StreamRequestEvent rq a (length (events_sent t))],
                  calls := calls t @ [OpenStream a reply]\<rparr>) \<and>
    (\<exists>u. event_loop_run A [FromClient (Some (SendInStream b sr (Some ch))), FromPeer (Some (c, Decoded reply))] s = (Ok False, u) \<and>
      calls u = calls s @ [OpenStream b sr] \<and>
      answers u = answers s @ [(ch, ReplyResponse (Inr response))] \<and>
      pending u = (pending s)(StreamSlot (sr_request_id sr) := None))"
proof -
  have "event_loop_run B [FromPeer (Some (a, Decoded sr))] t =
      (Ok False, t\<lparr>events_sent := events_sent t @ [StreamRequestEvent rq a (length (events_sent t))],
                  calls := calls t @ [OpenStream a reply]\<rparr>)"
    using assms(3-6) by (cases "stream_result B (length (calls t))") (simp_all add: handle_stream_req_def loop_defs)
  moreover have "\<exists>u. event_loop_run A [FromClient (Some (SendInStream b sr (Some ch))), FromPeer (Some (c, Decoded reply))] s = (Ok False, u) \<and>
      calls u = calls s @ [OpenStream b sr] \<and>
      answers u = answers s @ [(ch, ReplyResponse (Inr response))] \<and>
      pending u = (pending s)(StreamSlot (sr_request_id sr) := None)"
    using assms(1,2,6)
    by (cases "pending_stream_requests s (sr_request_id sr)") (simp_all add: handle_stream_req_def loop_defs)
  ultimately show ?thesis by blast
qed

theorem stream_round_trip_witness:
  "let sr = \<lparr>sr_request_id = ''r'', sr_stream_data = StreamRequestData HTTPProxyMetadataRequest\<rparr>;
       reply = \<lparr>sr_request_id = ''r'', sr_stream_data = StreamResponseData NullResponse\<rparr>
   in \<exists>u. event_loop_run sample_swarm [FromClient (Some (SendInStream (PeerId ''b'') sr (Some 7))),
        FromPeer (Some (PeerId ''b'', Decoded reply))] NetworkEventLoop_new = (Ok False, u) \<and>
      answers u = [(7, ReplyResponse (Inr NullResponse))]"
  using stream_round_trip [of sample_swarm NetworkEventLoop_new 7
      "\<lparr>sr_request_id = ''r'', sr_stream_data = StreamRequestData HTTPProxyMetadataRequest\<rparr>" HTTPProxyMetadataRequest
      sample_swarm NetworkEventLoop_new NullResponse
      "\<lparr>sr_request_id = ''r'', sr_stream_data = StreamResponseData NullResponse\<rparr>" "PeerId ''a''" "PeerId ''b''" "PeerId ''b''"]
  by (auto simp: NetworkEventLoop_new_def)

text \<open>
  C39. Whatever the loop is fed, and however it ends (with a panic, too), every key that it has given
  to Kademlia, for providing, searching, storing or reading, is in the namespace of the network.
\<close>

theorem keys_in_namespace:
  "\<forall>k \<in> set (List.map_filter kad_key (calls (snd (event_loop_run N ins NetworkEventLoop_new)))).
     starts_with k NAMESPACE"
proof -
  have "keys_named NetworkEventLoop_new" by (simp add: keys_named_def NetworkEventLoop_new_def)
  then have "keys_named (snd (event_loop_run N ins NetworkEventLoop_new))"
    using keeps_named_run [of N ins] by (simp add: keeps_def)
  then show ?thesis by (auto simp: keys_named_def List.map_filter_def split: option.splits)
qed

theorem keys_in_namespace_witness:
  "let ks = List.map_filter kad_key (calls (snd (event_loop_run sample_swarm
        [FromClient (Some (GetProviders ''f'' 7)), FromClient (Some (StopProviding (NAMESPACE @ ''/g'')))]
        NetworkEventLoop_new)))
   in ks = [NAMESPACE @ ''/f'', NAMESPACE @ ''/g''] \<and> (\<forall>k\<in>set ks. starts_with k NAMESPACE)"
proof -
  have "List.map_filter kad_key (calls (snd (event_loop_run sample_swarm
        [FromClient (Some (GetProviders ''f'' 7)), FromClient (Some (StopProviding (NAMESPACE @ ''/g'')))]
        NetworkEventLoop_new))) = [NAMESPACE @ ''/f'', NAMESPACE @ ''/g'']"
    by (simp add: loop_defs NetworkEventLoop_new_def List.map_filter_def get_key_with_ns_def)
      (simp add: NAMESPACE_def starts_with_def)
  then show ?thesis
    using keys_in_namespace [of sample_swarm "[FromClient (Some (GetProviders ''f'' 7)),
        FromClient (Some (StopProviding (NAMESPACE @ ''/g'')))]"] by (simp add: Let_def)
qed

end
