(* ===== verification/Orca_Cli.thy ===== *)
theory Orca_Cli
  imports Orca_Endpoints Orca_Event_Loop
begin

text \<open>
  The command line of the node: setting a node up (\<open>cli_handlers/setup.rs\<close>), starting it and reading its
  console (\<open>cli_handlers/start_node.rs\<close>), the choice between them (\<open>main.rs\<close>), and the Bitcoin daemon
  (\<open>BitcoindUtil\<close> in \<open>common/utils.rs\<close>).
\<close>

section \<open>The console of a running node\<close>

text \<open>
  \<open>String::from_utf8\<close> accepts exactly the well-formed byte sequences: \<open>cont k\<close> more continuation bytes
  are expected, the first of them between \<open>lo\<close> and \<open>hi\<close>.
\<close>

fun utf8_rest :: "nat \<Rightarrow> nat \<Rightarrow> nat \<Rightarrow> byte list \<Rightarrow> bool" where
  "utf8_rest 0 lo hi [] = True"
| "utf8_rest (Suc k) lo hi [] = False"
| "utf8_rest (Suc k) lo hi (b # bs) = (lo \<le> unat b \<and> unat b \<le> hi \<and> utf8_rest k 128 191 bs)"
| "utf8_rest 0 lo hi (b # bs) =
     (let n = unat b in
      if n < 128 then utf8_rest 0 128 191 bs
      else if 194 \<le> n \<and> n \<le> 223 then utf8_rest 1 128 191 bs
      else if n = 224 then utf8_rest 2 160 191 bs
      else if n = 237 then utf8_rest 2 128 159 bs
      else if 225 \<le> n \<and> n \<le> 239 then utf8_rest 2 128 191 bs
      else if n = 240 then utf8_rest 3 144 191 bs
      else if 241 \<le> n \<and> n \<le> 243 then utf8_rest 3 128 191 bs
      else if n = 244 then utf8_rest 3 128 143 bs
      else False)"

definition from_utf8 :: "byte list \<Rightarrow> string option" where
  "from_utf8 bs = (if utf8_rest 0 128 191 bs then Some (map (\<lambda>b. char_of (unat b)) bs) else None)"

definition as_bytes :: "string \<Rightarrow> byte list" where
  "as_bytes s = map (\<lambda>c. of_char c) s"

text \<open>\<open>expect_input!\<close>: without an argument the handler of the line returns.\<close>

definition expect_input :: "string list \<Rightarrow> (string \<Rightarrow> string list \<Rightarrow> bool app_io) \<Rightarrow> bool app_io" where
  "expect_input args func = (case args of [] \<Rightarrow> io_ret False | input # rest \<Rightarrow> func input rest)"

definition stop_bitcoin_daemon :: "env \<Rightarrow> unit node_io" where
  "stop_bitcoin_daemon E = io_bind (get_network_type E) (\<lambda>_. external E Rpc)"

text \<open>The value says whether the process exits.\<close>

definition handle_input_line :: "app_env \<Rightarrow> string \<Rightarrow> bool app_io" where
  "handle_input_line A line =
     (let E = node_env A; words = split_on (CHR '' '') line; command = hd words; args = tl words in
      if command = ''put'' then
        expect_input args (\<lambda>key rest. expect_input rest (\<lambda>value _.
          io_bind (io_attempt (on_node (put_kv_pair E key (as_bytes value)))) (\<lambda>_. io_ret False)))
      else if command = ''get'' then
        expect_input args (\<lambda>key _.
          io_bind (io_attempt (on_node (get_value E key))) (\<lambda>r.
            case r of
              Inr v \<Rightarrow> io_bind (io_some ''called Result::unwrap() on an Err value'' (from_utf8 v)) (\<lambda>_. io_ret False)
            | Inl _ \<Rightarrow> io_ret False))
      else if command = ''addpeer'' then
        expect_input args (\<lambda>input _.
          io_bind (on_node (get_peer_id_from_input A input)) (\<lambda>peer_id.
          let peer_addr = get_address_through_relay peer_id None in
          io_bind (io_attempt (on_node (dial E peer_id peer_addr))) (\<lambda>_. io_ret False)))
      else if command = ''startproviding'' then
        expect_input args (\<lambda>key _. io_bind (on_node (start_providing E key)) (\<lambda>_. io_ret False))
      else if command = ''getproviders'' then
        expect_input args (\<lambda>key _. io_bind (on_node (get_providers E key)) (\<lambda>_. io_ret False))
      else if command = ''getfile'' then
        expect_input args (\<lambda>file_id _.
          io_bind (io_attempt (on_node (download_file E file_id None))) (\<lambda>_. io_ret False))
      else if command = ''providefile'' then
        expect_input args (\<lambda>file_path _.
          io_bind (io_gets (\<lambda>s. path_exists (app_node s) file_path)) (\<lambda>exists.
          if \<not> exists then io_ret False
          else
            io_bind (io_attempt (on_node (sha256_digest A file_path))) (\<lambda>digest.
              case digest of
                Inr file_id \<Rightarrow> io_bind (send_app_event A (ProvideFile file_id file_path)) (\<lambda>_. io_ret False)
              | Inl _ \<Rightarrow> io_ret False)))
      else if command = ''advertise'' then
        io_bind (io_attempt (on_node (advertise_provided_files E))) (\<lambda>_. io_ret False)
      else if command = ''startproxyprovider'' then
        io_bind (send_app_event A (StartProxy ProxyProviderMode)) (\<lambda>_. io_ret False)
      else if command = ''startproxyclient'' then
        io_bind (send_app_event A (StartProxy (ProxyClientMode ''sess1''))) (\<lambda>_. io_ret False)
      else if command = ''stopproxy'' then
        io_bind (send_app_event A StopProxy) (\<lambda>_. io_ret False)
      else if command = ''exit'' then
        io_bind (io_attempt (on_node (stop_bitcoin_daemon E))) (\<lambda>_. io_ret True)
      else io_ret False)"

text \<open>
  The loop over standard input. Its \<open>select!\<close> has one branch, for a line, and no \<open>else\<close>: at the end of
  the input, or on an error, the branch is disabled and the macro panics.
\<close>

datatype stdin_event = Line string | EndOfInput | InputError

fun input_loop :: "app_env \<Rightarrow> stdin_event list \<Rightarrow> bool app_io" where
  "input_loop A [] = io_ret False"
| "input_loop A (Line line # evs) =
     io_bind (handle_input_line A line) (\<lambda>exited. if exited then io_ret True else input_loop A evs)"
| "input_loop A (_ # evs) = io_panic ''all branches are disabled and there is no else branch''"

section \<open>Starting a node\<close>

text \<open>
  The rest of the environment: building the swarm, the swarm, and what running
  a command gives: it cannot be run, or its success, standard output and standard error.
\<close>

datatype command_result = NotRun error | Ran bool "byte list" "byte list"

record cli_env =
  app_of :: app_env
  swarm_of :: swarm_env
  swarm_built :: "swarm_config \<Rightarrow> error + unit"
  run_command :: "string list \<Rightarrow> command_result"
  home_dir :: "string option"
  random_seed :: u64
  db_commands :: "(string list \<times> string list) option option" \<comment> \<open>read, and then parsed\<close>

definition get_bitcoind_command :: "env \<Rightarrow> string list node_io" where
  "get_bitcoind_command E =
     io_bind (get_network_type E) (\<lambda>network. io_ret
       (''bitcoind'' # (case network of MainNet \<Rightarrow> [] | TestNet \<Rightarrow> [''--testnet''] | RegTest \<Rightarrow> [''--regtest''])))"

definition start_bitcoin_daemon :: "cli_env \<Rightarrow> unit node_io" where
  "start_bitcoin_daemon C =
     io_bind (get_bitcoind_command (node_env (app_of C))) (\<lambda>cmd.
       case run_command C (cmd @ [''-server'', ''-fallbackfee=0.0002'', ''-txindex'', ''-daemon'']) of
         NotRun e \<Rightarrow> io_fail e
       | Ran success out err \<Rightarrow>
           if success then io_ret ()
           else
             io_bind (io_some ''stderr to be utf-8 text'' (from_utf8 err)) (\<lambda>text.
             if contains text ''already running'' then io_ret () else io_fail (Msg ''Failed to start bitcoind'')))"

definition start_orca_node :: "cli_env \<Rightarrow> u64 option \<Rightarrow> stdin_event list \<Rightarrow> bool app_io" where
  "start_orca_node C seed_arg input =
     (let A = app_of C; E = node_env A in
      io_bind (case seed_arg of Some seed \<Rightarrow> io_ret seed | None \<Rightarrow> on_node get_secret_key_seed) (\<lambda>seed.
      io_bind (\<lambda>s. (fst (setup_network_event_loop (swarm_of C) (swarm_built C) seed NetworkEventLoop_new), s)) (\<lambda>_.
      io_bind (io_modify (\<lambda>s. s\<lparr>app_node := RequestHandlerLoop_new (app_node s)\<rparr>)) (\<lambda>_.
      io_bind (spawn NetworkLoopTask) (\<lambda>_.
      io_bind (spawn RequestHandlerTask) (\<lambda>_.
      io_bind (on_node should_start_http_server) (\<lambda>http.
      io_bind (if http then spawn HttpServerTask else io_ret ()) (\<lambda>_.
      io_bind (on_node (get_proxy_config E)) (\<lambda>mode.
      io_bind (case mode of
                 Some proxy_mode \<Rightarrow>
                   io_bind (send_app_event A (StartProxy proxy_mode)) (\<lambda>sent.
                   if sent then io_ret () else io_panic ''Proxy start event to be sent'')
               | None \<Rightarrow> io_ret ()) (\<lambda>_.
      io_bind (io_expect ''Failed to start bitcoind. Cannot proceed with node start''
                 (on_node (start_bitcoin_daemon C))) (\<lambda>_.
      io_bind (on_node (get_str_from_config BTCWalletName)) (\<lambda>wallet_name.
      io_bind (on_node (get_network_type E)) (\<lambda>_.
      io_bind (io_expect (''Failed to load wallet '' @ wallet_name @ ''.'') (on_node (load_wallet E wallet_name))) (\<lambda>_.
      input_loop A input))))))))))))))"

section \<open>Setting a node up\<close>

record SetupArgs =
  sa_db_path :: string
  sa_app_data_path :: string
  sa_btc_wallet_name :: string
  sa_btc_address :: string
  sa_secret_key_seed :: "u64 option"

text \<open>\<open>std::fs::create_dir\<close>.\<close>

definition create_dir :: "env \<Rightarrow> string \<Rightarrow> unit node_io" where
  "create_dir E p =
     io_bind (external E Io) (\<lambda>_ s.
       if path_exists s p then (Err (Io ''File exists''), s)
       else if (case path_parent p of None \<Rightarrow> False | Some v \<Rightarrow> v \<noteq> [] \<and> \<not> path_is_dir s v) then
         (Err (Io ''No such file or directory''), s)
       else (Ok (), s\<lparr>files := AList.update p Directory (files s)\<rparr>))"

text \<open>Executes one statement; the value counts a failure.\<close>

fun execute_all :: "env \<Rightarrow> string list \<Rightarrow> nat node_io" where
  "execute_all E [] = io_ret 0"
| "execute_all E (q # qs) =
     io_bind (io_attempt (external E (\<lambda>t. Diesel (EngineFault t)))) (\<lambda>r.
     io_bind (execute_all E qs) (\<lambda>failures.
     io_ret (case r of Inl _ \<Rightarrow> Suc failures | Inr _ \<Rightarrow> failures)))"

definition setup_database :: "cli_env \<Rightarrow> string \<Rightarrow> nat node_io" where
  "setup_database C db_path =
     (let E = node_env (app_of C) in
      io_bind (io_gets (\<lambda>s. path_is_dir s db_path \<or>
                 (case path_parent db_path of None \<Rightarrow> False | Some v \<Rightarrow> \<not> path_exists s v))) (\<lambda>invalid.
      if invalid then io_panic ''Db path must be valid file path in an existing directory''
      else
        io_bind (create_sqlite_connection E (Some db_path)) (\<lambda>_.
        io_bind (io_some ''DB commands file path to be a valid file path that can be read'' (db_commands C)) (\<lambda>contents.
        io_bind (io_some ''DB commands YAML to be a valid YAML that can be parsed'' contents) (\<lambda>queries.
        io_bind (execute_all E (fst queries)) (\<lambda>table_failures.
        io_bind (execute_all E (snd queries)) (\<lambda>index_failures.
        io_ret (table_failures + index_failures))))))))"

text \<open>The file \<open>assets/default_config.json\<close>.\<close>

definition default_config :: "(string \<times> json) list" where
  "default_config =
     [(''AppDataPath'', JStr ''<MUST BE MODIFIED DURING SETUP>''),
      (''BTCAddress'', JStr ''<MUST BE MODIFIED DURING SETUP>''),
      (''DBPath'', JStr ''<MUST BE MODIFIED DURING SETUP>''),
      (''FileFeeRatePerKB'', JNum (Float (rnd (25 / 10000)))), (''ProxyFeeRatePerKB'', JNum (Float (rnd (25 / 10000)))),
      (''NetworkType'', JStr ''MainNet''), (''ProxyConfig'', JNull), (''RunHTTPServer'', JBool True),
      (''SecretKeySeed'', JNum (PosInt 6))]"

text \<open>\<open>std::fs::copy\<close> of the default configuration; a failed copy may have truncated its target.\<close>

definition copy_default_config :: "env \<Rightarrow> unit node_io" where
  "copy_default_config E s =
     (case external E Io s of
        (Ok _, s') \<Rightarrow> (Ok (), s'\<lparr>config := ConfigJson (JObj default_config)\<rparr>)
      | (r, s') \<Rightarrow> (r, case torn_write E (io_calls s) of None \<Rightarrow> s' | Some _ \<Rightarrow> s'\<lparr>config := ConfigMalformed\<rparr>))"

definition get_config_file_path :: "cli_env \<Rightarrow> string node_io" where
  "get_config_file_path C =
     io_bind (io_some ''called Option::unwrap() on a None value'' (home_dir C)) (\<lambda>home.
     io_ret (path_join home CONFIG_FILE_REL_PATH))"

definition setup_config_file :: "cli_env \<Rightarrow> SetupArgs \<Rightarrow> unit node_io" where
  "setup_config_file C args =
     (let E = node_env (app_of C); app_data_path = sa_app_data_path args in
      io_bind (io_gets (\<lambda>s. path_exists s app_data_path)) (\<lambda>exists.
      io_bind (if exists then io_ret ()
               else io_expect ''App data path to be a valid path with an existing parent directory''
                      (create_dir E app_data_path)) (\<lambda>_.
      io_bind (get_config_file_path C) (\<lambda>config_file_path.
      io_bind (case path_parent config_file_path of
                 None \<Rightarrow> io_ret ()
               | Some parent \<Rightarrow>
                   io_bind (io_gets (\<lambda>s. path_exists s parent)) (\<lambda>there.
                   if there then io_ret ()
                   else io_expect ''Config file path to be in a parent under an existing directory''
                          (create_dir E parent))) (\<lambda>_.
      io_bind (io_expect ''Default config to be copied to config file path'' (copy_default_config E)) (\<lambda>_.
      let seed = (case sa_secret_key_seed args of Some n \<Rightarrow> n | None \<Rightarrow> random_seed C) in
      io_expect ''Config file update failed''
        (modify_config_with_kv_pair E
           [(key_text DBPath, JStr (sa_db_path args)), (key_text BTCWalletName, JStr (sa_btc_wallet_name args)),
            (key_text BTCAddress, JStr (sa_btc_address args)), (key_text SecretKeySeed, JNum (PosInt seed)),
            (key_text AppDataPath, JStr app_data_path)])))))))"

definition handle_setup :: "cli_env \<Rightarrow> SetupArgs \<Rightarrow> unit node_io" where
  "handle_setup C args =
     io_bind (setup_database C (sa_db_path args)) (\<lambda>_. setup_config_file C args)"

definition setup_btc_core :: "cli_env \<Rightarrow> unit node_io" where
  "setup_btc_core C =
     (case run_command C [''sh'', ''-c'', ''which bitcoind''] of
        NotRun _ \<Rightarrow> io_panic ''which bitcoind to run''
      | Ran success out err \<Rightarrow>
          if success then
            io_bind (io_some ''which bitcoind output to be utf8 string'' (from_utf8 out)) (\<lambda>_. io_ret ())
          else
            case run_command C [''sh'', ''../../bin/orca_node/src/assets/btc_core_setup.sh''] of
              NotRun _ \<Rightarrow> io_panic ''Btc core setup script to run''
            | Ran ok out err \<Rightarrow> if ok then io_ret () else io_panic ''Btc core setup script to succeed'')"

datatype OrcaCLICommand = SetupBTCCore | SetupNode SetupArgs | StartNode "u64 option"

definition main :: "cli_env \<Rightarrow> OrcaCLICommand \<Rightarrow> stdin_event list \<Rightarrow> unit app_io" where
  "main C command input =
     (case command of
        SetupBTCCore \<Rightarrow> on_node (setup_btc_core C)
      | SetupNode setup_args \<Rightarrow> on_node (handle_setup C setup_args)
      | StartNode seed \<Rightarrow>
          io_bind (io_expect ''Start node failed'' (start_orca_node C seed input)) (\<lambda>_. io_ret ()))"

section \<open>Lemmas\<close>


lemma input_loop_append:
  "input_loop A xs s = (Ok False, t) \<Longrightarrow> input_loop A (xs @ ys) s = input_loop A ys t"
  by (induction A xs arbitrary: s rule: input_loop.induct)
    (auto simp: io_defs split: prod.splits outcome.splits if_splits)

text \<open>The value of a line is fixed by its command: only \<open>exit\<close> ends the process.\<close>

definition is_exit :: "string \<Rightarrow> bool" where
  "is_exit line = (hd (split_on (CHR '' '') line) = ''exit'')"

definition yields :: "'a \<Rightarrow> ('s, 'a) io \<Rightarrow> bool" where
  "yields v m = (\<forall>s x t. m s = (Ok x, t) \<longrightarrow> x = v)"

lemma yields_rules:
  "yields v (io_ret v)" "(\<And>x. yields v (k x)) \<Longrightarrow> yields v (io_bind m k)"
  "(\<And>input rest. yields False (f input rest)) \<Longrightarrow> yields False (expect_input args f)"
  by (fastforce simp: yields_def io_ret_def io_bind_def expect_input_def split: prod.splits outcome.splits list.splits)+

lemma handle_input_line_yields: "yields (is_exit line) (handle_input_line A line)"
  unfolding handle_input_line_def is_exit_def Let_def
  by (auto intro!: yields_rules split: sum.splits)

lemma handle_input_line_value: "handle_input_line A line s = (Ok b, t) \<Longrightarrow> b = is_exit line"
  using handle_input_line_yields [of line A] unfolding yields_def by blast

lemma input_loop_line:
  assumes "input_loop A (Line line # evs) s = (Ok b, t)"
  obtains "is_exit line" "b" | u where "\<not> is_exit line" "input_loop A evs u = (Ok b, t)"
  using assms
  by (auto simp: io_defs split: prod.splits outcome.splits if_splits dest: handle_input_line_value)

lemma input_loop_True:
  "input_loop A evs s = (Ok True, t) \<Longrightarrow>
   \<exists>ls line rest. evs = map Line ls @ Line line # rest \<and> list_all (\<lambda>l. \<not> is_exit l) ls \<and> is_exit line"
proof (induction evs arbitrary: s)
  case (Cons ev evs)
  show ?case
  proof (cases ev)
    case (Line line)
    with Cons.prems have "input_loop A (Line line # evs) s = (Ok True, t)" by simp
    then show ?thesis
    proof (cases rule: input_loop_line)
      case 1
      then have "ev # evs = map Line [] @ Line line # evs \<and> list_all (\<lambda>l. \<not> is_exit l) [] \<and> is_exit line"
        using Line by simp
      then show ?thesis by blast
    next
      case (2 u)
      then obtain ls l rest where "evs = map Line ls @ Line l # rest" "list_all (\<lambda>l. \<not> is_exit l) ls" "is_exit l"
        using Cons.IH by blast
      then show ?thesis using Line 2(1) by (intro exI [of _ "line # ls"]) simp
    qed
  qed (use Cons.prems in \<open>simp_all add: io_panic_def\<close>)
qed (simp add: io_ret_def)

lemma input_loop_False:
  "input_loop A evs s = (Ok False, t) \<Longrightarrow> \<exists>ls. evs = map Line ls \<and> list_all (\<lambda>l. \<not> is_exit l) ls"
proof (induction evs arbitrary: s)
  case (Cons ev evs)
  show ?case
  proof (cases ev)
    case (Line line)
    with Cons.prems have "input_loop A (Line line # evs) s = (Ok False, t)" by simp
    then show ?thesis
    proof (cases rule: input_loop_line)
      case (2 u)
      then obtain ls where "evs = map Line ls" "list_all (\<lambda>l. \<not> is_exit l) ls" using Cons.IH by blast
      then show ?thesis using Line 2(1) by (intro exI [of _ "line # ls"]) simp
    qed simp
  qed (use Cons.prems in \<open>simp_all add: io_panic_def\<close>)
qed simp

lemma input_loop_closed:
  assumes "input_loop A (map Line ls @ ev # rest) s = (Ok b, t)" "ev = EndOfInput \<or> ev = InputError"
    and "list_all (\<lambda>l. \<not> is_exit l) ls"
  shows False
  using assms(1,3)
proof (induction ls arbitrary: s)
  case Nil
  then show ?case using assms(2) by (auto simp: io_panic_def)
next
  case (Cons line ls)
  then have "input_loop A (Line line # (map Line ls @ ev # rest)) s = (Ok b, t)" by simp
  then show ?case using Cons.IH Cons.prems(2) by (cases rule: input_loop_line) auto
qed



section \<open>Properties\<close>


text \<open>A system on which the sample application is set up.\<close>

definition sample_cli :: cli_env where
  "sample_cli =
     \<lparr>app_of = sample_app_env, swarm_of = sample_swarm, swarm_built = (\<lambda>_. Inr ()),
      run_command = (\<lambda>_. Ran True [] []), home_dir = Some ''/home'', random_seed = 9,
      db_commands = Some (Some ([''t''], [''i'']))\<rparr>"





text \<open>
  C37. How the console ends. The process exits only at a line whose command is \<open>exit\<close>, with only other
  lines before it; the loop goes on only as long as it is given lines, none of them \<open>exit\<close>. The end of
  standard input, or an error on it, is not survived: a run that reaches it without an \<open>exit\<close> never ends
  with success, and when the lines before it were handled it panics in the state that they left.
\<close>

theorem console_end:
  assumes "input_loop A evs s = (r, t)"
  shows "(r = Ok True \<longrightarrow> (\<exists>ls line rest. evs = map Line ls @ Line line # rest \<and> list_all (\<lambda>l. \<not> is_exit l) ls \<and> is_exit line)) \<and>
    (r = Ok False \<longrightarrow> (\<exists>ls. evs = map Line ls \<and> list_all (\<lambda>l. \<not> is_exit l) ls)) \<and>
    (\<forall>ls ev rest. evs = map Line ls @ ev # rest \<longrightarrow> ev = EndOfInput \<or> ev = InputError \<longrightarrow> list_all (\<lambda>l. \<not> is_exit l) ls \<longrightarrow>
       (\<forall>b. r \<noteq> Ok b) \<and>
       (\<forall>u. input_loop A (map Line ls) s = (Ok False, u) \<longrightarrow>
          (r, t) = (Panic ''all branches are disabled and there is no else branch'', u)))"
proof (intro conjI impI allI)
  show "\<exists>ls line rest. evs = map Line ls @ Line line # rest \<and> list_all (\<lambda>l. \<not> is_exit l) ls \<and> is_exit line" if "r = Ok True"
    using assms that by (intro input_loop_True) simp
  show "\<exists>ls. evs = map Line ls \<and> list_all (\<lambda>l. \<not> is_exit l) ls" if "r = Ok False"
    using assms that by (intro input_loop_False) simp
  fix ls ev rest assume evs: "evs = map Line ls @ ev # rest" and ev: "ev = EndOfInput \<or> ev = InputError"
    and no_exit: "list_all (\<lambda>l. \<not> is_exit l) ls"
  show "r \<noteq> Ok b" for b using input_loop_closed [OF _ ev no_exit] assms evs by auto
  show "(r, t) = (Panic ''all branches are disabled and there is no else branch'', u)"
    if "input_loop A (map Line ls) s = (Ok False, u)" for u
    using input_loop_append [OF that, of "ev # rest"] assms evs ev by (auto simp: io_panic_def)
qed

theorem console_end_witness:
  "fst (input_loop sample_app_env [Line ''startproxyprovider'', Line ''nonsense'', EndOfInput] sample_app) =
     Panic ''all branches are disabled and there is no else branch''"
proof -
  have words: "split_on (CHR '' '') ''startproxyprovider'' = [''startproxyprovider'']"
    "split_on (CHR '' '') ''nonsense'' = [''nonsense'']" by code_simp+
  let ?ls = "[''startproxyprovider'', ''nonsense'']"
  have lines: "input_loop sample_app_env (map Line ?ls) sample_app =
      (Ok False, sample_app\<lparr>app_events := [StartProxy ProxyProviderMode]\<rparr>)"
    by (simp add: handle_input_line_def words app_defs)
  obtain r t where run: "input_loop sample_app_env (map Line ?ls @ EndOfInput # []) sample_app = (r, t)" by fastforce
  have "list_all (\<lambda>l. \<not> is_exit l) ?ls" by (simp add: is_exit_def words)
  then have "(r, t) = (Panic ''all branches are disabled and there is no else branch'',
      sample_app\<lparr>app_events := [StartProxy ProxyProviderMode]\<rparr>)"
    using console_end [OF run] lines by blast
  then show ?thesis using run by simp
qed

text \<open>
  C16. Starting a node. With a complete configuration and working libraries, the loops are running, and the
  HTTP server with them when it is enabled; a proxy that the configuration remembers is started again, by
  exactly one event to a request handler that runs none; and the console takes over.
\<close>

theorem start_node_restores_proxy:
  assumes "A = app_of C" "E = node_env A" "reliable E" "cfg_obj (app_node s)"
    and "Option.bind (cfg (app_node s) ProxyConfig) (de_proxy_mode E) = mode"
    and "cfg (app_node s) NetworkType = Some (JStr net)" "serde_from_str (de_btc_network E) net \<noteq> None"
    and "cfg (app_node s) BTCWalletName = Some (JStr wallet)"
    and "\<forall>c. swarm_built C c = Inr ()" "\<forall>k. call_error (swarm_of C) k = None"
    and "\<forall>cmd. \<exists>out err. run_command C cmd = Ran True out err" "\<forall>k. event_sent A k = Answered ()"
  shows "\<exists>t. start_orca_node C seed input s = input_loop A input t \<and>
    app_tasks t = app_tasks s @ [NetworkLoopTask, RequestHandlerTask] @
      (if Option.bind (cfg (app_node s) RunHTTPServer) as_bool = Some True then [HttpServerTask] else []) \<and>
    app_events t = app_events s @ (case mode of None \<Rightarrow> [] | Some m \<Rightarrow> [StartProxy m]) \<and>
    proxy_event_sender (app_node t) = None"
proof -
  let ?n = "RequestHandlerLoop_new (app_node s)"
  have cfg: "cfg ?n = cfg (app_node s)" "cfg_obj ?n" using assms(4) by (simp_all add: RequestHandlerLoop_new_def cfg_obj_def)
  obtain network where net: "get_network_type E ?n = (Ok network, ?n)"
    using assms(6,7) cfg(1) get_network_type_run [of ?n net E] by fastforce
  have mode: "get_proxy_config E ?n = (Ok mode, ?n)" using get_proxy_config_run [OF cfg(2)] assms(5) cfg(1) by simp
  have http: "should_start_http_server ?n = (Ok (Option.bind (cfg (app_node s) RunHTTPServer) as_bool = Some True), ?n)"
    using cfg by (auto simp: should_start_http_server_def io_defs get_from_config_obj split: option.splits)
  obtain seed' where seed: "(case seed of Some x \<Rightarrow> io_ret x | None \<Rightarrow> on_node get_secret_key_seed) s = (Ok seed', s)"
    using assms(4) by (cases seed) (auto simp: get_secret_key_seed_def io_defs on_node_def get_from_config_obj)
  have loop: "fst (setup_network_event_loop (swarm_of C) (swarm_built C) seed' NetworkEventLoop_new) =
      Ok (generate_ed25519_bytes seed')"
    using assms(9,10) by (simp add: setup_network_event_loop_def loop_defs)
  obtain out err where ran: "\<And>cmd. run_command C cmd = Ran True (out cmd) (err cmd)" using assms(11) by metis
  have daemon: "start_bitcoin_daemon C ?n = (Ok (), ?n)"
    using net assms(1,2) ran by (simp add: start_bitcoin_daemon_def get_bitcoind_command_def io_defs)
  have wallet: "get_str_from_config BTCWalletName ?n = (Ok wallet, ?n)" "load_wallet E wallet ?n = (Ok (), tick ?n)"
    using assms(3,8) cfg(1) by (simp_all add: get_str_from_config_Some load_wallet_def io_defs external_reliable)
  have "proxy_event_sender ?n = None" by (simp add: RequestHandlerLoop_new_def)
  then show ?thesis
    using seed loop http mode daemon wallet net assms(1,2,12)
    by (intro exI [of _ "s\<lparr>app_tasks := app_tasks s @ [NetworkLoopTask, RequestHandlerTask] @
          (if Option.bind (cfg (app_node s) RunHTTPServer) as_bool = Some True then [HttpServerTask] else []),
        app_events := app_events s @ (case mode of None \<Rightarrow> [] | Some m \<Rightarrow> [StartProxy m]),
        app_node := tick ?n\<rparr>"])
      (cases mode; cases "Option.bind (cfg (app_node s) RunHTTPServer) as_bool = Some True";
       simp add: start_orca_node_def Let_def app_defs spawn_def)
qed

theorem start_node_restores_proxy_witness:
  "\<exists>t. start_orca_node sample_cli None [] (sample_app\<lparr>app_node := sample_node\<lparr>config :=
       ConfigJson (JObj ((''BTCWalletName'', JStr ''w'') # sample_config))\<rparr>\<rparr>) = input_loop sample_app_env [] t \<and>
     app_events t = [StartProxy ProxyProviderMode]"
proof -
  let ?n = "sample_node\<lparr>config := ConfigJson (JObj ((''BTCWalletName'', JStr ''w'') # sample_config))\<rparr>"
  have kvs: "cfg ?n NetworkType = Some (JStr ''RegTest'')" "cfg ?n BTCWalletName = Some (JStr ''w'')" "cfg_obj ?n"
    "cfg ?n ProxyConfig = Some (ser_proxy_mode ProxyProviderMode)"
    by (simp_all add: cfg_def cfg_obj_def sample_config_def)
  have mode: "Option.bind (cfg ?n ProxyConfig) (de_proxy_mode sample_env) = Some ProxyProviderMode"
    using sample_serde_ok unfolding serde_ok_def kvs(4) by (simp del: ser_proxy_mode.simps)
  have ok: "serde_from_str (de_btc_network sample_env) ''RegTest'' \<noteq> None"
    by (simp add: sample_env_def serde_from_str_def sample_de_btc_network_def quoted_def starts_with_def)
  have "\<exists>t. start_orca_node sample_cli None [] (sample_app\<lparr>app_node := ?n\<rparr>) = input_loop sample_app_env [] t \<and>
      app_tasks t = app_tasks (sample_app\<lparr>app_node := ?n\<rparr>) @ [NetworkLoopTask, RequestHandlerTask] @
        (if Option.bind (cfg (app_node (sample_app\<lparr>app_node := ?n\<rparr>)) RunHTTPServer) as_bool = Some True then [HttpServerTask] else []) \<and>
      app_events t = app_events (sample_app\<lparr>app_node := ?n\<rparr>) @ (case Some ProxyProviderMode of None \<Rightarrow> [] | Some m \<Rightarrow> [StartProxy m]) \<and>
      proxy_event_sender (app_node t) = None"
    by (rule start_node_restores_proxy [where E = sample_env and net = "''RegTest''" and wallet = "''w''"])
      (use kvs mode ok in \<open>simp_all add: sample_cli_def\<close>)
  then show ?thesis by auto
qed

end
