(* ===== verification/Orca_Proxy.thy ===== *)
theory Orca_Proxy
  imports Orca_Payment
begin

text \<open>
  The HTTP proxy (\<open>proxy/proxy_handlers.rs\<close>, \<open>proxy/http_proxy.rs\<close>): the two request
  handlers, the byte tunnel behind a CONNECT request, and the accept loop that a stop event ends.
  What hyper and the TCP stack do is in the record \<open>web\<close>; a task that a handler spawns is part
  of its result.
\<close>

section \<open>HTTP messages\<close>

datatype Method = CONNECT | OtherMethod string

text \<open>Header names are in lower case, values are byte strings.\<close>

record http_request =
  rq_method :: Method
  rq_uri :: string
  rq_authority :: "string option"
  rq_headers :: "(string \<times> string) list"

datatype http_body = JsonBody json | BytesBody "byte list"

record http_response =
  rs_status :: nat
  rs_headers :: "(string \<times> string) list"
  rs_body :: http_body

definition PROXY_AUTHORIZATION :: string where "PROXY_AUTHORIZATION = ''proxy-authorization''"

text \<open>\<open>HeaderMap::get\<close> and \<open>HeaderMap::insert\<close>, which replaces every value of the name.\<close>

definition header_get :: "string \<Rightarrow> (string \<times> string) list \<Rightarrow> string option" where
  "header_get n hs = map_of hs n"

definition header_insert :: "string \<Rightarrow> string \<Rightarrow> (string \<times> string) list \<Rightarrow> (string \<times> string) list" where
  "header_insert n v hs = (n, v) # filter (\<lambda>(k, _). k \<noteq> n) hs"

text \<open>\<open>HeaderValue::to_str\<close> gives visible ASCII only; \<open>from_str\<close> takes every byte but controls.\<close>

definition visible_ascii :: "char \<Rightarrow> bool" where
  "visible_ascii c = (let b = of_char c :: nat in 32 \<le> b \<and> b < 127 \<or> b = 9)"

definition header_to_str :: "string \<Rightarrow> string option" where
  "header_to_str v = (if list_all visible_ascii v then Some v else None)"

definition header_from_str :: "string \<Rightarrow> string option" where
  "header_from_str v =
     (if list_all (\<lambda>c. let b = of_char c :: nat in 32 \<le> b \<and> b \<noteq> 127 \<or> b = 9) v then Some v else None)"

section \<open>The network side\<close>

text \<open>What sending a request through hyper gives, and what one read of a TCP stream gives.\<close>

datatype fetch = FetchFailed | BodyFailed | Fetched http_response "byte list"

datatype stream_read = ReadError string | ReadBytes "byte list"

datatype tcp = ConnectFailed string | WriteFailed string | Stream "nat \<Rightarrow> stream_read"

text \<open>
  \<open>fetch_direct\<close> and \<open>fetch_via\<close> are the two http clients (the second through the proxy at
  an address), \<open>tcp_connect\<close> opens a connection, \<open>tcp_dial\<close> opens one, writes the given
  bytes and then reads, \<open>header_order\<close> is the iteration order of a \<open>HashMap\<close>,
  \<open>valid_proxy_uri\<close> parses the proxy address and \<open>can_bind\<close> binds the listener.
\<close>

record web =
  fetch_direct :: "http_request \<Rightarrow> fetch"
  fetch_via :: "string \<Rightarrow> http_request \<Rightarrow> fetch"
  tcp_connect :: "string \<Rightarrow> bool"
  tcp_dial :: "string \<Rightarrow> string \<Rightarrow> tcp"
  header_order :: "(string \<times> string) list \<Rightarrow> (string \<times> string) list"
  valid_proxy_uri :: "string \<Rightarrow> bool"
  can_bind :: "string \<Rightarrow> bool"

section \<open>Responses and tokens\<close>

fun ser_error :: "OrcaNetError \<Rightarrow> json" where
  "ser_error (AuthorizationFailed m) = JObj [(''type'', JStr ''AuthorizationFailed''), (''message'', JStr m)]"
| "ser_error (NotAProvider m) = JObj [(''type'', JStr ''NotAProvider''), (''message'', JStr m)]"
| "ser_error (InternalServerError m) = JObj [(''type'', JStr ''InternalServerError''), (''message'', JStr m)]"
| "ser_error PaymentReferenceMismatch = JObj [(''type'', JStr ''PaymentReferenceMismatch'')]"
| "ser_error SessionTerminatedByProvider = JObj [(''type'', JStr ''SessionTerminatedByProvider'')]"

definition bad_request_with_err :: "OrcaNetError \<Rightarrow> http_response" where
  "bad_request_with_err err =
     \<lparr>rs_status = 400, rs_headers = [], rs_body = JsonBody (JObj [(''error'', ser_error err)])\<rparr>"

definition status_response :: "nat \<Rightarrow> http_response" where
  "status_response st = \<lparr>rs_status = st, rs_headers = [], rs_body = BytesBody []\<rparr>"

definition extract_proxy_authtoken :: "http_request \<Rightarrow> string + string" where
  "extract_proxy_authtoken req =
     (case header_get PROXY_AUTHORIZATION (rq_headers req) of
        None \<Rightarrow> Inl ''Missing authorization header''
      | Some auth_header \<Rightarrow>
          (case header_to_str auth_header of
             None \<Rightarrow> Inl ''Invalid authorization header''
           | Some auth_str \<Rightarrow>
               if \<not> starts_with auth_str ''Bearer '' then
                 Inl ''Invalid authorization format - must be Bearer token''
               else Inr (drop 7 auth_str)))"

section \<open>The provider\<close>

definition validate_auth_token :: "env \<Rightarrow> http_request \<Rightarrow> (http_response + ProxyClientInfo) node_io" where
  "validate_auth_token E request =
     (case extract_proxy_authtoken request of
        Inl e \<Rightarrow> io_ret (Inl (bad_request_with_err (AuthorizationFailed e)))
      | Inr auth_token \<Rightarrow>
          io_bind (create_sqlite_connection E None) (\<lambda>_.
          io_bind (io_attempt (get_client_by_auth_token E auth_token)) (\<lambda>r.
          io_ret
            (case r of
               Inl e \<Rightarrow> Inl (bad_request_with_err (AuthorizationFailed ''Auth token verification failed''))
             | Inr client_info \<Rightarrow>
                 (case ProxySessionStatus_try_from (pc_status client_info) of
                    Some TerminatedByClient \<Rightarrow>
                      Inl (bad_request_with_err (AuthorizationFailed
                        ''Received auth token for inactive session. Start a new session.''))
                  | Some TerminatedByServer \<Rightarrow> Inl (bad_request_with_err SessionTerminatedByProvider)
                  | _ \<Rightarrow> Inr client_info)))))"

text \<open>
  A response together with the tunnel the handler spawned, if any: whose it is, and where it
  leads.
\<close>

type_synonym handled = "http_response \<times> (string \<times> string) option"

definition provider_handle_standard_http_request ::
  "web \<Rightarrow> ProxyClientInfo \<Rightarrow> http_request \<Rightarrow> handled node_io" where
  "provider_handle_standard_http_request W client_info request =
     (case fetch_direct W request of
        FetchFailed \<Rightarrow> io_panic ''called Result::unwrap() on an Err value''
      | BodyFailed \<Rightarrow> io_fail (Transport ''body'')
      | Fetched parts bytes \<Rightarrow> io_ret (parts\<lparr>rs_body := BytesBody bytes\<rparr>, None))"

definition provider_handle_http_connect_request ::
  "web \<Rightarrow> ProxyClientInfo \<Rightarrow> http_request \<Rightarrow> handled node_io" where
  "provider_handle_http_connect_request W client_info request =
     io_bind (io_some ''called Option::unwrap() on a None value'' (rq_authority request)) (\<lambda>authority.
       if \<not> tcp_connect W authority then io_ret (status_response 502, None)
       else io_ret (status_response 200, Some (pc_client_id client_info, authority)))"

definition provider_handle_request :: "env \<Rightarrow> web \<Rightarrow> http_request \<Rightarrow> handled node_io" where
  "provider_handle_request E W request =
     io_bind (validate_auth_token E request) (\<lambda>r.
       case r of
         Inr client_info \<Rightarrow>
           if rq_method request = CONNECT then
             provider_handle_http_connect_request W client_info request
           else provider_handle_standard_http_request W client_info request
       | Inl error_response \<Rightarrow> io_ret (error_response, None))"

section \<open>Reading a response head (Utils::read\_stream\_to\_end)\<close>

text \<open>\<open>data.windows(4).any(|w| w == b"\r\n\r\n")\<close>.\<close>

definition header_end :: "byte list" where "header_end = [13, 10, 13, 10]"

fun has_header_end :: "byte list \<Rightarrow> bool" where
  "has_header_end [] = False"
| "has_header_end (b # bs) = (take 4 (b # bs) = header_end \<or> has_header_end bs)"

text \<open>
  \<open>None\<close> is a loop that never ends; \<open>Inl\<close> is the panic on a failed read. A read of no
  bytes, which is what a closed stream gives for ever, is no different from any other.
\<close>

partial_function (option) read_stream_from ::
  "(nat \<Rightarrow> stream_read) \<Rightarrow> nat \<Rightarrow> byte list \<Rightarrow> (string + byte list) option" where
  "read_stream_from reads n data =
     (case reads n of
        ReadError e \<Rightarrow> Some (Inl ''Response to be read from TCP stream'')
      | ReadBytes bs \<Rightarrow>
          if has_header_end (data @ bs) then Some (Inr (data @ bs))
          else read_stream_from reads (Suc n) (data @ bs))"

definition read_stream_to_end :: "(nat \<Rightarrow> stream_read) \<Rightarrow> (string + byte list) option" where
  "read_stream_to_end reads = read_stream_from reads 0 []"

section \<open>The client\<close>

definition bearer :: "ProxySessionInfo \<Rightarrow> string" where
  "bearer session_info = ''Bearer '' @ ps_auth_token session_info"

definition with_bearer_token :: "ProxySessionInfo \<Rightarrow> http_request \<Rightarrow> http_request node_io" where
  "with_bearer_token session_info request =
     io_bind (io_some ''Token value to be valid header value when parsed from string''
                (header_from_str (bearer session_info))) (\<lambda>token_hdr_value.
     io_ret (request\<lparr>rq_headers := header_insert PROXY_AUTHORIZATION token_hdr_value (rq_headers request)\<rparr>))"

definition client_handle_standard_http_request ::
  "env \<Rightarrow> web \<Rightarrow> ProxySessionInfo \<Rightarrow> http_request \<Rightarrow> handled node_io" where
  "client_handle_standard_http_request E W session_info request =
     io_bind (with_bearer_token session_info request) (\<lambda>request'.
     case fetch_via W (ps_proxy_address session_info) request' of
       FetchFailed \<Rightarrow> io_panic ''Response to be valid''
     | BodyFailed \<Rightarrow> io_fail (Transport ''body'')
     | Fetched parts bytes \<Rightarrow>
         let size_kb = f_of_int (int (length bytes)) / F_fin 1000 in
         io_bind (create_sqlite_connection E None) (\<lambda>_.
         io_bind (io_expect ''Data transfer info to be updated in DB''
                    (sessions_update_data_transfer_info E (ps_session_id session_info) size_kb)) (\<lambda>_.
         io_ret (parts\<lparr>rs_body := BytesBody bytes\<rparr>, None))))"

definition bytes_of :: "string \<Rightarrow> byte list" where
  "bytes_of t = map of_char t"

definition crlf :: string where "crlf = [CHR 0x0D, CHR 0x0A]"

fun join :: "string \<Rightarrow> string list \<Rightarrow> string" where
  "join sep [] = []"
| "join sep [x] = x"
| "join sep (x # y # xs) = x @ sep @ join sep (y # xs)"

definition connect_headers :: "ProxySessionInfo \<Rightarrow> (string \<times> string) list" where
  "connect_headers session_info =
     [(PROXY_AUTHORIZATION, bearer session_info), (''connection'', ''keep-alive''),
      (''proxy-connection'', ''keep-alive'')]"

definition connect_request :: "web \<Rightarrow> ProxySessionInfo \<Rightarrow> string \<Rightarrow> string" where
  "connect_request W session_info target_uri =
     ''CONNECT '' @ target_uri @ '' HTTP/1.1'' @ crlf
       @ join crlf (map (\<lambda>(k, v). k @ '': '' @ v) (header_order W (connect_headers session_info)))
       @ crlf @ crlf"

definition connect_to_proxy :: "web \<Rightarrow> ProxySessionInfo \<Rightarrow> string \<Rightarrow> unit node_io" where
  "connect_to_proxy W session_info target_uri =
     (case tcp_dial W (ps_proxy_address session_info) (connect_request W session_info target_uri) of
        ConnectFailed e \<Rightarrow> io_fail (Io e)
      | WriteFailed e \<Rightarrow> io_fail (Io e)
      | Stream reads \<Rightarrow>
          (case read_stream_to_end reads of
             None \<Rightarrow> (\<lambda>s. (Hang, s))
           | Some (Inl p) \<Rightarrow> io_panic p
           | Some (Inr response) \<Rightarrow>
               if take 12 response = bytes_of ''HTTP/1.1 200'' then io_ret ()
               else io_fail (Msg ''Failed to connect to proxy'')))"

definition client_handle_http_connect_request ::
  "web \<Rightarrow> ProxySessionInfo \<Rightarrow> http_request \<Rightarrow> handled node_io" where
  "client_handle_http_connect_request W session_info request =
     io_bind (io_attempt (connect_to_proxy W session_info (rq_uri request))) (\<lambda>r.
       case r of
         Inl e \<Rightarrow> io_ret (status_response 502, None)
       | Inr _ \<Rightarrow> io_ret (status_response 200, Some (ps_session_id session_info, rq_uri request)))"

definition client_handle_request ::
  "env \<Rightarrow> web \<Rightarrow> ProxySessionInfo \<Rightarrow> http_request \<Rightarrow> handled node_io" where
  "client_handle_request E W session_info request =
     (if rq_method request = CONNECT then client_handle_http_connect_request W session_info request
      else client_handle_standard_http_request E W session_info request)"

section \<open>The tunnel\<close>

text \<open>
  The branches of the \<open>select!\<close> in the order they are taken: a read of one side and, for a
  read of some bytes, what writing them to the other side gives. A failed write may have
  written a prefix.
\<close>

datatype write_result = Written | WriteError string nat

datatype copy_event = FromA stream_read write_result | FromB stream_read write_result

record copy_state =
  a_to_b :: u64
  b_to_a :: u64
  written_a :: "byte list"
  written_b :: "byte list"

fun copy_loop :: "copy_event list \<Rightarrow> copy_state \<Rightarrow> (error + u64 \<times> u64) option \<times> copy_state" where
  "copy_loop [] st = (None, st)"
| "copy_loop (FromA (ReadError e) w # evs) st = (Some (Inl (Io e)), st)"
| "copy_loop (FromA (ReadBytes bs) w # evs) st =
     (if bs = [] then (Some (Inr (a_to_b st, b_to_a st)), st)
      else case w of
        WriteError e k \<Rightarrow> (Some (Inl (Io e)), st\<lparr>written_b := written_b st @ take k bs\<rparr>)
      | Written \<Rightarrow> copy_loop evs (st\<lparr>written_b := written_b st @ bs,
                                     a_to_b := a_to_b st + of_nat (length bs)\<rparr>))"
| "copy_loop (FromB (ReadError e) w # evs) st = (Some (Inl (Io e)), st)"
| "copy_loop (FromB (ReadBytes bs) w # evs) st =
     (if bs = [] then (Some (Inr (a_to_b st, b_to_a st)), st)
      else case w of
        WriteError e k \<Rightarrow> (Some (Inl (Io e)), st\<lparr>written_a := written_a st @ take k bs\<rparr>)
      | Written \<Rightarrow> copy_loop evs (st\<lparr>written_a := written_a st @ bs,
                                     b_to_a := b_to_a st + of_nat (length bs)\<rparr>))"

definition custom_copy_bidirectional :: "copy_event list \<Rightarrow> (error + u64 \<times> u64) option \<times> copy_state" where
  "custom_copy_bidirectional evs = copy_loop evs \<lparr>a_to_b = 0, b_to_a = 0, written_a = [], written_b = []\<rparr>"

datatype tunnel_end = StillOpen | ClosedAfter u64 | TunnelError error

definition tunnel_streams :: "copy_event list \<Rightarrow> tunnel_end" where
  "tunnel_streams evs =
     (case fst (custom_copy_bidirectional evs) of
        None \<Rightarrow> StillOpen
      | Some (Inr (from_client, from_remote)) \<Rightarrow> ClosedAfter (from_client + from_remote)
      | Some (Inl e) \<Rightarrow> TunnelError e)"

section \<open>Starting and stopping (proxy/http\_proxy.rs)\<close>

text \<open>A client handler keeps its session and whether its cancellation token is cancelled.\<close>

datatype RequestHandler = ProviderHandler | ClientHandler ProxySessionInfo bool

definition ProxyClient_new :: "web \<Rightarrow> ProxySessionInfo \<Rightarrow> bool \<Rightarrow> RequestHandler node_io" where
  "ProxyClient_new W session_info token =
     (if valid_proxy_uri W (''http://'' @ ps_proxy_address session_info)
      then io_ret (ClientHandler session_info token)
      else io_panic ''Proxy address to be valid proxy URI'')"

definition get_handler :: "env \<Rightarrow> web \<Rightarrow> ProxyMode \<Rightarrow> RequestHandler node_io" where
  "get_handler E W mode =
     (case mode of
        ProxyProviderMode \<Rightarrow> io_ret ProviderHandler
      | ProxyClientMode session_id \<Rightarrow>
          io_bind (create_sqlite_connection E None) (\<lambda>_.
          io_bind (get_session_info E session_id) (\<lambda>session_info.
          io_bind (io_some ''Status to be valid proxy status''
                     (ProxySessionStatus_try_from (ps_status session_info))) (\<lambda>proxy_status.
            if proxy_status \<noteq> Active then io_fail (Msg ''Received attempt to start closed session'')
            else ProxyClient_new W session_info False))))"

definition handler_handle_request :: "env \<Rightarrow> web \<Rightarrow> RequestHandler \<Rightarrow> http_request \<Rightarrow> handled node_io" where
  "handler_handle_request E W h request =
     (case h of
        ProviderHandler \<Rightarrow> provider_handle_request E W request
      | ClientHandler session_info token \<Rightarrow> client_handle_request E W session_info request)"

text \<open>\<open>clean_up\<close> of a client awaits the cancellation of its token.\<close>

definition clean_up :: "RequestHandler \<Rightarrow> unit node_io" where
  "clean_up h =
     (case h of
        ProviderHandler \<Rightarrow> io_ret ()
      | ClientHandler session_info token \<Rightarrow> if token then io_ret () else (\<lambda>s. (Hang, s)))"

text \<open>
  The branches of the loop's \<open>select!\<close> in order. An accepted connection is served by a task
  of its own, here the list of requests it brings. The value says whether the loop has returned.
\<close>

datatype proxy_loop_event =
    ProxyEvent "OrcaNetEvent option"
  | AcceptFailed
  | AcceptedConnection "http_request list"

fun proxy_loop ::
  "RequestHandler \<Rightarrow> proxy_loop_event list \<Rightarrow> http_request list list \<Rightarrow> (bool \<times> http_request list list) node_io" where
  "proxy_loop h [] served = io_ret (False, served)"
| "proxy_loop h (ProxyEvent (Some StopProxy) # evs) served =
     io_bind (clean_up h) (\<lambda>_. io_ret (True, served))"
| "proxy_loop h (ProxyEvent _ # evs) served = proxy_loop h evs served"
| "proxy_loop h (AcceptFailed # evs) served = io_panic ''Stream event to be valid''"
| "proxy_loop h (AcceptedConnection rqs # evs) served = proxy_loop h evs (served @ [rqs])"

text \<open>One connection: its requests in order, until a handler fails.\<close>

fun serve_connection :: "env \<Rightarrow> web \<Rightarrow> RequestHandler \<Rightarrow> http_request list \<Rightarrow> handled list node_io" where
  "serve_connection E W h [] = io_ret []"
| "serve_connection E W h (rq # rqs) =
     io_bind (io_attempt (handler_handle_request E W h rq)) (\<lambda>r.
       case r of
         Inl err \<Rightarrow> io_ret []
       | Inr resp \<Rightarrow> io_bind (serve_connection E W h rqs) (\<lambda>resps. io_ret (resp # resps)))"

definition proxy_addr :: "ProxyMode \<Rightarrow> string" where
  "proxy_addr mode =
     (case mode of ProxyProviderMode \<Rightarrow> ''0.0.0.0:3000'' | ProxyClientMode _ \<Rightarrow> ''127.0.0.1:3000'')"

definition start_http_proxy ::
  "env \<Rightarrow> web \<Rightarrow> ProxyMode \<Rightarrow> proxy_loop_event list \<Rightarrow> (bool \<times> http_request list list) node_io" where
  "start_http_proxy E W mode evs =
     io_bind (get_handler E W mode) (\<lambda>handler.
       if \<not> can_bind W (proxy_addr mode) then io_panic ''Tcp listener to be bound''
       else proxy_loop handler evs [])"

section \<open>Reading a head\<close>

definition read_bytes :: "stream_read \<Rightarrow> byte list" where
  "read_bytes r = (case r of ReadBytes bs \<Rightarrow> bs | ReadError _ \<Rightarrow> [])"

text \<open>What the reads from \<open>n\<close> up to \<open>k\<close> bring.\<close>

definition received :: "(nat \<Rightarrow> stream_read) \<Rightarrow> nat \<Rightarrow> nat \<Rightarrow> byte list" where
  "received reads n k = concat (map (\<lambda>i. read_bytes (reads i)) [n..<k])"

text \<open>The loop goes past read \<open>i\<close>; it ends at read \<open>k\<close> with \<open>r\<close>.\<close>

definition reads_on :: "(nat \<Rightarrow> stream_read) \<Rightarrow> nat \<Rightarrow> byte list \<Rightarrow> nat \<Rightarrow> bool" where
  "reads_on reads n data i =
     ((\<exists>bs. reads i = ReadBytes bs) \<and> \<not> has_header_end (data @ received reads n (Suc i)))"

definition ends_with :: "(nat \<Rightarrow> stream_read) \<Rightarrow> nat \<Rightarrow> byte list \<Rightarrow> nat \<Rightarrow> string + byte list \<Rightarrow> bool" where
  "ends_with reads n data k r =
     (case reads k of
        ReadError e \<Rightarrow> r = Inl ''Response to be read from TCP stream''
      | ReadBytes bs \<Rightarrow>
          has_header_end (data @ received reads n (Suc k)) \<and> r = Inr (data @ received reads n (Suc k)))"

lemma received_step: "n < k \<Longrightarrow> received reads n k = read_bytes (reads n) @ received reads (Suc n) k"
  by (simp add: received_def upt_conv_Cons)

lemma received_self [simp]: "received reads n n = []" "received reads n (Suc n) = read_bytes (reads n)"
  by (simp_all add: received_def)

lemma reads_on_Suc:
  assumes "reads n = ReadBytes bs" "n < i"
  shows "reads_on reads n data i = reads_on reads (Suc n) (data @ bs) i"
    "ends_with reads n data i r = ends_with reads (Suc n) (data @ bs) i r"
  using received_step [of n "Suc i" reads] assms
  by (auto simp: reads_on_def ends_with_def read_bytes_def split: stream_read.splits)

lemma read_stream_from_Some:
  assumes "read_stream_from reads n data = Some r"
  shows "\<exists>k\<ge>n. (\<forall>i. n \<le> i \<and> i < k \<longrightarrow> reads_on reads n data i) \<and> ends_with reads n data k r"
  using assms
proof (induction rule: read_stream_from.raw_induct [rotated, consumes 1, case_names step])
  case (step rec reads n data r)
  show ?case
  proof (cases "reads n")
    case (ReadError e)
    with step(2) show ?thesis by (intro exI [of _ n]) (auto simp: ends_with_def)
  next
    case (ReadBytes bs)
    show ?thesis
    proof (cases "has_header_end (data @ bs)")
      case True
      with ReadBytes step(2) show ?thesis by (intro exI [of _ n]) (auto simp: ends_with_def read_bytes_def)
    next
      case False
      with ReadBytes step(2) have "rec reads (Suc n) (data @ bs) = Some r" by simp
      from step(1) [OF this] obtain k where k: "Suc n \<le> k"
        "\<forall>i. Suc n \<le> i \<and> i < k \<longrightarrow> reads_on reads (Suc n) (data @ bs) i"
        "ends_with reads (Suc n) (data @ bs) k r" by blast
      have "reads_on reads n data i" if "n \<le> i" "i < k" for i
      proof (cases "i = n")
        case True
        with ReadBytes False show ?thesis by (simp add: reads_on_def read_bytes_def)
      next
        case False
        with k(2) that show ?thesis by (simp add: reads_on_Suc [where reads = reads and n = n, OF ReadBytes])
      qed
      moreover have "ends_with reads n data k r" using k(1,3) by (simp add: reads_on_Suc [where reads = reads and n = n, OF ReadBytes])
      ultimately show ?thesis using k(1) by (intro exI [of _ k]) simp
    qed
  qed
qed

lemma read_stream_from_ends:
  assumes "n \<le> k" "\<forall>i. n \<le> i \<and> i < k \<longrightarrow> reads_on reads n data i" "ends_with reads n data k r"
  shows "read_stream_from reads n data = Some r"
  using assms
proof (induction "k - n" arbitrary: n data)
  case 0
  then have "k = n" by simp
  with 0 show ?case
    by (subst read_stream_from.simps) (auto simp: ends_with_def read_bytes_def split: stream_read.splits)
next
  case (Suc d)
  then have nk: "n < k" by simp
  with Suc.prems(2) have on: "reads_on reads n data n" by simp
  then obtain bs where bs: "reads n = ReadBytes bs" "\<not> has_header_end (data @ bs)"
    by (auto simp: reads_on_def read_bytes_def)
  have "read_stream_from reads (Suc n) (data @ bs) = Some r"
  proof (rule Suc.hyps(1))
    show "\<forall>i. Suc n \<le> i \<and> i < k \<longrightarrow> reads_on reads (Suc n) (data @ bs) i"
      using Suc.prems(2) reads_on_Suc(1) [where reads = reads and n = n and data = data, OF bs(1)]
      by (metis Suc_le_lessD less_imp_le)
    show "ends_with reads (Suc n) (data @ bs) k r"
      using Suc.prems(3) reads_on_Suc(2) [where reads = reads and n = n, OF bs(1) nk] by simp
  qed (use Suc.hyps(2) nk in auto)
  with bs show ?case by (subst read_stream_from.simps) simp
qed

lemma read_stream_to_end_iff:
  "read_stream_to_end reads = Some r \<longleftrightarrow>
   (\<exists>k. (\<forall>i<k. reads_on reads 0 [] i) \<and> ends_with reads 0 [] k r)"
  unfolding read_stream_to_end_def
  using read_stream_from_Some [of reads 0 "[]" r] read_stream_from_ends [of 0 _ reads "[]" r] by auto

section \<open>Copying\<close>

text \<open>The bytes read from one side, an event that was copied completely, and an end of stream.\<close>

fun a_bytes :: "copy_event list \<Rightarrow> byte list" where
  "a_bytes [] = []"
| "a_bytes (FromA r w # evs) = read_bytes r @ a_bytes evs"
| "a_bytes (FromB r w # evs) = a_bytes evs"

fun b_bytes :: "copy_event list \<Rightarrow> byte list" where
  "b_bytes [] = []"
| "b_bytes (FromB r w # evs) = read_bytes r @ b_bytes evs"
| "b_bytes (FromA r w # evs) = b_bytes evs"

fun copied :: "copy_event \<Rightarrow> bool" where
  "copied (FromA (ReadBytes bs) Written) = (bs \<noteq> [])"
| "copied (FromB (ReadBytes bs) Written) = (bs \<noteq> [])"
| "copied _ = False"

fun end_of_stream :: "copy_event \<Rightarrow> bool" where
  "end_of_stream (FromA (ReadBytes bs) w) = (bs = [])"
| "end_of_stream (FromB (ReadBytes bs) w) = (bs = [])"
| "end_of_stream _ = False"

lemma copy_loop_copied:
  "list_all copied pre \<Longrightarrow> copy_loop (pre @ evs) st =
     copy_loop evs (st\<lparr>written_b := written_b st @ a_bytes pre, written_a := written_a st @ b_bytes pre,
                       a_to_b := a_to_b st + of_nat (length (a_bytes pre)),
                       b_to_a := b_to_a st + of_nat (length (b_bytes pre))\<rparr>)"
proof (induction pre arbitrary: st)
  case (Cons ev pre)
  then show ?case
    by (cases ev rule: copied.cases) (auto simp: read_bytes_def add.assoc)
qed simp

lemma copy_loop_step:
  assumes "copy_loop (ev # evs) st = (Some (Inr xy), t)" "\<not> end_of_stream ev"
  shows "copied ev" "\<exists>st'. copy_loop evs st' = (Some (Inr xy), t)"
proof -
  have "copied ev \<and> (\<exists>st'. copy_loop evs st' = (Some (Inr xy), t))"
  proof (cases ev)
    case (FromA r w)
    with assms show ?thesis by (cases r; cases w) (auto split: if_splits)
  next
    case (FromB r w)
    with assms show ?thesis by (cases r; cases w) (auto split: if_splits)
  qed
  then show "copied ev" "\<exists>st'. copy_loop evs st' = (Some (Inr xy), t)" by blast+
qed

lemma copy_loop_closed:
  assumes "copy_loop evs st = (Some (Inr xy), t)"
  shows "\<exists>pre ev post. evs = pre @ ev # post \<and> list_all copied pre \<and> end_of_stream ev"
  using assms
proof (induction evs arbitrary: st)
  case (Cons ev evs)
  show ?case
  proof (cases "end_of_stream ev")
    case True
    then show ?thesis by (intro exI [of _ "[]"]) auto
  next
    case False
    note c = copy_loop_step [OF Cons.prems False]
    then obtain pre e post where "evs = pre @ e # post" "list_all copied pre" "end_of_stream e"
      using Cons.IH by blast
    with c(1) show ?thesis by (intro exI [of _ "ev # pre"] exI [of _ e] exI [of _ post]) simp
  qed
qed simp

lemma copy_loop_end:
  "end_of_stream ev \<Longrightarrow> copy_loop (ev # evs) st = (Some (Inr (a_to_b st, b_to_a st)), st)"
  by (cases ev rule: end_of_stream.cases) auto

lemma custom_copy_closed:
  assumes "list_all copied pre" "end_of_stream ev"
  shows "custom_copy_bidirectional (pre @ ev # post) =
    (Some (Inr (of_nat (length (a_bytes pre)), of_nat (length (b_bytes pre)))),
     \<lparr>a_to_b = of_nat (length (a_bytes pre)), b_to_a = of_nat (length (b_bytes pre)),
      written_a = b_bytes pre, written_b = a_bytes pre\<rparr>)"
  using assms by (simp add: custom_copy_bidirectional_def copy_loop_copied copy_loop_end)

section \<open>Tokens\<close>

lemma extract_inserted:
  assumes "list_all visible_ascii tok"
  shows "extract_proxy_authtoken
    (rq\<lparr>rq_headers := header_insert PROXY_AUTHORIZATION (''Bearer '' @ tok) hs\<rparr>) = Inr tok"
  using assms
  by (simp add: extract_proxy_authtoken_def header_get_def header_insert_def header_to_str_def
      visible_ascii_def starts_with_def)

lemma visible_bearer [simp]: "list_all visible_ascii (''Bearer '' @ tok) = list_all visible_ascii tok"
  by (simp add: visible_ascii_def)

lemma extract_Inr:
  "extract_proxy_authtoken rq = Inr tok \<longleftrightarrow>
   header_get PROXY_AUTHORIZATION (rq_headers rq) = Some (''Bearer '' @ tok) \<and> list_all visible_ascii tok"
    (is "?l \<longleftrightarrow> ?r")
proof
  assume ?l
  then obtain v where v: "header_get PROXY_AUTHORIZATION (rq_headers rq) = Some v" "list_all visible_ascii v"
    "starts_with v ''Bearer ''" "tok = drop 7 v"
    by (auto simp: extract_proxy_authtoken_def header_to_str_def split: option.splits if_splits)
  then have "v = ''Bearer '' @ tok" by (auto simp: starts_with_iff)
  with v show ?r by (metis visible_bearer)
next
  assume ?r
  moreover from this have "list_all visible_ascii (''Bearer '' @ tok)" by (simp only: visible_bearer)
  moreover have "starts_with (''Bearer '' @ tok) ''Bearer ''" "drop 7 (''Bearer '' @ tok) = tok"
    by (simp_all add: starts_with_def)
  ultimately show ?l
    unfolding extract_proxy_authtoken_def header_to_str_def by (simp only: option.case if_True simp_thms if_False)
qed

text \<open>The statuses that the provider refuses.\<close>

definition refused_status :: "i32 \<Rightarrow> bool" where
  "refused_status st = (st = 0 \<or> st = 2)"

lemma status_decision:
  "(case ProxySessionStatus_try_from st of
      Some TerminatedByClient \<Rightarrow> a | Some TerminatedByServer \<Rightarrow> b | _ \<Rightarrow> c) =
   (if st = 0 then a else if st = 2 then b else c)"
  by simp

lemma validate_run:
  assumes "reliable E" "db_inv s" "cfg s DBPath = Some (JStr d)" "extract_proxy_authtoken rq = Inr tok"
  shows "\<exists>r. validate_auth_token E rq s = (Ok r, s\<lparr>io_calls := io_calls s + 2\<rparr>) \<and>
    (\<forall>c. r = Inr c \<longleftrightarrow> c \<in> set (proxy_clients s) \<and> pc_auth_token c = tok \<and> \<not> refused_status (pc_status c))"
proof (cases "tok \<in> pc_auth_token ` set (proxy_clients s)")
  case True
  then obtain c where c: "c \<in> set (proxy_clients s)" "pc_auth_token c = tok" by auto
  have uniq: "c' = c" if "c' \<in> set (proxy_clients s)" "pc_auth_token c' = tok" for c'
    using that c assms(2) distinct_key_eq [of pc_auth_token "proxy_clients s" c' c] by (simp add: db_inv_def)
  have "get_client_by_auth_token E tok (tick s) = (Ok c, tick (tick s))"
    using get_client_run [OF assms(1), of "tick s" c] assms(2) c by simp
  then obtain e e' where run: "validate_auth_token E rq s =
      (Ok (if pc_status c = 0 then Inl e else if pc_status c = 2 then Inl e' else Inr c),
       s\<lparr>io_calls := io_calls s + 2\<rparr>)"
    using assms(1,3,4)
    by (simp add: validate_auth_token_def io_defs create_sqlite_connection_run status_decision
        del: ProxySessionStatus_try_from.simps)
  have dec: "(if pc_status c = 0 then Inl e else if pc_status c = 2 then Inl e' else Inr c) = Inr c' \<longleftrightarrow>
      c' = c \<and> \<not> refused_status (pc_status c)" for c'
    by (auto simp: refused_status_def)
  have eqv: "c' = c \<and> \<not> refused_status (pc_status c) \<longleftrightarrow>
      c' \<in> set (proxy_clients s) \<and> pc_auth_token c' = tok \<and> \<not> refused_status (pc_status c')" for c'
    using uniq c by blast
  show ?thesis unfolding run by (rule exI, rule conjI, rule refl, rule allI, rule trans [OF dec eqv])
next
  case False
  then have "get_client_by_auth_token E tok (tick s) = (Err (Diesel NotFound), tick (tick s))"
    using assms(1) by (intro pc_get.get_missing) simp_all
  with False show ?thesis
    using assms(1,3,4) by (auto simp: validate_auth_token_def io_defs create_sqlite_connection_run)
qed

lemma visible_valid_header: "list_all visible_ascii tok \<Longrightarrow> header_from_str (''Bearer '' @ tok) = Some (''Bearer '' @ tok)"
  by (auto simp: header_from_str_def list_all_iff visible_ascii_def Let_def)

lemma with_bearer_token_run:
  "list_all visible_ascii (ps_auth_token p) \<Longrightarrow> with_bearer_token p rq s =
     (Ok (rq\<lparr>rq_headers := header_insert PROXY_AUTHORIZATION (''Bearer '' @ ps_auth_token p) (rq_headers rq)\<rparr>), s)"
  using visible_valid_header [of "ps_auth_token p"]
  by (simp add: with_bearer_token_def bearer_def io_bind_def io_some_def io_ret_def)

section \<open>What the handlers change\<close>

lemma keeps_validate [keeps_rules]:
  "(\<And>s n. P s \<Longrightarrow> P (s\<lparr>io_calls := n\<rparr>)) \<Longrightarrow> keeps P (validate_auth_token E rq)"
  unfolding validate_auth_token_def
  by (intro keeps_rules pc_get.get_keeps; simp)

lemma keeps_provider_handle_request [keeps_rules]:
  "(\<And>s n. P s \<Longrightarrow> P (s\<lparr>io_calls := n\<rparr>)) \<Longrightarrow> keeps P (provider_handle_request E W rq)"
  unfolding provider_handle_request_def provider_handle_http_connect_request_def
    provider_handle_standard_http_request_def
  by (intro keeps_rules; (simp add: keeps_rules split: fetch.split)?)

lemma keeps_serve_provider:
  "(\<And>s n. P s \<Longrightarrow> P (s\<lparr>io_calls := n\<rparr>)) \<Longrightarrow> keeps P (serve_connection E W ProviderHandler rqs)"
  by (induction rqs) (auto simp: handler_handle_request_def intro!: keeps_rules)

lemma serve_provider_state: "\<exists>n. snd (serve_connection E W ProviderHandler rqs s) = s\<lparr>io_calls := n\<rparr>"
proof -
  have "keeps (\<lambda>x. \<exists>n. x = s\<lparr>io_calls := n\<rparr>) (serve_connection E W ProviderHandler rqs)"
    by (rule keeps_serve_provider) auto
  moreover have "\<exists>n. s = s\<lparr>io_calls := n\<rparr>" by (intro exI [of _ "io_calls s"]) simp
  ultimately show ?thesis by (simp add: keeps_def)
qed


lemma get_handler_client:
  assumes "get_handler E W mode s = (Ok (ClientHandler p token), t)"
  shows "\<exists>sid. mode = ProxyClientMode sid \<and> p \<in> set (proxy_sessions s) \<and> ps_session_id p = sid \<and>
    ps_status p = 1 \<and> \<not> token"
proof (cases mode)
  case ProxyProviderMode
  with assms show ?thesis by (simp add: get_handler_def io_defs)
next
  case (ProxyClientMode sid)
  from assms obtain u v x where u: "create_sqlite_connection E None s = (Ok x, u)"
    and g: "get_session_info E sid u = (Ok p, v)" and st: "ProxySessionStatus_try_from (ps_status p) = Some Active"
    and tk: "\<not> token"
    by (auto simp: ProxyClientMode get_handler_def io_bind_Ok ProxyClient_new_def io_some_def io_ret_def
        io_panic_def io_fail_def simp del: ProxySessionStatus_try_from.simps split: option.splits if_splits)
  have "proxy_sessions u = proxy_sessions s"
    using create_sqlite_connection_state [of E s] u by auto
  with ps_get.get_Ok [OF g] st tk show ?thesis by (auto simp: ProxyClientMode split: if_splits)
qed

lemma proxy_loop_connections:
  "proxy_loop h (map AcceptedConnection cs @ evs) served = proxy_loop h evs (served @ cs)"
  by (induction cs arbitrary: served) simp_all

lemma get_handler_run:
  assumes "reliable E" "db_inv s" "cfg s DBPath = Some (JStr d)" "p \<in> set (proxy_sessions s)"
    and "ps_status p = 1" "valid_proxy_uri W (''http://'' @ ps_proxy_address p)"
  shows "get_handler E W (ProxyClientMode (ps_session_id p)) s =
    (Ok (ClientHandler p False), s\<lparr>io_calls := io_calls s + 2\<rparr>)"
  using assms
  by (simp add: get_handler_def io_defs create_sqlite_connection_run get_session_run ProxyClient_new_def)

section \<open>A concrete network side\<close>

definition sample_web :: web where
  "sample_web =
     \<lparr>fetch_direct = (\<lambda>_. Fetched (status_response 200) [1, 2]),
      fetch_via = (\<lambda>_ _. Fetched (status_response 200) [1, 2]), tcp_connect = (\<lambda>_. True),
      tcp_dial = (\<lambda>_ _. Stream (\<lambda>_. ReadBytes [])), header_order = id, valid_proxy_uri = (\<lambda>_. True),
      can_bind = (\<lambda>_. True)\<rparr>"

definition sample_get :: http_request where
  "sample_get = \<lparr>rq_method = OtherMethod ''GET'', rq_uri = ''http://example.org/'', rq_authority = None,
                 rq_headers = [(''proxy-authorization'', ''Bearer token'')]\<rparr>"

section \<open>Properties\<close>

text \<open>
  C13. The provider admits a request exactly when it carries \<open>Bearer\<close> and the token of a stored
  client, and that client's status is neither 0 nor 2; then it is that client. Any other status,
  also one the program never stores, is admitted. Validation changes nothing.
\<close>

theorem token_validation:
  assumes "reliable E" "db_inv s" "cfg s DBPath = Some (JStr d)"
  shows "(fst (validate_auth_token E rq s) = Ok (Inr c) \<longleftrightarrow>
     c \<in> set (proxy_clients s) \<and> list_all visible_ascii (pc_auth_token c) \<and>
     header_get PROXY_AUTHORIZATION (rq_headers rq) = Some (''Bearer '' @ pc_auth_token c) \<and>
     \<not> refused_status (pc_status c)) \<and>
   snd (validate_auth_token E rq s) \<in> {s, s\<lparr>io_calls := io_calls s + 2\<rparr>}"
proof (cases "extract_proxy_authtoken rq")
  case (Inl e)
  then show ?thesis using extract_Inr [of rq "pc_auth_token c"] by (auto simp: validate_auth_token_def io_ret_def)
next
  case (Inr tok)
  from validate_run [OF assms Inr] obtain r where r: "validate_auth_token E rq s = (Ok r, s\<lparr>io_calls := io_calls s + 2\<rparr>)"
    "\<And>c. r = Inr c \<longleftrightarrow> c \<in> set (proxy_clients s) \<and> pc_auth_token c = tok \<and> \<not> refused_status (pc_status c)" by blast
  have "pc_auth_token c = tok \<longleftrightarrow> header_get PROXY_AUTHORIZATION (rq_headers rq) = Some (''Bearer '' @ pc_auth_token c)
      \<and> list_all visible_ascii (pc_auth_token c)"
    using Inr extract_Inr [of rq "pc_auth_token c"] by auto
  with r show ?thesis by auto
qed

theorem token_validation_witness: "fst (validate_auth_token sample_env sample_get sample_node) = Ok (Inr sample_client)"
  using token_validation [OF sample_reliable sample_db_inv sample_cfg(1), of sample_get sample_client]
  by (simp add: sample_get_def header_get_def PROXY_AUTHORIZATION_def visible_ascii_def refused_status_def
      sample_client_def)

text \<open>
  C19. The request that a client's proxy forwards authenticates: a provider that admitted the client
  under the session's token finds exactly that client, whatever headers the browser had sent.
\<close>

theorem forwarded_request_authenticates:
  assumes "reliable E" "db_inv sp" "cfg sp DBPath = Some (JStr d)" "c \<in> set (proxy_clients sp)"
    and "pc_auth_token c = ps_auth_token p" "list_all visible_ascii (ps_auth_token p)"
    and "\<not> refused_status (pc_status c)"
  shows "\<exists>rq'. with_bearer_token p rq s = (Ok rq', s) \<and>
    validate_auth_token E rq' sp = (Ok (Inr c), sp\<lparr>io_calls := io_calls sp + 2\<rparr>)"
proof -
  obtain rq' where rq': "with_bearer_token p rq s = (Ok rq', s)" "extract_proxy_authtoken rq' = Inr (ps_auth_token p)"
    using with_bearer_token_run [OF assms(6), of rq s] extract_inserted [OF assms(6)] by blast
  from validate_run [OF assms(1-3) rq'(2)] assms(4,5,7)
  have "validate_auth_token E rq' sp = (Ok (Inr c), sp\<lparr>io_calls := io_calls sp + 2\<rparr>)" by auto
  with rq'(1) show ?thesis by blast
qed

theorem forwarded_request_authenticates_witness:
  "\<exists>rq'. with_bearer_token sample_session (sample_get\<lparr>rq_headers := [(''proxy-authorization'', ''junk'')]\<rparr>) sample_node
      = (Ok rq', sample_node) \<and>
    validate_auth_token sample_env rq' sample_node = (Ok (Inr sample_client), sample_node\<lparr>io_calls := 2\<rparr>)"
  using forwarded_request_authenticates [OF sample_reliable sample_db_inv sample_cfg(1), of sample_client sample_session
      "sample_get\<lparr>rq_headers := [(''proxy-authorization'', ''junk'')]\<rparr>" sample_node]
  by (simp add: visible_ascii_def refused_status_def sample_client_def sample_session_def eval_nat_numeral)

text \<open>
  C28. The provider does not meter: whatever requests it serves, and whatever fails, its tables and
  its configuration are as before, so no client ever owes anything for them.
\<close>

theorem provider_does_not_meter:
  "\<exists>n. snd (serve_connection E W ProviderHandler rqs s) = s\<lparr>io_calls := n\<rparr>"
  using serve_provider_state .



text \<open>
  C25. Reading a response head: the result is everything read up to and including the first read
  after which the bytes contain an empty line, and every read before it went well.
\<close>

theorem response_head_read:
  "read_stream_to_end reads = Some (Inr head) \<longleftrightarrow>
   (\<exists>k. (\<forall>i\<le>k. \<exists>bs. reads i = ReadBytes bs) \<and> (\<forall>i<k. \<not> has_header_end (received reads 0 (Suc i))) \<and>
        has_header_end head \<and> head = received reads 0 (Suc k))"
  unfolding read_stream_to_end_iff
proof (intro iffI; elim exE conjE)
  fix k assume on: "\<forall>i<k. reads_on reads 0 [] i" and fin: "ends_with reads 0 [] k (Inr head)"
  then have "\<exists>bs. reads k = ReadBytes bs" by (auto simp: ends_with_def split: stream_read.splits)
  with on have "\<exists>bs. reads i = ReadBytes bs" if "i \<le> k" for i
    using that by (cases "i = k") (auto simp: reads_on_def)
  with on fin show "\<exists>k. (\<forall>i\<le>k. \<exists>bs. reads i = ReadBytes bs) \<and> (\<forall>i<k. \<not> has_header_end (received reads 0 (Suc i))) \<and>
        has_header_end head \<and> head = received reads 0 (Suc k)"
    by (intro exI [of _ k]) (auto simp: reads_on_def ends_with_def split: stream_read.splits)
next
  fix k assume "\<forall>i\<le>k. \<exists>bs. reads i = ReadBytes bs" "\<forall>i<k. \<not> has_header_end (received reads 0 (Suc i))"
    "has_header_end head" "head = received reads 0 (Suc k)"
  then show "\<exists>k. (\<forall>i<k. reads_on reads 0 [] i) \<and> ends_with reads 0 [] k (Inr head)"
    by (intro exI [of _ k]) (auto simp: reads_on_def ends_with_def split: stream_read.splits)
qed

theorem response_head_read_witness:
  "read_stream_to_end (\<lambda>i. if i = 0 then ReadBytes [65, 13, 10] else ReadBytes [13, 10]) = Some (Inr [65, 13, 10, 13, 10])"
  unfolding response_head_read
  by (intro exI [of _ 1]) (auto simp: received_def read_bytes_def header_end_def)

text \<open>
  C26. A proxy that closes the connection before the empty line: the read loop never ends. With no
  failed read and no empty line in anything received, there is no result.
\<close>

theorem closed_stream_never_read:
  assumes "\<forall>i<k. \<exists>bs. reads i = ReadBytes bs" "\<forall>i\<ge>k. reads i = ReadBytes []"
    and "\<forall>i\<le>k. \<not> has_header_end (received reads 0 i)"
  shows "read_stream_to_end reads = None"
proof (rule ccontr)
  assume "read_stream_to_end reads \<noteq> None"
  then obtain r j where fin: "ends_with reads 0 [] j r" unfolding not_None_eq read_stream_to_end_iff by blast
  have bytes: "\<exists>bs. reads i = ReadBytes bs" for i using assms(1,2) by (cases "i < k") auto
  have "received reads 0 (Suc j) = received reads 0 (min (Suc j) k)"
  proof (cases "Suc j \<le> k")
    case False
    have "concat (map (\<lambda>i. read_bytes (reads i)) [k..<Suc j]) = []"
      using assms(2) by (auto simp: read_bytes_def)
    with False show ?thesis using upt_add_eq_append [of 0 k "Suc j - k"] by (simp add: received_def min_def)
  qed (simp add: min_def)
  then have "\<not> has_header_end (received reads 0 (Suc j))" using assms(3) by simp
  with fin bytes [of j] show False by (auto simp: ends_with_def)
qed

theorem closed_stream_never_read_witness:
  "read_stream_to_end (\<lambda>i. ReadBytes (if i = 0 then [72] else [])) = None"
  by (rule closed_stream_never_read [of 1]) (auto simp: received_def read_bytes_def header_end_def le_Suc_eq)

text \<open>
  C5. The tunnel copies faithfully: it closes exactly at the first end of stream of either side,
  and by then each side has been given all bytes read from the other, in order and nothing else;
  the two counts are their lengths modulo \<open>2^64\<close>. What the side that has not ended would
  still have sent is not copied.
\<close>

theorem tunnel_copies_until_first_end:
  "custom_copy_bidirectional evs = (Some (Inr (x, y)), st) \<longleftrightarrow>
   (\<exists>pre ev post. evs = pre @ ev # post \<and> list_all copied pre \<and> end_of_stream ev \<and>
      x = of_nat (length (a_bytes pre)) \<and> y = of_nat (length (b_bytes pre)) \<and>
      st = \<lparr>a_to_b = x, b_to_a = y, written_a = b_bytes pre, written_b = a_bytes pre\<rparr>)"
  (is "?l \<longleftrightarrow> ?r")
proof
  assume l: ?l
  then obtain pre ev post where "evs = pre @ ev # post" "list_all copied pre" "end_of_stream ev"
    using copy_loop_closed unfolding custom_copy_bidirectional_def by blast
  with l custom_copy_closed [of pre ev post] show ?r
    by (intro exI [of _ pre] exI [of _ ev] exI [of _ post]) auto
next
  assume ?r
  then show ?l using custom_copy_closed by auto
qed

text \<open>
  C31. A proxy in provider mode stops: after serving any connections, the stop event makes it
  return. One in client mode does not: its clean-up waits for a cancellation that nobody
  performs.
\<close>

theorem stop_returns_only_for_provider:
  assumes "reliable E" "db_inv s" "cfg s DBPath = Some (JStr d)" "p \<in> set (proxy_sessions s)"
    and "ps_status p = 1" "valid_proxy_uri W (''http://'' @ ps_proxy_address p)" "\<forall>a. can_bind W a"
  shows "start_http_proxy E W ProxyProviderMode (map AcceptedConnection cs @ ProxyEvent (Some StopProxy) # evs) s
      = (Ok (True, cs), s) \<and>
    start_http_proxy E W (ProxyClientMode (ps_session_id p))
        (map AcceptedConnection cs @ ProxyEvent (Some StopProxy) # evs) s
      = (Hang, s\<lparr>io_calls := io_calls s + 2\<rparr>)"
proof -
  have "get_handler E W ProxyProviderMode s = (Ok ProviderHandler, s)" by (simp add: get_handler_def io_ret_def)
  then show ?thesis
    using get_handler_run [OF assms(1-6)] assms(7)
    by (simp add: start_http_proxy_def io_bind_def proxy_loop_connections clean_up_def io_ret_def)
qed

theorem stop_returns_only_for_provider_witness:
  "fst (start_http_proxy sample_env sample_web (ProxyClientMode ''session'') [ProxyEvent (Some StopProxy)] sample_node) = Hang"
  using stop_returns_only_for_provider [OF sample_reliable sample_db_inv sample_cfg(1), of sample_session sample_web "[]" "[]"]
  by (simp add: sample_web_def sample_session_def)

text \<open>
  A proxy is started in client mode only for a stored session that is active, and its
  cancellation token is not cancelled.
\<close>

lemma client_handler_needs_active_session:
  assumes "get_handler E W mode s = (Ok (ClientHandler p token), t)"
  shows "\<exists>sid. mode = ProxyClientMode sid \<and> p \<in> set (proxy_sessions s) \<and> ps_session_id p = sid \<and>
    ps_status p = 1 \<and> \<not> token"
  using get_handler_client [OF assms] .

lemma client_handler_needs_active_session_witness:
  "get_handler sample_env sample_web (ProxyClientMode ''session'') sample_node =
     (Ok (ClientHandler sample_session False), sample_node\<lparr>io_calls := 2\<rparr>) \<and> ps_status sample_session = 1"
proof -
  have run: "get_handler sample_env sample_web (ProxyClientMode ''session'') sample_node =
     (Ok (ClientHandler sample_session False), sample_node\<lparr>io_calls := 2\<rparr>)"
    using get_handler_run [OF sample_reliable sample_db_inv sample_cfg(1), of sample_session sample_web]
    by (simp add: sample_session_def sample_web_def)
  with client_handler_needs_active_session [OF run] show ?thesis by simp
qed

end
