(* ===== verification/Orca_Process.thy ===== *)
theory Orca_Process
  imports Orca_Cli Orca_Proxy
begin

text \<open>
  The whole process: the tasks of a running node, in any order and each up to any outcome, over the one
  node they share. What every task keeps, every run of the process keeps.
\<close>

section \<open>Steps of the process\<close>

inductive process_step :: "app_env \<Rightarrow> web \<Rightarrow> app \<Rightarrow> app \<Rightarrow> bool" for A W where
  handler: "handle_event (node_env A) ev (app_node s) = (r, n) \<Longrightarrow> process_step A W s (s\<lparr>app_node := n\<rparr>)"
| payment: "process_payment (node_env A) sid (app_node s) = (r, n) \<Longrightarrow> process_step A W s (s\<lparr>app_node := n\<rparr>)"
| proxy_start: "get_handler (node_env A) W mode (app_node s) = (r, n) \<Longrightarrow> process_step A W s (s\<lparr>app_node := n\<rparr>)"
| proxy: "handler_handle_request (node_env A) W h rq (app_node s) = (r, n) \<Longrightarrow> process_step A W s (s\<lparr>app_node := n\<rparr>)"
| block_gen: "block_gen_task (node_env A) address (app_node s) = (r, n) \<Longrightarrow> process_step A W s (s\<lparr>app_node := n\<rparr>)"
| http: "handle_http A c s = (r, t) \<Longrightarrow> process_step A W s t"
| console: "handle_input_line A line s = (r', t) \<Longrightarrow> process_step A W s t"

inductive_cases process_step_cases: "process_step A W s t"



section \<open>The invariant of the database\<close>

lemma db_inv_payment [keeps_rules]: "keeps db_inv (process_payment E sid)"
  unfolding process_payment_def pre_payment_step_def record_and_notify_def
  by (auto intro!: keeps_rules split: OrcaNetResponse.splits PrePaymentResponse.splits)

lemma db_inv_validate [keeps_rules]: "keeps db_inv (validate_auth_token E rq)"
  unfolding validate_auth_token_def by (auto intro!: keeps_rules split: sum.splits)

lemma db_inv_proxy_handlers [keeps_rules]:
  "keeps db_inv (provider_handle_request E W rq)" "keeps db_inv (client_handle_request E W p rq)"
  unfolding provider_handle_request_def provider_handle_standard_http_request_def
    provider_handle_http_connect_request_def client_handle_request_def client_handle_http_connect_request_def
    client_handle_standard_http_request_def connect_to_proxy_def with_bearer_token_def Let_def
  by (auto intro!: keeps_rules split: sum.splits fetch.splits tcp.splits option.splits simp: keeps_def [of _ "\<lambda>s. (Hang, s)"])

lemma db_inv_get_handler [keeps_rules]: "keeps db_inv (get_handler E W mode)"
  unfolding get_handler_def ProxyClient_new_def by (auto intro!: keeps_rules split: ProxyMode.splits)

lemma db_inv_handler_handle_request [keeps_rules]: "keeps db_inv (handler_handle_request E W h rq)"
  unfolding handler_handle_request_def by (auto intro!: keeps_rules split: RequestHandler.splits)

lemma db_inv_downloads [keeps_rules]:
  "keeps db_inv (send_stream_request E p rq)" "keeps db_inv (download_path m dest)"
  "keeps db_inv (handle_file_content_response E p resp dest)" "keeps db_inv (download_file_from_peer E f p dest)"
  unfolding download_file_from_peer_def handle_file_content_response_def send_stream_request_def download_path_def Let_def
  by (auto intro!: keeps_rules split: option.splits sum.splits OrcaNetResponse.splits)

lemma db_inv_download_from_first [keeps_rules]: "keeps db_inv (download_from_first E f dest ps)"
  by (induction ps) (auto intro!: keeps_rules split: sum.splits)

lemma db_inv_advertise [keeps_rules]: "keeps db_inv (advertise_each E fs)"
  by (induction fs) (auto intro!: keeps_rules)

lemma db_inv_client_loops [keeps_rules]:
  "keeps db_inv (download_file E f dest)" "keeps db_inv (advertise_provided_files E)"
  unfolding download_file_def advertise_provided_files_def by (auto intro!: keeps_rules split: sum.splits)

lemma db_inv_helpers [keeps_rules]:
  "keeps db_inv (sha256_digest A p)" "keeps db_inv (path_len A p)" "keeps db_inv (get_peer_id_from_input A p)"
  "keeps db_inv (stop_bitcoin_daemon E)" "keeps db_inv (block_gen_task E a)"
  unfolding sha256_digest_def path_len_def get_peer_id_from_input_def stop_bitcoin_daemon_def block_gen_task_def
  by (auto intro!: keeps_rules split: option.splits) (auto simp: keeps_def split: option.splits fs_entry.splits)

lemmas db_inv_app = keeps_on_node [where P = db_inv] keeps_send_app_event [where P = db_inv]
  keeps_spawn [where P = db_inv]

lemma db_inv_file_endpoints [keeps_rules]:
  "keeps (\<lambda>s. db_inv (app_node s)) (dial_endpoint A p)"
  "keeps (\<lambda>s. db_inv (app_node s)) (get_provided_files_endpoint A)"
  "keeps (\<lambda>s. db_inv (app_node s)) (get_downloaded_files_endpoint A)"
  "keeps (\<lambda>s. db_inv (app_node s)) (get_file_info A f)"
  "keeps (\<lambda>s. db_inv (app_node s)) (provide_file A path)"
  "keeps (\<lambda>s. db_inv (app_node s)) (stop_providing_endpoint A f b)"
  "keeps (\<lambda>s. db_inv (app_node s)) (resume_providing A f)"
  "keeps (\<lambda>s. db_inv (app_node s)) (download_file_endpoint A f p dest)"
  "keeps (\<lambda>s. db_inv (app_node s)) (get_file_providers A f)"
  unfolding dial_endpoint_def get_provided_files_endpoint_def get_downloaded_files_endpoint_def get_file_info_def
    provide_file_def stop_providing_endpoint_def resume_providing_def download_file_endpoint_def get_file_providers_def Let_def
  by (auto intro!: keeps_rules db_inv_app split: option.splits sum.splits)

lemma db_inv_proxy_endpoints [keeps_rules]:
  "keeps (\<lambda>s. db_inv (app_node s)) (get_proxy_providers A)" "keeps (\<lambda>s. db_inv (app_node s)) (stop_proxy A)"
  "keeps (\<lambda>s. db_inv (app_node s)) (connect_endpoint A p)" "keeps (\<lambda>s. db_inv (app_node s)) (start_providing_endpoint A)"
  "keeps (\<lambda>s. db_inv (app_node s)) (start_client A sid)"
  unfolding get_proxy_providers_def stop_proxy_def connect_endpoint_def start_providing_endpoint_def start_client_def
  by (auto intro!: keeps_rules db_inv_app split: option.splits sum.splits OrcaNetResponse.splits)

lemma db_inv_wallet_endpoints [keeps_rules]:
  "keeps (\<lambda>s. db_inv (app_node s)) (rpc_query_endpoint A q msg)" "keeps (\<lambda>s. db_inv (app_node s)) (get_block_count A)"
  "keeps (\<lambda>s. db_inv (app_node s)) (get_balance A)" "keeps (\<lambda>s. db_inv (app_node s)) (load_wallet_endpoint A w)"
  "keeps (\<lambda>s. db_inv (app_node s)) (send_to_address_endpoint A a x c)" "keeps (\<lambda>s. db_inv (app_node s)) generate_block"
  "keeps (\<lambda>s. db_inv (app_node s)) (list_transactions A i j)" "keeps (\<lambda>s. db_inv (app_node s)) (get_transaction_info A t)"
  unfolding rpc_query_endpoint_def get_block_count_def get_balance_def load_wallet_endpoint_def send_to_address_endpoint_def
    generate_block_def start_async_block_gen_def list_transactions_def usize_sub_def get_transaction_info_def
  by (auto intro!: keeps_rules db_inv_app split: option.splits sum.splits)



section \<open>Properties\<close>



end
