(* ===== verification/Orca_Servers.thy ===== *)
theory Orca_Servers
  imports Orca_Event_Loop
begin

text \<open>
  The two servers of the network: the boot node (\<open>bin/boot_node\<close>) and the relay server
  (\<open>bin/relay_server\<close>). Each builds a swarm from a seed, listens, and collects the addresses under which
  other peers observe it.
\<close>

section \<open>Calls and events of a server\<close>

datatype server_call =
    ServerListen Multiaddr
  | ServerKadMode
  | Subscribe string
  | AddExternalAddress Multiaddr
  | AddExplicitPeer PeerId

datatype server_event =
    IdentifyReceived Multiaddr
  | ReservationReqAccepted
  | RelayClientEvent
  | PeerConnected PeerId
  | ListeningOn Multiaddr
  | OtherSwarmEvent
  | SwarmEnded

record relay_config =
  max_reservations :: nat
  max_circuits :: nat
  max_circuits_per_peer :: nat
  max_circuit_bytes :: u64
  max_reservations_per_peer :: nat
  max_circuit_duration_secs :: nat

record relay_swarm_config =
  relay_identity_key :: "byte list"
  heartbeat_secs :: nat
  strict_validation :: bool
  message_id :: "byte list \<Rightarrow> string"
  relay_limits :: relay_config
  relay_identify_protocol :: string

text \<open>
  The libraries: whether a swarm can be built, how the \<open>n\<close>-th call of it ends, and the standard hash.
\<close>

record server_env =
  boot_built :: "swarm_config \<Rightarrow> error + unit"
  relay_built :: "relay_swarm_config \<Rightarrow> error + unit"
  server_call_error :: "nat \<Rightarrow> error option"
  default_hash :: "byte list \<Rightarrow> u64"

type_synonym 'a server_io = "(server_call list, 'a) io"

definition server_call :: "server_env \<Rightarrow> server_call \<Rightarrow> error option server_io" where
  "server_call Z c cs = (Ok (server_call_error Z (length cs)), cs @ [c])"

text \<open>\<open>.expect(msg)\<close> and \<open>?\<close>.\<close>

definition server_expect :: "server_env \<Rightarrow> string \<Rightarrow> server_call \<Rightarrow> unit server_io" where
  "server_expect Z msg c =
     io_bind (server_call Z c) (\<lambda>e. case e of None \<Rightarrow> io_ret () | Some _ \<Rightarrow> io_panic msg)"

definition server_try :: "server_env \<Rightarrow> server_call \<Rightarrow> unit server_io" where
  "server_try Z c =
     io_bind (server_call Z c) (\<lambda>e. case e of None \<Rightarrow> io_ret () | Some x \<Rightarrow> io_fail x)"

section \<open>The boot node\<close>

record BootOpts =
  bo_secret_key_seed :: "u64 option"
  bo_port :: "u16 option"

definition BOOT_RELAY_ADDRESS :: Multiaddr where
  "BOOT_RELAY_ADDRESS =
     [OtherProtocol ''ip4/130.245.173.221'', Tcp 4001,
      P2p (PeerId ''12D3KooWDpJ7As7BWAwRMfu1VU2WCqNjvq387JEYKDBj4kx6nXTN'')]"

definition BOOT_SECRET_KEY_SEED :: u64 where
  "BOOT_SECRET_KEY_SEED = 123456789"

definition BOOT_PORT :: u16 where
  "BOOT_PORT = 6001"

definition boot_swarm_config :: "byte list \<Rightarrow> swarm_config" where
  "boot_swarm_config key =
     \<lparr>identity_key = key, tcp_nodelay = True, with_relay_client = True, identify_protocol = ''/TODO/0.0.1'',
      kad_store = \<lparr>max_records = 2 * 1000 * 1000, max_provided_keys = 2 * 1000 * 1000,
                   max_providers_per_key = 500, max_value_bytes = 1 * 1024 * 1024\<rparr>,
      with_streams = False, request_protocols = [], idle_timeout_secs = 60\<rparr>"

text \<open>The loop over the swarm's events; it returns only in the sense of having handled the given ones.\<close>

fun boot_event :: "server_env \<Rightarrow> server_event \<Rightarrow> unit server_io" where
  "boot_event Z (IdentifyReceived observed_addr) =
     io_bind (server_call Z (AddExternalAddress observed_addr)) (\<lambda>_. io_ret ())"
| "boot_event Z SwarmEnded = io_panic ''Infinite Stream.''"
| "boot_event Z _ = io_ret ()"

fun boot_loop :: "server_env \<Rightarrow> server_event list \<Rightarrow> unit server_io" where
  "boot_loop Z [] = io_ret ()"
| "boot_loop Z (ev # evs) = io_bind (boot_event Z ev) (\<lambda>_. boot_loop Z evs)"

definition boot_main :: "server_env \<Rightarrow> BootOpts \<Rightarrow> server_event list \<Rightarrow> unit server_io" where
  "boot_main Z opts evs =
     (let secret_key_seed = (case bo_secret_key_seed opts of None \<Rightarrow> BOOT_SECRET_KEY_SEED | Some x \<Rightarrow> x);
          listen_on_port = (case bo_port opts of None \<Rightarrow> BOOT_PORT | Some x \<Rightarrow> x);
          keypair = boot_generate_ed25519_bytes secret_key_seed in
      io_bind (io_of_sum (boot_built Z (boot_swarm_config keypair))) (\<lambda>_.
      io_bind (server_expect Z ''Listening for TCP failed''
                 (ServerListen [Ip4Unspecified, Tcp listen_on_port])) (\<lambda>_.
      io_bind (server_expect Z ''Listening for QuicV1 failed''
                 (ServerListen [Ip4Unspecified, Udp listen_on_port, QuicV1])) (\<lambda>_.
      io_bind (server_expect Z ''Reservation attempt failed''
                 (ServerListen (BOOT_RELAY_ADDRESS @ [P2pCircuit]))) (\<lambda>_.
      io_bind (server_call Z ServerKadMode) (\<lambda>_.
      boot_loop Z evs))))))"

section \<open>The relay server\<close>

record RelayOpt =
  ro_use_ipv6 :: "bool option"
  ro_secret_key_seed :: byte
  ro_port :: u16

text \<open>\<open>to_string\<close> of an unsigned number.\<close>

fun nat_to_string :: "nat \<Rightarrow> string" where
  "nat_to_string n =
     (if n < 10 then [char_of (48 + n)] else nat_to_string (n div 10) @ [char_of (48 + n mod 10)])"

definition relay_swarm_config_of :: "server_env \<Rightarrow> byte list \<Rightarrow> relay_swarm_config" where
  "relay_swarm_config_of Z key =
     \<lparr>relay_identity_key = key, heartbeat_secs = 10, strict_validation = True,
      message_id = (\<lambda>data. nat_to_string (unat (default_hash Z data))),
      relay_limits = \<lparr>max_reservations = 1024, max_circuits = 1024, max_circuits_per_peer = 1024,
                      max_circuit_bytes = - 1, max_reservations_per_peer = 4096,
                      max_circuit_duration_secs = 30 * 60\<rparr>,
      relay_identify_protocol = ''/TODO/0.0.1''\<rparr>"

definition relay_ip :: "RelayOpt \<Rightarrow> protocol" where
  "relay_ip opt = (case ro_use_ipv6 opt of Some True \<Rightarrow> Ip6Unspecified | _ \<Rightarrow> Ip4Unspecified)"

fun relay_event :: "server_env \<Rightarrow> server_event \<Rightarrow> unit server_io" where
  "relay_event Z (IdentifyReceived observed_addr) =
     io_bind (server_call Z (AddExternalAddress observed_addr)) (\<lambda>_. io_ret ())"
| "relay_event Z (PeerConnected peer_id) =
     io_bind (server_call Z (AddExplicitPeer peer_id)) (\<lambda>_. io_ret ())"
| "relay_event Z SwarmEnded = io_panic ''Infinite Stream.''"
| "relay_event Z _ = io_ret ()"

fun relay_loop :: "server_env \<Rightarrow> server_event list \<Rightarrow> unit server_io" where
  "relay_loop Z [] = io_ret ()"
| "relay_loop Z (ev # evs) = io_bind (relay_event Z ev) (\<lambda>_. relay_loop Z evs)"

definition relay_main :: "server_env \<Rightarrow> RelayOpt \<Rightarrow> server_event list \<Rightarrow> unit server_io" where
  "relay_main Z opt evs =
     (let local_key = relay_generate_ed25519_bytes (ro_secret_key_seed opt) in
      io_bind (io_of_sum (relay_built Z (relay_swarm_config_of Z local_key))) (\<lambda>_.
      io_bind (server_try Z (ServerListen [relay_ip opt, Tcp (ro_port opt)])) (\<lambda>_.
      io_bind (server_try Z (ServerListen [relay_ip opt, Udp (ro_port opt), QuicV1])) (\<lambda>_.
      io_bind (server_try Z (Subscribe ''test-net'')) (\<lambda>_.
      relay_loop Z evs)))))"

section \<open>Lemmas\<close>

text \<open>What the events of a running server make it do.\<close>

fun boot_reaction :: "server_event \<Rightarrow> server_call list" where
  "boot_reaction (IdentifyReceived a) = [AddExternalAddress a]"
| "boot_reaction _ = []"

fun relay_reaction :: "server_event \<Rightarrow> server_call list" where
  "relay_reaction (PeerConnected p) = [AddExplicitPeer p]"
| "relay_reaction ev = boot_reaction ev"

lemmas server_defs = io_defs server_expect_def server_try_def server_call_def

lemma boot_loop_run:
  "SwarmEnded \<notin> set evs \<Longrightarrow> boot_loop Z evs cs = (Ok (), cs @ concat (map boot_reaction evs))"
proof (induction evs arbitrary: cs)
  case (Cons ev evs)
  then show ?case by (cases ev) (simp_all add: server_defs)
qed (simp add: io_ret_def)

lemma relay_loop_run:
  "SwarmEnded \<notin> set evs \<Longrightarrow> relay_loop Z evs cs = (Ok (), cs @ concat (map relay_reaction evs))"
proof (induction evs arbitrary: cs)
  case (Cons ev evs)
  then show ?case by (cases ev) (simp_all add: server_defs)
qed (simp add: io_ret_def)

text \<open>The identities of the three programs.\<close>

lemma relay_bytes: "relay_generate_ed25519_bytes b = generate_ed25519_bytes (ucast b)"
proof -
  have zero: "drop_bit (8 * i) (ucast b :: u64) = 0" if "1 \<le> i" for i
  proof (rule bit_word_eqI)
    fix n
    have "\<not> bit b (8 * i + n)" using that by (auto dest: bit_imp_le_length)
    then show "bit (drop_bit (8 * i) (ucast b :: u64)) n = bit 0 n" by (simp add: bit_drop_bit_eq bit_ucast_iff)
  qed
  have low: "ucast (ucast b :: u64) = b" by (rule bit_word_eqI) (simp add: bit_ucast_iff)
  have "map (\<lambda>i. ucast (drop_bit (8 * i) (ucast b :: u64)) :: byte) [1..<8] = map (\<lambda>_. 0) [1..<8]"
    by (rule map_cong [OF HOL.refl]) (simp add: zero)
  then have "to_le_bytes (ucast b) = b # replicate 7 0"
    unfolding to_le_bytes_def upt_conv_Cons [of 0 8, simplified] by (simp add: low map_replicate_const)
  then show ?thesis
    by (simp add: relay_generate_ed25519_bytes_def generate_ed25519_bytes_def replicate_add [symmetric] numeral_eq_Suc)
qed

text \<open>The start of the two servers, on every outcome of their calls.\<close>

lemma boot_main_run:
  assumes "\<forall>c. boot_built Z c = Inr ()" "SwarmEnded \<notin> set evs"
    and "port = (case bo_port opts of None \<Rightarrow> 6001 | Some p \<Rightarrow> p)"
    and "cs = [ServerListen [Ip4Unspecified, Tcp port], ServerListen [Ip4Unspecified, Udp port, QuicV1],
      ServerListen (BOOT_RELAY_ADDRESS @ [P2pCircuit]), ServerKadMode]"
  shows "boot_main Z opts evs [] =
     (if server_call_error Z 0 \<noteq> None then (Panic ''Listening for TCP failed'', take 1 cs)
      else if server_call_error Z 1 \<noteq> None then (Panic ''Listening for QuicV1 failed'', take 2 cs)
      else if server_call_error Z 2 \<noteq> None then (Panic ''Reservation attempt failed'', take 3 cs)
      else (Ok (), cs @ concat (map boot_reaction evs)))"
proof -
  have "(case bo_port opts of None \<Rightarrow> BOOT_PORT | Some p \<Rightarrow> p) = port"
    using assms(3) by (simp add: BOOT_PORT_def split: option.splits)
  then show ?thesis
    using assms(1,4) boot_loop_run [OF assms(2)]
    by (auto simp: boot_main_def server_defs numeral_eq_Suc)
qed

lemma relay_main_run:
  assumes "\<forall>c. relay_built Z c = Inr ()" "SwarmEnded \<notin> set evs"
    and "ip = (if ro_use_ipv6 opt = Some True then Ip6Unspecified else Ip4Unspecified)"
    and "cs = [ServerListen [ip, Tcp (ro_port opt)], ServerListen [ip, Udp (ro_port opt), QuicV1], Subscribe ''test-net'']"
  shows "relay_main Z opt evs [] =
     (case (server_call_error Z 0, server_call_error Z 1, server_call_error Z 2) of
        (Some e, _) \<Rightarrow> (Err e, take 1 cs)
      | (None, Some e, _) \<Rightarrow> (Err e, take 2 cs)
      | (None, None, Some e) \<Rightarrow> (Err e, take 3 cs)
      | (None, None, None) \<Rightarrow> (Ok (), cs @ concat (map relay_reaction evs)))"
proof -
  have "relay_ip opt = ip" using assms(3) by (auto simp: relay_ip_def split: option.splits bool.splits)
  then show ?thesis
    using assms(1,4) relay_loop_run [OF assms(2)]
    by (auto simp: relay_main_def server_defs numeral_eq_Suc split: option.splits)
qed

section \<open>Properties\<close>

text \<open>
  C18. The identities that the three programs derive from a seed. Each is an injective function of the seed;
  the boot node derives the same as the node, and so does the relay server from its one-byte seed: a node
  or boot node whose seed is that of a relay server has the relay's identity, and no other seed gives it.
\<close>

theorem seed_identities:
  "(generate_ed25519_bytes x = generate_ed25519_bytes y \<longleftrightarrow> x = y) \<and>
   (boot_generate_ed25519_bytes x = generate_ed25519_bytes y \<longleftrightarrow> x = y) \<and>
   (relay_generate_ed25519_bytes b = generate_ed25519_bytes y \<longleftrightarrow> y = ucast b) \<and>
   (relay_generate_ed25519_bytes b = relay_generate_ed25519_bytes c \<longleftrightarrow> b = c) \<and>
   length (generate_ed25519_bytes x) = 32 \<and> length (relay_generate_ed25519_bytes b) = 32"
proof -
  have inj: "generate_ed25519_bytes v = generate_ed25519_bytes w \<longleftrightarrow> v = w" for v w
    by (simp add: generate_ed25519_bytes_def to_le_bytes_inject)
  have "boot_generate_ed25519_bytes x = generate_ed25519_bytes x"
    by (simp add: boot_generate_ed25519_bytes_def generate_ed25519_bytes_def)
  moreover have "relay_generate_ed25519_bytes b = relay_generate_ed25519_bytes c \<longleftrightarrow> b = c"
    by (simp add: relay_generate_ed25519_bytes_def numeral_eq_Suc)
  ultimately show ?thesis
    using inj by (auto simp: relay_bytes) (simp_all add: generate_ed25519_bytes_def to_le_bytes_def)
qed

text \<open>
  C38. The start of the two servers, on every outcome of their calls, and what they do then. A boot node
  listens for TCP and QUIC on its port, reserves a circuit at the relay and serves Kademlia; a relay server
  listens and subscribes. The first call that fails ends the start: the boot node panics, the relay server
  returns the error. A server that has started registers exactly the addresses it was observed under, in
  order, and the relay server also every peer that connects.
\<close>

theorem servers_start:
  assumes "\<forall>c. boot_built Z c = Inr ()" "\<forall>c. relay_built Z c = Inr ()" "SwarmEnded \<notin> set evs"
    and "port = (case bo_port opts of None \<Rightarrow> 6001 | Some p \<Rightarrow> p)"
    and "boot_calls = [ServerListen [Ip4Unspecified, Tcp port], ServerListen [Ip4Unspecified, Udp port, QuicV1],
      ServerListen (BOOT_RELAY_ADDRESS @ [P2pCircuit]), ServerKadMode]"
    and "ip = (if ro_use_ipv6 opt = Some True then Ip6Unspecified else Ip4Unspecified)"
    and "relay_calls = [ServerListen [ip, Tcp (ro_port opt)], ServerListen [ip, Udp (ro_port opt), QuicV1], Subscribe ''test-net'']"
  shows "boot_main Z opts evs [] =
     (if server_call_error Z 0 \<noteq> None then (Panic ''Listening for TCP failed'', take 1 boot_calls)
      else if server_call_error Z 1 \<noteq> None then (Panic ''Listening for QuicV1 failed'', take 2 boot_calls)
      else if server_call_error Z 2 \<noteq> None then (Panic ''Reservation attempt failed'', take 3 boot_calls)
      else (Ok (), boot_calls @ concat (map boot_reaction evs))) \<and>
    relay_main Z opt evs [] =
     (case (server_call_error Z 0, server_call_error Z 1, server_call_error Z 2) of
        (Some e, _) \<Rightarrow> (Err e, take 1 relay_calls)
      | (None, Some e, _) \<Rightarrow> (Err e, take 2 relay_calls)
      | (None, None, Some e) \<Rightarrow> (Err e, take 3 relay_calls)
      | (None, None, None) \<Rightarrow> (Ok (), relay_calls @ concat (map relay_reaction evs)))"
  using boot_main_run [OF assms(1,3-5)] relay_main_run [OF assms(2,3,6,7)] by (rule conjI)

definition sample_servers :: server_env where
  "sample_servers =
     \<lparr>boot_built = (\<lambda>_. Inr ()), relay_built = (\<lambda>_. Inr ()),
      server_call_error = (\<lambda>n. if n = 2 then Some (Msg ''busy'') else None), default_hash = (\<lambda>_. 0)\<rparr>"

theorem servers_start_witness:
  "fst (boot_main sample_servers \<lparr>bo_secret_key_seed = None, bo_port = None\<rparr> [ListeningOn []] []) =
     Panic ''Reservation attempt failed'' \<and>
   relay_main (sample_servers\<lparr>server_call_error := \<lambda>_. None\<rparr>)
     \<lparr>ro_use_ipv6 = None, ro_secret_key_seed = 1, ro_port = 4001\<rparr> [PeerConnected (PeerId ''p''), IdentifyReceived [Tcp 5]] [] =
     (Ok (), [ServerListen [Ip4Unspecified, Tcp 4001], ServerListen [Ip4Unspecified, Udp 4001, QuicV1], Subscribe ''test-net'',
       AddExplicitPeer (PeerId ''p''), AddExternalAddress [Tcp 5]])"
  using servers_start [OF _ _ _ HOL.refl HOL.refl HOL.refl HOL.refl, of sample_servers "[ListeningOn []]"
      "\<lparr>bo_secret_key_seed = None, bo_port = None\<rparr>"]
    servers_start [OF _ _ _ HOL.refl HOL.refl HOL.refl HOL.refl, of "sample_servers\<lparr>server_call_error := \<lambda>_. None\<rparr>"
      "[PeerConnected (PeerId ''p''), IdentifyReceived [Tcp 5]]" _ "\<lparr>ro_use_ipv6 = None, ro_secret_key_seed = 1, ro_port = 4001\<rparr>"]
  by (auto simp: sample_servers_def)

end
