(* ===== verification/Spec2Isabelle.thy ===== *)
theory Spec2Isabelle
  imports Orca_Process Orca_Servers
begin

text \<open>
  A model of the OrcaNet node, written in Rust: a peer-to-peer node that provides and downloads files
  for Bitcoin, and that serves as a paid HTTP proxy or uses one. Paths below are relative to
  \<open>src/bin/orca_node/src/\<close>.

  \<^bold>\<open>The program and its parts.\<close>

  \<^item> The \<^emph>\<open>network event loop\<close> (\<open>network/event_loop.rs\<close>) owns the libp2p swarm. It takes commands from
    the rest of the node, keeps a oneshot sender for each until the swarm reports the outcome, and
    hands requests of other peers to the request handler.
  \<^item> The \<^emph>\<open>network client\<close> (\<open>network/network_client.rs\<close>) is the handle through which the rest of the node
    sends these commands and awaits the answers; it also drives downloads.
  \<^item> The \<^emph>\<open>request handler\<close> (\<open>request_handler.rs\<close>) answers the requests of other peers, for files, for
    proxy sessions and for the payments of sessions, and starts and stops the node's own proxy.
  \<^item> The \<^emph>\<open>HTTP proxy\<close> (\<open>proxy/http_proxy.rs\<close>, \<open>proxy/proxy_handlers.rs\<close>) accepts connections and
    forwards requests, as a provider (token check, direct forwarding) or as a client (adds the token,
    meters the traffic, forwards to the provider).
  \<^item> The \<^emph>\<open>payment loop\<close> (\<open>proxy/proxy_payment.rs\<close>) is the client side of the payment protocol.
  \<^item> The \<^emph>\<open>HTTP endpoints\<close> (\<open>http_server/\<close>) and the \<^emph>\<open>console\<close> (\<open>cli_handlers/start_node.rs\<close>) let a user
    drive the node: they call the network client, the database and the wallet, and send events to the
    request handler. \<^emph>\<open>Setting up\<close> (\<open>cli_handlers/setup.rs\<close>) creates database and configuration.
  \<^item> The \<^emph>\<open>boot node\<close> and the \<^emph>\<open>relay server\<close> (\<open>src/bin/boot_node\<close>, \<open>src/bin/relay_server\<close>) are the two
    servers that the nodes of a network share.
  \<^item> \<^emph>\<open>Database, configuration, wallet, utilities\<close> (\<open>db/\<close>, \<open>common/\<close>) are used by all of them.

  \<^bold>\<open>The theories.\<close>

  \<^item> \<open>F64\<close>: double precision arithmetic as exact rationals with rounding to nearest, infinities and a
    NaN (the sign of zero is not kept: nothing in the program observes it).
  \<^item> \<open>Orca_Prelude\<close>: the type \<open>('s, 'a) io\<close> of effectful functions with the outcomes \<open>Ok\<close>, \<open>Err\<close>,
    \<open>Panic\<close> and \<open>Hang\<close>, its combinators, \<open>keeps\<close> (a predicate preserved on every outcome) with the rule
    collection \<open>keeps_rules\<close>, the collection \<open>io_defs\<close>, and lemmas on rows with a key.
  \<^item> \<open>Orca_Types\<close>: the messages, commands and events of \<open>common/types.rs\<close>, the rows of \<open>db/schema.rs\<close>,
    the record \<open>env\<close> of what the node does not decide (random identifiers, clock, failing calls, answers
    of the network, the wallet daemon) and the record \<open>node\<close> of what it keeps.
  \<^item> \<open>Orca_Config\<close>: \<open>common/config.rs\<close>, reading and changing \<open>config.json\<close> and the derived getters.
  \<^item> \<open>Orca_Utils\<close>, \<open>Orca_Btc\<close>: \<open>common/utils.rs\<close> and \<open>common/btc_rpc.rs\<close>.
  \<^item> \<open>Orca_DB\<close>: the five tables of \<open>db/db_client.rs\<close> as lists of rows, with their key constraints. The
    locales \<open>keyed_table\<close> and \<open>row_lookup\<close> state what a table and a lookup promise and are interpreted
    for every table; \<open>db_inv\<close> is the invariant.
  \<^item> \<open>Orca_Network_Client\<close>: every operation of the client, and the download path.
  \<^item> \<open>Orca_Samples\<close>: one concrete node and environment for the witnesses.
  \<^item> \<open>Orca_Request_Handler\<close>: every event and request, the loop over events.
  \<^item> \<open>Orca_Payment\<close>: an attempt and the loop of ticks; \<open>Orca_Settlement\<close>: client and provider together;
    \<open>Orca_Download\<close>: a download across two nodes.
  \<^item> \<open>Orca_Proxy\<close>: token validation, the two handlers, the CONNECT tunnel, the accept loop.
  \<^item> \<open>Orca_Event_Loop\<close>: the event loop over an abstract swarm. The locale \<open>waiting_map\<close> states what each of
    the maps of waiting senders is to the whole table, \<open>query_map\<close> extends it for Kademlia queries.
  \<^item> \<open>Orca_App\<close>: the process around a node (record \<open>app\<close>: the node, the events sent to the request handler, the
    spawned tasks), the responses of the HTTP server, the digest of a file. \<open>Orca_Endpoints\<close>: one definition
    per route and the dispatch \<open>handle_http\<close>. \<open>Orca_Cli\<close>: \<open>main\<close>, setting up, starting, the console.
  \<^item> \<open>Orca_Process\<close>: the steps of all tasks of a node as one transition relation. The locale
    \<open>shared_invariant\<close> states what a predicate on the node needs to be kept by every task; it is interpreted
    for \<open>db_inv\<close>.
  \<^item> \<open>Orca_Servers\<close>: the boot node and the relay server.

  \<^bold>\<open>What is shown.\<close> The payment protocol: the complete behaviour of both messages at the provider, of an
  attempt at the client, and that client and provider keep equal ledgers; where the code departs from the
  protocol (replayed notifications, refusals, non-atomic updates) the theorems state what it does. The
  database keeps its invariant under every interleaving of the tasks of a node. The event loop conserves senders, routes responses, and
  leaves some callers waiting. The proxy admits exactly the tokens of stored clients, copies tunnels
  faithfully up to the first end of stream, and meters only on the client's side. Downloads deliver the
  provider's bytes; a file provided through the endpoint is served under its digest; a session opened through
  the endpoint starts with equal ledgers on both sides. Setting up and starting a node, and the two servers,
  are characterised on their outcomes, and the identities of the three programs are compared.

  \<^bold>\<open>Bounds and fuel.\<close> Nothing is bounded by fuel. A loop over a channel or a \<open>select!\<close> is recursion over
  the list of what it receives, for every list; such a run says by its value whether the loop has returned.
  The read loop of a response head is a \<open>partial_function (option)\<close>, with both its termination and its
  divergence characterised. Integers that the program stores or counts with keep their width.

  \<^bold>\<open>Concurrency.\<close> Each task is a sequential function; what other tasks do shows in the answers of the
  environment. \<open>Orca_Process\<close> interleaves the tasks of one node at the granularity of one event, payment
  attempt, proxied request, HTTP call or console line. Two nodes are composed explicitly in
  \<open>Orca_Settlement\<close>, \<open>Orca_Download\<close>, \<open>Orca_Endpoints\<close> and in the stream round trip of \<open>Orca_Event_Loop\<close>.

  \<^bold>\<open>Not modelled.\<close> Third-party code, which is a parameter: the libp2p swarm, sockets, HTTP clients, the SQL
  engine behind the tables, the RPC client, Rocket's parsing of requests and clap's of arguments, SHA-256 and
  the derivation of a peer id from a key. Logging and printing. Time: the waits of the payment loop and of the
  start of a node are steps without a duration.
\<close>

end
